(* ===== verification/Prelude.thy ===== *)
theory Prelude
  imports Main "HOL-Library.Sublist" "HOL-Library.AList"
begin

text \<open>
  Shared ground of the development: the parts of the Go language and of its standard library
  that the controller uses and that are the same for every component.
  \<^item> Go strings are \<^typ>\<open>string\<close> (lists of bytes); \<open>strings.Split\<close>, \<open>strings.HasPrefix\<close>,
    \<open>strings.Contains\<close>, \<open>strings.ToLower\<close>, \<open>strings.EqualFold\<close> and \<open>strconv.Atoi\<close>
    are HOL functions. \<open>ToLower\<close> and \<open>EqualFold\<close> are the ASCII case mappings.
  \<^item> Go maps are association lists with distinct keys (\<open>gomap\<close>); a nil map is the empty list
    wherever the code cannot tell the two apart.
  \<^item> \<open>crypto/rand\<close> is a stream of draws (\<open>entropy\<close>).
  The lemmas here are about lists, maps and strings only and are shared by all components.
\<close>

named_theorems go_defs "definitions of the effect model, unfolded when a closed program is run"
named_theorems keeps_intros "rules that show that a program keeps an invariant of its state"

subsection \<open>Strings\<close>

definition HasPrefix :: "string \<Rightarrow> string \<Rightarrow> bool" where
  "HasPrefix s p = prefix p s"

definition Contains :: "string \<Rightarrow> string \<Rightarrow> bool" where
  "Contains s sub = sublist sub s"

fun Split :: "string \<Rightarrow> char \<Rightarrow> string list" where
  "Split [] c = [[]]"
| "Split (x # xs) c =
     (if x = c then [] # Split xs c
      else (case Split xs c of [] \<Rightarrow> [[x]] | y # ys \<Rightarrow> (x # y) # ys))"

fun Join :: "string list \<Rightarrow> char \<Rightarrow> string" where
  "Join [] c = []"
| "Join [x] c = x"
| "Join (x # y # ys) c = x @ c # Join (y # ys) c"

definition to_lower_char :: "char \<Rightarrow> char" where
  "to_lower_char c =
     (let n = (of_char c :: nat) in if 65 \<le> n \<and> n \<le> 90 then char_of (n + 32) else c)"

definition ToLower :: "string \<Rightarrow> string" where
  "ToLower s = map to_lower_char s"

definition EqualFold :: "string \<Rightarrow> string \<Rightarrow> bool" where
  "EqualFold s t = (ToLower s = ToLower t)"

lemma Split_not_Nil [simp]: "Split s c \<noteq> []"
  by (induction s) (auto split: list.splits)

lemma Split_no_sep: "c \<notin> set s \<Longrightarrow> Split s c = [s]"
  by (induction s) auto

lemma Split_append_sep: "c \<notin> set s \<Longrightarrow> Split (s @ c # t) c = s # Split t c"
  by (induction s) (auto split: list.splits)

lemma Split_Join: "ps \<noteq> [] \<Longrightarrow> (\<And>p. p \<in> set ps \<Longrightarrow> c \<notin> set p) \<Longrightarrow> Split (Join ps c) c = ps"
  by (induction ps rule: induct_list012) (auto simp: Split_no_sep Split_append_sep)

lemma Split_parts: "p \<in> set (Split s c) \<Longrightarrow> c \<notin> set p"
  by (induction s arbitrary: p) (auto split: if_splits list.splits)

lemma hd_Split_no_sep: "c \<notin> set (hd (Split s c))"
  by (rule Split_parts) (rule hd_in_set[OF Split_not_Nil])

lemma HasPrefix_refl [simp]: "HasPrefix s s"
  by (simp add: HasPrefix_def)

lemma HasPrefix_append [simp]: "HasPrefix (s @ t) s"
  by (simp add: HasPrefix_def)

lemma Contains_refl [simp]: "Contains s s"
  by (simp add: Contains_def)

text \<open>Two texts cut at their first separator agree on both halves.\<close>

lemma append_sep_inject:
  "c \<notin> set a \<Longrightarrow> c \<notin> set b \<Longrightarrow> a @ c # x = b @ c # y \<longleftrightarrow> a = b \<and> x = y"
proof (induction a arbitrary: b)
  case Nil
  then show ?case by (cases b) auto
next
  case (Cons z a)
  then show ?case by (cases b) auto
qed

lemma prefix_sep_inject:
  assumes "c \<notin> set a" and "c \<notin> set b"
  shows "prefix (a @ c # x) (b @ c # y) \<longleftrightarrow> a = b \<and> prefix x y"
proof -
  have "b @ c # y = (a @ c # x) @ z \<longleftrightarrow> a = b \<and> y = x @ z" for z
    using append_sep_inject[OF assms(2,1), of y "x @ z"] by auto
  then show ?thesis by (simp only: prefix_def) blast
qed

subsection \<open>Decimal numbers\<close>

definition digit_val :: "char \<Rightarrow> nat option" where
  "digit_val c =
     (let n = (of_char c :: nat) in if 48 \<le> n \<and> n \<le> 57 then Some (n - 48) else None)"

fun digits_val :: "nat \<Rightarrow> string \<Rightarrow> nat option" where
  "digits_val acc [] = Some acc"
| "digits_val acc (c # cs) =
     (case digit_val c of None \<Rightarrow> None | Some d \<Rightarrow> digits_val (10 * acc + d) cs)"

text \<open>
  \<open>strconv.Atoi\<close> on a 64-bit platform: an optional sign, at least one decimal digit and nothing
  else; a value outside the range of \<open>int\<close> is an error and is clamped.
\<close>

datatype num_error = ErrSyntax | ErrRange

definition Atoi :: "string \<Rightarrow> int \<times> num_error option" where
  "Atoi s =
     (let neg = (case s of c # _ \<Rightarrow> c = CHR ''-'' | [] \<Rightarrow> False);
          ds = (case s of c # cs \<Rightarrow> if c = CHR ''-'' \<or> c = CHR ''+'' then cs else s | [] \<Rightarrow> [])
      in if ds = [] then (0, Some ErrSyntax)
         else (case digits_val 0 ds of
                 None \<Rightarrow> (0, Some ErrSyntax)
               | Some n \<Rightarrow>
                   (let v = (if neg then - int n else int n)
                    in if v < - (2 ^ 63) then (- (2 ^ 63), Some ErrRange)
                       else if 2 ^ 63 \<le> v then (2 ^ 63 - 1, Some ErrRange)
                       else (v, None))))"

text \<open>The decimal text of a number, the inverse of \<open>Atoi\<close>; used in round-trip statements.\<close>

fun decimal :: "nat \<Rightarrow> string" where
  "decimal n =
     (if n < 10 then [char_of (48 + n)] else decimal (n div 10) @ [char_of (48 + n mod 10)])"

declare decimal.simps [simp del]

lemma digit_val_char_of: "d < 10 \<Longrightarrow> digit_val (char_of (48 + d)) = Some d"
  by (simp add: digit_val_def)

lemma digits_val_append:
  "digits_val acc (s @ t) =
     (case digits_val acc s of None \<Rightarrow> None | Some n \<Rightarrow> digits_val n t)"
  by (induction s arbitrary: acc) (auto split: option.splits)

lemma decimal_not_Nil [simp]: "decimal n \<noteq> []"
  by (subst decimal.simps) simp

lemma digits_val_decimal: "digits_val 0 (decimal n) = Some n"
proof (induction n rule: decimal.induct)
  case (1 n)
  show ?case
  proof (cases "n < 10")
    case True
    then show ?thesis by (subst decimal.simps) (simp add: digit_val_char_of)
  next
    case False
    with 1 have "digits_val 0 (decimal (n div 10)) = Some (n div 10)" by simp
    with False show ?thesis
      by (subst decimal.simps) (simp add: digits_val_append digit_val_char_of)
  qed
qed

lemma decimal_digits: "c \<in> set (decimal n) \<Longrightarrow> \<exists>d < (10::nat). c = char_of (48 + d)"
proof (induction n rule: decimal.induct)
  case (1 n)
  show ?case
  proof (cases "n < 10")
    case True
    with "1.prems" show ?thesis by (subst (asm) decimal.simps) auto
  next
    case False
    with "1.prems" have "c \<in> set (decimal (n div 10)) \<or> c = char_of (48 + n mod 10)"
      by (subst (asm) decimal.simps) (auto simp del: char_of_eq_iff)
    with "1.IH" False show ?thesis by (auto simp del: char_of_eq_iff intro: exI[of _ "n mod 10"])
  qed
qed

lemma decimal_no_sep: "of_char c < (48::nat) \<or> 57 < (of_char c::nat) \<Longrightarrow> c \<notin> set (decimal n)"
  by (auto dest!: decimal_digits)

lemma Atoi_decimal: "int n < 2 ^ 63 \<Longrightarrow> Atoi (decimal n) = (int n, None)"
proof -
  assume n: "int n < 2 ^ 63"
  obtain c cs where d: "decimal n = c # cs" by (cases "decimal n") auto
  have "CHR ''-'' \<notin> set (decimal n)" "CHR ''+'' \<notin> set (decimal n)"
    by (rule decimal_no_sep; simp)+
  then have "c \<noteq> CHR ''-''" "c \<noteq> CHR ''+''" by (auto simp: d)
  then show ?thesis
    using n digits_val_decimal[of n] by (simp add: Atoi_def d)
qed

lemma Atoi_bounds: "Atoi s = (v, e) \<Longrightarrow> - (2 ^ 63) \<le> v \<and> v < 2 ^ 63"
  by (auto simp: Atoi_def Let_def split: option.splits list.splits if_splits)

subsection \<open>Maps\<close>

type_synonym ('k, 'v) gomap = "('k \<times> 'v) list"

definition wf_map :: "('k, 'v) gomap \<Rightarrow> bool" where
  "wf_map m = distinct (map fst m)"

abbreviation map_set :: "'k \<Rightarrow> 'v \<Rightarrow> ('k, 'v) gomap \<Rightarrow> ('k, 'v) gomap" where
  "map_set \<equiv> AList.update"

text \<open>\<open>m[k]\<close> of a map with string values: the zero value when the key is absent.\<close>

definition index_str :: "('k, string) gomap \<Rightarrow> 'k \<Rightarrow> string" where
  "index_str m k = (case map_of m k of None \<Rightarrow> [] | Some v \<Rightarrow> v)"

lemma wf_map_Nil [simp]: "wf_map []"
  by (simp add: wf_map_def)

lemma wf_map_set [simp]: "wf_map m \<Longrightarrow> wf_map (map_set k v m)"
  by (simp add: wf_map_def distinct_update)

lemma map_of_map_set [simp]: "map_of (map_set k v m) = (map_of m)(k \<mapsto> v)"
  by (rule update_conv')

lemma wf_map_entry: "wf_map m \<Longrightarrow> (k, v) \<in> set m \<longleftrightarrow> map_of m k = Some v"
  by (auto simp: wf_map_def dest: map_of_SomeD)

lemma index_str_missing [simp]: "map_of m k = None \<Longrightarrow> index_str m k = []"
  by (simp add: index_str_def)

lemma index_str_present [simp]: "map_of m k = Some v \<Longrightarrow> index_str m k = v"
  by (simp add: index_str_def)

subsection \<open>Randomness\<close>

text \<open>
  \<open>rand.Int(rand.Reader, max)\<close> draws the next number of the stream, reduced below \<open>max\<close>; any
  sequence of results below \<open>max\<close> is the effect of some stream. It panics when \<open>max \<le> 0\<close>,
  which its callers write out.
\<close>

type_synonym entropy = "nat \<Rightarrow> nat"

definition rand_Int :: "nat \<Rightarrow> entropy \<Rightarrow> nat \<times> entropy" where
  "rand_Int n e = (e 0 mod n, \<lambda>i. e (Suc i))"

text \<open>A stream is fair for \<open>n\<close> when every residue keeps turning up.\<close>

definition fair :: "nat \<Rightarrow> entropy \<Rightarrow> bool" where
  "fair n e = (\<forall>r < n. \<forall>k. \<exists>j \<ge> k. e j mod n = r)"

lemma rand_Int_less: "0 < n \<Longrightarrow> fst (rand_Int n e) < n"
  by (simp add: rand_Int_def)

lemma fair_shift: "fair n e \<Longrightarrow> fair n (\<lambda>i. e (Suc i))"
proof -
  assume f: "fair n e"
  have "\<exists>j \<ge> k. e (Suc j) mod n = r" if "r < n" for r k
  proof -
    from f that obtain j where "Suc k \<le> j" "e j mod n = r" unfolding fair_def by blast
    then show ?thesis by (intro exI[of _ "j - 1"]) auto
  qed
  then show ?thesis by (simp add: fair_def)
qed

subsection \<open>Lists\<close>

lemma filter_not_Nil_iff: "filter P xs \<noteq> [] \<longleftrightarrow> (\<exists>x \<in> set xs. P x)"
  by (auto simp: filter_empty_conv)

lemma length_filter_split: "length (filter P xs) + length (filter (\<lambda>x. \<not> P x) xs) = length xs"
  by (rule sum_length_filter_compl)

end
