(* ===== verification/GoErrors.thy ===== *)
theory GoErrors
  imports Prelude
begin

text \<open>
  \<open>pkg/errors/errors.go\<close>: the typed error of the cloud resources, its constructors and the type
  tests the load balancer logic branches on, and the error values of the whole model.
\<close>

type_synonym ErrorType = string

definition ResourceNotFound :: ErrorType where
  "ResourceNotFound = ''ResourceNotFound''"

definition ServerError :: ErrorType where
  "ServerError = ''CommonServerError''"

record Error =
  err_Type :: ErrorType
  err_Message :: string
  err_ResourceType :: string
  err_Action :: string
  err_ResouceName :: string

text \<open>
  A Go \<open>error\<close> value: a \<open>*errors.Error\<close>, a \<open>fmt.Errorf\<close> text, a \<open>fmt.Errorf\<close> text that ends in
  the text of another error (\<open>%v\<close>, which forgets the other's type), or an error of code that
  is not part of the repository, known by its text. The texts are the literal heads of the format
  strings; values rendered into a message after its head are left out.
\<close>

datatype go_error =
    TypedError Error
  | Errorf string
  | Wrapf string go_error
  | ForeignError string

definition Error_text :: "Error \<Rightarrow> string" where
  "Error_text e =
     ''['' @ err_Type e @ ''] happened when ['' @ err_Action e @ ''] type: ['' @
     err_ResourceType e @ ''] name: ['' @ err_ResouceName e @ ''], msg: ['' @ err_Message e @ '']''"

fun error_text :: "go_error \<Rightarrow> string" where
  "error_text (TypedError e) = Error_text e"
| "error_text (Errorf s) = s"
| "error_text (Wrapf s e) = s @ error_text e"
| "error_text (ForeignError s) = s"

definition NewResourceNotFoundError :: "string \<Rightarrow> string \<Rightarrow> string list \<Rightarrow> go_error" where
  "NewResourceNotFoundError resource name message =
     TypedError \<lparr>err_Type = ResourceNotFound,
                 err_Message = (case message of [] \<Rightarrow> [] | m # _ \<Rightarrow> m),
                 err_ResourceType = resource,
                 err_Action = ''GetResource'',
                 err_ResouceName = name\<rparr>"

definition IsResourceNotFound :: "go_error option \<Rightarrow> bool" where
  "IsResourceNotFound e =
     (case e of Some (TypedError er) \<Rightarrow> err_Type er = ResourceNotFound | _ \<Rightarrow> False)"

definition NewCommonServerError :: "string \<Rightarrow> string \<Rightarrow> string \<Rightarrow> string \<Rightarrow> go_error" where
  "NewCommonServerError resource name action message =
     TypedError \<lparr>err_Type = ServerError,
                 err_Message = message,
                 err_ResourceType = resource,
                 err_Action = action,
                 err_ResouceName = name\<rparr>"

definition IsCommonServerError :: "go_error option \<Rightarrow> bool" where
  "IsCommonServerError e =
     (case e of Some (TypedError er) \<Rightarrow> err_Type er = ServerError | _ \<Rightarrow> False)"

lemma IsResourceNotFound_simps [simp]:
  "\<not> IsResourceNotFound None"
  "\<not> IsResourceNotFound (Some (Errorf s))"
  "\<not> IsResourceNotFound (Some (Wrapf s e))"
  "\<not> IsResourceNotFound (Some (ForeignError s))"
  "IsResourceNotFound (Some (NewResourceNotFoundError r n m))"
  "\<not> IsResourceNotFound (Some (NewCommonServerError r n a t))"
  by (auto simp: IsResourceNotFound_def NewResourceNotFoundError_def NewCommonServerError_def
        ResourceNotFound_def ServerError_def)

lemma IsCommonServerError_simps [simp]:
  "\<not> IsCommonServerError None"
  "\<not> IsCommonServerError (Some (Errorf s))"
  "\<not> IsCommonServerError (Some (Wrapf s e))"
  "IsCommonServerError (Some (NewCommonServerError r n a t))"
  "\<not> IsCommonServerError (Some (NewResourceNotFoundError r n m))"
  by (auto simp: IsCommonServerError_def NewResourceNotFoundError_def NewCommonServerError_def
        ResourceNotFound_def ServerError_def)

lemma error_kinds_exclusive: "\<not> (IsResourceNotFound e \<and> IsCommonServerError e)"
  by (auto simp: IsResourceNotFound_def IsCommonServerError_def ResourceNotFound_def
        ServerError_def split: option.splits go_error.splits)

end
