(* ===== verification/Effects.thy ===== *)
theory Effects
  imports GoErrors
begin

text \<open>
  The effects of the code. A Go function ends with its results, with a non-nil error, with a
  panic, or never; a function without side effects is an \<open>outcome\<close> and a
  function that calls the cloud is a state transformer (\<open>go\<close>). The state is kept when an error is
  returned: the calls made before it are not undone. \<open>bind_ok\<close> and \<open>bind_go\<close> continue with the
  result and stop at anything else, as \<open>if err != nil \<lbrace> return err \<rbrace>\<close> does.
\<close>

datatype 'a outcome = Ok 'a | Err go_error | Panic | Diverge

definition bind_ok :: "'a outcome \<Rightarrow> ('a \<Rightarrow> 'b outcome) \<Rightarrow> 'b outcome" where
  "bind_ok m f =
     (case m of Ok x \<Rightarrow> f x | Err e \<Rightarrow> Err e | Panic \<Rightarrow> Panic | Diverge \<Rightarrow> Diverge)"

text \<open>Reading through a pointer: nil panics.\<close>

definition deref :: "'a option \<Rightarrow> 'a outcome" where
  "deref p = (case p of None \<Rightarrow> Panic | Some x \<Rightarrow> Ok x)"

text \<open>\<open>fmt.Errorf("...%v", err)\<close> around a failing call.\<close>

definition wrap :: "string \<Rightarrow> 'a outcome \<Rightarrow> 'a outcome" where
  "wrap t m = (case m of Err e \<Rightarrow> Err (Wrapf t e) | _ \<Rightarrow> m)"

text \<open>The short-circuit conjunction of conditions that may panic.\<close>

definition and_ok :: "bool outcome \<Rightarrow> bool outcome \<Rightarrow> bool outcome" where
  "and_ok a b = bind_ok a (\<lambda>x. if x then b else Ok False)"

text \<open>A loop that appends one result per element, and one that stops at the first hit.\<close>

fun map_ok :: "('a \<Rightarrow> 'b outcome) \<Rightarrow> 'a list \<Rightarrow> 'b list outcome" where
  "map_ok f [] = Ok []"
| "map_ok f (x # xs) = bind_ok (f x) (\<lambda>y. bind_ok (map_ok f xs) (\<lambda>ys. Ok (y # ys)))"

fun exists_ok :: "('a \<Rightarrow> bool outcome) \<Rightarrow> 'a list \<Rightarrow> bool outcome" where
  "exists_ok f [] = Ok False"
| "exists_ok f (x # xs) = bind_ok (f x) (\<lambda>b. if b then Ok True else exists_ok f xs)"

fun filter_ok :: "('a \<Rightarrow> bool outcome) \<Rightarrow> 'a list \<Rightarrow> 'a list outcome" where
  "filter_ok f [] = Ok []"
| "filter_ok f (x # xs) =
     bind_ok (f x) (\<lambda>b. bind_ok (filter_ok f xs) (\<lambda>ys. Ok (if b then x # ys else ys)))"

fun fold_ok :: "('b \<Rightarrow> 'a \<Rightarrow> 'b outcome) \<Rightarrow> 'b \<Rightarrow> 'a list \<Rightarrow> 'b outcome" where
  "fold_ok f b [] = Ok b"
| "fold_ok f b (x # xs) = bind_ok (f b x) (\<lambda>b'. fold_ok f b' xs)"

lemma bind_ok_simps [simp]:
  "bind_ok (Ok x) f = f x"
  "bind_ok (Err e) f = Err e"
  "bind_ok Panic f = Panic"
  "bind_ok Diverge f = Diverge"
  by (simp_all add: bind_ok_def)

lemma deref_simps [simp]: "deref None = Panic" "deref (Some x) = Ok x"
  by (simp_all add: deref_def)

lemma deref_not_Err [simp]: "deref p \<noteq> Err e" "deref p \<noteq> Diverge"
  by (cases p; simp)+

lemma deref_Ok_iff [simp]: "deref p = Ok x \<longleftrightarrow> p = Some x"
  by (cases p) auto

lemma bind_ok_Ok_iff: "bind_ok m f = Ok y \<longleftrightarrow> (\<exists>x. m = Ok x \<and> f x = Ok y)"
  by (cases m) auto

lemma bind_ok_Err_iff:
  "bind_ok m f = Err e \<longleftrightarrow> m = Err e \<or> (\<exists>x. m = Ok x \<and> f x = Err e)"
  by (cases m) auto

lemma bind_ok_assoc: "bind_ok (bind_ok m f) g = bind_ok m (\<lambda>x. bind_ok (f x) g)"
  by (cases m) auto

lemma bind_ok_Ok_right [simp]: "bind_ok m Ok = m"
  by (cases m) auto

lemma wrap_simps [simp]:
  "wrap t (Ok x) = Ok x"
  "wrap t (Err e) = Err (Wrapf t e)"
  "wrap t Panic = Panic"
  "wrap t Diverge = Diverge"
  by (simp_all add: wrap_def)

lemma wrap_Ok_iff [simp]: "wrap t m = Ok x \<longleftrightarrow> m = Ok x"
  by (cases m) auto

lemma and_ok_simps [simp]:
  "and_ok (Ok True) b = b"
  "and_ok (Ok False) b = Ok False"
  by (simp_all add: and_ok_def)

lemma and_ok_Ok [simp]: "and_ok (Ok a) (Ok b) = Ok (a \<and> b)"
  by (cases a) auto

lemma map_ok_Ok: "(\<And>x. x \<in> set xs \<Longrightarrow> f x = Ok (g x)) \<Longrightarrow> map_ok f xs = Ok (map g xs)"
  by (induction xs) auto

lemma map_ok_Ok_iff: "map_ok f xs = Ok ys \<longleftrightarrow> list_all2 (\<lambda>x y. f x = Ok y) xs ys"
  by (induction xs arbitrary: ys) (auto simp: bind_ok_Ok_iff list_all2_Cons1)

lemma exists_ok_Ok:
  "(\<And>x. x \<in> set xs \<Longrightarrow> f x = Ok (P x)) \<Longrightarrow> exists_ok f xs = Ok (\<exists>x \<in> set xs. P x)"
  by (induction xs) auto

lemma filter_ok_Ok:
  "(\<And>x. x \<in> set xs \<Longrightarrow> f x = Ok (P x)) \<Longrightarrow> filter_ok f xs = Ok (filter P xs)"
  by (induction xs) auto

lemma fold_ok_Ok:
  "(\<And>b x. x \<in> set xs \<Longrightarrow> f b x = Ok (g b x)) \<Longrightarrow> fold_ok f b xs = Ok (foldl g b xs)"
  by (induction xs arbitrary: b) auto

subsection \<open>Programs with state\<close>

type_synonym ('s, 'a) go = "'s \<Rightarrow> 'a outcome \<times> 's"

definition ret :: "'a \<Rightarrow> ('s, 'a) go" where
  [go_defs]: "ret x s = (Ok x, s)"

definition fail :: "go_error \<Rightarrow> ('s, 'a) go" where
  [go_defs]: "fail e s = (Err e, s)"

definition lift :: "'a outcome \<Rightarrow> ('s, 'a) go" where
  [go_defs]: "lift r s = (r, s)"

definition bind_go :: "('s, 'a) go \<Rightarrow> ('a \<Rightarrow> ('s, 'b) go) \<Rightarrow> ('s, 'b) go" where
  [go_defs]: "bind_go m f s =
     (case m s of
        (Ok x, s') \<Rightarrow> f x s'
      | (Err e, s') \<Rightarrow> (Err e, s')
      | (Panic, s') \<Rightarrow> (Panic, s')
      | (Diverge, s') \<Rightarrow> (Diverge, s'))"

text \<open>\<open>x, err := m()\<close> with the error left to the caller.\<close>

definition try_go :: "('s, 'a) go \<Rightarrow> ('s, go_error + 'a) go" where
  [go_defs]: "try_go m s =
     (case m s of
        (Ok x, s') \<Rightarrow> (Ok (Inr x), s')
      | (Err e, s') \<Rightarrow> (Ok (Inl e), s')
      | (Panic, s') \<Rightarrow> (Panic, s')
      | (Diverge, s') \<Rightarrow> (Diverge, s'))"

definition wrap_go :: "string \<Rightarrow> ('s, 'a) go \<Rightarrow> ('s, 'a) go" where
  [go_defs]: "wrap_go t m s = (case m s of (r, s') \<Rightarrow> (wrap t r, s'))"

text \<open>A loop over a slice that carries a value and stops at the first error.\<close>

fun fold_go :: "('b \<Rightarrow> 'a \<Rightarrow> ('s, 'b) go) \<Rightarrow> 'b \<Rightarrow> 'a list \<Rightarrow> ('s, 'b) go" where
  "fold_go f b [] = ret b"
| "fold_go f b (x # xs) = bind_go (f b x) (\<lambda>b'. fold_go f b' xs)"

lemma bind_go_simps [simp]:
  "bind_go (ret x) f = f x"
  "bind_go (fail e) f = fail e"
  "bind_go (lift (Ok x)) f = f x"
  "bind_go (lift (Err e)) f = fail e"
  "bind_go (lift Panic) f = lift Panic"
  by (simp_all add: go_defs fun_eq_iff)

lemma bind_go_Ok: "m s = (Ok x, s') \<Longrightarrow> bind_go m f s = f x s'"
  by (simp add: bind_go_def)

lemma bind_go_Ok_iff:
  "bind_go m f s = (Ok y, s'') \<longleftrightarrow> (\<exists>x s'. m s = (Ok x, s') \<and> f x s' = (Ok y, s''))"
  by (auto simp: bind_go_def split: prod.splits outcome.splits)

lemma wrap_go_Ok_iff [simp]: "wrap_go t m s = (Ok x, s') \<longleftrightarrow> m s = (Ok x, s')"
  by (auto simp: wrap_go_def split: prod.splits)

lemma ret_Ok_iff [simp]: "ret x s = (r, s') \<longleftrightarrow> r = Ok x \<and> s' = s"
  by (auto simp: ret_def)

lemma fail_iff [simp]: "fail e s = (r, s') \<longleftrightarrow> r = Err e \<and> s' = s"
  by (auto simp: fail_def)

lemma lift_iff [simp]: "lift r s = (r', s') \<longleftrightarrow> r' = r \<and> s' = s"
  by (auto simp: lift_def)

lemma snd_simps [simp]: "snd (ret x s) = s" "snd (fail e s) = s" "snd (lift r s) = s"
  by (simp_all add: go_defs)

subsection \<open>Invariants of the state\<close>

text \<open>
  \<open>keeps I m\<close>: however \<open>m\<close> ends, a state with \<open>I\<close> stays a state with \<open>I\<close>. With a state that
  logs the calls made so far this states which calls a program can make at all.
\<close>

definition keeps :: "('s \<Rightarrow> bool) \<Rightarrow> ('s, 'a) go \<Rightarrow> bool" where
  "keeps I m = (\<forall>s. I s \<longrightarrow> I (snd (m s)))"

lemma keepsI: "(\<And>s. I s \<Longrightarrow> I (snd (m s))) \<Longrightarrow> keeps I m"
  by (simp add: keeps_def)

lemma keepsD: "keeps I m \<Longrightarrow> I s \<Longrightarrow> I (snd (m s))"
  by (simp add: keeps_def)

lemma keepsD': "keeps I m \<Longrightarrow> m s = (r, s') \<Longrightarrow> I s \<Longrightarrow> I s'"
  by (metis keepsD snd_conv)

lemma keeps_ret [simp, keeps_intros]: "keeps I (ret x)"
  by (simp add: keeps_def)

lemma keeps_fail [simp, keeps_intros]: "keeps I (fail e)"
  by (simp add: keeps_def)

lemma keeps_lift [simp, keeps_intros]: "keeps I (lift r)"
  by (simp add: keeps_def)

lemma keeps_bind [keeps_intros]:
  "keeps I m \<Longrightarrow> (\<And>x. keeps I (f x)) \<Longrightarrow> keeps I (bind_go m f)"
  by (auto simp: keeps_def bind_go_def split: prod.splits outcome.splits)

lemma keeps_try [keeps_intros]: "keeps I m \<Longrightarrow> keeps I (try_go m)"
  by (auto simp: keeps_def try_go_def split: prod.splits outcome.splits)

lemma keeps_wrap [keeps_intros]: "keeps I m \<Longrightarrow> keeps I (wrap_go t m)"
  by (auto simp: keeps_def wrap_go_def split: prod.splits)

lemma keeps_fold [keeps_intros]:
  "(\<And>b x. x \<in> set xs \<Longrightarrow> keeps I (f b x)) \<Longrightarrow> keeps I (fold_go f b xs)"
  by (induction xs arbitrary: b) (auto intro!: keeps_intros)

lemma keeps_if [keeps_intros]:
  "(c \<Longrightarrow> keeps I a) \<Longrightarrow> (\<not> c \<Longrightarrow> keeps I b) \<Longrightarrow> keeps I (if c then a else b)"
  by simp

lemma keeps_case_sum [keeps_intros]:
  "(\<And>e. x = Inl e \<Longrightarrow> keeps I (f e)) \<Longrightarrow> (\<And>y. x = Inr y \<Longrightarrow> keeps I (g y)) \<Longrightarrow>
   keeps I (case x of Inl e \<Rightarrow> f e | Inr y \<Rightarrow> g y)"
  by (cases x) auto

lemma keeps_case_option [keeps_intros]:
  "(x = None \<Longrightarrow> keeps I a) \<Longrightarrow> (\<And>y. x = Some y \<Longrightarrow> keeps I (f y)) \<Longrightarrow>
   keeps I (case x of None \<Rightarrow> a | Some y \<Rightarrow> f y)"
  by (cases x) auto

lemma keeps_case_prod [keeps_intros]:
  "(\<And>a b. x = (a, b) \<Longrightarrow> keeps I (f a b)) \<Longrightarrow> keeps I (case x of (a, b) \<Rightarrow> f a b)"
  by (cases x) auto

lemma keeps_Let [keeps_intros]: "(\<And>y. y = x \<Longrightarrow> keeps I (f y)) \<Longrightarrow> keeps I (Let x f)"
  by (simp add: Let_def)

subsection \<open>Acceptance\<close>

text \<open>A pure function accepts its input when it returns a result.\<close>

definition accepted :: "'a outcome \<Rightarrow> bool" where
  "accepted r = (\<exists>x. r = Ok x)"

lemma accepted_simps [simp]:
  "accepted (Ok x)" "\<not> accepted (Err e)" "\<not> accepted Panic" "\<not> accepted Diverge"
  by (simp_all add: accepted_def)

lemma accepted_wrap [simp]: "accepted (wrap t m) = accepted m"
  by (cases m) auto

lemma accepted_bind: "accepted (bind_ok m f) \<longleftrightarrow> (\<exists>x. m = Ok x \<and> accepted (f x))"
  by (cases m) auto

lemma accepted_unit: "accepted r \<longleftrightarrow> r = Ok ()"
  by (cases r) auto

end
