(* ===== verification/K8s.thy ===== *)
theory K8s
  imports Effects
begin

text \<open>
  The fields of the Kubernetes API objects that the controller reads: services and their ports,
  nodes with labels and conditions, endpoints. The types belong to \<open>k8s.io/api/core/v1\<close>; a port
  number is an \<open>int32\<close> there and the code only converts it to \<open>int\<close> and compares it.
\<close>

type_synonym string_map = "(string, string) gomap"

record ServicePort =
  port_Protocol :: string
  port_Port :: int
  port_NodePort :: int

record Service =
  svc_Namespace :: string
  svc_Name :: string
  svc_UID :: string
  svc_Annotations :: "string_map option"
  svc_Type :: string
  svc_ExternalTrafficPolicy :: string
  svc_Ports :: "ServicePort list"

record NodeCondition =
  cond_Type :: string
  cond_Status :: string

record Node =
  node_Name :: string
  node_Annotations :: string_map
  node_Labels :: string_map
  node_Conditions :: "NodeCondition list"

record EndpointAddress =
  addr_NodeName :: "string option"

type_synonym EndpointSubset = "EndpointAddress list"
type_synonym Endpoints = "EndpointSubset list"

text \<open>Reading the annotations: a nil map reads like an empty one.\<close>

definition annotations :: "Service \<Rightarrow> string_map" where
  "annotations svc = (case svc_Annotations svc of None \<Rightarrow> [] | Some m \<Rightarrow> m)"

definition ProtocolTCP :: string where "ProtocolTCP = ''TCP''"
definition ProtocolUDP :: string where "ProtocolUDP = ''UDP''"
definition ServiceTypeLoadBalancer :: string where "ServiceTypeLoadBalancer = ''LoadBalancer''"
definition TrafficPolicyLocal :: string where "TrafficPolicyLocal = ''Local''"
definition TrafficPolicyCluster :: string where "TrafficPolicyCluster = ''Cluster''"
definition NodeReady :: string where "NodeReady = ''Ready''"
definition ConditionTrue :: string where "ConditionTrue = ''True''"
definition LabelNodeExcludeBalancers :: string where
  "LabelNodeExcludeBalancers = ''node.kubernetes.io/exclude-from-external-load-balancers''"

lemma policy_names_distinct [simp]:
  "TrafficPolicyLocal \<noteq> TrafficPolicyCluster" "TrafficPolicyCluster \<noteq> TrafficPolicyLocal"
  "ProtocolTCP \<noteq> ProtocolUDP" "ProtocolUDP \<noteq> ProtocolTCP"
  by (simp_all add: TrafficPolicyLocal_def TrafficPolicyCluster_def ProtocolTCP_def
        ProtocolUDP_def)

end
