(* ===== verification/Annotations.thy ===== *)
theory Annotations
  imports K8s
begin

text \<open>
  \<open>pkg/qingcloud/annotation_valid.go\<close>: the parsers of the listener annotations
  (\<open>port:conf,port:conf\<close>) and their validation. The parsed maps are Go maps: a port named twice
  keeps its last value. Shown: which texts are accepted, that formatting and parsing are
  inverse, and the ranges that the validation guarantees.
\<close>

definition ListenerTimeoutMin :: int where "ListenerTimeoutMin = 10"
definition ListenerTimeoutMax :: int where "ListenerTimeoutMax = 86400"

definition ListenerSceneValueSets :: "int list" where
  "ListenerSceneValueSets = [0, 1, 11]"

definition ServiceAnnotationListenerTimeout :: string where
  "ServiceAnnotationListenerTimeout = ''service.beta.kubernetes.io/qingcloud-lb-listener-timeout''"
definition ServiceAnnotationListenerScene :: string where
  "ServiceAnnotationListenerScene = ''service.beta.kubernetes.io/qingcloud-lb-listener-scene''"

text \<open>One item of the text; an empty item is skipped.\<close>

definition parse_lsn_item ::
  "string \<Rightarrow> (int, string) gomap \<Rightarrow> string \<Rightarrow> (int, string) gomap outcome" where
  "parse_lsn_item data rst method =
     (if method = [] then Ok rst
      else
        let m = Split method (CHR '':'') in
        if length m \<noteq> 2 then Err (Errorf (''wrong format: ('' @ data @ '')''))
        else
          (case Atoi (m ! 0) of
             (port, Some _) \<Rightarrow> Err (Errorf (''wrong format: ('' @ data @ '')''))
           | (port, None) \<Rightarrow> Ok (map_set port (m ! 1) rst)))"

definition parseLsnAnnotaionData :: "string \<Rightarrow> (int, string) gomap outcome" where
  "parseLsnAnnotaionData data = fold_ok (parse_lsn_item data) [] (Split data (CHR '',''))"

definition parse_int_item :: "(int, int) gomap \<Rightarrow> string \<Rightarrow> (int, int) gomap outcome" where
  "parse_int_item result item =
     (let parts = Split item (CHR '':'') in
      if length parts \<noteq> 2 then Err (Errorf ''invalid format'')
      else
        let (k, err1) = Atoi (parts ! 0); (v, err2) = Atoi (parts ! 1) in
        if err1 \<noteq> None \<or> err2 \<noteq> None then Err (Errorf ''invalid value'')
        else Ok (map_set k v result))"

definition parseAnnotationIntoIntIntMap :: "string \<Rightarrow> (int, int) gomap outcome" where
  "parseAnnotationIntoIntIntMap annotationConfValue =
     (let items = Split annotationConfValue (CHR '','') in
      if length items = 0 then Ok []
      else fold_ok parse_int_item [] items)"

definition validListenerStringConfig :: "string \<Rightarrow> string \<Rightarrow> unit outcome" where
  "validListenerStringConfig annotationKey annotationValue =
     bind_ok
       (wrap (''invalid config for nanotation '' @ annotationKey @ '': '')
          (parseLsnAnnotaionData annotationValue))
       (\<lambda>_. Ok ())"

definition validListenerIntConfig :: "string \<Rightarrow> string \<Rightarrow> unit outcome" where
  "validListenerIntConfig annotationKey annotationValue =
     bind_ok
       (wrap (''invalid config for nanotation '' @ annotationKey @ '': '')
          (parseAnnotationIntoIntIntMap annotationValue))
       (\<lambda>_. Ok ())"

text \<open>The range over a Go map, in the order of the list; the order does not matter below.\<close>

definition validListenerTimeout :: "string \<Rightarrow> unit outcome" where
  "validListenerTimeout annotationTimeoutConf =
     bind_ok
       (wrap (''invalid timeout config for nanotation '' @ ServiceAnnotationListenerTimeout @ '': '')
          (parseAnnotationIntoIntIntMap annotationTimeoutConf))
       (\<lambda>result.
          fold_ok
            (\<lambda>_ (_, v).
               if v < ListenerTimeoutMin \<or> v > ListenerTimeoutMax
               then Err (Errorf (''invalid timeout config value for nanotation '' @
                           ServiceAnnotationListenerTimeout))
               else Ok ())
            () result)"

definition validListenerScene :: "string \<Rightarrow> unit outcome" where
  "validListenerScene annotationSceneConf =
     bind_ok
       (wrap (''invalid scene config for nanotation '' @ ServiceAnnotationListenerScene @ '': '')
          (parseAnnotationIntoIntIntMap annotationSceneConf))
       (\<lambda>result.
          fold_ok
            (\<lambda>_ (_, v).
               if \<not> List.member ListenerSceneValueSets v
               then Err (Errorf (''invalid listener scene config value for nanotation '' @
                           ServiceAnnotationListenerTimeout))
               else Ok ())
            () result)"

subsection \<open>What is accepted\<close>

definition lsn_item_ok :: "string \<Rightarrow> bool" where
  "lsn_item_ok item =
     (item = [] \<or>
      (\<exists>n conf. Split item (CHR '':'') = [n, conf] \<and> snd (Atoi n) = None))"

definition int_item_ok :: "string \<Rightarrow> bool" where
  "int_item_ok item =
     (\<exists>n v. Split item (CHR '':'') = [n, v] \<and> snd (Atoi n) = None \<and> snd (Atoi v) = None)"

lemma parse_lsn_item_Ok_iff:
  "(\<exists>rst'. parse_lsn_item data rst item = Ok rst') \<longleftrightarrow> lsn_item_ok item"
  by (auto simp: parse_lsn_item_def lsn_item_ok_def Let_def length_Suc_conv numeral_2_eq_2
      split: prod.splits option.splits)

lemma parse_lsn_item_no_panic:
  "parse_lsn_item data rst item \<noteq> Panic" "parse_lsn_item data rst item \<noteq> Diverge"
  by (auto simp: parse_lsn_item_def Let_def split: prod.splits option.splits)

lemma parse_int_item_Ok_iff:
  "(\<exists>rst'. parse_int_item rst item = Ok rst') \<longleftrightarrow> int_item_ok item"
  by (auto simp: parse_int_item_def int_item_ok_def Let_def length_Suc_conv numeral_2_eq_2
      split: prod.splits)

lemma fold_ok_accepts:
  assumes "\<And>b x. (\<exists>b'. f b x = Ok b') \<longleftrightarrow> P x"
  shows "(\<exists>r. fold_ok f b xs = Ok r) \<longleftrightarrow> (\<forall>x \<in> set xs. P x)"
proof (induction xs arbitrary: b)
  case (Cons x xs)
  show ?case
  proof (cases "P x")
    case True
    with assms obtain b' where "f b x = Ok b'" by blast
    with True Cons show ?thesis by simp
  next
    case False
    with assms have "\<And>b'. f b x \<noteq> Ok b'" by blast
    with False show ?thesis by (simp add: bind_ok_Ok_iff)
  qed
qed simp

lemma parse_lsn_item_wf:
  "parse_lsn_item data rst item = Ok rst' \<Longrightarrow> wf_map rst \<Longrightarrow> wf_map rst'"
  by (auto simp: parse_lsn_item_def Let_def split: if_splits prod.splits option.splits)

lemma parse_int_item_wf: "parse_int_item rst item = Ok rst' \<Longrightarrow> wf_map rst \<Longrightarrow> wf_map rst'"
  by (auto simp: parse_int_item_def Let_def split: if_splits prod.splits option.splits)

lemma fold_ok_invariant:
  assumes "\<And>b x b'. f b x = Ok b' \<Longrightarrow> I b \<Longrightarrow> I b'"
  shows "fold_ok f b xs = Ok r \<Longrightarrow> I b \<Longrightarrow> I r"
  by (induction xs arbitrary: b) (auto simp: bind_ok_Ok_iff dest: assms)

lemma parseLsnAnnotaionData_wf: "parseLsnAnnotaionData data = Ok m \<Longrightarrow> wf_map m"
  unfolding parseLsnAnnotaionData_def
  by (erule fold_ok_invariant[where I = wf_map, rotated]) (auto dest: parse_lsn_item_wf)

lemma parseAnnotationIntoIntIntMap_wf: "parseAnnotationIntoIntIntMap data = Ok m \<Longrightarrow> wf_map m"
  unfolding parseAnnotationIntoIntIntMap_def Let_def
  by (auto split: if_splits elim!: fold_ok_invariant[where I = wf_map, rotated]
      dest: parse_int_item_wf)

lemma fold_check_cases:
  "fold_ok (\<lambda>_ (_, v). if bad v then Err e else Ok ()) () m =
     (if \<forall>v \<in> snd ` set m. \<not> bad v then Ok () else Err e)"
  by (induction m) auto

lemma fold_check_iff:
  "fold_ok (\<lambda>_ (_, v). if bad v then Err e else Ok ()) () m = Ok () \<longleftrightarrow>
     (\<forall>v \<in> snd ` set m. \<not> bad v)"
  by (simp add: fold_check_cases)

lemma parseLsnAnnotaionData_accepts:
  "(\<exists>m. parseLsnAnnotaionData data = Ok m) \<longleftrightarrow>
     (\<forall>item \<in> set (Split data (CHR '','')). lsn_item_ok item)"
  unfolding parseLsnAnnotaionData_def by (rule fold_ok_accepts) (rule parse_lsn_item_Ok_iff)

lemma parseAnnotationIntoIntIntMap_accepts:
  "(\<exists>m. parseAnnotationIntoIntIntMap data = Ok m) \<longleftrightarrow>
     (\<forall>item \<in> set (Split data (CHR '','')). int_item_ok item)"
  unfolding parseAnnotationIntoIntIntMap_def Let_def length_0_conv
  by (simp add: fold_ok_accepts[OF parse_int_item_Ok_iff])

subsection \<open>Formatting and parsing\<close>

definition format_lsn :: "(nat \<times> string) list \<Rightarrow> string" where
  "format_lsn ps = Join (map (\<lambda>(p, conf). decimal p @ CHR '':'' # conf) ps) (CHR '','')"

definition format_int :: "(nat \<times> nat) list \<Rightarrow> string" where
  "format_int ps = format_lsn (map (\<lambda>(p, v). (p, decimal v)) ps)"

definition plain_conf :: "string \<Rightarrow> bool" where
  "plain_conf conf = (CHR '','' \<notin> set conf \<and> CHR '':'' \<notin> set conf)"

lemma decimal_plain [simp]: "CHR '','' \<notin> set (decimal n)" "CHR '':'' \<notin> set (decimal n)"
  by (rule decimal_no_sep; simp)+

lemma Split_item: "plain_conf conf \<Longrightarrow> Split (decimal p @ CHR '':'' # conf) (CHR '':'') = [decimal p, conf]"
  by (simp add: Split_append_sep Split_no_sep plain_conf_def)

lemma map_set_fresh: "k \<notin> fst ` set m \<Longrightarrow> map_set k v m = m @ [(k, v)]"
  by (induction m) auto

lemma fold_items:
  assumes "\<And>x rst. x \<in> set xs \<Longrightarrow> fst (entry x) \<notin> fst ` set rst \<Longrightarrow> f rst (item x) = Ok (rst @ [entry x])"
    and "distinct (map (fst \<circ> entry) xs)" and "\<forall>x \<in> set xs. fst (entry x) \<notin> fst ` set rst"
  shows "fold_ok f rst (map item xs) = Ok (rst @ map entry xs)"
  using assms
proof (induction xs arbitrary: rst)
  case (Cons x xs)
  have "fold_ok f (rst @ [entry x]) (map item xs) = Ok ((rst @ [entry x]) @ map entry xs)"
    by (rule Cons.IH) (use Cons.prems in \<open>auto simp: image_iff\<close>)
  with Cons.prems show ?case by simp
qed simp

lemma Split_format_lsn:
  "ps \<noteq> [] \<Longrightarrow> (\<And>p conf. (p, conf) \<in> set ps \<Longrightarrow> plain_conf conf) \<Longrightarrow>
   Split (format_lsn ps) (CHR '','') = map (\<lambda>(p, conf). decimal p @ CHR '':'' # conf) ps"
  unfolding format_lsn_def by (rule Split_Join) (auto simp: plain_conf_def)

lemma parse_lsn_item_format:
  assumes "int p < 2 ^ 63" and "plain_conf conf" and "int p \<notin> fst ` set rst"
  shows "parse_lsn_item data rst (decimal p @ CHR '':'' # conf) = Ok (rst @ [(int p, conf)])"
  using assms by (simp add: parse_lsn_item_def Split_item Atoi_decimal map_set_fresh)

lemma parse_int_item_format:
  assumes "int p < 2 ^ 63" and "int v < 2 ^ 63" and "int p \<notin> fst ` set rst"
  shows "parse_int_item rst (decimal p @ CHR '':'' # decimal v) = Ok (rst @ [(int p, int v)])"
  using assms by (simp add: parse_int_item_def Split_item plain_conf_def Atoi_decimal map_set_fresh)

lemma distinct_ports: "distinct (map fst ps) \<Longrightarrow> distinct (map (\<lambda>x. int (fst x)) ps)"
  by (simp add: distinct_map inj_on_def)

text \<open>
  Parsing a listener annotation text that lists distinct ports with their settings gives
  back exactly these ports and settings, in order.
\<close>
theorem parseLsnAnnotaionData_format:
  assumes "distinct (map fst ps)"
    and "\<forall>(p, conf) \<in> set ps. int p < 2 ^ 63 \<and> plain_conf conf"
  shows "parseLsnAnnotaionData (format_lsn ps) = Ok (map (\<lambda>(p, conf). (int p, conf)) ps)"
proof (cases "ps = []")
  case True
  then show ?thesis by (simp add: parseLsnAnnotaionData_def format_lsn_def parse_lsn_item_def)
next
  case False
  let ?item = "\<lambda>(p, conf). decimal p @ CHR '':'' # conf" and ?entry = "\<lambda>(p, conf). (int p, conf)"
  have "fold_ok (parse_lsn_item (format_lsn ps)) [] (map ?item ps) = Ok ([] @ map ?entry ps)"
    using assms(2) distinct_ports[OF assms(1)] by (intro fold_items)
      (auto simp: parse_lsn_item_format comp_def case_prod_beta)
  moreover have "Split (format_lsn ps) (CHR '','') = map ?item ps"
    using False assms(2) by (intro Split_format_lsn) auto
  ultimately show ?thesis by (simp add: parseLsnAnnotaionData_def)
qed

theorem parseLsnAnnotaionData_format_witness:
  "parseLsnAnnotaionData (format_lsn [(80, ''http''), (443, ''https'')]) =
     Ok [(80, ''http''), (443, ''https'')]"
  using parseLsnAnnotaionData_format[of "[(80, ''http''), (443, ''https'')]"]
  by (simp add: plain_conf_def)

text \<open>
  Parsing the text of an integer annotation (timeout, scene, forwardfor, listeneroption)
  that lists distinct ports gives back exactly these ports and values.
\<close>
theorem parseAnnotationIntoIntIntMap_format:
  assumes "ps \<noteq> []" and "distinct (map fst ps)"
    and "\<forall>(p, v) \<in> set ps. int p < 2 ^ 63 \<and> int v < 2 ^ 63"
  shows "parseAnnotationIntoIntIntMap (format_int ps) = Ok (map (\<lambda>(p, v). (int p, int v)) ps)"
proof -
  let ?item = "\<lambda>(p, v). decimal p @ CHR '':'' # decimal v" and ?entry = "\<lambda>(p, v). (int p, int v)"
  have "Split (format_int ps) (CHR '','') =
      map (\<lambda>(p, conf). decimal p @ CHR '':'' # conf) (map (\<lambda>(p, v). (p, decimal v)) ps)"
    unfolding format_int_def using assms(1) by (intro Split_format_lsn) (auto simp: plain_conf_def)
  then have "Split (format_int ps) (CHR '','') = map ?item ps" by (simp add: comp_def case_prod_beta)
  moreover have "fold_ok parse_int_item [] (map ?item ps) = Ok ([] @ map ?entry ps)"
    using assms(3) distinct_ports[OF assms(2)] by (intro fold_items)
      (auto simp: parse_int_item_format comp_def case_prod_beta)
  ultimately show ?thesis by (simp add: parseAnnotationIntoIntIntMap_def)
qed

theorem parseAnnotationIntoIntIntMap_format_witness:
  "parseAnnotationIntoIntIntMap (format_int [(443, 10), (80, 20)]) = Ok [(443, 10), (80, 20)]"
  using parseAnnotationIntoIntIntMap_format[of "[(443, 10), (80, 20)]"] by simp

lemma validListenerTimeout_in_range:
  "validListenerTimeout conf = Ok () \<longleftrightarrow>
     (\<exists>m. parseAnnotationIntoIntIntMap conf = Ok m \<and> snd ` set m \<subseteq> {10..86400})"
  by (cases "parseAnnotationIntoIntIntMap conf")
    (auto simp: validListenerTimeout_def fold_check_cases ListenerTimeoutMin_def
      ListenerTimeoutMax_def image_subset_iff not_less)

text \<open>
  The timeout annotation is valid exactly when it parses and every timeout in it lies
  between 10 and 86400.
\<close>
theorem validListenerTimeout_iff:
  "validListenerTimeout conf = Ok () \<longleftrightarrow>
     (\<exists>m. parseAnnotationIntoIntIntMap conf = Ok m \<and> snd ` set m \<subseteq> {10..86400})"
  by (rule validListenerTimeout_in_range)

text \<open>
  The scene annotation is valid exactly when it parses and every scene in it is 0, 1 or 11.
\<close>
theorem validListenerScene_iff:
  "validListenerScene conf = Ok () \<longleftrightarrow>
     (\<exists>m. parseAnnotationIntoIntIntMap conf = Ok m \<and> snd ` set m \<subseteq> {0, 1, 11})"
  by (cases "parseAnnotationIntoIntIntMap conf")
    (auto simp: validListenerScene_def fold_check_cases ListenerSceneValueSets_def image_subset_iff)

end
