(* ===== verification/Sampling.thy ===== *)
theory Sampling
  imports Effects
begin

text \<open>
  The contract of a random choice of \<open>count\<close> items out of a slice, as the backend logic uses it:
  the choice has no repeated position, has exactly the requested length, and ends when the
  request can be met and the random source is fair. It is provided twice, by
  \<open>util.GetRandomItems\<close> and by \<open>getRandomNodes\<close>.
\<close>

definition picked :: "'a list \<Rightarrow> int \<Rightarrow> 'a list \<Rightarrow> bool" where
  "picked items count xs =
     (\<exists>idx. xs = map ((!) items) idx \<and> distinct idx \<and> set idx \<subseteq> {..<length items} \<and>
            int (length idx) = max 0 count)"

lemma picked_length: "picked items count xs \<Longrightarrow> int (length xs) = max 0 count"
  by (auto simp: picked_def)

lemma picked_subset: "picked items count xs \<Longrightarrow> set xs \<subseteq> set items"
  by (auto simp: picked_def subset_iff)

lemma picked_distinct: "picked items count xs \<Longrightarrow> distinct items \<Longrightarrow> distinct xs"
  by (auto simp: picked_def distinct_map inj_on_def nth_eq_iff_index_eq subset_iff)

lemma picked_count_le: "picked items count xs \<Longrightarrow> count \<le> int (length items)"
proof -
  assume "picked items count xs"
  then obtain idx where i: "distinct idx" "set idx \<subseteq> {..<length items}"
    "int (length idx) = max 0 count" by (auto simp: picked_def)
  have "length idx = card (set idx)" by (rule distinct_card[symmetric]) (rule i)
  also have "\<dots> \<le> card {..<length items}" by (rule card_mono) (use i in auto)
  finally show ?thesis using i by simp
qed

lemma picked_all: "picked items (int (length items)) xs \<Longrightarrow> set xs = set items"
proof -
  assume "picked items (int (length items)) xs"
  then obtain idx where i: "xs = map ((!) items) idx" "distinct idx"
    "set idx \<subseteq> {..<length items}" "length idx = length items" by (auto simp: picked_def)
  have "card (set idx) = card {..<length items}" by (simp add: distinct_card i)
  with i have "set idx = {..<length items}" by (simp add: card_subset_eq)
  then show ?thesis by (simp add: i(1) lessThan_atLeast0 nth_image)
qed

locale sampler =
  fixes sample :: "'a list \<Rightarrow> int \<Rightarrow> (entropy, 'a list) go"
  assumes sample_picked: "sample items count e = (Ok xs, e') \<Longrightarrow> picked items count xs"
    and sample_no_error: "sample items count e \<noteq> (Err er, e')"
    and sample_returns:
      "fair (length items) e \<Longrightarrow> count \<le> int (length items) \<Longrightarrow>
         \<exists>xs e'. sample items count e = (Ok xs, e')"
    and sample_nothing: "count \<le> 0 \<Longrightarrow> sample items count e = (Ok [], e)"
begin

lemma sample_subset: "sample items count e = (Ok xs, e') \<Longrightarrow> set xs \<subseteq> set items"
  by (rule picked_subset) (rule sample_picked)

lemma sample_length: "sample items count e = (Ok xs, e') \<Longrightarrow> int (length xs) = max 0 count"
  by (rule picked_length) (rule sample_picked)

lemma sample_distinct:
  "sample items count e = (Ok xs, e') \<Longrightarrow> distinct items \<Longrightarrow> distinct xs"
  by (rule picked_distinct) (rule sample_picked)

text \<open>A request for more items than there are never returns a result.\<close>

lemma sample_too_many: "int (length items) < count \<Longrightarrow> sample items count e \<noteq> (Ok xs, e')"
  using picked_count_le[OF sample_picked] by fastforce

lemma sample_result_iff:
  assumes "fair (length items) e"
  shows "(\<exists>xs e'. sample items count e = (Ok xs, e')) \<longleftrightarrow> count \<le> int (length items)"
  using sample_returns[OF assms] sample_too_many by (meson linorder_not_le)

end

end
