(* ===== verification/Util.thy ===== *)
theory Util
  imports K8s Sampling
begin

text \<open>
  \<open>pkg/util/util.go\<close>: port and name projections, index search, the first part of a UID, and the
  random choice of items. The random choice is rejection sampling without a bound, so it is a
  \<^theory_text>\<open>partial_function\<close>: \<open>None\<close> is a loop that never ends. Its contract is the locale
  \<open>sampler\<close>, which the backend logic relies on.
\<close>

definition GetSvcPortsAndNodePorts :: "Service \<Rightarrow> int list \<times> int list" where
  "GetSvcPortsAndNodePorts svc = (map port_Port (svc_Ports svc), map port_NodePort (svc_Ports svc))"

definition GetSvcPorts :: "Service \<Rightarrow> int list" where
  "GetSvcPorts svc = map port_Port (svc_Ports svc)"

definition GetPortsSlice :: "ServicePort list \<Rightarrow> int list" where
  "GetPortsSlice ports = map port_Port ports"

fun find_node_port :: "ServicePort list \<Rightarrow> int \<Rightarrow> string \<Rightarrow> int \<times> bool" where
  "find_node_port [] port protocol = (0, False)"
| "find_node_port (p # ps) port protocol =
     (if port_Port p = port \<and> port_Protocol p = protocol then (port_NodePort p, True)
      else find_node_port ps port protocol)"

definition GetNodePort :: "Service option \<Rightarrow> int \<Rightarrow> string \<Rightarrow> int \<times> bool" where
  "GetNodePort svc port protocol =
     (case svc of None \<Rightarrow> (0, False) | Some s \<Rightarrow> find_node_port (svc_Ports s) port protocol)"

fun index_from :: "int \<Rightarrow> 'a list \<Rightarrow> 'a \<Rightarrow> int" where
  "index_from i [] t = -1"
| "index_from i (v # vs) t = (if v = t then i else index_from (i + 1) vs t)"

definition StringIndex :: "string list \<Rightarrow> string \<Rightarrow> int" where
  "StringIndex vs t = index_from 0 vs t"

definition IntIndex :: "int list \<Rightarrow> int \<Rightarrow> int" where
  "IntIndex vs t = index_from 0 vs t"

definition GetFirstUID :: "string \<Rightarrow> string" where
  "GetFirstUID uid = hd (Split uid (CHR ''-''))"

fun all_indexed :: "int list \<Rightarrow> int list \<Rightarrow> bool" where
  "all_indexed vs [] = True"
| "all_indexed vs (n # ns) = (if IntIndex vs n = -1 then False else all_indexed vs ns)"

definition TwoArrayEqual :: "int list \<Rightarrow> int list \<Rightarrow> bool" where
  "TwoArrayEqual a b =
     (if length a \<noteq> length b then False
      else if length a = 0 then True
      else all_indexed b b)"

fun CoverPointSliceToStr :: "'a option list \<Rightarrow> 'a list" where
  "CoverPointSliceToStr [] = []"
| "CoverPointSliceToStr (v # ps) =
     (case v of None \<Rightarrow> CoverPointSliceToStr ps | Some x \<Rightarrow> x # CoverPointSliceToStr ps)"

fun GetNodesName :: "Node option list \<Rightarrow> string list" where
  "GetNodesName [] = []"
| "GetNodesName (n # ns) =
     (case n of None \<Rightarrow> GetNodesName ns | Some node \<Rightarrow> node_Name node # GetNodesName ns)"

text \<open>
  The loop of \<open>GetRandomItems\<close>: \<open>i\<close> items are chosen, \<open>drawn\<close> is the map of the indexes
  already used. A draw below a length of zero panics.
\<close>

partial_function (option) draw_loop ::
  "'a list \<Rightarrow> int \<Rightarrow> int \<Rightarrow> nat set \<Rightarrow> 'a list \<Rightarrow> entropy \<Rightarrow> ('a list outcome \<times> entropy) option" where
  "draw_loop items count i drawn result e =
     (if i < count then
        (if items = [] then Some (Panic, e)
         else if fst (rand_Int (length items) e) \<in> drawn
         then draw_loop items count i drawn result (snd (rand_Int (length items) e))
         else draw_loop items count (i + 1)
                (insert (fst (rand_Int (length items) e)) drawn)
                (result @ [items ! fst (rand_Int (length items) e)])
                (snd (rand_Int (length items) e)))
      else Some (Ok result, e))"

definition GetRandomItems :: "'a list \<Rightarrow> int \<Rightarrow> (entropy, 'a list) go" where
  "GetRandomItems items count e =
     (case draw_loop items count 0 {} [] e of None \<Rightarrow> (Diverge, e) | Some r \<Rightarrow> r)"

subsection \<open>Searching\<close>

lemma index_from_ge: "0 \<le> i \<Longrightarrow> index_from i vs t = -1 \<or> i \<le> index_from i vs t"
  by (induction i vs t rule: index_from.induct) auto

lemma index_from_found: "0 \<le> i \<Longrightarrow> index_from i vs t = -1 \<longleftrightarrow> t \<notin> set vs"
  by (induction i vs t rule: index_from.induct) auto

lemma all_indexed_iff: "all_indexed vs ns \<longleftrightarrow> set ns \<subseteq> set vs"
  by (induction vs ns rule: all_indexed.induct) (auto simp: IntIndex_def index_from_found)

lemma index_from_hit:
  "0 \<le> i \<Longrightarrow> index_from i vs t = j \<Longrightarrow> j \<noteq> -1 \<Longrightarrow>
     i \<le> j \<and> nat (j - i) < length vs \<and> vs ! nat (j - i) = t \<and> t \<notin> set (take (nat (j - i)) vs)"
proof (induction i vs t rule: index_from.induct)
  case (1 i t)
  then show ?case by simp
next
  case (2 i v vs t)
  show ?case
  proof (cases "v = t")
    case True
    with 2 show ?thesis by auto
  next
    case False
    with 2 have h: "i + 1 \<le> j \<and> nat (j - (i + 1)) < length vs \<and> vs ! nat (j - (i + 1)) = t \<and>
        t \<notin> set (take (nat (j - (i + 1))) vs)" by auto
    then have "nat (j - i) = Suc (nat (j - (i + 1)))" by linarith
    with h False show ?thesis by auto
  qed
qed

lemma CoverPointSliceToStr_Some [simp]: "CoverPointSliceToStr (map Some xs) = xs"
  by (induction xs) auto

lemma GetFirstUID_no_dash: "CHR ''-'' \<notin> set (GetFirstUID uid)"
  by (simp add: GetFirstUID_def hd_Split_no_sep)

lemma GetFirstUID_subset: "set (GetFirstUID uid) \<subseteq> set uid"
  by (induction uid) (auto simp: GetFirstUID_def split: list.splits)

subsection \<open>The random choice meets its contract\<close>

text \<open>What the loop keeps: the result lists the items at the drawn indexes, each once.\<close>

definition loop_inv :: "'a list \<Rightarrow> int \<Rightarrow> nat set \<Rightarrow> 'a list \<Rightarrow> bool" where
  "loop_inv items i drawn result =
     (\<exists>idx. result = map ((!) items) idx \<and> distinct idx \<and> set idx = drawn \<and>
            drawn \<subseteq> {..<length items} \<and> int (length idx) = i)"

lemma loop_inv_init: "loop_inv items 0 {} []"
  by (simp add: loop_inv_def)

lemma loop_inv_draw:
  assumes "loop_inv items i drawn result" and "r \<notin> drawn" and "r < length items"
  shows "loop_inv items (i + 1) (insert r drawn) (result @ [items ! r])"
proof -
  from assms(1) obtain idx where "result = map ((!) items) idx" "distinct idx" "set idx = drawn"
    "drawn \<subseteq> {..<length items}" "int (length idx) = i" by (auto simp: loop_inv_def)
  with assms(2,3) show ?thesis
    unfolding loop_inv_def by (intro exI[of _ "idx @ [r]"]) auto
qed

lemma draw_loop_picked:
  assumes "draw_loop items count i drawn result e = Some (out, e')"
    and "loop_inv items i drawn result" and "i \<le> max 0 count"
  shows "out = Panic \<and> items = [] \<or> (\<exists>xs. out = Ok xs \<and> picked items count xs)"
proof -
  let ?P = "\<lambda>items count i drawn result (e :: entropy) (r :: 'a list outcome \<times> entropy).
    loop_inv items i drawn result \<longrightarrow> i \<le> max 0 count \<longrightarrow>
    fst r = Panic \<and> items = [] \<or> (\<exists>xs. fst r = Ok xs \<and> picked items count xs)"
  have "?P items count i drawn result e (out, e')"
  proof (rule draw_loop.raw_induct[where P = ?P, OF _ assms(1)])
    fix loop :: "'a list \<Rightarrow> int \<Rightarrow> int \<Rightarrow> nat set \<Rightarrow> 'a list \<Rightarrow> entropy \<Rightarrow>
      ('a list outcome \<times> entropy) option"
      and items :: "'a list" and count i drawn result e r
    let ?r = "fst (rand_Int (length items) e)" and ?e = "snd (rand_Int (length items) e)"
    assume IH: "\<And>items count i drawn result e y. loop items count i drawn result e = Some y \<Longrightarrow>
        ?P items count i drawn result e y"
      and step: "(if i < count then
          (if items = [] then Some (Panic, e)
           else if ?r \<in> drawn then loop items count i drawn result ?e
           else loop items count (i + 1) (insert ?r drawn) (result @ [items ! ?r]) ?e)
         else Some (Ok result, e)) = Some r"
    show "?P items count i drawn result e r"
    proof (intro impI)
      assume inv: "loop_inv items i drawn result" and i: "i \<le> max 0 count"
      consider (stop) "\<not> i < count" | (panic) "i < count" "items = []"
        | (again) "i < count" "items \<noteq> []" "?r \<in> drawn"
        | (draw) "i < count" "items \<noteq> []" "?r \<notin> drawn" by blast
      then show "fst r = Panic \<and> items = [] \<or> (\<exists>xs. fst r = Ok xs \<and> picked items count xs)"
      proof cases
        case stop
        with i have "i = max 0 count" using inv by (auto simp: loop_inv_def)
        with inv have "picked items count result" by (auto simp: loop_inv_def picked_def)
        with stop step show ?thesis by auto
      next
        case panic
        with step show ?thesis by auto
      next
        case again
        with step have "loop items count i drawn result ?e = Some r" by simp
        from IH[OF this] inv i show ?thesis by blast
      next
        case draw
        with step have
          "loop items count (i + 1) (insert ?r drawn) (result @ [items ! ?r]) ?e = Some r" by simp
        moreover have "loop_inv items (i + 1) (insert ?r drawn) (result @ [items ! ?r])"
          using inv draw by (intro loop_inv_draw) (auto intro: rand_Int_less)
        moreover have "i + 1 \<le> max 0 count" using draw by simp
        ultimately show ?thesis using IH by blast
      qed
    qed
  qed
  with assms(2,3) show ?thesis by simp
qed

text \<open>
  The loop ends: while an index is left to draw, a fair stream draws one. The first draw that
  is new is found by induction on its position; then one index fewer is missing.
\<close>

lemma draw_loop_next:
  assumes "e j mod length items \<notin> drawn" and "i < count" and "items \<noteq> []"
  shows "\<exists>k \<le> j. \<exists>r. r \<notin> drawn \<and> r < length items \<and>
     draw_loop items count i drawn result e =
     draw_loop items count (i + 1) (insert r drawn) (result @ [items ! r]) (\<lambda>n. e (n + Suc k))"
  using assms
proof (induction j arbitrary: e)
  case 0
  then show ?case
    by (intro exI[of _ 0] conjI exI[of _ "e 0 mod length items"])
      (auto simp: draw_loop.simps[of items count i drawn result e] rand_Int_def)
next
  case (Suc j)
  let ?e = "\<lambda>n. e (Suc n)"
  show ?case
  proof (cases "e 0 mod length items \<in> drawn")
    case False
    then show ?thesis using Suc.prems
      by (intro exI[of _ 0] conjI exI[of _ "e 0 mod length items"])
        (auto simp: draw_loop.simps[of items count i drawn result e] rand_Int_def)
  next
    case True
    from Suc.IH[of ?e] Suc.prems obtain k r where "k \<le> j" "r \<notin> drawn" "r < length items"
      "draw_loop items count i drawn result ?e =
       draw_loop items count (i + 1) (insert r drawn) (result @ [items ! r])
         (\<lambda>n. ?e (n + Suc k))" by blast
    with True Suc.prems show ?thesis
      by (intro exI[of _ "Suc k"] conjI exI[of _ r])
        (auto simp: draw_loop.simps[of items count i drawn result e] rand_Int_def)
  qed
qed

lemma fair_drop: "fair n e \<Longrightarrow> fair n (\<lambda>i. e (i + k))"
proof (induction k)
  case (Suc k)
  then have "fair n (\<lambda>i. e (Suc i + k))" using fair_shift[of n "\<lambda>i. e (i + k)"] by simp
  then show ?case by simp
qed simp

lemma draw_loop_returns:
  assumes "fair (length items) e" and "count \<le> int (length items)"
    and "loop_inv items i drawn result"
  shows "\<exists>r. draw_loop items count i drawn result e = Some r"
  using assms
proof (induction "nat (count - i)" arbitrary: e i drawn result)
  case 0
  then show ?case by (simp add: draw_loop.simps[of items count i drawn result e])
next
  case (Suc m)
  then have less: "i < count" by simp
  from Suc.prems obtain idx where idx: "distinct idx" "set idx = drawn" "int (length idx) = i"
    "drawn \<subseteq> {..<length items}" by (auto simp: loop_inv_def)
  then have "int (card drawn) = i" by (metis distinct_card)
  with less Suc.prems(2) have "card drawn < card {..<length items}" by simp
  moreover have "finite drawn" using idx(2) by (metis List.finite_set)
  ultimately have "\<not> {..<length items} \<subseteq> drawn" using card_mono leD by blast
  then obtain r where r: "r < length items" "r \<notin> drawn" by auto
  with Suc.prems(1) obtain j where "e j mod length items = r" by (auto simp: fair_def)
  with r less have "e j mod length items \<notin> drawn" "i < count" "items \<noteq> []" by auto
  from draw_loop_next[of e j items drawn i count result, OF this] obtain k r' where k: "r' \<notin> drawn" "r' < length items"
    "draw_loop items count i drawn result e =
     draw_loop items count (i + 1) (insert r' drawn) (result @ [items ! r'])
       (\<lambda>n. e (n + Suc k))" by blast
  have "fair (length items) (\<lambda>n. e (n + Suc k))" using Suc.prems(1) by (rule fair_drop)
  then have "\<exists>r. draw_loop items count (i + 1) (insert r' drawn) (result @ [items ! r'])
      (\<lambda>n. e (n + Suc k)) = Some r"
    using Suc.hyps(2) Suc.prems k by (intro Suc.hyps(1)) (auto intro: loop_inv_draw)
  with k(3) show ?case by simp
qed

lemma GetRandomItems_cases:
  "(\<exists>xs e'. GetRandomItems items count e = (Ok xs, e') \<and> picked items count xs) \<or>
   items = [] \<and> GetRandomItems items count e = (Panic, snd (GetRandomItems items count e)) \<or>
   GetRandomItems items count e = (Diverge, e)"
proof (cases "draw_loop items count 0 {} [] e")
  case (Some r)
  then obtain out e' where "draw_loop items count 0 {} [] e = Some (out, e')" by (cases r) auto
  with draw_loop_picked[OF this loop_inv_init] show ?thesis by (auto simp: GetRandomItems_def)
qed (simp add: GetRandomItems_def)

lemma GetRandomItems_nothing: "count \<le> 0 \<Longrightarrow> GetRandomItems items count e = (Ok [], e)"
  by (simp add: GetRandomItems_def draw_loop.simps[of items count 0])

lemma GetRandomItems_empty:
  "0 < count \<Longrightarrow> GetRandomItems [] count e = (Panic, e)"
  by (simp add: GetRandomItems_def draw_loop.simps[of "[]" count 0])

interpretation items: sampler GetRandomItems
proof unfold_locales
  fix items :: "'a list" and count e xs e' er
  show "picked items count xs" if "GetRandomItems items count e = (Ok xs, e')"
    using GetRandomItems_cases[of items count e] that by auto
  show "GetRandomItems items count e \<noteq> (Err er, e')"
    using GetRandomItems_cases[of items count e] by auto
  show "GetRandomItems items count e = (Ok [], e)" if "count \<le> 0"
    by (rule GetRandomItems_nothing) (rule that)
  show "\<exists>xs e'. GetRandomItems items count e = (Ok xs, e')"
    if f: "fair (length items) e" and c: "count \<le> int (length items)"
  proof (cases "count \<le> 0")
    case True
    then show ?thesis by (simp add: GetRandomItems_nothing)
  next
    case False
    from draw_loop_returns[OF f c loop_inv_init] obtain out e' where
      d: "draw_loop items count 0 {} [] e = Some (out, e')" by auto
    from draw_loop_picked[OF d loop_inv_init] False c show ?thesis
      by (auto simp: GetRandomItems_def d)
  qed
qed

lemma GetRandomItems_endless:
  assumes "int (length items) < count" and "items \<noteq> []"
  shows "GetRandomItems items count e = (Diverge, e)"
  using GetRandomItems_cases[of items count e] items.sample_too_many[OF assms(1)] assms(2) by auto

end
