(* ===== verification/Config.thy ===== *)
theory Config
  imports Annotations Util
begin

text \<open>
  \<open>pkg/qingcloud/annotations.go\<close>: the annotation keys and values, the load balancer configuration
  of a service and its parser \<open>ParseServiceLBConfig\<close>, and from \<open>qingcloud_utils.go\<close> the short
  parser used before a deletion. Also the provider's own \<open>Config\<close> from \<open>qingcloud.go\<close>. The parser
  is cut into the code's own sections (network, listener, backend, attributes, policy); each
  section takes the configuration built so far.
\<close>

definition NodeAnnotationInstanceID :: string where
  "NodeAnnotationInstanceID = ''node.beta.kubernetes.io/instance-id''"

definition lb_key :: "string \<Rightarrow> string" where
  "lb_key s = ''service.beta.kubernetes.io/qingcloud-'' @ s"

definition NetworkModePublic :: string where "NetworkModePublic = ''public''"
definition NetworkModeInternal :: string where "NetworkModeInternal = ''internal''"
definition ManualSet :: string where "ManualSet = ''manual''"
definition UseAvailableOrAllocateOne :: string where "UseAvailableOrAllocateOne = ''auto''"
definition UseAvailableOnly :: string where "UseAvailableOnly = ''use-available''"
definition AllocateOnly :: string where "AllocateOnly = ''allocate''"
definition ReuseExistingLB :: string where "ReuseExistingLB = ''reuse-lb''"
definition Exclusive :: string where "Exclusive = ''exclusive''"
definition Shared :: string where "Shared = ''reuse''"

definition ServiceAnnotationLoadBalancerNetworkType :: string where
  "ServiceAnnotationLoadBalancerNetworkType = lb_key ''load-balancer-network-type''"
definition ServiceAnnotationLoadBalancerEipIds :: string where
  "ServiceAnnotationLoadBalancerEipIds = lb_key ''load-balancer-eip-ids''"
definition ServiceAnnotationLoadBalancerEipSource :: string where
  "ServiceAnnotationLoadBalancerEipSource = lb_key ''load-balancer-eip-source''"
definition ServiceAnnotationEipReplace :: string where
  "ServiceAnnotationEipReplace = lb_key ''load-balancer-eip-replace''"
definition ServiceAnnotationLoadBalancerVxnetID :: string where
  "ServiceAnnotationLoadBalancerVxnetID = lb_key ''load-balancer-vxnet-id''"
definition ServiceAnnotationLoadBalancerInternalIP :: string where
  "ServiceAnnotationLoadBalancerInternalIP = lb_key ''load-balancer-internal-ip''"
definition ServiceAnnotationLoadBalancerInternalReuseID :: string where
  "ServiceAnnotationLoadBalancerInternalReuseID = lb_key ''load-balancer-reuse-id''"
definition ServiceAnnotationLoadBalancerID :: string where
  "ServiceAnnotationLoadBalancerID = lb_key ''load-balancer-id''"
definition ServiceAnnotationLoadBalancerPolicy :: string where
  "ServiceAnnotationLoadBalancerPolicy = lb_key ''load-balancer-eip-strategy''"
definition ServiceAnnotationLoadBalancerType :: string where
  "ServiceAnnotationLoadBalancerType = lb_key ''load-balancer-type''"
definition ServiceAnnotationLoadBalancerNodes :: string where
  "ServiceAnnotationLoadBalancerNodes = lb_key ''load-balancer-nodes''"
definition ServiceAnnotationListenerHealthyCheckMethod :: string where
  "ServiceAnnotationListenerHealthyCheckMethod = lb_key ''lb-listener-healthycheckmethod''"
definition ServiceAnnotationListenerHealthyCheckOption :: string where
  "ServiceAnnotationListenerHealthyCheckOption = lb_key ''lb-listener-healthycheckoption''"
definition ServiceAnnotationListenerBalanceMode :: string where
  "ServiceAnnotationListenerBalanceMode = lb_key ''lb-listener-balancemode''"
definition ServiceAnnotationListenerServerCertificate :: string where
  "ServiceAnnotationListenerServerCertificate = lb_key ''lb-listener-cert''"
definition ServiceAnnotationListenerProtocol :: string where
  "ServiceAnnotationListenerProtocol = lb_key ''lb-listener-protocol''"
definition ServiceAnnotationListenerForwardfor :: string where
  "ServiceAnnotationListenerForwardfor = lb_key ''lb-listener-forwardfor''"
definition ServiceAnnotationListenerListenerOption :: string where
  "ServiceAnnotationListenerListenerOption = lb_key ''lb-listener-listeneroption''"
definition ServiceAnnotationBackendLabel :: string where
  "ServiceAnnotationBackendLabel = lb_key ''lb-backend-label''"
definition ServiceAnnotationBackendCount :: string where
  "ServiceAnnotationBackendCount = lb_key ''lb-backend-count''"

lemmas annotation_key_defs =
  ServiceAnnotationLoadBalancerNetworkType_def ServiceAnnotationLoadBalancerEipIds_def
  ServiceAnnotationLoadBalancerEipSource_def ServiceAnnotationEipReplace_def
  ServiceAnnotationLoadBalancerVxnetID_def ServiceAnnotationLoadBalancerInternalIP_def
  ServiceAnnotationLoadBalancerInternalReuseID_def ServiceAnnotationLoadBalancerID_def
  ServiceAnnotationLoadBalancerPolicy_def ServiceAnnotationLoadBalancerType_def
  ServiceAnnotationLoadBalancerNodes_def ServiceAnnotationListenerHealthyCheckMethod_def
  ServiceAnnotationListenerHealthyCheckOption_def ServiceAnnotationListenerBalanceMode_def
  ServiceAnnotationListenerServerCertificate_def ServiceAnnotationListenerProtocol_def
  ServiceAnnotationListenerTimeout_def ServiceAnnotationListenerScene_def
  ServiceAnnotationListenerForwardfor_def ServiceAnnotationListenerListenerOption_def
  ServiceAnnotationBackendLabel_def ServiceAnnotationBackendCount_def lb_key_def

lemmas value_defs =
  NetworkModePublic_def NetworkModeInternal_def ManualSet_def UseAvailableOrAllocateOne_def
  UseAvailableOnly_def AllocateOnly_def ReuseExistingLB_def Exclusive_def Shared_def

lemma policy_values_distinct [simp]:
  "ReuseExistingLB \<noteq> Shared" "Shared \<noteq> ReuseExistingLB" "Exclusive \<noteq> Shared" "Shared \<noteq> Exclusive"
  "ReuseExistingLB \<noteq> Exclusive" "Exclusive \<noteq> ReuseExistingLB"
  "ReuseExistingLB \<noteq> []" "[] \<noteq> ReuseExistingLB" "Shared \<noteq> []" "[] \<noteq> Shared" "Exclusive \<noteq> []"
  "NetworkModePublic \<noteq> NetworkModeInternal" "NetworkModeInternal \<noteq> NetworkModePublic"
  by (simp_all add: value_defs)

subsection \<open>The configurations\<close>

text \<open>The provider's configuration file.\<close>

record Config =
  cfg_Zone :: string
  cfg_DefaultVxNetForLB :: string
  cfg_ClusterID :: string
  cfg_IsApp :: bool
  cfg_TagIDs :: "string list"
  cfg_InstanceIDs :: "string list"
  cfg_PlaceGroupID :: string
  cfg_SecurityGroupID :: string

text \<open>The configuration of one service. \<open>EipIDs\<close> distinguishes a nil slice from a list.\<close>

record LoadBalancerConfig =
  EipIDs :: "string option list option"
  EipSource :: "string option"
  VxNetID :: "string option"
  EipReplace :: bool
  LoadBalancerType :: "int option"
  NodeCount :: "int option"
  InternalIP :: "string option"
  PlaceGroupID :: "string option"
  SecurityGroupID :: "string option"
  healthyCheckMethod :: "string option"
  healthyCheckOption :: "string option"
  balanceMode :: "string option"
  ServerCertificate :: "string option"
  Protocol :: "string option"
  Timeout :: "string option"
  Scene :: "string option"
  Forwardfor :: "string option"
  ListenerOption :: "string option"
  BackendLabel :: string
  BackendCountConfig :: string
  BackendCountResult :: int
  NetworkType :: string
  Policy :: string
  InternalReuseID :: "string option"
  ReuseLBID :: string
  LoadBalancerName :: string
  listenerName :: string
  sgName :: string
  InstanceIDs :: "string option list"

definition zero_config :: LoadBalancerConfig where
  "zero_config =
     \<lparr>EipIDs = None, EipSource = None, VxNetID = None, EipReplace = False,
      LoadBalancerType = None, NodeCount = None, InternalIP = None, PlaceGroupID = None,
      SecurityGroupID = None, healthyCheckMethod = None, healthyCheckOption = None,
      balanceMode = None, ServerCertificate = None, Protocol = None, Timeout = None,
      Scene = None, Forwardfor = None, ListenerOption = None, BackendLabel = [],
      BackendCountConfig = [], BackendCountResult = 0, NetworkType = [], Policy = [],
      InternalReuseID = None, ReuseLBID = [], LoadBalancerName = [], listenerName = [],
      sgName = [], InstanceIDs = []\<rparr>"

definition LBBackendName :: "LoadBalancerConfig \<Rightarrow> string \<Rightarrow> string" where
  "LBBackendName config inst = ''backend_'' @ listenerName config @ ''_'' @ inst"

subsection \<open>Parsing the annotations of a service\<close>

definition parse_eip :: "string_map \<Rightarrow> LoadBalancerConfig \<Rightarrow> LoadBalancerConfig" where
  "parse_eip annotation config =
     (let lbEipIds = index_str annotation ServiceAnnotationLoadBalancerEipIds;
          hasEip = map_of annotation ServiceAnnotationLoadBalancerEipIds \<noteq> None;
          config =
            (if hasEip \<and> lbEipIds \<noteq> []
             then config\<lparr>EipIDs := Some (map Some (Split lbEipIds (CHR '','')))\<rparr>
             else
               let source = index_str annotation ServiceAnnotationLoadBalancerEipSource in
               if source = AllocateOnly \<or> source = UseAvailableOnly \<or>
                  source = UseAvailableOrAllocateOne
               then config\<lparr>EipSource := Some source\<rparr>
               else config\<lparr>EipSource := None\<rparr>)
      in case map_of annotation ServiceAnnotationEipReplace of
           None \<Rightarrow> config
         | Some eipReplace \<Rightarrow> config\<lparr>EipReplace := (eipReplace = ''true'')\<rparr>)"

definition parse_network :: "Config \<Rightarrow> string_map \<Rightarrow> LoadBalancerConfig \<Rightarrow> LoadBalancerConfig" where
  "parse_network cfg annotation config =
     (let config =
            (case map_of annotation ServiceAnnotationLoadBalancerVxnetID of
               None \<Rightarrow> config | Some v \<Rightarrow> config\<lparr>VxNetID := Some v\<rparr>);
          config =
            (case map_of annotation ServiceAnnotationLoadBalancerInternalIP of
               None \<Rightarrow> config | Some v \<Rightarrow> config\<lparr>InternalIP := Some v\<rparr>);
          config =
            (case map_of annotation ServiceAnnotationLoadBalancerInternalReuseID of
               None \<Rightarrow> config | Some v \<Rightarrow> config\<lparr>InternalReuseID := Some v\<rparr>);
          config =
            (if cfg_PlaceGroupID cfg \<noteq> []
             then config\<lparr>PlaceGroupID := Some (cfg_PlaceGroupID cfg)\<rparr> else config)
      in if cfg_SecurityGroupID cfg \<noteq> []
         then config\<lparr>SecurityGroupID := Some (cfg_SecurityGroupID cfg)\<rparr> else config)"

text \<open>An annotation that is validated before it is stored.\<close>

definition with_annotation ::
  "string \<Rightarrow> (string \<Rightarrow> unit outcome) \<Rightarrow> (string \<Rightarrow> LoadBalancerConfig \<Rightarrow> LoadBalancerConfig) \<Rightarrow>
   string_map \<Rightarrow> LoadBalancerConfig \<Rightarrow> LoadBalancerConfig outcome" where
  "with_annotation key valid store annotation config =
     (case map_of annotation key of
        None \<Rightarrow> Ok config
      | Some v \<Rightarrow> bind_ok (valid v) (\<lambda>_. Ok (store v config)))"

definition parse_listener :: "string_map \<Rightarrow> LoadBalancerConfig \<Rightarrow> LoadBalancerConfig outcome" where
  "parse_listener annotation config =
     bind_ok (with_annotation ServiceAnnotationListenerHealthyCheckMethod
       (validListenerStringConfig ServiceAnnotationListenerHealthyCheckMethod)
       (\<lambda>v. healthyCheckMethod_update (\<lambda>_. Some v)) annotation config) (\<lambda>config.
     bind_ok (with_annotation ServiceAnnotationListenerHealthyCheckOption
       (validListenerStringConfig ServiceAnnotationListenerHealthyCheckOption)
       (\<lambda>v. healthyCheckOption_update (\<lambda>_. Some v)) annotation config) (\<lambda>config.
     bind_ok (with_annotation ServiceAnnotationListenerBalanceMode
       (validListenerStringConfig ServiceAnnotationListenerBalanceMode)
       (\<lambda>v. balanceMode_update (\<lambda>_. Some v)) annotation config) (\<lambda>config.
     bind_ok (with_annotation ServiceAnnotationListenerServerCertificate
       (validListenerStringConfig ServiceAnnotationListenerServerCertificate)
       (\<lambda>v. ServerCertificate_update (\<lambda>_. Some v)) annotation config) (\<lambda>config.
     bind_ok (with_annotation ServiceAnnotationListenerProtocol
       (validListenerStringConfig ServiceAnnotationListenerProtocol)
       (\<lambda>v. Protocol_update (\<lambda>_. Some v)) annotation config) (\<lambda>config.
     bind_ok (with_annotation ServiceAnnotationListenerTimeout validListenerTimeout
       (\<lambda>v. Timeout_update (\<lambda>_. Some v)) annotation config) (\<lambda>config.
     bind_ok (with_annotation ServiceAnnotationListenerScene validListenerScene
       (\<lambda>v. Scene_update (\<lambda>_. Some v)) annotation config) (\<lambda>config.
     bind_ok (with_annotation ServiceAnnotationListenerForwardfor
       (validListenerIntConfig ServiceAnnotationListenerForwardfor)
       (\<lambda>v. Forwardfor_update (\<lambda>_. Some v)) annotation config) (\<lambda>config.
     with_annotation ServiceAnnotationListenerListenerOption
       (validListenerIntConfig ServiceAnnotationListenerListenerOption)
       (\<lambda>v. ListenerOption_update (\<lambda>_. Some v)) annotation config))))))))"

definition parse_backend :: "string_map \<Rightarrow> LoadBalancerConfig \<Rightarrow> LoadBalancerConfig outcome" where
  "parse_backend annotation config =
     (let config =
            (case map_of annotation ServiceAnnotationBackendLabel of
               None \<Rightarrow> config | Some v \<Rightarrow> config\<lparr>BackendLabel := v\<rparr>)
      in case map_of annotation ServiceAnnotationBackendCount of
           None \<Rightarrow> Ok config
         | Some backendCount \<Rightarrow>
             (if snd (Atoi backendCount) \<noteq> None
              then Err (Errorf ''please spec a valid value of loadBalancer backend count'')
              else Ok (config\<lparr>BackendCountConfig := backendCount\<rparr>)))"

definition parse_network_type :: "Config \<Rightarrow> string_map \<Rightarrow> LoadBalancerConfig \<Rightarrow> LoadBalancerConfig" where
  "parse_network_type cfg annotation config =
     (let networkType = index_str annotation ServiceAnnotationLoadBalancerNetworkType in
      if networkType = NetworkModePublic then config\<lparr>NetworkType := networkType\<rparr>
      else if networkType = NetworkModeInternal then
        (let config = config\<lparr>NetworkType := networkType\<rparr> in
         if VxNetID config = None \<and> cfg_DefaultVxNetForLB cfg \<noteq> []
         then config\<lparr>VxNetID := Some (cfg_DefaultVxNetForLB cfg)\<rparr>
         else config)
      else config\<lparr>NetworkType := NetworkModePublic\<rparr>)"

definition parse_attributes :: "string_map \<Rightarrow> LoadBalancerConfig \<Rightarrow> LoadBalancerConfig outcome" where
  "parse_attributes annotation config =
     bind_ok
       (case map_of annotation ServiceAnnotationLoadBalancerType of
          None \<Rightarrow> Ok config
        | Some lbType \<Rightarrow>
            (case Atoi lbType of
               (t, Some _) \<Rightarrow> Err (Errorf ''pls spec a valid value of loadBalancer type'')
             | (t, None) \<Rightarrow> Ok (config\<lparr>LoadBalancerType := Some t\<rparr>)))
       (\<lambda>config.
          case map_of annotation ServiceAnnotationLoadBalancerNodes of
            None \<Rightarrow> Ok config
          | Some nodes \<Rightarrow>
              (case Atoi nodes of
                 (num, Some _) \<Rightarrow> Err (Errorf ''pls spec a valid value of loadBalancer node number'')
               | (num, None) \<Rightarrow> Ok (config\<lparr>NodeCount := Some num\<rparr>)))"

text \<open>The name of the load balancer of one service.\<close>

definition exclusive_lb_name :: "string \<Rightarrow> Service \<Rightarrow> string" where
  "exclusive_lb_name cluster svc =
     ''k8s_lb_'' @ cluster @ ''_'' @ svc_Namespace svc @ ''_'' @ svc_Name svc @ ''_'' @
     GetFirstUID (svc_UID svc)"

lemma exclusive_lb_name_not_Nil [simp]: "exclusive_lb_name cluster svc \<noteq> []" "[] \<noteq> exclusive_lb_name cluster svc"
  by (simp_all add: exclusive_lb_name_def)

text \<open>
  The strategy switch. The case \<open>Shared\<close> tests \<open>config.Policy\<close>, which nothing has set yet.
\<close>

definition parse_policy :: "string \<Rightarrow> Service \<Rightarrow> LoadBalancerConfig \<Rightarrow> LoadBalancerConfig outcome" where
  "parse_policy cluster svc config =
     (let annotation = annotations svc;
          config = config\<lparr>ReuseLBID := index_str annotation ServiceAnnotationLoadBalancerID\<rparr>;
          strategy = index_str annotation ServiceAnnotationLoadBalancerPolicy
      in
      if strategy = ReuseExistingLB then
        (let config = config\<lparr>Policy := ReuseExistingLB\<rparr> in
         if ReuseLBID config = []
         then Err (Errorf ''must specify service.beta.kubernetes.io/qingcloud-load-balancer-id'')
         else Ok config)
      else if strategy = Shared then
        (if Policy config = Shared then
           (if NetworkType config = NetworkModePublic then
              Ok (config\<lparr>LoadBalancerName :=
                    ''k8s_lb_'' @ cluster @ ''_'' @
                    index_str annotation ServiceAnnotationLoadBalancerEipIds\<rparr>)
            else if InternalIP config = None \<or> InternalReuseID config = None then
              Err (Errorf ''must specify reuse-id or internalip if wants to use shared internal lb'')
            else
              (case InternalReuseID config of
                 Some i \<Rightarrow> Ok (config\<lparr>LoadBalancerName := ''k8s_lb_'' @ cluster @ ''_'' @ i\<rparr>)
               | None \<Rightarrow>
                   bind_ok (deref (InternalIP config)) (\<lambda>ip.
                     Ok (config\<lparr>LoadBalancerName := ''k8s_lb_'' @ cluster @ ''_'' @ ip\<rparr>))))
         else Ok config)
      else
        Ok (config\<lparr>LoadBalancerName :=
              exclusive_lb_name cluster svc,
            Policy := Exclusive\<rparr>))"

definition listener_name :: "string \<Rightarrow> string \<Rightarrow> string" where
  "listener_name namespace name = ''listener_'' @ namespace @ ''_'' @ name @ ''_''"

definition ParseServiceLBConfig :: "Config \<Rightarrow> string \<Rightarrow> Service \<Rightarrow> LoadBalancerConfig outcome" where
  "ParseServiceLBConfig cfg cluster svc =
     (let annotation = annotations svc in
      if annotation = [] then Err (Errorf ''service annotation is empty'')
      else
        bind_ok (parse_listener annotation
                  (parse_network cfg annotation (parse_eip annotation zero_config))) (\<lambda>config.
        bind_ok (parse_backend annotation config) (\<lambda>config.
        bind_ok (parse_attributes annotation (parse_network_type cfg annotation config)) (\<lambda>config.
        bind_ok (parse_policy cluster svc config) (\<lambda>config.
        let config = config\<lparr>listenerName := listener_name (svc_Namespace svc) (svc_Name svc)\<rparr> in
        Ok (config\<lparr>sgName := LoadBalancerName config\<rparr>))))))"

text \<open>The parser used before a deletion, which never fails.\<close>

definition parseServiceLBAndEIP :: "Config \<Rightarrow> Service \<Rightarrow> LoadBalancerConfig" where
  "parseServiceLBAndEIP cfg svc =
     (let conf = zero_config;
          conf = conf\<lparr>listenerName := listener_name (svc_Namespace svc) (svc_Name svc)\<rparr>;
          conf = conf\<lparr>sgName := LoadBalancerName conf\<rparr>;
          conf = conf\<lparr>LoadBalancerName :=
                   exclusive_lb_name (cfg_ClusterID cfg) svc\<rparr>
      in if annotations svc \<noteq> [] \<and>
            index_str (annotations svc) ServiceAnnotationLoadBalancerPolicy = ReuseExistingLB
         then conf\<lparr>ReuseLBID := index_str (annotations svc) ServiceAnnotationLoadBalancerID\<rparr>
         else conf)"

subsection \<open>What a parsed configuration guarantees\<close>

text \<open>
  The listener settings of the configuration are texts that their parsers accept, with the
  timeouts and scenes in range.
\<close>

definition listener_conf_ok :: "LoadBalancerConfig \<Rightarrow> bool" where
  "listener_conf_ok conf =
     (pred_option (\<lambda>v. \<exists>m. parseLsnAnnotaionData v = Ok m) (healthyCheckMethod conf) \<and>
      pred_option (\<lambda>v. \<exists>m. parseLsnAnnotaionData v = Ok m) (healthyCheckOption conf) \<and>
      pred_option (\<lambda>v. \<exists>m. parseLsnAnnotaionData v = Ok m) (balanceMode conf) \<and>
      pred_option (\<lambda>v. \<exists>m. parseLsnAnnotaionData v = Ok m) (ServerCertificate conf) \<and>
      pred_option (\<lambda>v. \<exists>m. parseLsnAnnotaionData v = Ok m) (Protocol conf) \<and>
      pred_option (\<lambda>v. validListenerTimeout v = Ok ()) (Timeout conf) \<and>
      pred_option (\<lambda>v. validListenerScene v = Ok ()) (Scene conf) \<and>
      pred_option (\<lambda>v. \<exists>m. parseAnnotationIntoIntIntMap v = Ok m) (Forwardfor conf) \<and>
      pred_option (\<lambda>v. \<exists>m. parseAnnotationIntoIntIntMap v = Ok m) (ListenerOption conf))"

definition policy_ok :: "LoadBalancerConfig \<Rightarrow> bool" where
  "policy_ok conf =
     (Policy conf = ReuseExistingLB \<and> ReuseLBID conf \<noteq> [] \<and> LoadBalancerName conf = [] \<or>
      Policy conf = Exclusive \<and> LoadBalancerName conf \<noteq> [] \<or>
      Policy conf = [] \<and> LoadBalancerName conf = [])"

definition eip_conf_ok :: "LoadBalancerConfig \<Rightarrow> bool" where
  "eip_conf_ok conf =
     ((EipIDs conf = None \<or> EipSource conf = None) \<and>
      EipIDs conf \<noteq> Some [] \<and>
      pred_option (list_all (\<lambda>p. p \<noteq> None)) (EipIDs conf) \<and>
      (EipSource conf = None \<or>
       EipSource conf \<in> {Some AllocateOnly, Some UseAvailableOnly, Some UseAvailableOrAllocateOne}))"

lemma valid_config_simps:
  "validListenerStringConfig k v = Ok () \<longleftrightarrow> (\<exists>m. parseLsnAnnotaionData v = Ok m)"
  "validListenerIntConfig k v = Ok () \<longleftrightarrow> (\<exists>m. parseAnnotationIntoIntIntMap v = Ok m)"
  by (auto simp: validListenerStringConfig_def validListenerIntConfig_def bind_ok_Ok_iff)

lemma with_annotation_Ok_cases:
  assumes "with_annotation key valid store ann c = Ok c'"
  obtains "c' = c" "map_of ann key = None"
  | v where "map_of ann key = Some v" "valid v = Ok ()" "c' = store v c"
  using assms by (auto simp: with_annotation_def bind_ok_Ok_iff split: option.splits)

lemma with_annotation_keeps:
  "with_annotation key valid store ann c = Ok c' \<Longrightarrow> I c \<Longrightarrow>
   (\<And>v. valid v = Ok () \<Longrightarrow> I c \<Longrightarrow> I (store v c)) \<Longrightarrow> I c'"
  by (auto elim: with_annotation_Ok_cases)

text \<open>A fact that every setter of a validated listener annotation keeps holds after the section.\<close>

lemma parse_listener_keeps:
  assumes "parse_listener ann c = Ok c'" and "I c"
    and "\<And>v c m. parseLsnAnnotaionData v = Ok m \<Longrightarrow> I c \<Longrightarrow> I (c\<lparr>healthyCheckMethod := Some v\<rparr>)"
    and "\<And>v c m. parseLsnAnnotaionData v = Ok m \<Longrightarrow> I c \<Longrightarrow> I (c\<lparr>healthyCheckOption := Some v\<rparr>)"
    and "\<And>v c m. parseLsnAnnotaionData v = Ok m \<Longrightarrow> I c \<Longrightarrow> I (c\<lparr>balanceMode := Some v\<rparr>)"
    and "\<And>v c m. parseLsnAnnotaionData v = Ok m \<Longrightarrow> I c \<Longrightarrow> I (c\<lparr>ServerCertificate := Some v\<rparr>)"
    and "\<And>v c m. parseLsnAnnotaionData v = Ok m \<Longrightarrow> I c \<Longrightarrow> I (c\<lparr>Protocol := Some v\<rparr>)"
    and "\<And>v c. validListenerTimeout v = Ok () \<Longrightarrow> I c \<Longrightarrow> I (c\<lparr>Timeout := Some v\<rparr>)"
    and "\<And>v c. validListenerScene v = Ok () \<Longrightarrow> I c \<Longrightarrow> I (c\<lparr>Scene := Some v\<rparr>)"
    and "\<And>v c m. parseAnnotationIntoIntIntMap v = Ok m \<Longrightarrow> I c \<Longrightarrow> I (c\<lparr>Forwardfor := Some v\<rparr>)"
    and "\<And>v c m. parseAnnotationIntoIntIntMap v = Ok m \<Longrightarrow> I c \<Longrightarrow> I (c\<lparr>ListenerOption := Some v\<rparr>)"
  shows "I c'"
proof -
  note keep = with_annotation_keeps[where I = I] and ok = valid_config_simps
  from assms(1) obtain c1 c2 c3 c4 c5 c6 c7 c8 where steps:
    "with_annotation ServiceAnnotationListenerHealthyCheckMethod
       (validListenerStringConfig ServiceAnnotationListenerHealthyCheckMethod)
       (\<lambda>v. healthyCheckMethod_update (\<lambda>_. Some v)) ann c = Ok c1"
    "with_annotation ServiceAnnotationListenerHealthyCheckOption
       (validListenerStringConfig ServiceAnnotationListenerHealthyCheckOption)
       (\<lambda>v. healthyCheckOption_update (\<lambda>_. Some v)) ann c1 = Ok c2"
    "with_annotation ServiceAnnotationListenerBalanceMode
       (validListenerStringConfig ServiceAnnotationListenerBalanceMode)
       (\<lambda>v. balanceMode_update (\<lambda>_. Some v)) ann c2 = Ok c3"
    "with_annotation ServiceAnnotationListenerServerCertificate
       (validListenerStringConfig ServiceAnnotationListenerServerCertificate)
       (\<lambda>v. ServerCertificate_update (\<lambda>_. Some v)) ann c3 = Ok c4"
    "with_annotation ServiceAnnotationListenerProtocol
       (validListenerStringConfig ServiceAnnotationListenerProtocol)
       (\<lambda>v. Protocol_update (\<lambda>_. Some v)) ann c4 = Ok c5"
    "with_annotation ServiceAnnotationListenerTimeout validListenerTimeout
       (\<lambda>v. Timeout_update (\<lambda>_. Some v)) ann c5 = Ok c6"
    "with_annotation ServiceAnnotationListenerScene validListenerScene
       (\<lambda>v. Scene_update (\<lambda>_. Some v)) ann c6 = Ok c7"
    "with_annotation ServiceAnnotationListenerForwardfor
       (validListenerIntConfig ServiceAnnotationListenerForwardfor)
       (\<lambda>v. Forwardfor_update (\<lambda>_. Some v)) ann c7 = Ok c8"
    "with_annotation ServiceAnnotationListenerListenerOption
       (validListenerIntConfig ServiceAnnotationListenerListenerOption)
       (\<lambda>v. ListenerOption_update (\<lambda>_. Some v)) ann c8 = Ok c'"
    unfolding parse_listener_def bind_ok_Ok_iff by blast
  have "I c1" by (rule keep[OF steps(1) assms(2)]) (use assms(3) ok in blast)
  then have "I c2" by (rule keep[OF steps(2)]) (use assms(4) ok in blast)
  then have "I c3" by (rule keep[OF steps(3)]) (use assms(5) ok in blast)
  then have "I c4" by (rule keep[OF steps(4)]) (use assms(6) ok in blast)
  then have "I c5" by (rule keep[OF steps(5)]) (use assms(7) ok in blast)
  then have "I c6" by (rule keep[OF steps(6)]) (use assms(8) in blast)
  then have "I c7" by (rule keep[OF steps(7)]) (use assms(9) in blast)
  then have "I c8" by (rule keep[OF steps(8)]) (use assms(10) ok in blast)
  then show "I c'" by (rule keep[OF steps(9)]) (use assms(11) ok in blast)
qed

lemma parse_listener_ok:
  assumes "parse_listener ann c = Ok c'" and "listener_conf_ok c"
  shows "listener_conf_ok c'"
  by (rule parse_listener_keeps[where I = listener_conf_ok, OF assms])
    (auto simp: listener_conf_ok_def)

lemma parse_listener_frame:
  assumes "parse_listener ann c = Ok c'"
  shows "Policy c' = Policy c \<and> LoadBalancerName c' = LoadBalancerName c \<and> EipIDs c' = EipIDs c \<and>
    EipSource c' = EipSource c \<and> NetworkType c' = NetworkType c \<and> VxNetID c' = VxNetID c \<and>
    BackendCountResult c' = BackendCountResult c \<and> BackendCountConfig c' = BackendCountConfig c"
  by (rule parse_listener_keeps[where c = c and I = "\<lambda>d. Policy d = Policy c \<and>
        LoadBalancerName d = LoadBalancerName c \<and> EipIDs d = EipIDs c \<and>
        EipSource d = EipSource c \<and> NetworkType d = NetworkType c \<and> VxNetID d = VxNetID c \<and>
        BackendCountResult d = BackendCountResult c \<and> BackendCountConfig d = BackendCountConfig c", OF assms])
    simp_all

lemma listener_conf_ok_frame [simp]:
  "listener_conf_ok (c\<lparr>listenerName := x\<rparr>) = listener_conf_ok c"
  "listener_conf_ok (c\<lparr>sgName := x1\<rparr>) = listener_conf_ok c"
  "listener_conf_ok (c\<lparr>Policy := x2\<rparr>) = listener_conf_ok c"
  "listener_conf_ok (c\<lparr>LoadBalancerName := x3\<rparr>) = listener_conf_ok c"
  "listener_conf_ok (c\<lparr>ReuseLBID := x4\<rparr>) = listener_conf_ok c"
  "listener_conf_ok (c\<lparr>LoadBalancerType := x5\<rparr>) = listener_conf_ok c"
  "listener_conf_ok (c\<lparr>NodeCount := x6\<rparr>) = listener_conf_ok c"
  "listener_conf_ok (c\<lparr>BackendLabel := x7\<rparr>) = listener_conf_ok c"
  "listener_conf_ok (c\<lparr>BackendCountConfig := x8\<rparr>) = listener_conf_ok c"
  "listener_conf_ok (c\<lparr>NetworkType := x9\<rparr>) = listener_conf_ok c"
  "listener_conf_ok (c\<lparr>VxNetID := x10\<rparr>) = listener_conf_ok c"
  "listener_conf_ok (c\<lparr>InternalIP := x11\<rparr>) = listener_conf_ok c"
  "listener_conf_ok (c\<lparr>InternalReuseID := x12\<rparr>) = listener_conf_ok c"
  "listener_conf_ok (c\<lparr>PlaceGroupID := x13\<rparr>) = listener_conf_ok c"
  "listener_conf_ok (c\<lparr>SecurityGroupID := x14\<rparr>) = listener_conf_ok c"
  "listener_conf_ok (c\<lparr>BackendCountResult := x15\<rparr>) = listener_conf_ok c"
  by (simp_all add: listener_conf_ok_def)

lemma eip_conf_ok_frame [simp]:
  "eip_conf_ok (c\<lparr>listenerName := x0\<rparr>) = eip_conf_ok c"
  "eip_conf_ok (c\<lparr>sgName := x1\<rparr>) = eip_conf_ok c"
  "eip_conf_ok (c\<lparr>Policy := x2\<rparr>) = eip_conf_ok c"
  "eip_conf_ok (c\<lparr>LoadBalancerName := x3\<rparr>) = eip_conf_ok c"
  "eip_conf_ok (c\<lparr>ReuseLBID := x4\<rparr>) = eip_conf_ok c"
  "eip_conf_ok (c\<lparr>LoadBalancerType := x5\<rparr>) = eip_conf_ok c"
  "eip_conf_ok (c\<lparr>NodeCount := x6\<rparr>) = eip_conf_ok c"
  "eip_conf_ok (c\<lparr>BackendLabel := x7\<rparr>) = eip_conf_ok c"
  "eip_conf_ok (c\<lparr>BackendCountConfig := x8\<rparr>) = eip_conf_ok c"
  "eip_conf_ok (c\<lparr>NetworkType := x9\<rparr>) = eip_conf_ok c"
  "eip_conf_ok (c\<lparr>VxNetID := x10\<rparr>) = eip_conf_ok c"
  "eip_conf_ok (c\<lparr>InternalIP := x11\<rparr>) = eip_conf_ok c"
  "eip_conf_ok (c\<lparr>InternalReuseID := x12\<rparr>) = eip_conf_ok c"
  "eip_conf_ok (c\<lparr>PlaceGroupID := x13\<rparr>) = eip_conf_ok c"
  "eip_conf_ok (c\<lparr>SecurityGroupID := x14\<rparr>) = eip_conf_ok c"
  "eip_conf_ok (c\<lparr>BackendCountResult := x15\<rparr>) = eip_conf_ok c"
  "eip_conf_ok (c\<lparr>healthyCheckMethod := x16\<rparr>) = eip_conf_ok c"
  "eip_conf_ok (c\<lparr>healthyCheckOption := x17\<rparr>) = eip_conf_ok c"
  "eip_conf_ok (c\<lparr>balanceMode := x18\<rparr>) = eip_conf_ok c"
  "eip_conf_ok (c\<lparr>ServerCertificate := x19\<rparr>) = eip_conf_ok c"
  "eip_conf_ok (c\<lparr>Protocol := x20\<rparr>) = eip_conf_ok c"
  "eip_conf_ok (c\<lparr>Timeout := x21\<rparr>) = eip_conf_ok c"
  "eip_conf_ok (c\<lparr>Scene := x22\<rparr>) = eip_conf_ok c"
  "eip_conf_ok (c\<lparr>Forwardfor := x23\<rparr>) = eip_conf_ok c"
  "eip_conf_ok (c\<lparr>ListenerOption := x24\<rparr>) = eip_conf_ok c"
  by (simp_all add: eip_conf_ok_def)

lemma parse_backend_keeps:
  assumes "parse_backend ann c = Ok c'" and "I c"
    and "\<And>c l. I c \<Longrightarrow> I (c\<lparr>BackendLabel := l\<rparr>)"
    and "\<And>c n. snd (Atoi n) = None \<Longrightarrow> I c \<Longrightarrow> I (c\<lparr>BackendCountConfig := n\<rparr>)"
  shows "I c'"
  using assms by (auto simp: parse_backend_def Let_def split: option.splits if_splits)

lemma parse_attributes_keeps:
  assumes "parse_attributes ann c = Ok c'" and "I c"
    and "\<And>c t. I c \<Longrightarrow> I (c\<lparr>LoadBalancerType := Some t\<rparr>)"
    and "\<And>c n. I c \<Longrightarrow> I (c\<lparr>NodeCount := Some n\<rparr>)"
  shows "I c'"
proof -
  from assms(1) obtain c1 where
    1: "(case map_of ann ServiceAnnotationLoadBalancerType of
          None \<Rightarrow> Ok c
        | Some lbType \<Rightarrow>
            (case Atoi lbType of
               (t, Some _) \<Rightarrow> Err (Errorf ''pls spec a valid value of loadBalancer type'')
             | (t, None) \<Rightarrow> Ok (c\<lparr>LoadBalancerType := Some t\<rparr>))) = Ok c1" and
    2: "(case map_of ann ServiceAnnotationLoadBalancerNodes of
            None \<Rightarrow> Ok c1
          | Some nodes \<Rightarrow>
              (case Atoi nodes of
                 (num, Some _) \<Rightarrow> Err (Errorf ''pls spec a valid value of loadBalancer node number'')
               | (num, None) \<Rightarrow> Ok (c1\<lparr>NodeCount := Some num\<rparr>))) = Ok c'"
    unfolding parse_attributes_def bind_ok_Ok_iff by blast
  from 1 assms(2,3) have "I c1" by (auto split: option.splits prod.splits)
  with 2 assms(4) show ?thesis by (auto split: option.splits prod.splits)
qed

lemma parse_network_type_frame:
  "NetworkType (parse_network_type cfg ann c) \<in> {NetworkModePublic, NetworkModeInternal}"
  "listener_conf_ok (parse_network_type cfg ann c) = listener_conf_ok c"
  "eip_conf_ok (parse_network_type cfg ann c) = eip_conf_ok c"
  "Policy (parse_network_type cfg ann c) = Policy c"
  "LoadBalancerName (parse_network_type cfg ann c) = LoadBalancerName c"
  "BackendCountResult (parse_network_type cfg ann c) = BackendCountResult c"
  by (simp_all add: parse_network_type_def Let_def)

lemma parse_policy_keeps:
  assumes "parse_policy cluster svc c = Ok c'" and "I c"
    and "\<And>c v. I c \<Longrightarrow> I (c\<lparr>ReuseLBID := v\<rparr>)"
    and "\<And>c v. I c \<Longrightarrow> I (c\<lparr>Policy := v\<rparr>)"
    and "\<And>c v. I c \<Longrightarrow> I (c\<lparr>LoadBalancerName := v\<rparr>)"
  shows "I c'"
  using assms(1,2)
  by (auto simp: parse_policy_def Let_def bind_ok_Ok_iff split: if_splits option.splits
      intro!: assms(3-5))

lemma parse_policy_facts:
  assumes "parse_policy cluster svc c = Ok c'" and "Policy c = []" and "LoadBalancerName c = []"
  shows "policy_ok c'"
    and "LoadBalancerName c' =
      (let s = index_str (annotations svc) ServiceAnnotationLoadBalancerPolicy
       in if s = ReuseExistingLB \<or> s = Shared then [] else exclusive_lb_name cluster svc)"
    and "ReuseLBID c' = index_str (annotations svc) ServiceAnnotationLoadBalancerID"
    and "Policy c' =
      (let s = index_str (annotations svc) ServiceAnnotationLoadBalancerPolicy
       in if s = ReuseExistingLB then ReuseExistingLB else if s = Shared then [] else Exclusive)"
  using assms
  by (auto simp: parse_policy_def Let_def policy_ok_def exclusive_lb_name_def Shared_def
      split: if_splits)

lemma parse_policy_no_panic: "parse_policy cluster svc c \<noteq> Panic" "parse_policy cluster svc c \<noteq> Diverge"
  by (auto simp: parse_policy_def Let_def split: option.splits)

lemma zero_config_ok: "listener_conf_ok zero_config" "Policy zero_config = []"
  "LoadBalancerName zero_config = []" "BackendCountResult zero_config = 0"
  by (simp_all add: listener_conf_ok_def zero_config_def)

lemma parse_eip_ok:
  "eip_conf_ok (parse_eip ann zero_config)" "listener_conf_ok (parse_eip ann zero_config)"
  "Policy (parse_eip ann zero_config) = []" "LoadBalancerName (parse_eip ann zero_config) = []"
  "BackendCountResult (parse_eip ann zero_config) = 0"
  "BackendCountConfig (parse_eip ann zero_config) = []"
  by (auto simp: parse_eip_def Let_def zero_config_def eip_conf_ok_def listener_conf_ok_def
      list_all_iff split: option.splits)

lemma parse_network_frame:
  "eip_conf_ok (parse_network cfg ann c) = eip_conf_ok c"
  "listener_conf_ok (parse_network cfg ann c) = listener_conf_ok c"
  "Policy (parse_network cfg ann c) = Policy c"
  "LoadBalancerName (parse_network cfg ann c) = LoadBalancerName c"
  "BackendCountResult (parse_network cfg ann c) = BackendCountResult c"
  by (auto simp: parse_network_def Let_def eip_conf_ok_def listener_conf_ok_def
      split: option.splits)

text \<open>The sections of a successful parse, one after the other.\<close>

lemma ParseServiceLBConfig_steps:
  assumes "ParseServiceLBConfig cfg cluster svc = Ok conf"
  obtains c0 c1 c2 c3 c4 where
    "c0 = parse_network cfg (annotations svc) (parse_eip (annotations svc) zero_config)"
    "parse_listener (annotations svc) c0 = Ok c1"
    "parse_backend (annotations svc) c1 = Ok c2"
    "parse_attributes (annotations svc) (parse_network_type cfg (annotations svc) c2) = Ok c3"
    "parse_policy cluster svc c3 = Ok c4"
    "conf = c4\<lparr>listenerName := listener_name (svc_Namespace svc) (svc_Name svc),
               sgName := LoadBalancerName c4\<rparr>"
  using assms unfolding ParseServiceLBConfig_def Let_def
  by (auto simp: bind_ok_Ok_iff split: if_splits)

lemma ParseServiceLBConfig_facts:
  assumes "ParseServiceLBConfig cfg cluster svc = Ok conf"
  shows "listener_conf_ok conf" "eip_conf_ok conf" "policy_ok conf"
    "NetworkType conf \<in> {NetworkModePublic, NetworkModeInternal}" "BackendCountResult conf = 0"
    "ReuseLBID conf = index_str (annotations svc) ServiceAnnotationLoadBalancerID"
    "listenerName conf = listener_name (svc_Namespace svc) (svc_Name svc)"
    "LoadBalancerName conf =
       (let s = index_str (annotations svc) ServiceAnnotationLoadBalancerPolicy
        in if s = ReuseExistingLB \<or> s = Shared then [] else exclusive_lb_name cluster svc)"
    "Policy conf =
      (let s = index_str (annotations svc) ServiceAnnotationLoadBalancerPolicy
       in if s = ReuseExistingLB then ReuseExistingLB else if s = Shared then [] else Exclusive)"
proof -
  from assms obtain c0 c1 c2 c3 c4 where s:
    "c0 = parse_network cfg (annotations svc) (parse_eip (annotations svc) zero_config)"
    "parse_listener (annotations svc) c0 = Ok c1"
    "parse_backend (annotations svc) c1 = Ok c2"
    "parse_attributes (annotations svc) (parse_network_type cfg (annotations svc) c2) = Ok c3"
    "parse_policy cluster svc c3 = Ok c4"
    "conf = c4\<lparr>listenerName := listener_name (svc_Namespace svc) (svc_Name svc),
               sgName := LoadBalancerName c4\<rparr>"
    by (rule ParseServiceLBConfig_steps)
  have 0: "listener_conf_ok c0" "eip_conf_ok c0" "Policy c0 = []" "LoadBalancerName c0 = []"
    "BackendCountResult c0 = 0" by (simp_all add: s(1) parse_network_frame parse_eip_ok)
  from parse_listener_ok[OF s(2)] parse_listener_frame[OF s(2)] 0
  have 1: "listener_conf_ok c1" "eip_conf_ok c1" "Policy c1 = []" "LoadBalancerName c1 = []"
    "BackendCountResult c1 = 0" by (simp_all add: eip_conf_ok_def)
  let ?I = "\<lambda>c. listener_conf_ok c \<and> eip_conf_ok c \<and> Policy c = [] \<and> LoadBalancerName c = [] \<and>
    BackendCountResult c = 0"
  let ?J = "\<lambda>c. ?I c \<and> NetworkType c \<in> {NetworkModePublic, NetworkModeInternal}"
  let ?K = "\<lambda>c. listener_conf_ok c \<and> eip_conf_ok c \<and> BackendCountResult c = 0 \<and>
    NetworkType c \<in> {NetworkModePublic, NetworkModeInternal}"
  have "?I c2" by (rule parse_backend_keeps[where I = ?I, OF s(3)]) (simp_all add: 1)
  then have "?J (parse_network_type cfg (annotations svc) c2)"
    using parse_network_type_frame(1) by (simp add: parse_network_type_frame(2-))
  then have 3: "?J c3" by (rule parse_attributes_keeps[where I = ?J, OF s(4)]) simp_all
  then have "?K c4" by (intro parse_policy_keeps[where I = ?K, OF s(5)]) simp_all
  moreover note parse_policy_facts[OF s(5)]
  ultimately show "listener_conf_ok conf" "eip_conf_ok conf" "policy_ok conf"
    "NetworkType conf \<in> {NetworkModePublic, NetworkModeInternal}" "BackendCountResult conf = 0"
    "ReuseLBID conf = index_str (annotations svc) ServiceAnnotationLoadBalancerID"
    "listenerName conf = listener_name (svc_Namespace svc) (svc_Name svc)"
    "LoadBalancerName conf =
       (let s = index_str (annotations svc) ServiceAnnotationLoadBalancerPolicy
        in if s = ReuseExistingLB \<or> s = Shared then [] else exclusive_lb_name cluster svc)"
    "Policy conf =
      (let s = index_str (annotations svc) ServiceAnnotationLoadBalancerPolicy
       in if s = ReuseExistingLB then ReuseExistingLB else if s = Shared then [] else Exclusive)"
    using 3 by (simp_all add: s(6) policy_ok_def)
qed

subsection \<open>Which services are accepted\<close>

lemma accepted_with_annotation:
  "accepted (with_annotation key valid store ann c) \<longleftrightarrow> pred_option (\<lambda>v. valid v = Ok ()) (map_of ann key)"
  by (auto simp: with_annotation_def accepted_bind split: option.splits)

lemma accepted_with_annotation_bind:
  assumes "\<And>c. accepted (f c) = P"
  shows "accepted (bind_ok (with_annotation key valid store ann c) f) \<longleftrightarrow>
    pred_option (\<lambda>v. valid v = Ok ()) (map_of ann key) \<and> P"
  using accepted_with_annotation[of key valid store ann c]
  by (simp only: accepted_bind assms) (auto simp: accepted_def)

definition listener_annotations_ok :: "string_map \<Rightarrow> bool" where
  "listener_annotations_ok ann =
     ((\<forall>key \<in> {ServiceAnnotationListenerHealthyCheckMethod, ServiceAnnotationListenerHealthyCheckOption,
                ServiceAnnotationListenerBalanceMode, ServiceAnnotationListenerServerCertificate,
                ServiceAnnotationListenerProtocol}.
        pred_option (\<lambda>v. accepted (parseLsnAnnotaionData v)) (map_of ann key)) \<and>
      pred_option (\<lambda>v. validListenerTimeout v = Ok ()) (map_of ann ServiceAnnotationListenerTimeout) \<and>
      pred_option (\<lambda>v. validListenerScene v = Ok ()) (map_of ann ServiceAnnotationListenerScene) \<and>
      (\<forall>key \<in> {ServiceAnnotationListenerForwardfor, ServiceAnnotationListenerListenerOption}.
        pred_option (\<lambda>v. accepted (parseAnnotationIntoIntIntMap v)) (map_of ann key)))"

definition number_annotations_ok :: "string_map \<Rightarrow> bool" where
  "number_annotations_ok ann =
     (\<forall>key \<in> {ServiceAnnotationBackendCount, ServiceAnnotationLoadBalancerType,
               ServiceAnnotationLoadBalancerNodes}.
        pred_option (\<lambda>v. snd (Atoi v) = None) (map_of ann key))"

lemma accepted_parse_listener: "accepted (parse_listener ann c) \<longleftrightarrow> listener_annotations_ok ann"
  unfolding parse_listener_def
  by (subst accepted_with_annotation_bind, rule accepted_with_annotation_bind,
      rule accepted_with_annotation_bind, rule accepted_with_annotation_bind,
      rule accepted_with_annotation_bind, rule accepted_with_annotation_bind,
      rule accepted_with_annotation_bind, rule accepted_with_annotation_bind,
      rule accepted_with_annotation)
    (simp add: listener_annotations_ok_def valid_config_simps accepted_def)

lemma accepted_parse_backend:
  "accepted (parse_backend ann c) \<longleftrightarrow>
     pred_option (\<lambda>v. snd (Atoi v) = None) (map_of ann ServiceAnnotationBackendCount)"
  by (auto simp: parse_backend_def Let_def split: option.splits)

lemma accepted_parse_attributes:
  "accepted (parse_attributes ann c) \<longleftrightarrow>
     pred_option (\<lambda>v. snd (Atoi v) = None) (map_of ann ServiceAnnotationLoadBalancerType) \<and>
     pred_option (\<lambda>v. snd (Atoi v) = None) (map_of ann ServiceAnnotationLoadBalancerNodes)"
  by (auto simp: parse_attributes_def accepted_bind split: option.splits prod.splits)

lemma accepted_parse_policy:
  assumes "Policy c = []"
  shows "accepted (parse_policy cluster svc c) \<longleftrightarrow>
    (index_str (annotations svc) ServiceAnnotationLoadBalancerPolicy = ReuseExistingLB \<longrightarrow>
     index_str (annotations svc) ServiceAnnotationLoadBalancerID \<noteq> [])"
  using assms by (simp add: parse_policy_def Let_def Shared_def)

text \<open>The policy is still unset when the strategy is read.\<close>

lemma policy_unset:
  assumes "parse_listener ann (parse_network cfg ann (parse_eip ann zero_config)) = Ok c1"
    and "parse_backend ann c1 = Ok c2"
    and "parse_attributes ann (parse_network_type cfg ann c2) = Ok c3"
  shows "Policy c3 = []"
proof -
  have "Policy c1 = []"
    using parse_listener_frame[OF assms(1)] by (simp add: parse_network_frame parse_eip_ok)
  then have "Policy c2 = []" by (intro parse_backend_keeps[where I = "\<lambda>c. Policy c = []", OF assms(2)]) simp_all
  then have "Policy (parse_network_type cfg ann c2) = []" by (simp add: parse_network_type_frame)
  then show ?thesis
    by (intro parse_attributes_keeps[where I = "\<lambda>c. Policy c = []", OF assms(3)]) simp_all
qed

lemma ParseServiceLBConfig_accepted_iff:
  "accepted (ParseServiceLBConfig cfg cluster svc) \<longleftrightarrow>
     annotations svc \<noteq> [] \<and> listener_annotations_ok (annotations svc) \<and>
     number_annotations_ok (annotations svc) \<and>
     \<not> (index_str (annotations svc) ServiceAnnotationLoadBalancerPolicy = ReuseExistingLB \<and>
        index_str (annotations svc) ServiceAnnotationLoadBalancerID = [])"
proof (cases "annotations svc = []")
  case False
  let ?a = "annotations svc"
  let ?c0 = "parse_network cfg ?a (parse_eip ?a zero_config)"
  have "accepted (ParseServiceLBConfig cfg cluster svc) \<longleftrightarrow>
    (\<exists>c1 c2 c3. parse_listener ?a ?c0 = Ok c1 \<and> parse_backend ?a c1 = Ok c2 \<and>
       parse_attributes ?a (parse_network_type cfg ?a c2) = Ok c3 \<and>
       accepted (parse_policy cluster svc c3))"
    using False
    by (simp add: ParseServiceLBConfig_def Let_def accepted_bind
        accepted_def[of "parse_policy cluster svc c" for c])
  also have "\<dots> \<longleftrightarrow>
    (\<exists>c1 c2 c3. parse_listener ?a ?c0 = Ok c1 \<and> parse_backend ?a c1 = Ok c2 \<and>
       parse_attributes ?a (parse_network_type cfg ?a c2) = Ok c3) \<and>
    (index_str ?a ServiceAnnotationLoadBalancerPolicy = ReuseExistingLB \<longrightarrow>
     index_str ?a ServiceAnnotationLoadBalancerID \<noteq> [])"
    by (meson accepted_parse_policy policy_unset)
  also have "\<dots> \<longleftrightarrow> listener_annotations_ok ?a \<and> number_annotations_ok ?a \<and>
    (index_str ?a ServiceAnnotationLoadBalancerPolicy = ReuseExistingLB \<longrightarrow>
     index_str ?a ServiceAnnotationLoadBalancerID \<noteq> [])"
    using accepted_parse_listener[of ?a] accepted_parse_backend[of ?a]
      accepted_parse_attributes[of ?a]
    unfolding number_annotations_ok_def accepted_def by simp
  finally show ?thesis using False by blast
qed (simp add: ParseServiceLBConfig_def)


text \<open>
  The configuration of an accepted service has listener settings that their parsers accept,
  with timeouts and scenes in range, so that no later step can fail on them.
\<close>
theorem ParseServiceLBConfig_listener_settings:
  assumes "ParseServiceLBConfig cfg cluster svc = Ok conf"
  shows "listener_conf_ok conf"
  by (rule ParseServiceLBConfig_facts(1)[OF assms])

text \<open>
  C18: The policy of an accepted service decides how its load balancer is found: \<open>reuse-lb\<close>
  comes with an id and no name, \<open>exclusive\<close> with the name made of cluster, namespace, service
  and UID. The network type is public or internal and no more than one EIP source is set.
\<close>
theorem ParseServiceLBConfig_policy:
  assumes "ParseServiceLBConfig cfg cluster svc = Ok conf"
  shows "policy_ok conf \<and> eip_conf_ok conf \<and>
    NetworkType conf \<in> {NetworkModePublic, NetworkModeInternal} \<and>
    (Policy conf = Exclusive \<longrightarrow> LoadBalancerName conf = exclusive_lb_name cluster svc) \<and>
    listenerName conf = listener_name (svc_Namespace svc) (svc_Name svc)"
  using ParseServiceLBConfig_facts(1-8)[OF assms]
  by (auto simp: policy_ok_def Let_def split: if_splits)

text \<open>
  The strategy \<open>reuse\<close> (sharing an EIP) never yields a load balancer name or a policy: its
  case tests a field that is still empty.
\<close>
theorem ParseServiceLBConfig_shared_dead:
  assumes "ParseServiceLBConfig cfg cluster svc = Ok conf"
    and "index_str (annotations svc) ServiceAnnotationLoadBalancerPolicy = Shared"
  shows "LoadBalancerName conf = [] \<and> Policy conf \<noteq> Shared"
  using ParseServiceLBConfig_facts(3,8)[OF assms(1)] assms(2)
  by (auto simp: policy_ok_def Let_def)

subsection \<open>Names\<close>

definition plain_name :: "string \<Rightarrow> bool" where
  "plain_name s = (CHR ''_'' \<notin> set s)"

lemma listener_name_prefix_iff:
  assumes "plain_name ns" "plain_name n" "plain_name ns'" "plain_name n'"
  shows "HasPrefix (listener_name ns' n' @ rest) (listener_name ns n) \<longleftrightarrow> ns = ns' \<and> n = n'"
proof -
  have "HasPrefix (listener_name ns' n' @ rest) (listener_name ns n) \<longleftrightarrow>
    prefix (ns @ CHR ''_'' # n @ CHR ''_'' # []) (ns' @ CHR ''_'' # n' @ CHR ''_'' # rest)"
    by (simp add: HasPrefix_def listener_name_def)
  also have "\<dots> \<longleftrightarrow> ns = ns' \<and> n = n'"
    using assms by (simp add: prefix_sep_inject plain_name_def)
  finally show ?thesis .
qed

text \<open>
  C26: Kubernetes names have no underscore, so the listener prefix of a service is a prefix of a
  listener name of another service only when namespace and name agree: services sharing a load
  balancer never take each other's listeners for their own.
\<close>
theorem listener_name_separates_services:
  assumes "plain_name ns" "plain_name n" "plain_name ns'" "plain_name n'"
  shows "HasPrefix (listener_name ns' n') (listener_name ns n) \<longleftrightarrow> ns = ns' \<and> n = n'"
  using listener_name_prefix_iff[OF assms, of "[]"] by simp

theorem listener_name_separates_services_witness:
  "\<not> HasPrefix (listener_name ''default'' ''web-1'') (listener_name ''default'' ''web'')"
  using listener_name_separates_services[of "''default''" "''web''" "''default''" "''web-1''"]
  by (simp add: plain_name_def)

text \<open>
  The names of exclusive load balancers of one cluster are the same only for services that
  agree on namespace, name and the first part of the UID.
\<close>
theorem exclusive_lb_name_inject:
  assumes "plain_name (svc_Namespace s)" "plain_name (svc_Name s)"
    and "plain_name (svc_Namespace t)" "plain_name (svc_Name t)"
  shows "exclusive_lb_name cluster s = exclusive_lb_name cluster t \<longleftrightarrow>
    svc_Namespace s = svc_Namespace t \<and> svc_Name s = svc_Name t \<and>
    GetFirstUID (svc_UID s) = GetFirstUID (svc_UID t)"
  using assms by (simp add: exclusive_lb_name_def append_sep_inject plain_name_def)

definition demo_service :: Service where
  "demo_service =
     \<lparr>svc_Namespace = ''default'', svc_Name = ''web'', svc_UID = ''0a1b-22'',
      svc_Annotations =
        Some [(ServiceAnnotationLoadBalancerPolicy, ''exclusive''),
              (ServiceAnnotationLoadBalancerEipIds, ''eip-1''),
              (ServiceAnnotationListenerTimeout, ''80:60'')],
      svc_Type = ServiceTypeLoadBalancer, svc_ExternalTrafficPolicy = TrafficPolicyCluster,
      svc_Ports = [\<lparr>port_Protocol = ProtocolTCP, port_Port = 80, port_NodePort = 30080\<rparr>]\<rparr>"

definition demo_shared_service :: Service where
  "demo_shared_service =
     demo_service\<lparr>svc_Annotations := Some [(ServiceAnnotationLoadBalancerPolicy, ''reuse'')]\<rparr>"

definition demo_config :: Config where
  "demo_config =
     \<lparr>cfg_Zone = ''pek3'', cfg_DefaultVxNetForLB = ''vxnet-1'', cfg_ClusterID = ''cl-1'',
      cfg_IsApp = False, cfg_TagIDs = [], cfg_InstanceIDs = [], cfg_PlaceGroupID = [],
      cfg_SecurityGroupID = []\<rparr>"

lemmas demo_defs = demo_service_def demo_shared_service_def demo_config_def annotations_def

lemma demo_accepted: "accepted (ParseServiceLBConfig demo_config ''cl-1'' demo_service)"
  by (simp add: ParseServiceLBConfig_accepted_iff)
    (simp add: demo_defs listener_annotations_ok_def number_annotations_ok_def annotation_key_defs
      validListenerTimeout_in_range parseAnnotationIntoIntIntMap_def parse_int_item_def Atoi_def
      digit_val_def ReuseExistingLB_def)

lemma demo_shared_accepted: "accepted (ParseServiceLBConfig demo_config ''cl-1'' demo_shared_service)"
  by (simp add: ParseServiceLBConfig_accepted_iff)
    (simp add: demo_defs listener_annotations_ok_def number_annotations_ok_def annotation_key_defs
      ReuseExistingLB_def)

theorem ParseServiceLBConfig_listener_settings_witness:
  "\<exists>conf. ParseServiceLBConfig demo_config ''cl-1'' demo_service = Ok conf \<and> listener_conf_ok conf"
  using demo_accepted ParseServiceLBConfig_listener_settings unfolding accepted_def by blast

theorem ParseServiceLBConfig_policy_witness:
  "\<exists>conf. ParseServiceLBConfig demo_config ''cl-1'' demo_service = Ok conf \<and> policy_ok conf"
  using demo_accepted ParseServiceLBConfig_policy unfolding accepted_def by blast

theorem ParseServiceLBConfig_shared_dead_witness:
  "\<exists>conf. ParseServiceLBConfig demo_config ''cl-1'' demo_shared_service = Ok conf \<and>
     LoadBalancerName conf = []"
proof -
  have "index_str (annotations demo_shared_service) ServiceAnnotationLoadBalancerPolicy = Shared"
    by (simp add: demo_defs Shared_def)
  with demo_shared_accepted ParseServiceLBConfig_shared_dead show ?thesis
    unfolding accepted_def by blast
qed

theorem exclusive_lb_name_inject_witness:
  "exclusive_lb_name ''cl-1'' demo_service \<noteq>
   exclusive_lb_name ''cl-1'' (demo_service\<lparr>svc_Name := ''web2''\<rparr>)"
  using exclusive_lb_name_inject[of demo_service "demo_service\<lparr>svc_Name := ''web2''\<rparr>" "''cl-1''"]
  by (simp add: demo_service_def plain_name_def)

end
