(* ===== verification/Apis.thy ===== *)
theory Apis
  imports Effects
begin

text \<open>
  \<open>pkg/apis/types.go\<close>: the controller's own view of load balancers, listeners, backends, EIPs and
  security groups. Pointers are options (nil is \<^const>\<open>None\<close>); the embedded Kubernetes metadata,
  which the code never reads or writes, is left out.
\<close>

record EIPSpec =
  eip_EIPName :: "string option"
  eip_Bandwidth :: "int option"

record EIPStatus =
  eip_InUse :: "bool option"
  eip_EIPID :: "string option"

record EIP =
  eip_Spec :: EIPSpec
  eip_Status :: EIPStatus

record LoadBalancerSpec =
  lb_LoadBalancerName :: "string option"
  lb_EIPs :: "string option list"
  lb_LoadBalancerType :: "int option"
  lb_NodeCount :: "int option"
  lb_PrivateIPs :: "string option list"
  lb_VxNetID :: "string option"
  lb_SecurityGroups :: "string option"
  lb_PlaceGroupID :: "string option"

record LoadBalancerBackendSpec =
  be_LoadBalancerBackendName :: "string option"
  be_Port :: "int option"
  be_ResourceID :: "string option"
  be_LoadBalancerListenerID :: "string option"

record LoadBalancerBackendStatus =
  be_LoadBalancerBackendID :: "string option"

record LoadBalancerBackend =
  be_Spec :: LoadBalancerBackendSpec
  be_Status :: LoadBalancerBackendStatus

record LoadBalancerListenerSpec =
  ls_BackendProtocol :: "string option"
  ls_ListenerPort :: "int option"
  ls_ListenerProtocol :: "string option"
  ls_LoadBalancerListenerName :: "string option"
  ls_LoadBalancerListenerID :: "string option"
  ls_LoadBalancerID :: "string option"
  ls_HealthyCheckMethod :: "string option"
  ls_HealthyCheckOption :: "string option"
  ls_BalanceMode :: "string option"
  ls_ServerCertificateID :: "string option list"
  ls_Timeout :: "int option"
  ls_Scene :: "int option"
  ls_Forwardfor :: "int option"
  ls_ListenerOption :: "int option"

record LoadBalancerListenerStatus =
  ls_StatusListenerID :: "string option"
  ls_LoadBalancerBackends :: "LoadBalancerBackend list"

record LoadBalancerListener =
  ls_Spec :: LoadBalancerListenerSpec
  ls_Status :: LoadBalancerListenerStatus

record LoadBalancerStatus =
  lb_LoadBalancerID :: "string option"
  lb_VIP :: "string list"
  lb_CreatedEIPs :: "string option list"
  lb_LoadBalancerListeners :: "LoadBalancerListener list"
  lb_IsApplied :: "int option"

record LoadBalancer =
  lb_Spec :: LoadBalancerSpec
  lb_Status :: LoadBalancerStatus

record SecurityGroupSpec =
  sg_SecurityGroupName :: "string option"

record SecurityGroupStatus =
  sg_SecurityGroupID :: "string option"
  sg_SecurityGroupRuleIDs :: "string option list"
  sg_IsApplied :: "int option"

record SecurityGroup =
  sg_Spec :: SecurityGroupSpec
  sg_Status :: SecurityGroupStatus

text \<open>The zero values of the structs the code allocates before it fills them.\<close>

definition zero_LoadBalancerSpec :: LoadBalancerSpec where
  "zero_LoadBalancerSpec =
     \<lparr>lb_LoadBalancerName = None, lb_EIPs = [], lb_LoadBalancerType = None, lb_NodeCount = None,
      lb_PrivateIPs = [], lb_VxNetID = None, lb_SecurityGroups = None, lb_PlaceGroupID = None\<rparr>"

definition zero_LoadBalancerStatus :: LoadBalancerStatus where
  "zero_LoadBalancerStatus =
     \<lparr>lb_LoadBalancerID = None, lb_VIP = [], lb_CreatedEIPs = [], lb_LoadBalancerListeners = [],
      lb_IsApplied = None\<rparr>"

definition zero_EIPStatus :: EIPStatus where
  "zero_EIPStatus = \<lparr>eip_InUse = None, eip_EIPID = None\<rparr>"

definition zero_ListenerStatus :: LoadBalancerListenerStatus where
  "zero_ListenerStatus = \<lparr>ls_StatusListenerID = None, ls_LoadBalancerBackends = []\<rparr>"

definition zero_BackendStatus :: LoadBalancerBackendStatus where
  "zero_BackendStatus = \<lparr>be_LoadBalancerBackendID = None\<rparr>"

definition zero_SecurityGroupStatus :: SecurityGroupStatus where
  "zero_SecurityGroupStatus =
     \<lparr>sg_SecurityGroupID = None, sg_SecurityGroupRuleIDs = [], sg_IsApplied = None\<rparr>"

end
