(* ===== verification/Listeners.thy ===== *)
theory Listeners
  imports Config Apis
begin

text \<open>
  The listener half of \<open>pkg/qingcloud/loadbalancer_utils.go\<close>: the settings of a listener read from
  the service's annotations, the listeners generated for the ports of a service, and the
  comparison of the listeners on the cloud with the ports (\<open>diffListeners\<close>). A pointer to a fresh
  local variable, which is never nil, is modelled by its value.

  Shown: the comparison divides the listeners and finds the ports that have none; a listener is
  up to date for a port exactly when its settings are those that would be generated for the port
  and its backends use the node port; and listeners just created are up to date.
\<close>

definition defaultListenerHeathyCheckOption :: string where
  "defaultListenerHeathyCheckOption = ''10|5|2|5''"
definition defaultListenerBalanceMode :: string where "defaultListenerBalanceMode = ''roundrobin''"
definition defaultTimeout :: int where "defaultTimeout = 50"
definition defaultScene :: int where "defaultScene = 0"
definition defaultForwardfor :: int where "defaultForwardfor = 0"
definition defaultListenerOption :: int where "defaultListenerOption = 0"

record LoadBalancerIngress =
  ing_IP :: string
  ing_Hostname :: string

text \<open>\<open>convertLoadBalancerStatus\<close> of package qingcloud.\<close>

definition convertLoadBalancerStatus_v1 :: "LoadBalancerStatus \<Rightarrow> LoadBalancerIngress list" where
  "convertLoadBalancerStatus_v1 status =
     map (\<lambda>ip. \<lparr>ing_IP = ip, ing_Hostname = []\<rparr>) (lb_VIP status)"

definition needUpdateAttr :: "LoadBalancerConfig \<Rightarrow> LoadBalancer \<Rightarrow> LoadBalancer option outcome" where
  "needUpdateAttr config status =
     (let result = \<lparr>lb_Spec = zero_LoadBalancerSpec,
                    lb_Status = zero_LoadBalancerStatus
                      \<lparr>lb_LoadBalancerID := lb_LoadBalancerID (lb_Status status)\<rparr>\<rparr>
      in
      bind_ok
        (case NodeCount config of
           None \<Rightarrow> Ok (False, result)
         | Some n \<Rightarrow>
             bind_ok (deref (lb_NodeCount (lb_Spec status))) (\<lambda>m.
               if n \<noteq> m
               then Ok (True, result\<lparr>lb_Spec := (lb_Spec result)\<lparr>lb_NodeCount := Some n\<rparr>\<rparr>)
               else Ok (False, result)))
        (\<lambda>(update, result).
      bind_ok
        (case InternalIP config of
           None \<Rightarrow> Ok (update, result)
         | Some ip \<Rightarrow>
             bind_ok (exists_ok (\<lambda>p. bind_ok (deref p) (\<lambda>q. Ok (q = ip)))
                       (lb_PrivateIPs (lb_Spec status))) (\<lambda>found.
               if \<not> found
               then Ok (True, result\<lparr>lb_Spec := (lb_Spec result)
                               \<lparr>lb_PrivateIPs := lb_PrivateIPs (lb_Spec result) @ [Some ip]\<rparr>\<rparr>)
               else Ok (update, result)))
        (\<lambda>(update, result). Ok (if update then Some result else None))))"

definition filterListeners ::
  "LoadBalancerListener list \<Rightarrow> string \<Rightarrow> string option list outcome" where
  "filterListeners listeners pre =
     bind_ok
       (filter_ok
          (\<lambda>l. bind_ok (deref (ls_LoadBalancerListenerName (ls_Spec l))) (\<lambda>name.
                 Ok (HasPrefix name pre)))
          listeners)
       (\<lambda>ls. Ok (map (\<lambda>l. ls_StatusListenerID (ls_Status l)) ls))"

subsection \<open>The settings of a listener\<close>

record healthyChek =
  hc_method :: "string option"
  hc_option :: "string option"

definition getHealthyCheck :: "(int, healthyChek) gomap option \<Rightarrow> int \<Rightarrow> string \<Rightarrow> healthyChek" where
  "getHealthyCheck annotationConf port proto =
     (let healthyCheck = \<lparr>hc_method = Some proto, hc_option = Some defaultListenerHeathyCheckOption\<rparr> in
      case annotationConf of
        None \<Rightarrow> healthyCheck
      | Some m \<Rightarrow>
          (let hc = (case map_of m port of None \<Rightarrow> \<lparr>hc_method = None, hc_option = None\<rparr> | Some x \<Rightarrow> x);
               healthyCheck =
                 (if hc_option hc \<noteq> None then healthyCheck\<lparr>hc_option := hc_option hc\<rparr> else healthyCheck)
           in if hc_method hc \<noteq> None then healthyCheck\<lparr>hc_method := hc_method hc\<rparr> else healthyCheck))"

definition getBalanceMode :: "(int, string) gomap option \<Rightarrow> int \<Rightarrow> string" where
  "getBalanceMode annotationConf port =
     (case annotationConf of
        None \<Rightarrow> defaultListenerBalanceMode
      | Some m \<Rightarrow>
          (let bm = index_str m port in if bm \<noteq> [] then bm else defaultListenerBalanceMode))"

definition getCertificate :: "(int, string) gomap option \<Rightarrow> int \<Rightarrow> string option" where
  "getCertificate annotationConf port =
     (case annotationConf of
        None \<Rightarrow> None
      | Some m \<Rightarrow> (let certID = index_str m port in if certID \<noteq> [] then Some certID else None))"

definition getProtocol :: "(int, string) gomap option \<Rightarrow> int \<Rightarrow> string option" where
  "getProtocol annotationConf port =
     (let protocol =
        (case annotationConf of
           None \<Rightarrow> []
         | Some m \<Rightarrow>
             (let protocolConf = index_str m port in
              if protocolConf = ''https'' \<or> protocolConf = ''HTTPS'' then ''https''
              else if protocolConf = ''http'' \<or> protocolConf = ''HTTP'' then ''http''
              else if protocolConf = ''tcp'' \<or> protocolConf = ''TCP'' then ''tcp''
              else if protocolConf = ''udp'' \<or> protocolConf = ''UDP'' then ''udp''
              else []))
      in if protocol \<noteq> [] then Some protocol else None)"

definition index_default :: "(int, int) gomap option \<Rightarrow> int \<Rightarrow> int \<Rightarrow> int" where
  "index_default annotationConf port d =
     (case annotationConf of
        None \<Rightarrow> d
      | Some m \<Rightarrow> (case map_of m port of None \<Rightarrow> d | Some t \<Rightarrow> t))"

definition getTimeout :: "(int, int) gomap option \<Rightarrow> int \<Rightarrow> int" where
  "getTimeout annotationConf port = index_default annotationConf port defaultTimeout"

definition getScene :: "(int, int) gomap option \<Rightarrow> int \<Rightarrow> int" where
  "getScene annotationConf port = index_default annotationConf port defaultScene"

definition getForwardfor :: "(int, int) gomap option \<Rightarrow> int \<Rightarrow> int" where
  "getForwardfor annotationConf port = index_default annotationConf port defaultForwardfor"

definition getListenerOption :: "(int, int) gomap option \<Rightarrow> int \<Rightarrow> int" where
  "getListenerOption annotationConf port = index_default annotationConf port defaultListenerOption"

subsection \<open>Parsing the listener settings again\<close>

text \<open>\<open>x, err = f()\<close>: the value is nil when there is an error.\<close>

definition value_and_error :: "('k, 'v) gomap outcome \<Rightarrow> ('k, 'v) gomap \<times> go_error option" where
  "value_and_error r = (case r of Ok m \<Rightarrow> (m, None) | Err e \<Rightarrow> ([], Some e) | _ \<Rightarrow> ([], None))"

definition merge_method :: "(int, healthyChek) gomap \<Rightarrow> int \<times> string \<Rightarrow> (int, healthyChek) gomap" where
  "merge_method h pm = map_set (fst pm) \<lparr>hc_method = Some (snd pm), hc_option = None\<rparr> h"

definition merge_option :: "(int, healthyChek) gomap \<Rightarrow> int \<times> string \<Rightarrow> (int, healthyChek) gomap" where
  "merge_option h po =
     (case map_of h (fst po) of
        Some data \<Rightarrow> map_set (fst po) (data\<lparr>hc_option := Some (snd po)\<rparr>) h
      | None \<Rightarrow> map_set (fst po) \<lparr>hc_method = None, hc_option = Some (snd po)\<rparr> h)"

text \<open>The error of the methods is overwritten when the options are parsed too.\<close>

definition parseHeathyCheck ::
  "LoadBalancerConfig option \<Rightarrow> (int, healthyChek) gomap option outcome" where
  "parseHeathyCheck conf =
     (case conf of
        None \<Rightarrow> Ok None
      | Some c \<Rightarrow>
          if healthyCheckMethod c = None \<and> healthyCheckOption c = None then Ok None
          else
            let (methods, err) =
                  (case healthyCheckMethod c of
                     None \<Rightarrow> ([], None) | Some v \<Rightarrow> value_and_error (parseLsnAnnotaionData v));
                (options, err) =
                  (case healthyCheckOption c of
                     None \<Rightarrow> ([], err) | Some v \<Rightarrow> value_and_error (parseLsnAnnotaionData v))
            in case err of
                 Some e \<Rightarrow> Err e
               | None \<Rightarrow> Ok (Some (foldl merge_option (foldl merge_method [] methods) options)))"

definition parse_setting ::
  "(LoadBalancerConfig \<Rightarrow> string option) \<Rightarrow> (string \<Rightarrow> ('k, 'v) gomap outcome) \<Rightarrow>
   LoadBalancerConfig option \<Rightarrow> ('k, 'v) gomap option outcome" where
  "parse_setting field parse conf =
     (case conf of
        None \<Rightarrow> Ok None
      | Some c \<Rightarrow>
          (case field c of None \<Rightarrow> Ok None | Some v \<Rightarrow> bind_ok (parse v) (\<lambda>m. Ok (Some m))))"

definition parseBalanceMode :: "LoadBalancerConfig option \<Rightarrow> (int, string) gomap option outcome" where
  "parseBalanceMode = parse_setting balanceMode parseLsnAnnotaionData"

definition parseCertificate :: "LoadBalancerConfig option \<Rightarrow> (int, string) gomap option outcome" where
  "parseCertificate = parse_setting ServerCertificate parseLsnAnnotaionData"

definition parseProtocol :: "LoadBalancerConfig option \<Rightarrow> (int, string) gomap option outcome" where
  "parseProtocol = parse_setting Protocol parseLsnAnnotaionData"

definition parseTimeout :: "LoadBalancerConfig option \<Rightarrow> (int, int) gomap option outcome" where
  "parseTimeout = parse_setting Timeout parseAnnotationIntoIntIntMap"

definition parseScene :: "LoadBalancerConfig option \<Rightarrow> (int, int) gomap option outcome" where
  "parseScene = parse_setting Scene parseAnnotationIntoIntIntMap"

definition parseForwardfor :: "LoadBalancerConfig option \<Rightarrow> (int, int) gomap option outcome" where
  "parseForwardfor = parse_setting Forwardfor parseAnnotationIntoIntIntMap"

definition parseListenerOption :: "LoadBalancerConfig option \<Rightarrow> (int, int) gomap option outcome" where
  "parseListenerOption = parse_setting ListenerOption parseAnnotationIntoIntIntMap"

text \<open>The labels that select backends; an empty part is skipped.\<close>

definition parse_label_part ::
  "string \<Rightarrow> (string, string) gomap \<Rightarrow> string \<Rightarrow> (string, string) gomap outcome" where
  "parse_label_part data rst part =
     (if part = [] then Ok rst
      else
        let p = Split part (CHR ''='') in
        if length p \<noteq> 2 then Err (Errorf (''wrong format: ('' @ data @ '')''))
        else Ok (map_set (p ! 0) (p ! 1) rst))"

definition parseAnnotationIntoStringMap :: "string \<Rightarrow> (string, string) gomap outcome" where
  "parseAnnotationIntoStringMap data = fold_ok (parse_label_part data) [] (Split data (CHR '',''))"

definition parseBackendLabel :: "LoadBalancerConfig option \<Rightarrow> (string, string) gomap option outcome" where
  "parseBackendLabel conf =
     (case conf of
        None \<Rightarrow> Ok None
      | Some c \<Rightarrow>
          (if BackendLabel c = [] then Ok None
           else bind_ok (parseAnnotationIntoStringMap (BackendLabel c)) (\<lambda>m. Ok (Some m))))"

subsection \<open>Comparing listeners with ports\<close>

text \<open>\<open>m, _ := parse(conf)\<close>: a failing parser leaves the nil map.\<close>

definition ignore_error :: "'a option outcome \<Rightarrow> 'a option" where
  "ignore_error r = (case r of Ok m \<Rightarrow> m | _ \<Rightarrow> None)"

definition equalCertificate ::
  "LoadBalancerListener \<Rightarrow> LoadBalancerConfig option \<Rightarrow> ServicePort \<Rightarrow> bool outcome" where
  "equalCertificate listener conf port =
     (let certs = ignore_error (parseCertificate conf);
          certID = getCertificate certs (port_Port port)
      in case certID of
           None \<Rightarrow> Ok (length (ls_ServerCertificateID (ls_Spec listener)) = 0)
         | Some c \<Rightarrow>
             exists_ok (\<lambda>cert. bind_ok (deref cert) (\<lambda>x. Ok (x = c)))
               (ls_ServerCertificateID (ls_Spec listener)))"

definition equalProtocol ::
  "LoadBalancerListener \<Rightarrow> LoadBalancerConfig option \<Rightarrow> ServicePort \<Rightarrow> bool outcome" where
  "equalProtocol listener conf port =
     (let protocols = ignore_error (parseProtocol conf);
          lsnProtocol =
            (case getProtocol protocols (port_Port port) of
               None \<Rightarrow> ToLower (port_Protocol port) | Some p \<Rightarrow> p)
      in bind_ok (deref (ls_ListenerProtocol (ls_Spec listener))) (\<lambda>p.
           if lsnProtocol = p then
             (if lsnProtocol = ''https'' then equalCertificate listener conf port else Ok True)
           else Ok False))"

text \<open>\<open>*p == v\<close>, where \<open>p\<close> may be nil.\<close>

definition eq_ptr :: "'a option \<Rightarrow> 'a \<Rightarrow> bool outcome" where
  "eq_ptr p v = bind_ok (deref p) (\<lambda>x. Ok (x = v))"

text \<open>The map from listener ids to the port of the first backend.\<close>

definition add_node_port ::
  "(string, int) gomap \<Rightarrow> LoadBalancerListener \<Rightarrow> (string, int) gomap outcome" where
  "add_node_port svcNodePort listener =
     (case ls_LoadBalancerBackends (ls_Status listener) of
        [] \<Rightarrow> Ok svcNodePort
      | b # _ \<Rightarrow>
          bind_ok (deref (be_Port (be_Spec b))) (\<lambda>p.
          bind_ok (deref (ls_StatusListenerID (ls_Status listener))) (\<lambda>i.
          Ok (map_set i p svcNodePort))))"

definition index_int :: "('k, int) gomap \<Rightarrow> 'k \<Rightarrow> int" where
  "index_int m k = (case map_of m k of None \<Rightarrow> 0 | Some v \<Rightarrow> v)"

text \<open>The condition of both loops of \<open>diffListeners\<close>.\<close>

definition port_matches ::
  "(string, int) gomap \<Rightarrow> LoadBalancerConfig option \<Rightarrow> ServicePort \<Rightarrow> LoadBalancerListener \<Rightarrow>
   bool outcome" where
  "port_matches svcNodePort conf port listener =
     (let portInt = port_Port port;
          spec = ls_Spec listener;
          healthyCheck = getHealthyCheck (ignore_error (parseHeathyCheck conf)) portInt
                           (ToLower (port_Protocol port));
          balanceMode = getBalanceMode (ignore_error (parseBalanceMode conf)) portInt;
          timeout = getTimeout (ignore_error (parseTimeout conf)) portInt;
          scene = getScene (ignore_error (parseScene conf)) portInt;
          forwardfor = getForwardfor (ignore_error (parseForwardfor conf)) portInt;
          listenerOption = getListenerOption (ignore_error (parseListenerOption conf)) portInt
      in
      and_ok (eq_ptr (ls_ListenerPort spec) portInt)
     (and_ok (bind_ok (deref (ls_StatusListenerID (ls_Status listener))) (\<lambda>i.
                Ok (index_int svcNodePort i = port_NodePort port)))
     (and_ok (eq_ptr (ls_BalanceMode spec) balanceMode)
     (and_ok (bind_ok (deref (hc_option healthyCheck)) (eq_ptr (ls_HealthyCheckOption spec)))
     (and_ok (bind_ok (deref (hc_method healthyCheck)) (eq_ptr (ls_HealthyCheckMethod spec)))
     (and_ok (equalProtocol listener conf port)
     (and_ok (eq_ptr (ls_Timeout spec) timeout)
     (and_ok (eq_ptr (ls_Scene spec) scene)
     (and_ok (eq_ptr (ls_Forwardfor spec) forwardfor)
             (eq_ptr (ls_ListenerOption spec) listenerOption))))))))))"

definition diffListeners ::
  "LoadBalancerListener list \<Rightarrow> LoadBalancerConfig option \<Rightarrow> ServicePort list \<Rightarrow>
   (string option list \<times> ServicePort list \<times> LoadBalancerListener list) outcome" where
  "diffListeners listeners conf ports =
     bind_ok (fold_ok add_node_port [] listeners) (\<lambda>svcNodePort.
     bind_ok
       (filter_ok
          (\<lambda>port. bind_ok (exists_ok (\<lambda>l. port_matches svcNodePort conf port l) listeners)
                    (\<lambda>found. Ok (\<not> found)))
          ports) (\<lambda>toAdd.
     bind_ok
       (map_ok
          (\<lambda>l. bind_ok (exists_ok (\<lambda>port. port_matches svcNodePort conf port l) ports)
                 (\<lambda>found. Ok (l, found)))
          listeners) (\<lambda>marked.
     Ok (map (\<lambda>(l, _). ls_StatusListenerID (ls_Status l)) (filter (\<lambda>(_, found). \<not> found) marked),
         toAdd,
         map fst (filter snd marked)))))"

subsection \<open>Generating listeners\<close>

text \<open>The body of the loop: the backend protocol, the listener protocol and the certificates.\<close>

definition choose_protocols ::
  "(int, string) gomap option \<Rightarrow> (int, string) gomap option \<Rightarrow> ServicePort \<Rightarrow>
   (string \<times> string \<times> string option list) outcome" where
  "choose_protocols protocols certs port =
     bind_ok
       (if port_Protocol port = ProtocolUDP then Ok ''udp''
        else if port_Protocol port = ProtocolTCP then Ok ''tcp''
        else Err (Errorf ''loadbalance not support protocol ''))
       (\<lambda>protocol.
          case getProtocol protocols (port_Port port) of
            None \<Rightarrow> Ok (protocol, protocol, [])
          | Some p \<Rightarrow>
              if p = ''https'' then
                (case getCertificate certs (port_Port port) of
                   Some certID \<Rightarrow> Ok (''http'', p, [Some certID])
                 | None \<Rightarrow>
                     Err (Errorf ''loadbalance listener with https protocol must config certificate''))
              else if p = ''http'' then Ok (''http'', p, [])
              else Ok (protocol, p, []))"

record parsed_settings =
  ps_hcs :: "(int, healthyChek) gomap option"
  ps_bms :: "(int, string) gomap option"
  ps_certs :: "(int, string) gomap option"
  ps_protocols :: "(int, string) gomap option"
  ps_timeouts :: "(int, int) gomap option"
  ps_scene :: "(int, int) gomap option"
  ps_forwardfor :: "(int, int) gomap option"
  ps_listenerOption :: "(int, int) gomap option"

definition parse_settings :: "LoadBalancerConfig option \<Rightarrow> parsed_settings outcome" where
  "parse_settings conf =
     bind_ok (parseHeathyCheck conf) (\<lambda>hcs.
     bind_ok (parseBalanceMode conf) (\<lambda>bms.
     bind_ok (parseCertificate conf) (\<lambda>certs.
     bind_ok (parseProtocol conf) (\<lambda>protocols.
     bind_ok (parseTimeout conf) (\<lambda>timeouts.
     bind_ok (parseScene conf) (\<lambda>scene.
     bind_ok (parseForwardfor conf) (\<lambda>forwardfor.
     bind_ok (parseListenerOption conf) (\<lambda>listenerOption.
     Ok \<lparr>ps_hcs = hcs, ps_bms = bms, ps_certs = certs, ps_protocols = protocols,
         ps_timeouts = timeouts, ps_scene = scene, ps_forwardfor = forwardfor,
         ps_listenerOption = listenerOption\<rparr>))))))))"

definition generate_listener ::
  "parsed_settings \<Rightarrow> LoadBalancerConfig \<Rightarrow> LoadBalancer \<Rightarrow> ServicePort \<Rightarrow>
   LoadBalancerListener outcome" where
  "generate_listener ps conf lb port =
     bind_ok (choose_protocols (ps_protocols ps) (ps_certs ps) port)
       (\<lambda>(protocol, listenerProtocol, serverCertificate).
          let healthyCheck = getHealthyCheck (ps_hcs ps) (port_Port port)
                               (ToLower (port_Protocol port)) in
          Ok \<lparr>ls_Spec =
                \<lparr>ls_BackendProtocol = Some protocol,
                 ls_ListenerPort = Some (port_Port port),
                 ls_ListenerProtocol = Some listenerProtocol,
                 ls_LoadBalancerListenerName = Some (listenerName conf),
                 ls_LoadBalancerListenerID = None,
                 ls_LoadBalancerID = lb_LoadBalancerID (lb_Status lb),
                 ls_HealthyCheckMethod = hc_method healthyCheck,
                 ls_HealthyCheckOption = hc_option healthyCheck,
                 ls_BalanceMode = Some (getBalanceMode (ps_bms ps) (port_Port port)),
                 ls_ServerCertificateID = serverCertificate,
                 ls_Timeout = Some (getTimeout (ps_timeouts ps) (port_Port port)),
                 ls_Scene = Some (getScene (ps_scene ps) (port_Port port)),
                 ls_Forwardfor = Some (getForwardfor (ps_forwardfor ps) (port_Port port)),
                 ls_ListenerOption = Some (getListenerOption (ps_listenerOption ps) (port_Port port))\<rparr>,
              ls_Status = zero_ListenerStatus\<rparr>)"

text \<open>The configuration is dereferenced for the listener's name once there is a port.\<close>

definition generateLoadBalancerListeners ::
  "LoadBalancerConfig option \<Rightarrow> LoadBalancer \<Rightarrow> ServicePort list \<Rightarrow>
   LoadBalancerListener list outcome" where
  "generateLoadBalancerListeners conf lb ports =
     bind_ok (parse_settings conf) (\<lambda>ps.
     bind_ok
       (map_ok (\<lambda>port. bind_ok (choose_protocols (ps_protocols ps) (ps_certs ps) port) (\<lambda>_.
                        bind_ok (deref conf) (\<lambda>c. generate_listener ps c lb port)))
          ports) (\<lambda>result.
     if length result \<le> 0 then Err (Errorf ''service has not port'') else Ok result))"

subsection \<open>What a port asks for\<close>

text \<open>
  The abstract view: the settings a listener has, those that a port asks for under a
  configuration, and when the two fit.
\<close>

record settings =
  set_port :: "int option"
  set_mode :: "string option"
  set_check_method :: "string option"
  set_check_option :: "string option"
  set_protocol :: "string option"
  set_timeout :: "int option"
  set_scene :: "int option"
  set_forwardfor :: "int option"
  set_option :: "int option"

definition settings_of :: "LoadBalancerListener \<Rightarrow> settings" where
  "settings_of l =
     (let s = ls_Spec l in
      \<lparr>set_port = ls_ListenerPort s, set_mode = ls_BalanceMode s,
       set_check_method = ls_HealthyCheckMethod s, set_check_option = ls_HealthyCheckOption s,
       set_protocol = ls_ListenerProtocol s, set_timeout = ls_Timeout s, set_scene = ls_Scene s,
       set_forwardfor = ls_Forwardfor s, set_option = ls_ListenerOption s\<rparr>)"

definition wanted_protocol :: "LoadBalancerConfig option \<Rightarrow> ServicePort \<Rightarrow> string" where
  "wanted_protocol conf port =
     (case getProtocol (ignore_error (parseProtocol conf)) (port_Port port) of
        None \<Rightarrow> ToLower (port_Protocol port) | Some p \<Rightarrow> p)"

definition wanted_settings :: "LoadBalancerConfig option \<Rightarrow> ServicePort \<Rightarrow> settings" where
  "wanted_settings conf port =
     (let n = port_Port port;
          hc = getHealthyCheck (ignore_error (parseHeathyCheck conf)) n (ToLower (port_Protocol port)) in
      \<lparr>set_port = Some n,
       set_mode = Some (getBalanceMode (ignore_error (parseBalanceMode conf)) n),
       set_check_method = hc_method hc, set_check_option = hc_option hc,
       set_protocol = Some (wanted_protocol conf port),
       set_timeout = Some (getTimeout (ignore_error (parseTimeout conf)) n),
       set_scene = Some (getScene (ignore_error (parseScene conf)) n),
       set_forwardfor = Some (getForwardfor (ignore_error (parseForwardfor conf)) n),
       set_option = Some (getListenerOption (ignore_error (parseListenerOption conf)) n)\<rparr>)"

definition certificate_fits ::
  "LoadBalancerConfig option \<Rightarrow> ServicePort \<Rightarrow> LoadBalancerListener \<Rightarrow> bool" where
  "certificate_fits conf port l =
     (wanted_protocol conf port = ''https'' \<longrightarrow>
      (case getCertificate (ignore_error (parseCertificate conf)) (port_Port port) of
         None \<Rightarrow> ls_ServerCertificateID (ls_Spec l) = []
       | Some c \<Rightarrow> Some c \<in> set (ls_ServerCertificateID (ls_Spec l))))"

definition fits ::
  "(string, int) gomap \<Rightarrow> LoadBalancerConfig option \<Rightarrow> ServicePort \<Rightarrow> LoadBalancerListener \<Rightarrow> bool"
where
  "fits node_ports conf port l =
     (settings_of l = wanted_settings conf port \<and> certificate_fits conf port l \<and>
      index_int node_ports (the (ls_StatusListenerID (ls_Status l))) = port_NodePort port)"

text \<open>The pointers that the comparison reads are set, as they are in a listener from the cloud.\<close>

definition complete :: "LoadBalancerListener \<Rightarrow> bool" where
  "complete l =
     (let s = ls_Spec l in
      ls_ListenerPort s \<noteq> None \<and> ls_BalanceMode s \<noteq> None \<and> ls_HealthyCheckMethod s \<noteq> None \<and>
      ls_HealthyCheckOption s \<noteq> None \<and> ls_ListenerProtocol s \<noteq> None \<and> ls_Timeout s \<noteq> None \<and>
      ls_Scene s \<noteq> None \<and> ls_Forwardfor s \<noteq> None \<and> ls_ListenerOption s \<noteq> None \<and>
      ls_StatusListenerID (ls_Status l) \<noteq> None \<and> None \<notin> set (ls_ServerCertificateID s) \<and>
      (\<forall>b \<in> set (ls_LoadBalancerBackends (ls_Status l)). be_Port (be_Spec b) \<noteq> None))"

text \<open>The map of node ports, without the panics.\<close>

definition node_port_entry ::
  "(string, int) gomap \<Rightarrow> LoadBalancerListener \<Rightarrow> (string, int) gomap" where
  "node_port_entry m l =
     (case ls_LoadBalancerBackends (ls_Status l) of
        [] \<Rightarrow> m
      | b # _ \<Rightarrow> map_set (the (ls_StatusListenerID (ls_Status l))) (the (be_Port (be_Spec b))) m)"

definition node_ports :: "LoadBalancerListener list \<Rightarrow> (string, int) gomap" where
  "node_ports ls = foldl node_port_entry [] ls"

lemma eq_ptr_Some [simp]: "eq_ptr (Some x) v = Ok (x = v)"
  by (simp add: eq_ptr_def)

lemma getHealthyCheck_set:
  "hc_method (getHealthyCheck m port proto) \<noteq> None" "hc_option (getHealthyCheck m port proto) \<noteq> None"
  by (auto simp: getHealthyCheck_def Let_def split: option.splits)

lemma equalProtocol_complete:
  assumes "complete l"
  shows "equalProtocol l conf port =
    Ok (ls_ListenerProtocol (ls_Spec l) = Some (wanted_protocol conf port) \<and>
        certificate_fits conf port l)"
proof -
  have certs: "exists_ok (\<lambda>cert. bind_ok (deref cert) (\<lambda>x. Ok (x = c)))
      (ls_ServerCertificateID (ls_Spec l)) = Ok (Some c \<in> set (ls_ServerCertificateID (ls_Spec l)))" for c
  proof (subst exists_ok_Ok[where P = "\<lambda>x. x = Some c"])
    fix x assume "x \<in> set (ls_ServerCertificateID (ls_Spec l))"
    moreover have "None \<notin> set (ls_ServerCertificateID (ls_Spec l))"
      using assms by (simp add: complete_def Let_def)
    ultimately have "x \<noteq> None" by metis
    then show "bind_ok (deref x) (\<lambda>x. Ok (x = c)) = Ok (x = Some c)" by auto
  qed auto
  from assms obtain p where "ls_ListenerProtocol (ls_Spec l) = Some p"
    by (auto simp: complete_def Let_def)
  then show ?thesis
    by (auto simp: equalProtocol_def equalCertificate_def wanted_protocol_def certificate_fits_def
        certs Let_def split: option.splits)
qed

lemma port_matches_complete:
  assumes "complete l"
  shows "port_matches m conf port l = Ok (fits m conf port l)"
proof -
  obtain a b where hc: "hc_method (getHealthyCheck (ignore_error (parseHeathyCheck conf))
      (port_Port port) (ToLower (port_Protocol port))) = Some a"
    "hc_option (getHealthyCheck (ignore_error (parseHeathyCheck conf))
      (port_Port port) (ToLower (port_Protocol port))) = Some b"
    using getHealthyCheck_set by fast
  obtain p mode m' o' t sc f lo i proto where
    "ls_ListenerPort (ls_Spec l) = Some p" "ls_BalanceMode (ls_Spec l) = Some mode"
    "ls_HealthyCheckMethod (ls_Spec l) = Some m'" "ls_HealthyCheckOption (ls_Spec l) = Some o'"
    "ls_Timeout (ls_Spec l) = Some t" "ls_Scene (ls_Spec l) = Some sc"
    "ls_Forwardfor (ls_Spec l) = Some f" "ls_ListenerOption (ls_Spec l) = Some lo"
    "ls_StatusListenerID (ls_Status l) = Some i" "ls_ListenerProtocol (ls_Spec l) = Some proto"
    using assms by (auto simp: complete_def Let_def)
  then show ?thesis
    by (simp add: port_matches_def Let_def hc equalProtocol_complete[OF assms] fits_def
        settings_of_def wanted_settings_def) auto
qed

lemma fold_add_node_port:
  assumes "\<And>l. l \<in> set ls \<Longrightarrow> complete l"
  shows "fold_ok add_node_port m ls = Ok (foldl node_port_entry m ls)"
proof (rule fold_ok_Ok)
  fix m l assume "l \<in> set ls"
  then have c: "complete l" by (rule assms)
  show "add_node_port m l = Ok (node_port_entry m l)"
  proof (cases "ls_LoadBalancerBackends (ls_Status l)")
    case (Cons b bs)
    with c have "be_Port (be_Spec b) \<noteq> None" "ls_StatusListenerID (ls_Status l) \<noteq> None"
      by (simp_all add: complete_def Let_def)
    with Cons show ?thesis by (auto simp: add_node_port_def node_port_entry_def)
  qed (simp add: add_node_port_def node_port_entry_def)
qed

lemma diffListeners_Ok:
  assumes "\<And>l. l \<in> set ls \<Longrightarrow> complete l"
  shows "diffListeners ls conf ports =
    Ok (map (\<lambda>l. ls_StatusListenerID (ls_Status l))
          (filter (\<lambda>l. \<not> (\<exists>p \<in> set ports. fits (node_ports ls) conf p l)) ls),
        filter (\<lambda>p. \<not> (\<exists>l \<in> set ls. fits (node_ports ls) conf p l)) ports,
        filter (\<lambda>l. \<exists>p \<in> set ports. fits (node_ports ls) conf p l) ls)"
proof -
  let ?np = "node_ports ls"
  have ports: "filter_ok (\<lambda>port. bind_ok (exists_ok (\<lambda>l. port_matches ?np conf port l) ls)
      (\<lambda>found. Ok (\<not> found))) ports = Ok (filter (\<lambda>p. \<not> (\<exists>l \<in> set ls. fits ?np conf p l)) ports)"
  proof (rule filter_ok_Ok)
    fix port assume "port \<in> set ports"
    show "bind_ok (exists_ok (\<lambda>l. port_matches ?np conf port l) ls) (\<lambda>found. Ok (\<not> found)) =
        Ok (\<not> (\<exists>l \<in> set ls. fits ?np conf port l))"
      using exists_ok_Ok[of ls "\<lambda>l. port_matches ?np conf port l" "\<lambda>l. fits ?np conf port l"]
        assms by (simp add: port_matches_complete)
  qed
  have marked: "map_ok (\<lambda>l. bind_ok (exists_ok (\<lambda>port. port_matches ?np conf port l) ports)
      (\<lambda>found. Ok (l, found))) ls = Ok (map (\<lambda>l. (l, \<exists>p \<in> set ports. fits ?np conf p l)) ls)"
  proof (rule map_ok_Ok)
    fix l assume "l \<in> set ls"
    then show "bind_ok (exists_ok (\<lambda>port. port_matches ?np conf port l) ports)
        (\<lambda>found. Ok (l, found)) = Ok (l, \<exists>p \<in> set ports. fits ?np conf p l)"
      using exists_ok_Ok[of ports "\<lambda>port. port_matches ?np conf port l" "\<lambda>p. fits ?np conf p l"]
        assms by (simp add: port_matches_complete)
  qed
  show ?thesis
    unfolding diffListeners_def
    by (simp add: fold_add_node_port[OF assms] node_ports_def[symmetric] ports marked filter_map
        comp_def)
qed

subsection \<open>Generated listeners\<close>

lemma parseAnnotation_of_Timeout: "validListenerTimeout v = Ok () \<Longrightarrow> \<exists>m. parseAnnotationIntoIntIntMap v = Ok m"
  by (auto simp: validListenerTimeout_def bind_ok_Ok_iff)

lemma parseAnnotation_of_Scene: "validListenerScene v = Ok () \<Longrightarrow> \<exists>m. parseAnnotationIntoIntIntMap v = Ok m"
  by (auto simp: validListenerScene_def bind_ok_Ok_iff)

lemma parse_setting_accepted:
  "pred_option (\<lambda>v. \<exists>m. parse v = Ok m) (field c) \<Longrightarrow> \<exists>m. parse_setting field parse (Some c) = Ok m"
  by (auto simp: parse_setting_def split: option.splits)

lemma parseHeathyCheck_accepted:
  assumes "pred_option (\<lambda>v. \<exists>m. parseLsnAnnotaionData v = Ok m) (healthyCheckMethod c)"
    and "pred_option (\<lambda>v. \<exists>m. parseLsnAnnotaionData v = Ok m) (healthyCheckOption c)"
  shows "\<exists>m. parseHeathyCheck (Some c) = Ok m"
  using assms by (auto simp: parseHeathyCheck_def value_and_error_def Let_def split: option.splits)

lemma parse_settings_accepted:
  assumes "listener_conf_ok c"
  shows "\<exists>ps. parse_settings (Some c) = Ok ps"
proof -
  note ok = assms[unfolded listener_conf_ok_def]
  have t: "pred_option (\<lambda>v. \<exists>m. parseAnnotationIntoIntIntMap v = Ok m) (Timeout c)"
    "pred_option (\<lambda>v. \<exists>m. parseAnnotationIntoIntIntMap v = Ok m) (Scene c)"
    using ok by (auto elim!: option.pred_mono_strong intro: parseAnnotation_of_Timeout
        parseAnnotation_of_Scene)
  obtain m1 m2 m3 m4 m5 m6 m7 m8 where
    "parseHeathyCheck (Some c) = Ok m1" "parseBalanceMode (Some c) = Ok m2"
    "parseCertificate (Some c) = Ok m3" "parseProtocol (Some c) = Ok m4"
    "parseTimeout (Some c) = Ok m5" "parseScene (Some c) = Ok m6"
    "parseForwardfor (Some c) = Ok m7" "parseListenerOption (Some c) = Ok m8"
    using parseHeathyCheck_accepted[of c] ok t
      parse_setting_accepted[of parseLsnAnnotaionData balanceMode c]
      parse_setting_accepted[of parseLsnAnnotaionData ServerCertificate c]
      parse_setting_accepted[of parseLsnAnnotaionData Protocol c]
      parse_setting_accepted[of parseAnnotationIntoIntIntMap Timeout c]
      parse_setting_accepted[of parseAnnotationIntoIntIntMap Scene c]
      parse_setting_accepted[of parseAnnotationIntoIntIntMap Forwardfor c]
      parse_setting_accepted[of parseAnnotationIntoIntIntMap ListenerOption c]
    unfolding parseBalanceMode_def parseCertificate_def parseProtocol_def parseTimeout_def
      parseScene_def parseForwardfor_def parseListenerOption_def by metis
  then show ?thesis by (simp add: parse_settings_def)
qed

lemma parse_settings_fields:
  assumes "parse_settings conf = Ok ps"
  shows "ps_hcs ps = ignore_error (parseHeathyCheck conf)"
    and "ps_bms ps = ignore_error (parseBalanceMode conf)"
    and "ps_certs ps = ignore_error (parseCertificate conf)"
    and "ps_protocols ps = ignore_error (parseProtocol conf)"
    and "ps_timeouts ps = ignore_error (parseTimeout conf)"
    and "ps_scene ps = ignore_error (parseScene conf)"
    and "ps_forwardfor ps = ignore_error (parseForwardfor conf)"
    and "ps_listenerOption ps = ignore_error (parseListenerOption conf)"
  using assms by (auto simp: parse_settings_def bind_ok_Ok_iff ignore_error_def)

text \<open>A port can be served: TCP or UDP, and a certificate where HTTPS is asked for.\<close>

definition servable :: "LoadBalancerConfig option \<Rightarrow> ServicePort \<Rightarrow> bool" where
  "servable conf port =
     (port_Protocol port \<in> {ProtocolTCP, ProtocolUDP} \<and>
      (getProtocol (ignore_error (parseProtocol conf)) (port_Port port) = Some ''https'' \<longrightarrow>
       getCertificate (ignore_error (parseCertificate conf)) (port_Port port) \<noteq> None))"

lemma choose_protocols_accepted:
  assumes "parse_settings conf = Ok ps"
  shows "accepted (choose_protocols (ps_protocols ps) (ps_certs ps) port) \<longleftrightarrow> servable conf port"
  using parse_settings_fields[OF assms]
  by (auto simp: choose_protocols_def servable_def accepted_bind split: option.splits)

lemma generate_listener_accepted:
  assumes "parse_settings conf = Ok ps"
  shows "accepted (generate_listener ps c lb port) \<longleftrightarrow> servable conf port"
  unfolding choose_protocols_accepted[OF assms, symmetric] generate_listener_def Let_def
  by (cases "choose_protocols (ps_protocols ps) (ps_certs ps) port") auto

lemma accepted_map_ok: "accepted (map_ok f xs) \<longleftrightarrow> (\<forall>x \<in> set xs. accepted (f x))"
  by (induction xs) (auto simp: accepted_def bind_ok_Ok_iff)

lemma generateLoadBalancerListeners_steps:
  "generateLoadBalancerListeners (Some c) lb ports =
     bind_ok (parse_settings (Some c)) (\<lambda>ps.
     bind_ok (map_ok (generate_listener ps c lb) ports) (\<lambda>result.
     if length result \<le> 0 then Err (Errorf ''service has not port'') else Ok result))"
proof -
  have "bind_ok (choose_protocols (ps_protocols ps) (ps_certs ps) port) (\<lambda>_. generate_listener ps c lb port) =
      generate_listener ps c lb port" for ps port
    by (cases "choose_protocols (ps_protocols ps) (ps_certs ps) port")
      (simp_all add: generate_listener_def)
  then show ?thesis by (simp add: generateLoadBalancerListeners_def)
qed

text \<open>What the protocols chosen for a port are.\<close>

lemma ToLower_protocols: "ToLower ProtocolTCP = ''tcp''" "ToLower ProtocolUDP = ''udp''"
  by code_simp+

lemma choose_protocols_wanted:
  assumes "parse_settings conf = Ok ps"
    and "choose_protocols (ps_protocols ps) (ps_certs ps) port = Ok (bp, p, certs)"
  shows "p = wanted_protocol conf port \<and> None \<notin> set certs \<and>
    (p = ''https'' \<longrightarrow> (\<exists>c. getCertificate (ignore_error (parseCertificate conf)) (port_Port port) = Some c \<and>
          certs = [Some c]))"
proof -
  note fields = parse_settings_fields[OF assms(1)]
  have low: "port_Protocol port = ProtocolTCP \<or> port_Protocol port = ProtocolUDP"
    using assms(2) by (simp add: choose_protocols_def split: if_splits)
  have c: "choose_protocols (ps_protocols ps) (ps_certs ps) port =
      (case getProtocol (ps_protocols ps) (port_Port port) of
         None \<Rightarrow> Ok (ToLower (port_Protocol port), ToLower (port_Protocol port), [])
       | Some p \<Rightarrow>
           if p = ''https'' then
             (case getCertificate (ps_certs ps) (port_Port port) of
                Some certID \<Rightarrow> Ok (''http'', p, [Some certID])
              | None \<Rightarrow>
                  Err (Errorf ''loadbalance listener with https protocol must config certificate''))
           else if p = ''http'' then Ok (''http'', p, [])
           else Ok (ToLower (port_Protocol port), p, []))"
    using low by (auto simp only: choose_protocols_def ToLower_protocols bind_ok_simps if_True
        if_False refl policy_names_distinct simp_thms)
  show ?thesis
  proof (cases "getProtocol (ps_protocols ps) (port_Port port)")
    case None
    with assms(2)[unfolded c] low None[unfolded fields] show ?thesis
      by (auto simp: wanted_protocol_def ToLower_protocols)
  next
    case (Some q)
    with assms(2)[unfolded c] Some[unfolded fields] show ?thesis
      by (auto simp: wanted_protocol_def fields split: if_splits option.splits)
  qed
qed

lemma generate_listener_wanted:
  assumes "parse_settings conf = Ok ps" and "generate_listener ps c lb port = Ok l"
  shows "settings_of l = wanted_settings conf port"
    and "certificate_fits conf port l"
    and "ls_LoadBalancerListenerName (ls_Spec l) = Some (listenerName c)"
    and "ls_LoadBalancerID (ls_Spec l) = lb_LoadBalancerID (lb_Status lb)"
    and "None \<notin> set (ls_ServerCertificateID (ls_Spec l))"
proof -
  from assms(2) obtain bp p certs where
    p: "choose_protocols (ps_protocols ps) (ps_certs ps) port = Ok (bp, p, certs)"
    by (auto simp: generate_listener_def bind_ok_Ok_iff)
  note wanted = choose_protocols_wanted[OF assms(1) p]
  note l = assms(2)[unfolded generate_listener_def p, symmetric]
  show "settings_of l = wanted_settings conf port"
    using l wanted
    by (simp add: settings_of_def wanted_settings_def Let_def parse_settings_fields[OF assms(1)])
  show "certificate_fits conf port l"
    using l wanted by (auto simp: certificate_fits_def Let_def)
  show "None \<notin> set (ls_ServerCertificateID (ls_Spec l))"
    using l wanted by (simp add: Let_def)
qed (use assms(2) in \<open>auto simp: generate_listener_def bind_ok_Ok_iff Let_def\<close>)

subsection \<open>Lookups in the map of node ports\<close>

lemma foldl_node_port_other:
  assumes "i \<notin> (\<lambda>l. the (ls_StatusListenerID (ls_Status l))) ` set ls"
  shows "map_of (foldl node_port_entry m ls) i = map_of m i"
  using assms
  by (induction ls arbitrary: m) (auto simp: node_port_entry_def split: list.splits)

text \<open>The port of the first backend, and 0 when there is none.\<close>

definition first_backend_port :: "LoadBalancerListener \<Rightarrow> int" where
  "first_backend_port l =
     (case ls_LoadBalancerBackends (ls_Status l) of [] \<Rightarrow> 0 | b # _ \<Rightarrow> the (be_Port (be_Spec b)))"

lemma foldl_node_port_lookup:
  assumes "distinct (map (\<lambda>l. the (ls_StatusListenerID (ls_Status l))) ls)" and "l \<in> set ls"
    and "map_of m (the (ls_StatusListenerID (ls_Status l))) = None"
  shows "index_int (foldl node_port_entry m ls) (the (ls_StatusListenerID (ls_Status l))) =
    first_backend_port l"
  using assms
proof (induction ls arbitrary: m)
  case (Cons x ls)
  let ?i = "the (ls_StatusListenerID (ls_Status l))"
  show ?case
  proof (cases "x = l")
    case True
    with Cons.prems have "?i \<notin> (\<lambda>l. the (ls_StatusListenerID (ls_Status l))) ` set ls" by simp
    then have e: "index_int (foldl node_port_entry m (x # ls)) ?i = index_int (node_port_entry m l) ?i"
      by (simp add: index_int_def True foldl_node_port_other)
    show ?thesis
      unfolding e using Cons.prems(3)
      by (cases "ls_LoadBalancerBackends (ls_Status l)")
        (simp_all add: index_int_def first_backend_port_def node_port_entry_def)
  next
    case False
    with Cons.prems have "l \<in> set ls" "the (ls_StatusListenerID (ls_Status x)) \<noteq> ?i" by auto
    with Cons.prems have "map_of (node_port_entry m x) ?i = None"
      by (auto simp: node_port_entry_def split: list.splits)
    with Cons \<open>l \<in> set ls\<close> show ?thesis by simp
  qed
qed simp

lemma node_ports_lookup:
  assumes "distinct (map (\<lambda>l. ls_StatusListenerID (ls_Status l)) ls)" and "l \<in> set ls"
    and "\<And>l. l \<in> set ls \<Longrightarrow> complete l"
  shows "index_int (node_ports ls) (the (ls_StatusListenerID (ls_Status l))) = first_backend_port l"
proof -
  have ids: "ls_StatusListenerID (ls_Status l) \<noteq> None" if "l \<in> set ls" for l
    using assms(3)[OF that] by (simp add: complete_def Let_def)
  have "inj_on (\<lambda>l. the (ls_StatusListenerID (ls_Status l))) (set ls)"
  proof (rule inj_onI)
    fix x y assume x: "x \<in> set ls" and y: "y \<in> set ls"
      and "the (ls_StatusListenerID (ls_Status x)) = the (ls_StatusListenerID (ls_Status y))"
    with ids[OF x] ids[OF y] have "ls_StatusListenerID (ls_Status x) = ls_StatusListenerID (ls_Status y)"
      by auto
    with assms(1) x y show "x = y" by (auto simp: distinct_map inj_on_def)
  qed
  moreover have "distinct ls" using assms(1) by (simp add: distinct_map)
  ultimately show ?thesis
    unfolding node_ports_def
    by (intro foldl_node_port_lookup assms(2)) (simp_all add: distinct_map)
qed

text \<open>
  \<open>g\<close> as the cloud shows it once it is created and its first backend listens on the node port
  of \<open>port\<close>.
\<close>

definition created_as :: "LoadBalancerListener \<Rightarrow> ServicePort \<Rightarrow> LoadBalancerListener \<Rightarrow> bool" where
  "created_as g port l =
     (settings_of l = settings_of g \<and>
      ls_ServerCertificateID (ls_Spec l) = ls_ServerCertificateID (ls_Spec g) \<and>
      ls_StatusListenerID (ls_Status l) \<noteq> None \<and>
      list_all (\<lambda>b. be_Port (be_Spec b) \<noteq> None) (ls_LoadBalancerBackends (ls_Status l)) \<and>
      first_backend_port l = port_NodePort port)"

lemma wanted_settings_complete:
  assumes "settings_of l = wanted_settings conf port" and "ls_StatusListenerID (ls_Status l) \<noteq> None"
    and "None \<notin> set (ls_ServerCertificateID (ls_Spec l))"
    and "list_all (\<lambda>b. be_Port (be_Spec b) \<noteq> None) (ls_LoadBalancerBackends (ls_Status l))"
  shows "complete l"
proof -
  from assms(1) have
    "ls_ListenerPort (ls_Spec l) \<noteq> None \<and> ls_BalanceMode (ls_Spec l) \<noteq> None \<and>
     ls_HealthyCheckMethod (ls_Spec l) \<noteq> None \<and> ls_HealthyCheckOption (ls_Spec l) \<noteq> None \<and>
     ls_ListenerProtocol (ls_Spec l) \<noteq> None \<and> ls_Timeout (ls_Spec l) \<noteq> None \<and>
     ls_Scene (ls_Spec l) \<noteq> None \<and> ls_Forwardfor (ls_Spec l) \<noteq> None \<and>
     ls_ListenerOption (ls_Spec l) \<noteq> None"
    unfolding settings_of_def wanted_settings_def Let_def settings.ext_inject
    by (metis getHealthyCheck_set option.distinct(1))
  with assms(2-4) show ?thesis by (simp add: complete_def Let_def list_all_iff)
qed

lemma generateLoadBalancerListeners_wanted:
  assumes "generateLoadBalancerListeners (Some c) lb ports = Ok gs"
  shows "list_all2 (\<lambda>port g. settings_of g = wanted_settings (Some c) port \<and>
      certificate_fits (Some c) port g \<and> None \<notin> set (ls_ServerCertificateID (ls_Spec g)) \<and>
      ls_LoadBalancerListenerName (ls_Spec g) = Some (listenerName c) \<and>
      ls_LoadBalancerID (ls_Spec g) = lb_LoadBalancerID (lb_Status lb)) ports gs"
proof -
  from assms obtain ps where ps: "parse_settings (Some c) = Ok ps"
    and "map_ok (generate_listener ps c lb) ports = Ok gs"
    by (auto simp: generateLoadBalancerListeners_steps bind_ok_Ok_iff split: if_splits)
  then have "list_all2 (\<lambda>port g. generate_listener ps c lb port = Ok g) ports gs"
    by (simp add: map_ok_Ok_iff)
  then show ?thesis
    by (rule list_all2_mono) (simp add: generate_listener_wanted[OF ps])
qed

lemma created_fits:
  assumes "settings_of g = wanted_settings conf port" and "certificate_fits conf port g"
    and "created_as g port l" and "index_int m (the (ls_StatusListenerID (ls_Status l))) = first_backend_port l"
  shows "fits m conf port l"
  using assms by (auto simp: fits_def created_as_def certificate_fits_def split: option.splits)

subsection \<open>Properties\<close>

text \<open>
  C13: On listeners whose fields are set, the comparison is the division by \<open>fits\<close>: the kept
  listeners are those that fit some port, the deleted ones are the others, and the added ports
  are those that no listener fits.
\<close>
theorem diffListeners_divides:
  assumes "\<And>l. l \<in> set ls \<Longrightarrow> complete l"
  shows "diffListeners ls conf ports =
    Ok (map (\<lambda>l. ls_StatusListenerID (ls_Status l))
          (filter (\<lambda>l. \<not> (\<exists>p \<in> set ports. fits (node_ports ls) conf p l)) ls),
        filter (\<lambda>p. \<not> (\<exists>l \<in> set ls. fits (node_ports ls) conf p l)) ports,
        filter (\<lambda>l. \<exists>p \<in> set ports. fits (node_ports ls) conf p l) ls)"
  using assms by (rule diffListeners_Ok)

text \<open>
  C20: With a configuration that was accepted, listeners can be generated exactly when there is a
  port, every port is TCP or UDP, and a certificate is named for every HTTPS port.
\<close>
theorem generateLoadBalancerListeners_accepts:
  assumes "listener_conf_ok c"
  shows "accepted (generateLoadBalancerListeners (Some c) lb ports) \<longleftrightarrow>
    ports \<noteq> [] \<and> list_all (servable (Some c)) ports"
proof -
  obtain ps where ps: "parse_settings (Some c) = Ok ps" using parse_settings_accepted[OF assms] by blast
  have "list_all (servable (Some c)) ports \<longleftrightarrow> accepted (map_ok (generate_listener ps c lb) ports)"
    by (simp add: accepted_map_ok generate_listener_accepted[OF ps] list_all_iff)
  moreover have "length gs = length ports" if "map_ok (generate_listener ps c lb) ports = Ok gs" for gs
    using that by (auto simp: map_ok_Ok_iff dest: list_all2_lengthD)
  ultimately show ?thesis
    by (cases "map_ok (generate_listener ps c lb) ports")
      (auto simp: generateLoadBalancerListeners_steps ps split: if_splits)
qed

text \<open>
  C19: The generated listeners are those that the ports ask for, one per port and in order, under
  the service's own name and for its load balancer.
\<close>
theorem generateLoadBalancerListeners_settings:
  assumes "generateLoadBalancerListeners (Some c) lb ports = Ok gs"
  shows "list_all2 (\<lambda>port g. settings_of g = wanted_settings (Some c) port \<and>
      certificate_fits (Some c) port g \<and>
      ls_LoadBalancerListenerName (ls_Spec g) = Some (listenerName c) \<and>
      ls_LoadBalancerID (ls_Spec g) = lb_LoadBalancerID (lb_Status lb)) ports gs"
  using generateLoadBalancerListeners_wanted[OF assms] by (rule list_all2_mono) blast

lemma diffListeners_created:
  assumes "generateLoadBalancerListeners (Some c) lb ports = Ok gs"
    and "list_all2 (\<lambda>(g, port) l. created_as g port l) (zip gs ports) ls"
    and "distinct (map (\<lambda>l. ls_StatusListenerID (ls_Status l)) ls)"
  shows "diffListeners ls (Some c) ports = Ok ([], [], ls)"
proof -
  note wanted = generateLoadBalancerListeners_wanted[OF assms(1)]
  have len: "length gs = length ports" "length ls = length ports"
    using wanted assms(2) by (auto dest!: list_all2_lengthD)
  have step: "complete (ls ! i) \<and>
      (index_int m (the (ls_StatusListenerID (ls_Status (ls ! i)))) = first_backend_port (ls ! i) \<longrightarrow>
       fits m (Some c) (ports ! i) (ls ! i))" if "i < length ports" for i m
  proof -
    have g: "settings_of (gs ! i) = wanted_settings (Some c) (ports ! i)"
      "certificate_fits (Some c) (ports ! i) (gs ! i)"
      "None \<notin> set (ls_ServerCertificateID (ls_Spec (gs ! i)))"
      using wanted that by (auto dest: list_all2_nthD)
    moreover have l: "created_as (gs ! i) (ports ! i) (ls ! i)"
      using list_all2_nthD[OF assms(2), of i] that len by simp
    moreover from l g have "complete (ls ! i)"
      by (intro wanted_settings_complete) (simp_all add: created_as_def)
    ultimately show ?thesis using created_fits by blast
  qed
  have complete: "complete l" if "l \<in> set ls" for l
    using that step len by (metis in_set_conv_nth)
  have fit: "fits (node_ports ls) (Some c) (ports ! i) (ls ! i)" if "i < length ports" for i
    using step[OF that] node_ports_lookup[OF assms(3) _ complete] that len by (metis nth_mem)
  have "\<exists>p \<in> set ports. fits (node_ports ls) (Some c) p l" if "l \<in> set ls" for l
    using that fit len by (metis in_set_conv_nth nth_mem)
  moreover have "\<exists>l \<in> set ls. fits (node_ports ls) (Some c) p l" if "p \<in> set ports" for p
    using that fit len by (metis in_set_conv_nth nth_mem)
  ultimately show ?thesis by (simp add: diffListeners_Ok[OF complete] filter_empty_conv)
qed

text \<open>
  C9: Listeners that were generated for the ports, created with different ids, and given backends
  on the node ports are all kept by the next comparison: nothing is deleted and nothing added.
\<close>
theorem diffListeners_steady:
  assumes "generateLoadBalancerListeners (Some c) lb ports = Ok gs"
    and "list_all2 (\<lambda>(g, port) l. created_as g port l) (zip gs ports) ls"
    and "distinct (map (\<lambda>l. ls_StatusListenerID (ls_Status l)) ls)"
  shows "diffListeners ls (Some c) ports = Ok ([], [], ls)"
  using assms by (rule diffListeners_created)

text \<open>
  A listener that has no backend never fits a port that has a node port: it is deleted, and
  the ports that only it served are added again, even when its settings are right.
\<close>
theorem diffListeners_without_backends:
  assumes "\<And>l. l \<in> set ls \<Longrightarrow> complete l"
    and "distinct (map (\<lambda>l. ls_StatusListenerID (ls_Status l)) ls)"
    and "l \<in> set ls" and "ls_LoadBalancerBackends (ls_Status l) = []"
    and "\<And>p. p \<in> set ports \<Longrightarrow> port_NodePort p \<noteq> 0"
  shows "\<exists>del add keep. diffListeners ls conf ports = Ok (del, add, keep) \<and>
    ls_StatusListenerID (ls_Status l) \<in> set del \<and> l \<notin> set keep"
proof -
  have "index_int (node_ports ls) (the (ls_StatusListenerID (ls_Status l))) = 0"
    using node_ports_lookup[OF assms(2,3,1)] assms(4) by (simp add: first_backend_port_def)
  then have "\<not> fits (node_ports ls) conf p l" if "p \<in> set ports" for p
    using assms(5)[OF that] by (simp add: fits_def)
  then show ?thesis using assms(3) by (auto simp: diffListeners_Ok[OF assms(1)])
qed

subsection \<open>Sample data and witnesses\<close>

definition demo_port :: ServicePort where
  "demo_port = \<lparr>port_Protocol = ProtocolTCP, port_Port = 80, port_NodePort = 30080\<rparr>"

definition demo_lb :: LoadBalancer where
  "demo_lb =
     \<lparr>lb_Spec = zero_LoadBalancerSpec,
      lb_Status = zero_LoadBalancerStatus\<lparr>lb_LoadBalancerID := Some ''lb-1''\<rparr>\<rparr>"

definition demo_backend :: LoadBalancerBackend where
  "demo_backend =
     \<lparr>be_Spec = \<lparr>be_LoadBalancerBackendName = Some ''node1'', be_Port = Some 30080,
                 be_ResourceID = Some ''node1'', be_LoadBalancerListenerID = Some ''lbl-1''\<rparr>,
      be_Status = \<lparr>be_LoadBalancerBackendID = Some ''lbb-1''\<rparr>\<rparr>"

definition demo_generated :: LoadBalancerListener where
  "demo_generated =
     \<lparr>ls_Spec =
        \<lparr>ls_BackendProtocol = Some ''tcp'', ls_ListenerPort = Some 80,
         ls_ListenerProtocol = Some ''tcp'', ls_LoadBalancerListenerName = Some [],
         ls_LoadBalancerListenerID = None, ls_LoadBalancerID = Some ''lb-1'',
         ls_HealthyCheckMethod = Some ''tcp'', ls_HealthyCheckOption = Some ''10|5|2|5'',
         ls_BalanceMode = Some ''roundrobin'', ls_ServerCertificateID = [],
         ls_Timeout = Some 50, ls_Scene = Some 0, ls_Forwardfor = Some 0,
         ls_ListenerOption = Some 0\<rparr>,
      ls_Status = zero_ListenerStatus\<rparr>"

definition demo_listener :: "LoadBalancerBackend list \<Rightarrow> LoadBalancerListener" where
  "demo_listener bs =
     demo_generated\<lparr>ls_Status := \<lparr>ls_StatusListenerID = Some ''lbl-1'', ls_LoadBalancerBackends = bs\<rparr>\<rparr>"

lemma demo_listener_complete: "complete (demo_listener []) \<and> complete (demo_listener [demo_backend])"
  by (simp add: complete_def demo_listener_def demo_generated_def demo_backend_def)

lemma demo_generate:
  "generateLoadBalancerListeners (Some zero_config) demo_lb [demo_port] = Ok [demo_generated]"
  by code_simp

lemma zero_config_listener_ok: "listener_conf_ok zero_config"
  by (simp add: listener_conf_ok_def zero_config_def)

theorem diffListeners_divides_witness:
  "diffListeners [demo_listener [demo_backend]] (Some zero_config) [demo_port\<lparr>port_NodePort := 31000\<rparr>] =
     Ok ([Some ''lbl-1''], [demo_port\<lparr>port_NodePort := 31000\<rparr>], [])"
proof -
  have "\<not> fits (node_ports [demo_listener [demo_backend]]) (Some zero_config)
      (demo_port\<lparr>port_NodePort := 31000\<rparr>) (demo_listener [demo_backend])"
    by code_simp
  with diffListeners_divides[of "[demo_listener [demo_backend]]" "Some zero_config"
      "[demo_port\<lparr>port_NodePort := 31000\<rparr>]"] demo_listener_complete
  show ?thesis by (simp add: demo_listener_def)
qed

theorem generateLoadBalancerListeners_accepts_witness:
  "accepted (generateLoadBalancerListeners (Some zero_config) demo_lb [demo_port]) \<and>
   \<not> accepted (generateLoadBalancerListeners (Some zero_config) demo_lb [demo_port\<lparr>port_Protocol := ''SCTP''\<rparr>])"
proof -
  have "servable (Some zero_config) demo_port"
    "\<not> servable (Some zero_config) (demo_port\<lparr>port_Protocol := ''SCTP''\<rparr>)"
    by code_simp+
  then show ?thesis
    using generateLoadBalancerListeners_accepts[OF zero_config_listener_ok] by simp
qed

theorem generateLoadBalancerListeners_settings_witness:
  "settings_of demo_generated = wanted_settings (Some zero_config) demo_port"
  using generateLoadBalancerListeners_settings[OF demo_generate] by simp

theorem diffListeners_steady_witness:
  "diffListeners [demo_listener [demo_backend]] (Some zero_config) [demo_port] =
     Ok ([], [], [demo_listener [demo_backend]])"
  using diffListeners_steady[OF demo_generate, of "[demo_listener [demo_backend]]"]
  by (simp add: created_as_def settings_of_def demo_listener_def first_backend_port_def
      demo_backend_def demo_port_def demo_generated_def)

theorem diffListeners_without_backends_witness:
  "\<exists>del add keep. diffListeners [demo_listener []] (Some zero_config) [demo_port] = Ok (del, add, keep) \<and>
     ls_StatusListenerID (ls_Status (demo_listener [])) \<in> set del \<and> demo_listener [] \<notin> set keep"
  using demo_listener_complete
  by (intro diffListeners_without_backends) (simp_all add: demo_listener_def demo_port_def)

end
