(* ===== verification/Backends.thy ===== *)
theory Backends
  imports Listeners
begin

text \<open>
  The backend half of \<open>pkg/qingcloud/loadbalancer_utils.go\<close> and the methods \<open>diffBackend\<close> of
  \<open>pkg/qingcloud/qingcloud_utils.go\<close>: the backends generated for nodes, and the comparison of the
  backends of a listener with the nodes, with the random choice when a service limits the number
  of its backends. Writing through the pointer to a listener's protocol is a returned listener.

  Shown: a limited comparison leaves exactly the configured number of backends whenever it returns;
  it returns (with a fair random source) when no backend name contains the ids of two nodes; and
  inputs where one node id is contained in another's on which it panics or never ends.
\<close>

definition DefaultBackendCount :: int where "DefaultBackendCount = 3"

definition nodeToInstanceIDs :: "Node \<Rightarrow> string" where
  "nodeToInstanceIDs node =
     (case map_of (node_Annotations node) NodeAnnotationInstanceID of
        Some instanceid \<Rightarrow> instanceid
      | None \<Rightarrow> node_Name node)"

text \<open>The loop over the ports; the listener's protocol is overwritten in place.\<close>

fun find_listener_port ::
  "LoadBalancerListener \<Rightarrow> ServicePort list \<Rightarrow> (int option \<times> LoadBalancerListener) outcome" where
  "find_listener_port listener [] = Ok (None, listener)"
| "find_listener_port listener (port # ports) =
     bind_ok (deref (ls_ListenerProtocol (ls_Spec listener))) (\<lambda>p.
     let lsnProtocol =
           (if (p = ''https'' \<or> p = ''http'') \<and> port_Protocol port = ProtocolTCP then ''tcp'' else p);
         listener = listener\<lparr>ls_Spec := (ls_Spec listener)\<lparr>ls_ListenerProtocol := Some lsnProtocol\<rparr>\<rparr>
     in bind_ok (and_ok (eq_ptr (ls_ListenerPort (ls_Spec listener)) (port_Port port))
                        (Ok (EqualFold lsnProtocol (port_Protocol port)))) (\<lambda>found.
          if found then Ok (Some (port_NodePort port), listener)
          else find_listener_port listener ports))"

definition getLoadBalancerListenerNodePort ::
  "LoadBalancerListener \<Rightarrow> ServicePort list \<Rightarrow> (int option \<times> LoadBalancerListener) outcome" where
  "getLoadBalancerListenerNodePort listener ports =
     (case ls_LoadBalancerBackends (ls_Status listener) of
        b # _ \<Rightarrow> Ok (be_Port (be_Spec b), listener)
      | [] \<Rightarrow> find_listener_port listener ports)"

fun generate_backends ::
  "Node list \<Rightarrow> LoadBalancerListener \<Rightarrow> ServicePort list \<Rightarrow> LoadBalancerBackend list \<Rightarrow>
   LoadBalancerBackend list outcome" where
  "generate_backends [] listener ports backends = Ok backends"
| "generate_backends (node # nodes) listener ports backends =
     bind_ok (getLoadBalancerListenerNodePort listener ports) (\<lambda>(port, listener).
     let nodeName = nodeToInstanceIDs node;
         backend = \<lparr>be_Spec =
                      \<lparr>be_LoadBalancerBackendName = Some nodeName,
                       be_Port = port,
                       be_ResourceID = Some nodeName,
                       be_LoadBalancerListenerID = ls_StatusListenerID (ls_Status listener)\<rparr>,
                    be_Status = zero_BackendStatus\<rparr>
     in generate_backends nodes listener ports (backends @ [backend]))"

definition generateLoadBalancerBackends ::
  "Node list \<Rightarrow> LoadBalancerListener \<Rightarrow> ServicePort list \<Rightarrow> LoadBalancerBackend list outcome" where
  "generateLoadBalancerBackends nodes listener ports = generate_backends nodes listener ports []"

fun nodesHasBackend :: "string \<Rightarrow> Node list \<Rightarrow> bool" where
  "nodesHasBackend backend [] = False"
| "nodesHasBackend backend (node # nodes) =
     (if Contains backend (nodeToInstanceIDs node) then True else nodesHasBackend backend nodes)"

fun backendsHasNode :: "Node \<Rightarrow> LoadBalancerBackend list \<Rightarrow> bool outcome" where
  "backendsHasNode node [] = Ok False"
| "backendsHasNode node (backend # backends) =
     bind_ok (deref (be_LoadBalancerBackendName (be_Spec backend))) (\<lambda>name.
       if Contains name (nodeToInstanceIDs node) then Ok True else backendsHasNode node backends)"

text \<open>The ids of the backends without a node, and those of the backends that keep theirs.\<close>

fun split_backends ::
  "Node list \<Rightarrow> LoadBalancerBackend list \<Rightarrow> (string option list \<times> string option list) outcome" where
  "split_backends nodes [] = Ok ([], [])"
| "split_backends nodes (backend # backends) =
     bind_ok (deref (be_LoadBalancerBackendName (be_Spec backend))) (\<lambda>name.
     bind_ok (split_backends nodes backends) (\<lambda>(toDelete, left).
       if \<not> nodesHasBackend name nodes
       then Ok (be_LoadBalancerBackendID (be_Status backend) # toDelete, left)
       else Ok (toDelete, be_LoadBalancerBackendID (be_Status backend) # left)))"

definition nodes_without_backend ::
  "Node list \<Rightarrow> LoadBalancerBackend list \<Rightarrow> Node list outcome" where
  "nodes_without_backend nodes backends =
     filter_ok (\<lambda>node. bind_ok (backendsHasNode node backends) (\<lambda>b. Ok (\<not> b))) nodes"

text \<open>The function \<open>diffBackend\<close> of \<open>loadbalancer_utils.go\<close>, which only the tests call.\<close>

definition diffBackend_func ::
  "LoadBalancerListener \<Rightarrow> Node list \<Rightarrow> (string option list \<times> Node list) outcome" where
  "diffBackend_func listener nodes =
     bind_ok (split_backends nodes (ls_LoadBalancerBackends (ls_Status listener))) (\<lambda>(toDelete, _).
     bind_ok (nodes_without_backend nodes (ls_LoadBalancerBackends (ls_Status listener))) (\<lambda>toAdd.
     Ok (toDelete, toAdd)))"

definition getRandomNodes :: "Node list \<Rightarrow> int \<Rightarrow> (entropy, Node list) go" where
  "getRandomNodes nodes count e =
     (case draw_loop nodes count 0 {} [] e of None \<Rightarrow> (Diverge, e) | Some r \<Rightarrow> r)"

definition getDefaultBackendCount :: "Node list \<Rightarrow> int" where
  "getDefaultBackendCount nodes =
     (if 3 < length nodes then
        (let backendCountResult = int (length nodes div 3) in
         if backendCountResult < 3 then DefaultBackendCount else backendCountResult)
      else 0)"

text \<open>The method \<open>diffBackend\<close> of \<open>qingcloud_utils.go\<close>.\<close>

definition diffBackend ::
  "LoadBalancerListener \<Rightarrow> Node list \<Rightarrow> LoadBalancerConfig \<Rightarrow> Service \<Rightarrow>
   (entropy, string option list \<times> Node list) go" where
  "diffBackend listener nodes conf svc =
     (let backends = ls_LoadBalancerBackends (ls_Status listener) in
      bind_go (lift (split_backends nodes backends)) (\<lambda>(toDelete, backendLeftID).
      if svc_ExternalTrafficPolicy svc = TrafficPolicyCluster \<and> BackendCountResult conf \<noteq> 0 then
        (let backendLeftCount = int (length backends) - int (length toDelete) in
         if BackendCountResult conf < backendLeftCount then
           bind_go (GetRandomItems backendLeftID (backendLeftCount - BackendCountResult conf))
             (\<lambda>more. ret (toDelete @ more, []))
         else
           bind_go (lift (nodes_without_backend nodes backends)) (\<lambda>nodeLeft.
           bind_go (getRandomNodes nodeLeft (BackendCountResult conf - backendLeftCount))
             (\<lambda>toAdd. ret (toDelete, toAdd))))
      else
        bind_go (lift (nodes_without_backend nodes backends)) (\<lambda>toAdd. ret (toDelete, toAdd))))"

lemma getRandomNodes_eq: "getRandomNodes nodes count = GetRandomItems nodes count"
  by (simp add: fun_eq_iff getRandomNodes_def GetRandomItems_def)

interpretation nodes: sampler getRandomNodes
  unfolding getRandomNodes_eq[abs_def] by (rule items.sampler_axioms)

subsection \<open>The comparison without its panics\<close>

definition matches :: "LoadBalancerBackend \<Rightarrow> Node \<Rightarrow> bool" where
  "matches b n = Contains (the (be_LoadBalancerBackendName (be_Spec b))) (nodeToInstanceIDs n)"

definition named :: "LoadBalancerBackend list \<Rightarrow> bool" where
  "named bs = list_all (\<lambda>b. be_LoadBalancerBackendName (be_Spec b) \<noteq> None) bs"

abbreviation backend_id :: "LoadBalancerBackend \<Rightarrow> string option" where
  "backend_id b \<equiv> be_LoadBalancerBackendID (be_Status b)"

definition kept :: "Node list \<Rightarrow> LoadBalancerBackend list \<Rightarrow> LoadBalancerBackend list" where
  "kept ns bs = filter (\<lambda>b. \<exists>n \<in> set ns. matches b n) bs"

definition stale :: "Node list \<Rightarrow> LoadBalancerBackend list \<Rightarrow> LoadBalancerBackend list" where
  "stale ns bs = filter (\<lambda>b. \<not> (\<exists>n \<in> set ns. matches b n)) bs"

definition missing :: "Node list \<Rightarrow> LoadBalancerBackend list \<Rightarrow> Node list" where
  "missing ns bs = filter (\<lambda>n. \<not> (\<exists>b \<in> set bs. matches b n)) ns"

definition limited :: "LoadBalancerConfig \<Rightarrow> Service \<Rightarrow> bool" where
  "limited conf svc =
     (svc_ExternalTrafficPolicy svc = TrafficPolicyCluster \<and> BackendCountResult conf \<noteq> 0)"

lemma kept_stale_length: "length (kept ns bs) + length (stale ns bs) = length bs"
  unfolding kept_def stale_def by (rule length_filter_split)

lemma nodesHasBackend_iff: "nodesHasBackend name ns \<longleftrightarrow> (\<exists>n \<in> set ns. Contains name (nodeToInstanceIDs n))"
  by (induction ns) auto

lemma backendsHasNode_Ok: "named bs \<Longrightarrow> backendsHasNode n bs = Ok (\<exists>b \<in> set bs. matches b n)"
  by (induction bs) (auto simp: named_def matches_def)

lemma split_backends_Ok:
  "named bs \<Longrightarrow> split_backends ns bs = Ok (map backend_id (stale ns bs), map backend_id (kept ns bs))"
  by (induction bs) (auto simp: named_def stale_def kept_def nodesHasBackend_iff matches_def)

lemma nodes_without_backend_Ok: "named bs \<Longrightarrow> nodes_without_backend ns bs = Ok (missing ns bs)"
  unfolding nodes_without_backend_def missing_def
  by (rule filter_ok_Ok) (simp add: backendsHasNode_Ok)

text \<open>Without the names, the comparison panics.\<close>

lemma split_backends_panics: "\<not> named bs \<Longrightarrow> split_backends ns bs = Panic"
proof (induction bs)
  case (Cons b bs)
  then show ?case by (cases "be_LoadBalancerBackendName (be_Spec b)") (auto simp: named_def)
qed (simp add: named_def)

lemma diffBackend_steps:
  assumes "named (ls_LoadBalancerBackends (ls_Status listener))"
  shows "diffBackend listener ns conf svc e =
    (let bs = ls_LoadBalancerBackends (ls_Status listener); n = int (length (kept ns bs)) in
     if limited conf svc then
       (if BackendCountResult conf < n then
          bind_go (GetRandomItems (map backend_id (kept ns bs)) (n - BackendCountResult conf))
            (\<lambda>more. ret (map backend_id (stale ns bs) @ more, [])) e
        else
          bind_go (getRandomNodes (missing ns bs) (BackendCountResult conf - n))
            (\<lambda>toAdd. ret (map backend_id (stale ns bs), toAdd)) e)
     else (Ok (map backend_id (stale ns bs), missing ns bs), e))"
proof -
  let ?bs = "ls_LoadBalancerBackends (ls_Status listener)"
  have n: "int (length ?bs) - int (length (stale ns ?bs)) = int (length (kept ns ?bs))"
    using kept_stale_length[of ns ?bs] by simp
  show ?thesis
    using assms
    by (simp add: diffBackend_def Let_def split_backends_Ok nodes_without_backend_Ok limited_def n)
qed

subsection \<open>Properties of the comparison\<close>

lemma diffBackend_leaves:
  assumes "diffBackend listener ns conf svc e = (Ok (del, add), e')"
    and "limited conf svc"
  shows "int (length (ls_LoadBalancerBackends (ls_Status listener))) - int (length del) + int (length add) =
      BackendCountResult conf \<and>
    set del \<subseteq> backend_id ` set (ls_LoadBalancerBackends (ls_Status listener)) \<and>
    set add \<subseteq> set (missing ns (ls_LoadBalancerBackends (ls_Status listener)))"
proof -
  let ?bs = "ls_LoadBalancerBackends (ls_Status listener)"
  let ?n = "int (length (kept ns ?bs))"
  have named: "named ?bs"
    using assms(1) split_backends_panics[of ?bs ns] by (cases "named ?bs") (auto simp: diffBackend_def)
  have len: "int (length ?bs) = ?n + int (length (stale ns ?bs))"
    using kept_stale_length[of ns ?bs] by linarith
  show ?thesis
  proof (cases "BackendCountResult conf < ?n")
    case True
    then obtain more where m: "GetRandomItems (map backend_id (kept ns ?bs))
        (?n - BackendCountResult conf) e = (Ok more, e')"
      and del: "del = map backend_id (stale ns ?bs) @ more" "add = []"
      using assms by (auto simp: diffBackend_steps[OF named] Let_def bind_go_Ok_iff)
    from items.sample_length[OF m] True len del
    have "int (length ?bs) - int (length del) + int (length add) = BackendCountResult conf" by simp
    with items.sample_subset[OF m] del show ?thesis by (auto simp: kept_def stale_def)
  next
    case False
    then obtain e'' where m: "getRandomNodes (missing ns ?bs) (BackendCountResult conf - ?n) e = (Ok add, e'')"
      and del: "del = map backend_id (stale ns ?bs)"
      using assms by (auto simp: diffBackend_steps[OF named] Let_def bind_go_Ok_iff)
    from nodes.sample_length[OF m] False len del
    have "int (length ?bs) - int (length del) + int (length add) = BackendCountResult conf" by simp
    with nodes.sample_subset[OF m] del show ?thesis by (auto simp: stale_def)
  qed
qed

text \<open>
  C10: With a limit on the number of backends, whenever the comparison returns, deleting and
  adding what it says leaves exactly that number of backends; only nodes without a backend are
  added and only backends of the listener are deleted.
\<close>
theorem diffBackend_count:
  assumes "diffBackend listener ns conf svc e = (Ok (del, add), e')"
    and "limited conf svc"
  shows "int (length (ls_LoadBalancerBackends (ls_Status listener))) - int (length del) + int (length add) =
      BackendCountResult conf \<and>
    set del \<subseteq> backend_id ` set (ls_LoadBalancerBackends (ls_Status listener)) \<and>
    set add \<subseteq> set (missing ns (ls_LoadBalancerBackends (ls_Status listener)))"
  using assms by (rule diffBackend_leaves)

text \<open>No backend's name contains the ids of two of the nodes.\<close>

definition unambiguous :: "Node list \<Rightarrow> LoadBalancerBackend list \<Rightarrow> bool" where
  "unambiguous ns bs =
     (distinct ns \<and>
      (\<forall>b \<in> set bs. \<forall>n \<in> set ns. \<forall>n' \<in> set ns. matches b n \<and> matches b n' \<longrightarrow> n = n'))"

lemma missing_length:
  assumes "unambiguous ns bs"
  shows "length ns \<le> length (missing ns bs) + length (kept ns bs)"
proof -
  let ?m = "filter (\<lambda>n. \<exists>b \<in> set bs. matches b n) ns"
  define pick where "pick n = (SOME b. b \<in> set bs \<and> matches b n)" for n
  have pick: "pick n \<in> set bs \<and> matches (pick n) n" if "n \<in> set ?m" for n
    using that someI_ex[of "\<lambda>b. b \<in> set bs \<and> matches b n"] by (auto simp: pick_def)
  have "inj_on pick (set ?m)"
  proof (rule inj_onI)
    fix x y assume x: "x \<in> set ?m" and y: "y \<in> set ?m" and "pick x = pick y"
    with pick[OF x] pick[OF y] assms show "x = y"
      by (auto simp: unambiguous_def)
  qed
  moreover have "pick ` set ?m \<subseteq> set (kept ns bs)" using pick by (auto simp: kept_def)
  ultimately have "card (set ?m) \<le> card (set (kept ns bs))" by (simp add: card_inj_on_le)
  also have "\<dots> \<le> length (kept ns bs)" by (rule card_length)
  finally have "length ?m \<le> length (kept ns bs)"
    using assms by (simp add: unambiguous_def distinct_card del: set_filter)
  moreover have "length (missing ns bs) + length ?m = length ns"
    unfolding missing_def by (subst add.commute) (rule length_filter_split)
  ultimately show ?thesis by linarith
qed

lemma diffBackend_completes:
  assumes "named (ls_LoadBalancerBackends (ls_Status listener))"
    and "unambiguous ns (ls_LoadBalancerBackends (ls_Status listener))"
    and "0 \<le> BackendCountResult conf" and "BackendCountResult conf \<le> int (length ns)"
    and "\<And>n. fair n e"
  shows "\<exists>del add e'. diffBackend listener ns conf svc e = (Ok (del, add), e')"
proof -
  let ?bs = "ls_LoadBalancerBackends (ls_Status listener)"
  let ?n = "int (length (kept ns ?bs))"
  have "?n - BackendCountResult conf \<le> int (length (map backend_id (kept ns ?bs)))"
    using assms(3) by simp
  then obtain more e1 where
    1: "GetRandomItems (map backend_id (kept ns ?bs)) (?n - BackendCountResult conf) e = (Ok more, e1)"
    using items.sample_returns[OF assms(5)] by blast
  have "BackendCountResult conf - ?n \<le> int (length (missing ns ?bs))"
    using missing_length[OF assms(2)] assms(4) by linarith
  then obtain toAdd e2 where
    2: "getRandomNodes (missing ns ?bs) (BackendCountResult conf - ?n) e = (Ok toAdd, e2)"
    using nodes.sample_returns[OF assms(5)] by blast
  show ?thesis
    by (simp add: diffBackend_steps[OF assms(1)] Let_def bind_go_def 1 2 ret_def)
qed

text \<open>
  C12: The comparison returns when the backends are named, no backend's name contains the ids of
  two nodes, the limit is at most the number of nodes and the random source is fair.
\<close>
theorem diffBackend_returns:
  assumes "named (ls_LoadBalancerBackends (ls_Status listener))"
    and "unambiguous ns (ls_LoadBalancerBackends (ls_Status listener))"
    and "0 \<le> BackendCountResult conf" and "BackendCountResult conf \<le> int (length ns)"
    and "\<And>n. fair n e"
  shows "\<exists>del add e'. diffBackend listener ns conf svc e = (Ok (del, add), e')"
  using assms by (rule diffBackend_completes)

text \<open>
  C25: With a limit that the kept backends and the nodes without a backend cannot meet, the
  comparison never returns: it panics when there is no node left to draw and otherwise draws
  forever. A node whose id is part of another node's id is enough for that.
\<close>
theorem diffBackend_stuck:
  assumes "named (ls_LoadBalancerBackends (ls_Status listener))"
    and "svc_ExternalTrafficPolicy svc = TrafficPolicyCluster"
    and "int (length (kept ns (ls_LoadBalancerBackends (ls_Status listener)))) +
      int (length (missing ns (ls_LoadBalancerBackends (ls_Status listener)))) < BackendCountResult conf"
  shows "diffBackend listener ns conf svc e =
    (if missing ns (ls_LoadBalancerBackends (ls_Status listener)) = [] then (Panic, e) else (Diverge, e))"
proof -
  let ?bs = "ls_LoadBalancerBackends (ls_Status listener)"
  let ?n = "int (length (kept ns ?bs))"
  have l: "limited conf svc" "\<not> BackendCountResult conf < ?n" using assms(2,3) by (auto simp: limited_def)
  have 1: "getRandomNodes (missing ns ?bs) (BackendCountResult conf - ?n) e =
      (if missing ns ?bs = [] then (Panic, e) else (Diverge, e))"
    using assms(3) by (simp add: getRandomNodes_eq GetRandomItems_empty GetRandomItems_endless)
  show ?thesis by (simp add: diffBackend_steps[OF assms(1)] Let_def l bind_go_def 1)
qed

text \<open>
  C24: Without a limit, when every backend has a name, the comparison returns, draws nothing, deletes exactly the backends
  that belong to no node and adds exactly the nodes that have no backend, which is also what the
  function of the same name computes.
\<close>
theorem diffBackend_unlimited:
  assumes "named (ls_LoadBalancerBackends (ls_Status listener))" and "\<not> limited conf svc"
  shows "diffBackend listener ns conf svc e =
      (Ok (map backend_id (stale ns (ls_LoadBalancerBackends (ls_Status listener))),
           missing ns (ls_LoadBalancerBackends (ls_Status listener))), e) \<and>
    diffBackend listener ns conf svc e = (diffBackend_func listener ns, e)"
  using assms(2)
  by (simp add: diffBackend_steps[OF assms(1)] Let_def diffBackend_func_def
      split_backends_Ok[OF assms(1)] nodes_without_backend_Ok[OF assms(1)])

text \<open>A listener whose backends are those of the nodes, as many as the limit where there is one.\<close>

definition backends_settled :: "LoadBalancerListener \<Rightarrow> Node list \<Rightarrow> LoadBalancerConfig \<Rightarrow> Service \<Rightarrow> bool" where
  "backends_settled listener ns conf svc =
     (let bs = ls_LoadBalancerBackends (ls_Status listener) in
      named bs \<and> stale ns bs = [] \<and>
      (if limited conf svc then int (length bs) = BackendCountResult conf else missing ns bs = []))"

lemma diffBackend_settled_Ok:
  assumes "backends_settled listener ns conf svc"
  shows "diffBackend listener ns conf svc e = (Ok ([], []), e)"
proof -
  let ?bs = "ls_LoadBalancerBackends (ls_Status listener)"
  from assms have n: "named ?bs" "stale ns ?bs = []"
    and l: "if limited conf svc then int (length ?bs) = BackendCountResult conf else missing ns ?bs = []"
    by (simp_all add: backends_settled_def Let_def)
  have "length (kept ns ?bs) = length ?bs" using kept_stale_length[of ns ?bs] n(2) by simp
  with l show ?thesis
    by (auto simp: diffBackend_steps[OF n(1)] Let_def n(2) getRandomNodes_eq GetRandomItems_nothing
        bind_go_def ret_def split: if_splits)
qed

text \<open>
  A listener with the right backends is left alone: nothing is deleted, added or drawn.
\<close>
theorem diffBackend_settled:
  assumes "backends_settled listener ns conf svc"
  shows "diffBackend listener ns conf svc e = (Ok ([], []), e)"
  using assms by (rule diffBackend_settled_Ok)

subsection \<open>Generated backends\<close>

text \<open>The protocol of a listener carries the protocol of a service port.\<close>

definition carries :: "string \<Rightarrow> ServicePort \<Rightarrow> bool" where
  "carries proto port =
     ((proto = ''https'' \<or> proto = ''http'') \<and> port_Protocol port = ProtocolTCP \<or>
      EqualFold proto (port_Protocol port))"

text \<open>What overwriting the protocol of a listener leaves as it is.\<close>

definition same_listener :: "string \<Rightarrow> int \<Rightarrow> string option \<Rightarrow> LoadBalancerListener \<Rightarrow> bool" where
  "same_listener proto n i l =
     ((ls_ListenerProtocol (ls_Spec l) = Some proto \<or>
       (proto = ''https'' \<or> proto = ''http'') \<and> ls_ListenerProtocol (ls_Spec l) = Some ''tcp'') \<and>
      ls_ListenerPort (ls_Spec l) = Some n \<and> ls_StatusListenerID (ls_Status l) = i \<and>
      ls_LoadBalancerBackends (ls_Status l) = [])"

lemma EqualFold_protocols:
  "EqualFold ''tcp'' ProtocolTCP" "\<not> EqualFold ''tcp'' ProtocolUDP"
  "\<not> EqualFold ''http'' ProtocolUDP" "\<not> EqualFold ''https'' ProtocolUDP"
  by code_simp+

lemma find_listener_port_step:
  assumes "same_listener proto n i l" and "port_Protocol p \<in> {ProtocolTCP, ProtocolUDP}"
  shows "\<exists>l'. same_listener proto n i l' \<and>
    find_listener_port l (p # ps) =
      (if port_Port p = n \<and> carries proto p then Ok (Some (port_NodePort p), l')
       else find_listener_port l' ps)"
proof -
  from assms(1) obtain q where q: "ls_ListenerProtocol (ls_Spec l) = Some q"
    "q = proto \<or> (proto = ''https'' \<or> proto = ''http'') \<and> q = ''tcp''"
    and n: "ls_ListenerPort (ls_Spec l) = Some n" "ls_StatusListenerID (ls_Status l) = i"
      "ls_LoadBalancerBackends (ls_Status l) = []"
    by (auto simp: same_listener_def)
  define q' where "q' = (if (q = ''https'' \<or> q = ''http'') \<and> port_Protocol p = ProtocolTCP then ''tcp'' else q)"
  define l' where "l' = l\<lparr>ls_Spec := (ls_Spec l)\<lparr>ls_ListenerProtocol := Some q'\<rparr>\<rparr>"
  have "same_listener proto n i l'"
    using q(2) n by (auto simp: same_listener_def l'_def q'_def)
  moreover have "EqualFold q' (port_Protocol p) = carries proto p"
  proof (cases "port_Protocol p = ProtocolTCP")
    case True
    then show ?thesis
      using q(2) by (elim disjE conjE) (simp_all add: carries_def q'_def EqualFold_protocols)
  next
    case False
    with assms(2) have "port_Protocol p = ProtocolUDP" by simp
    then show ?thesis
      using q(2) by (elim disjE conjE) (simp_all add: carries_def q'_def EqualFold_protocols)
  qed
  moreover have "find_listener_port l (p # ps) =
      (if n = port_Port p \<and> EqualFold q' (port_Protocol p) then Ok (Some (port_NodePort p), l')
       else find_listener_port l' ps)"
    using n by (simp only: find_listener_port.simps q(1) deref_simps bind_ok_simps Let_def
        q'_def[symmetric] l'_def[symmetric]) (simp add: l'_def)
  ultimately show ?thesis by (intro exI[of _ l']) auto
qed

definition port_for :: "string \<Rightarrow> int \<Rightarrow> ServicePort list \<Rightarrow> int option" where
  "port_for proto n ports =
     map_option port_NodePort (find (\<lambda>p. port_Port p = n \<and> carries proto p) ports)"

lemma find_listener_port_found:
  assumes "same_listener proto n i l"
    and "\<And>p. p \<in> set ports \<Longrightarrow> port_Protocol p \<in> {ProtocolTCP, ProtocolUDP}"
  shows "\<exists>l'. same_listener proto n i l' \<and> find_listener_port l ports = Ok (port_for proto n ports, l')"
  using assms
proof (induction ports arbitrary: l)
  case (Cons p ps)
  from find_listener_port_step[OF Cons.prems(1), of p ps] Cons.prems(2) obtain l' where
    l: "same_listener proto n i l'" "find_listener_port l (p # ps) =
      (if port_Port p = n \<and> carries proto p then Ok (Some (port_NodePort p), l')
       else find_listener_port l' ps)" by auto
  show ?case
  proof (cases "port_Port p = n \<and> carries proto p")
    case True
    with l show ?thesis by (auto simp: port_for_def)
  next
    case False
    from Cons.IH[OF l(1)] Cons.prems(2) obtain l'' where
      "same_listener proto n i l'' \<and> find_listener_port l' ps = Ok (port_for proto n ps, l'')" by auto
    with False show ?thesis unfolding l(2) by (auto simp: port_for_def)
  qed
qed (simp add: port_for_def)

text \<open>The backend of a node on a listener.\<close>

definition backend_of :: "string option \<Rightarrow> int option \<Rightarrow> Node \<Rightarrow> LoadBalancerBackend" where
  "backend_of i port node =
     \<lparr>be_Spec =
        \<lparr>be_LoadBalancerBackendName = Some (nodeToInstanceIDs node), be_Port = port,
         be_ResourceID = Some (nodeToInstanceIDs node), be_LoadBalancerListenerID = i\<rparr>,
      be_Status = zero_BackendStatus\<rparr>"

lemma generate_backends_new:
  assumes "same_listener proto n i l"
    and "\<And>p. p \<in> set ports \<Longrightarrow> port_Protocol p \<in> {ProtocolTCP, ProtocolUDP}"
  shows "generate_backends nodes l ports acc = Ok (acc @ map (backend_of i (port_for proto n ports)) nodes)"
  using assms(1)
proof (induction nodes arbitrary: l acc)
  case (Cons node nodes)
  from find_listener_port_found[OF Cons.prems assms(2)] obtain l' where
    l: "same_listener proto n i l'" "find_listener_port l ports = Ok (port_for proto n ports, l')" by blast
  have "getLoadBalancerListenerNodePort l ports = Ok (port_for proto n ports, l')"
    using Cons.prems l by (simp add: getLoadBalancerListenerNodePort_def same_listener_def)
  moreover have "ls_StatusListenerID (ls_Status l') = i" using l by (simp add: same_listener_def)
  ultimately show ?case by (simp add: Let_def Cons.IH[OF l(1)] backend_of_def)
qed simp

lemma generate_backends_old:
  assumes "ls_LoadBalancerBackends (ls_Status l) = b # bs"
  shows "generate_backends nodes l ports acc =
    Ok (acc @ map (backend_of (ls_StatusListenerID (ls_Status l)) (be_Port (be_Spec b))) nodes)"
  using assms
  by (induction nodes arbitrary: acc)
    (simp_all add: getLoadBalancerListenerNodePort_def backend_of_def Let_def)

lemma generateLoadBalancerBackends_Ok:
  assumes "list_all (\<lambda>p. port_Protocol p \<in> {ProtocolTCP, ProtocolUDP}) ports"
    and "ls_ListenerProtocol (ls_Spec l) = Some proto" and "ls_ListenerPort (ls_Spec l) = Some n"
  shows "generateLoadBalancerBackends nodes l ports =
    Ok (map (backend_of (ls_StatusListenerID (ls_Status l))
               (case ls_LoadBalancerBackends (ls_Status l) of
                  [] \<Rightarrow> port_for proto n ports
                | b # _ \<Rightarrow> be_Port (be_Spec b))) nodes)"
proof (cases "ls_LoadBalancerBackends (ls_Status l)")
  case Nil
  then have "same_listener proto n (ls_StatusListenerID (ls_Status l)) l"
    using assms(2,3) by (simp add: same_listener_def)
  from generate_backends_new[OF this, of ports nodes "[]"] assms(1) Nil show ?thesis
    by (auto simp: generateLoadBalancerBackends_def list_all_iff)
next
  case (Cons b bs)
  then show ?thesis by (simp add: generateLoadBalancerBackends_def generate_backends_old)
qed

text \<open>
  C21: The backends for a listener without backends are one per node, in order, under the node's
  instance id, on the node port of the first service port with the listener's number that its
  protocol carries; without such a port they have no port at all (a listener protocol annotated
  \<open>udp\<close> on a TCP port). For a listener with backends they use the first backend's port.
\<close>
theorem generateLoadBalancerBackends_ports:
  assumes "list_all (\<lambda>p. port_Protocol p \<in> {ProtocolTCP, ProtocolUDP}) ports"
    and "ls_ListenerProtocol (ls_Spec l) = Some proto" and "ls_ListenerPort (ls_Spec l) = Some n"
  shows "generateLoadBalancerBackends nodes l ports =
    Ok (map (backend_of (ls_StatusListenerID (ls_Status l))
               (case ls_LoadBalancerBackends (ls_Status l) of
                  [] \<Rightarrow> port_for proto n ports
                | b # _ \<Rightarrow> be_Port (be_Spec b))) nodes)"
  using assms by (rule generateLoadBalancerBackends_Ok)

subsection \<open>Sample data and witnesses\<close>

definition demo_node :: "string \<Rightarrow> Node" where
  "demo_node name =
     \<lparr>node_Name = name, node_Annotations = [], node_Labels = [], node_Conditions = []\<rparr>"

definition demo_limit :: LoadBalancerConfig where
  "demo_limit = zero_config\<lparr>BackendCountResult := 2\<rparr>"

definition backend_named :: "string \<Rightarrow> LoadBalancerBackend" where
  "backend_named name =
     demo_backend\<lparr>be_Spec := (be_Spec demo_backend)\<lparr>be_LoadBalancerBackendName := Some name\<rparr>\<rparr>"

lemmas demo_backend_defs =
  demo_node_def demo_limit_def backend_named_def demo_backend_def demo_listener_def
  demo_service_def limited_def named_def kept_def missing_def stale_def matches_def
  nodeToInstanceIDs_def Contains_def

lemma demo_fair: "fair n (\<lambda>i. i)"
  unfolding fair_def
proof (intro allI impI)
  fix r k assume "r < n"
  then show "\<exists>j \<ge> k. j mod n = r"
    by (intro exI[of _ "r + n * k"]) (auto simp: trans_le_add2)
qed

lemma demo_unambiguous:
  "named (ls_LoadBalancerBackends (ls_Status (demo_listener [backend_named ''x_node2''])))"
  "unambiguous [demo_node ''node1'', demo_node ''node2'']
     (ls_LoadBalancerBackends (ls_Status (demo_listener [backend_named ''x_node2''])))"
  "BackendCountResult demo_limit = 2"
  by (simp_all add: demo_backend_defs unambiguous_def sublist_code)

theorem diffBackend_returns_witness:
  "\<exists>del add e'. diffBackend (demo_listener [backend_named ''x_node2'']) [demo_node ''node1'', demo_node ''node2'']
     demo_limit demo_service (\<lambda>i. i) = (Ok (del, add), e')"
  by (rule diffBackend_returns) (simp_all add: demo_unambiguous demo_fair)

theorem diffBackend_count_witness:
  "\<exists>del add. fst (diffBackend (demo_listener [backend_named ''x_node2''])
       [demo_node ''node1'', demo_node ''node2''] demo_limit demo_service (\<lambda>i. i)) = Ok (del, add) \<and>
     1 - int (length del) + int (length add) = 2"
proof -
  obtain del add e' where d: "diffBackend (demo_listener [backend_named ''x_node2''])
      [demo_node ''node1'', demo_node ''node2''] demo_limit demo_service (\<lambda>i. i) = (Ok (del, add), e')"
    using diffBackend_completes[OF demo_unambiguous(1,2), of demo_limit "\<lambda>i. i" demo_service]
    by (auto simp: demo_unambiguous demo_fair)
  have "limited demo_limit demo_service" by (simp add: demo_backend_defs)
  from diffBackend_count[OF d this] have "1 - int (length del) + int (length add) = 2"
    by (simp add: demo_unambiguous demo_listener_def)
  with d show ?thesis by simp
qed

theorem diffBackend_stuck_witness:
  "diffBackend (demo_listener [backend_named ''x_node10'']) [demo_node ''node1'', demo_node ''node10'']
     demo_limit demo_service (\<lambda>i. i) = (Panic, \<lambda>i. i)"
proof -
  have "missing [demo_node ''node1'', demo_node ''node10''] [backend_named ''x_node10''] = []"
    by (simp add: demo_backend_defs sublist_code)
  with diffBackend_stuck[of "demo_listener [backend_named ''x_node10'']" demo_service
      "[demo_node ''node1'', demo_node ''node10'']" demo_limit "\<lambda>i. i"]
  show ?thesis by (simp add: demo_backend_defs)
qed

theorem diffBackend_unlimited_witness:
  "diffBackend (demo_listener [backend_named ''x_node2'']) [] zero_config demo_service (\<lambda>i. i) =
     (Ok ([Some ''lbb-1''], []), \<lambda>i. i)"
  using diffBackend_unlimited[of "demo_listener [backend_named ''x_node2'']" zero_config demo_service "[]" "\<lambda>i. i"]
  by (simp add: demo_backend_defs zero_config_def)

theorem diffBackend_settled_witness:
  "diffBackend (demo_listener [backend_named ''x_node2'']) [demo_node ''node2''] zero_config
     demo_service (\<lambda>i. i) = (Ok ([], []), \<lambda>i. i)"
  by (rule diffBackend_settled)
    (simp add: backends_settled_def demo_backend_defs zero_config_def sublist_code)

theorem generateLoadBalancerBackends_ports_witness:
  "generateLoadBalancerBackends [demo_node ''node1''] (demo_listener []) [demo_port] =
     Ok [backend_of (Some ''lbl-1'') (Some 30080) (demo_node ''node1'')]"
  using generateLoadBalancerBackends_ports[of "[demo_port]" "demo_listener []" "''tcp''" 80
      "[demo_node ''node1'']"] EqualFold_protocols
  by (simp add: demo_listener_def demo_generated_def demo_port_def port_for_def carries_def)

end
