(* ===== verification/Client.thy ===== *)
theory Client
  imports Apis
begin

text \<open>
  The interface \<open>QingCloudClientInterface\<close> of \<open>pkg/executor/client.go\<close> between the load balancer
  logic and the cloud, as a record of programs over the state of the cloud. A method that
  returns \<open>(nil, err)\<close> fails and one that returns a value succeeds; no method returns
  \<open>(nil, nil)\<close>. The operations of the provider run over a \<open>world\<close>: the cloud and the random source.

  A client can be traced: every call is logged before it runs. Statements about which calls a
  program makes are invariants of the log. What the provider relies on is the locale
  \<open>cloud_client\<close>, which the executor's client satisfies.
\<close>

record 's client =
  cl_GetLoadBalancerByName :: "string \<Rightarrow> ('s, LoadBalancer) go"
  cl_GetLoadBalancerByID :: "string \<Rightarrow> ('s, LoadBalancer) go"
  cl_ModifyLB :: "LoadBalancer \<Rightarrow> ('s, unit) go"
  cl_CreateLB :: "LoadBalancer \<Rightarrow> ('s, LoadBalancer) go"
  cl_DeleteLB :: "string option \<Rightarrow> ('s, unit) go"
  cl_UpdateLB :: "string option \<Rightarrow> ('s, unit) go"
  cl_AssociateEIPsToLB :: "string option \<Rightarrow> string option list \<Rightarrow> ('s, unit) go"
  cl_DissociateEIPsFromLB :: "string option \<Rightarrow> string option list \<Rightarrow> ('s, unit) go"
  cl_GetSecurityGroupByName :: "string \<Rightarrow> ('s, SecurityGroup) go"
  cl_AllocateEIP :: "EIP option \<Rightarrow> ('s, EIP) go"
  cl_GetAvaliableEIPs :: "('s, EIP list) go"
  cl_ReleaseEIP :: "string option list \<Rightarrow> ('s, unit) go"
  cl_CreateBackends :: "LoadBalancerBackend list \<Rightarrow> ('s, string option list) go"
  cl_DeleteBackends :: "string option list \<Rightarrow> ('s, unit) go"
  cl_CreateListener :: "LoadBalancerListener list \<Rightarrow> ('s, LoadBalancerListener list) go"
  cl_GetListeners :: "string option list \<Rightarrow> ('s, LoadBalancerListener list) go"
  cl_DeleteListener :: "string option list \<Rightarrow> ('s, unit) go"

type_synonym 's world = "'s \<times> entropy"

text \<open>A call of the client, and a draw from the random source.\<close>

definition cloud :: "('s, 'a) go \<Rightarrow> ('s world, 'a) go" where
  [go_defs]: "cloud m w = (case m (fst w) of (r, s) \<Rightarrow> (r, (s, snd w)))"

definition draw :: "(entropy, 'a) go \<Rightarrow> ('s world, 'a) go" where
  [go_defs]: "draw m w = (case m (snd w) of (r, e) \<Rightarrow> (r, (fst w, e)))"

lemma cloud_iff: "cloud m (s, e) = (r, w') \<longleftrightarrow> (\<exists>s'. m s = (r, s') \<and> w' = (s', e))"
  by (auto simp: cloud_def split: prod.splits)

lemma draw_iff: "draw m (s, e) = (r, w') \<longleftrightarrow> (\<exists>e'. m e = (r, e') \<and> w' = (s, e'))"
  by (auto simp: draw_def split: prod.splits)

text \<open>An invariant of the cloud's state.\<close>

definition on_cloud :: "('s \<Rightarrow> bool) \<Rightarrow> 's world \<Rightarrow> bool" where
  "on_cloud I w = I (fst w)"

lemma keeps_cloud [keeps_intros]: "keeps I m \<Longrightarrow> keeps (on_cloud I) (cloud m)"
  by (auto simp: keeps_def on_cloud_def cloud_def split: prod.splits)

lemma keeps_draw [keeps_intros]: "keeps (on_cloud I) (draw m)"
  by (auto simp: keeps_def on_cloud_def draw_def split: prod.splits)

subsection \<open>Logging the calls\<close>

datatype call =
    GetLoadBalancerByName string
  | GetLoadBalancerByID string
  | ModifyLB LoadBalancer
  | CreateLB LoadBalancer
  | DeleteLB "string option"
  | UpdateLB "string option"
  | AssociateEIPsToLB "string option" "string option list"
  | DissociateEIPsFromLB "string option" "string option list"
  | GetSecurityGroupByName string
  | AllocateEIP "EIP option"
  | GetAvaliableEIPs
  | ReleaseEIP "string option list"
  | CreateBackends "LoadBalancerBackend list"
  | DeleteBackends "string option list"
  | CreateListener "LoadBalancerListener list"
  | GetListeners "string option list"
  | DeleteListener "string option list"

type_synonym 's traced_state = "'s \<times> call list"

definition log_call :: "call \<Rightarrow> ('s, 'a) go \<Rightarrow> ('s traced_state, 'a) go" where
  [go_defs]: "log_call c m st = (case m (fst st) of (r, s) \<Rightarrow> (r, (s, snd st @ [c])))"

definition traced :: "'s client \<Rightarrow> 's traced_state client" where
  "traced cl =
     \<lparr>cl_GetLoadBalancerByName = (\<lambda>n. log_call (GetLoadBalancerByName n) (cl_GetLoadBalancerByName cl n)),
      cl_GetLoadBalancerByID = (\<lambda>i. log_call (GetLoadBalancerByID i) (cl_GetLoadBalancerByID cl i)),
      cl_ModifyLB = (\<lambda>b. log_call (ModifyLB b) (cl_ModifyLB cl b)),
      cl_CreateLB = (\<lambda>b. log_call (CreateLB b) (cl_CreateLB cl b)),
      cl_DeleteLB = (\<lambda>i. log_call (DeleteLB i) (cl_DeleteLB cl i)),
      cl_UpdateLB = (\<lambda>i. log_call (UpdateLB i) (cl_UpdateLB cl i)),
      cl_AssociateEIPsToLB =
        (\<lambda>i es. log_call (AssociateEIPsToLB i es) (cl_AssociateEIPsToLB cl i es)),
      cl_DissociateEIPsFromLB =
        (\<lambda>i es. log_call (DissociateEIPsFromLB i es) (cl_DissociateEIPsFromLB cl i es)),
      cl_GetSecurityGroupByName =
        (\<lambda>n. log_call (GetSecurityGroupByName n) (cl_GetSecurityGroupByName cl n)),
      cl_AllocateEIP = (\<lambda>e. log_call (AllocateEIP e) (cl_AllocateEIP cl e)),
      cl_GetAvaliableEIPs = log_call GetAvaliableEIPs (cl_GetAvaliableEIPs cl),
      cl_ReleaseEIP = (\<lambda>is. log_call (ReleaseEIP is) (cl_ReleaseEIP cl is)),
      cl_CreateBackends = (\<lambda>bs. log_call (CreateBackends bs) (cl_CreateBackends cl bs)),
      cl_DeleteBackends = (\<lambda>is. log_call (DeleteBackends is) (cl_DeleteBackends cl is)),
      cl_CreateListener = (\<lambda>ls. log_call (CreateListener ls) (cl_CreateListener cl ls)),
      cl_GetListeners = (\<lambda>is. log_call (GetListeners is) (cl_GetListeners cl is)),
      cl_DeleteListener = (\<lambda>is. log_call (DeleteListener is) (cl_DeleteListener cl is))\<rparr>"

lemma traced_simps [simp]:
  "cl_GetLoadBalancerByName (traced cl) n = log_call (GetLoadBalancerByName n) (cl_GetLoadBalancerByName cl n)"
  "cl_GetLoadBalancerByID (traced cl) i = log_call (GetLoadBalancerByID i) (cl_GetLoadBalancerByID cl i)"
  "cl_ModifyLB (traced cl) b = log_call (ModifyLB b) (cl_ModifyLB cl b)"
  "cl_CreateLB (traced cl) b = log_call (CreateLB b) (cl_CreateLB cl b)"
  "cl_DeleteLB (traced cl) p = log_call (DeleteLB p) (cl_DeleteLB cl p)"
  "cl_UpdateLB (traced cl) p = log_call (UpdateLB p) (cl_UpdateLB cl p)"
  "cl_AssociateEIPsToLB (traced cl) p es = log_call (AssociateEIPsToLB p es) (cl_AssociateEIPsToLB cl p es)"
  "cl_DissociateEIPsFromLB (traced cl) p es =
     log_call (DissociateEIPsFromLB p es) (cl_DissociateEIPsFromLB cl p es)"
  "cl_GetSecurityGroupByName (traced cl) n =
     log_call (GetSecurityGroupByName n) (cl_GetSecurityGroupByName cl n)"
  "cl_AllocateEIP (traced cl) e = log_call (AllocateEIP e) (cl_AllocateEIP cl e)"
  "cl_GetAvaliableEIPs (traced cl) = log_call GetAvaliableEIPs (cl_GetAvaliableEIPs cl)"
  "cl_ReleaseEIP (traced cl) es = log_call (ReleaseEIP es) (cl_ReleaseEIP cl es)"
  "cl_CreateBackends (traced cl) bs = log_call (CreateBackends bs) (cl_CreateBackends cl bs)"
  "cl_DeleteBackends (traced cl) es = log_call (DeleteBackends es) (cl_DeleteBackends cl es)"
  "cl_CreateListener (traced cl) ls = log_call (CreateListener ls) (cl_CreateListener cl ls)"
  "cl_GetListeners (traced cl) es = log_call (GetListeners es) (cl_GetListeners cl es)"
  "cl_DeleteListener (traced cl) es = log_call (DeleteListener es) (cl_DeleteListener cl es)"
  by (simp_all add: traced_def)

text \<open>All calls of the log satisfy a predicate.\<close>

definition only_calls :: "(call \<Rightarrow> bool) \<Rightarrow> 's traced_state \<Rightarrow> bool" where
  "only_calls P st = list_all P (snd st)"

lemma keeps_log_call [keeps_intros]: "P c \<Longrightarrow> keeps (only_calls P) (log_call c m)"
  by (auto simp: keeps_def only_calls_def log_call_def split: prod.splits)

text \<open>The calls of a run that starts with an empty log.\<close>

definition calls_of :: "('s traced_state world, 'a) go \<Rightarrow> 's \<Rightarrow> entropy \<Rightarrow> call list" where
  "calls_of m s e = snd (fst (snd (m ((s, []), e))))"

lemma calls_of_keeps: "keeps (on_cloud (only_calls P)) m \<Longrightarrow> list_all P (calls_of m s e)"
  using keepsD[of "on_cloud (only_calls P)" m "((s, []), e)"]
  by (simp add: calls_of_def on_cloud_def only_calls_def)

text \<open>The calls that only read.\<close>

fun reads :: "call \<Rightarrow> bool" where
  "reads (GetLoadBalancerByName n) = True"
| "reads (GetLoadBalancerByID i) = True"
| "reads (GetSecurityGroupByName n) = True"
| "reads GetAvaliableEIPs = True"
| "reads (GetListeners is) = True"
| "reads _ = False"

subsection \<open>The contract of the client\<close>

text \<open>
  What the provider relies on: empty requests do nothing, a load balancer found by name has that
  name, a created or listed listener carries the same id in its two places, and a load balancer
  without a network and without an EIP is refused before anything is requested.
\<close>

locale cloud_client =
  fixes cl :: "'s client"
  assumes create_no_backends: "cl_CreateBackends cl [] s = (Ok [], s)"
    and delete_no_backends: "cl_DeleteBackends cl [] s = (Ok (), s)"
    and associate_nothing: "cl_AssociateEIPsToLB cl i [] s = (Ok (), s)"
    and dissociate_nothing: "cl_DissociateEIPsFromLB cl i [] s = (Ok (), s)"
    and release_nothing: "cl_ReleaseEIP cl [] s = (Ok (), s)"
    and found_by_name:
      "cl_GetLoadBalancerByName cl n s = (Ok lb, s') \<Longrightarrow> lb_LoadBalancerName (lb_Spec lb) = Some n"
    and listed_ids:
      "cl_GetListeners cl is s = (Ok ls, s') \<Longrightarrow> l \<in> set ls \<Longrightarrow>
         ls_LoadBalancerListenerID (ls_Spec l) = ls_StatusListenerID (ls_Status l)"
    and created_ids:
      "cl_CreateListener cl gs s = (Ok ls, s') \<Longrightarrow> l \<in> set ls \<Longrightarrow>
         ls_LoadBalancerListenerID (ls_Spec l) = ls_StatusListenerID (ls_Status l)"
    and create_needs_address:
      "lb_VxNetID (lb_Spec b) = None \<Longrightarrow> lb_EIPs (lb_Spec b) = [] \<Longrightarrow>
         \<exists>e. cl_CreateLB cl b s = (Err e, s)"

end
