(* ===== verification/QingCloud.thy ===== *)
theory QingCloud
  imports Backends Client
begin

text \<open>
  The provider: \<open>pkg/qingcloud/qingcloud.go\<close> and the methods of \<open>pkg/qingcloud/qingcloud_utils.go\<close>.
  A handler is a program over the \<open>world\<close> of the client; the endpoints cache of the informer is a
  parameter. Configurations and load balancers that the code mutates through a pointer are
  returned updated.
\<close>

record 's QingCloud =
  qc_Config :: Config
  qc_Client :: "'s client"
  qc_endpoints :: "string \<Rightarrow> string \<Rightarrow> Endpoints outcome"

text \<open>\<open>fmt.Errorf("...", *p, err)\<close>: the message reads a pointer.\<close>

definition wrap_ptr :: "string \<Rightarrow> 'b option \<Rightarrow> ('s, 'a) go \<Rightarrow> ('s, 'a) go" where
  [go_defs]: "wrap_ptr t p m s =
     (case m s of
        (Err e, s') \<Rightarrow> (case p of None \<Rightarrow> Panic | Some _ \<Rightarrow> Err (Wrapf t e), s')
      | (r, s') \<Rightarrow> (r, s'))"

lemma keeps_wrap_ptr [keeps_intros]: "keeps I m \<Longrightarrow> keeps I (wrap_ptr t p m)"
  by (fastforce simp: keeps_def wrap_ptr_def split: prod.splits outcome.splits)

lemma wrap_ptr_Ok_iff [simp]: "wrap_ptr t p m s = (Ok x, s') \<longleftrightarrow> m s = (Ok x, s')"
  by (auto simp: wrap_ptr_def split: prod.splits outcome.splits option.splits)

subsection \<open>EIPs\<close>

definition first_or :: "('s, 'a) go \<Rightarrow> 'a list \<Rightarrow> ('s, 'a) go" where
  "first_or m xs = (case xs of [] \<Rightarrow> m | x # _ \<Rightarrow> ret x)"

lemma keeps_first_or [keeps_intros]: "keeps I m \<Longrightarrow> keeps I (first_or m xs)"
  by (cases xs) (auto simp: first_or_def)

definition prepareEip :: "'s client \<Rightarrow> string option \<Rightarrow> ('s world, EIP) go" where
  "prepareEip cl eipSource =
     bind_go (lift (deref eipSource)) (\<lambda>src.
     if src = AllocateOnly then cloud (cl_AllocateEIP cl None)
     else if src = UseAvailableOnly then
       bind_go (cloud (cl_GetAvaliableEIPs cl)) (first_or (fail (Errorf ''no avaliable eips'')))
     else if src = UseAvailableOrAllocateOne then
       bind_go (cloud (cl_GetAvaliableEIPs cl)) (first_or (cloud (cl_AllocateEIP cl None)))
     else fail (Errorf ''has no eip''))"

text \<open>The first loop over the configured EIPs, and the one over the load balancer's EIPs.\<close>

definition missing_eips :: "string option list \<Rightarrow> string option list \<Rightarrow> string option list outcome" where
  "missing_eips xs ys =
     bind_ok (map_ok deref xs) (\<lambda>have.
     filter_ok (\<lambda>p. bind_ok (deref p) (\<lambda>i. Ok (i \<notin> set have))) ys)"

definition diffLBEip ::
  "'s client \<Rightarrow> LoadBalancerConfig \<Rightarrow> LoadBalancer \<Rightarrow>
   ('s world, string option list \<times> string option list) go" where
  "diffLBEip cl config lb =
     bind_go (lift (map_ok deref (lb_EIPs (lb_Spec lb)))) (\<lambda>_.
     case EipIDs config of
       Some ids \<Rightarrow>
         bind_go (lift (missing_eips (lb_EIPs (lb_Spec lb)) ids)) (\<lambda>eipsToAdd.
         if EipReplace config then
           bind_go (lift (missing_eips ids (lb_EIPs (lb_Spec lb)))) (\<lambda>eipsToDel.
           ret (eipsToAdd, eipsToDel))
         else ret (eipsToAdd, []))
     | None \<Rightarrow>
         (case EipSource config of
            Some src \<Rightarrow>
              if src = AllocateOnly \<or> src = UseAvailableOnly \<or> src = UseAvailableOrAllocateOne then
                (if length (lb_EIPs (lb_Spec lb)) > 0 then
                   bind_go (lift (deref (lb_LoadBalancerID (lb_Status lb)))) (\<lambda>_. ret ([], []))
                 else
                   bind_go (wrap_ptr ''prepare eip for lb '' (lb_LoadBalancerID (lb_Status lb))
                              (prepareEip cl (EipSource config))) (\<lambda>eip.
                   ret ([eip_EIPID (eip_Status eip)], [])))
              else fail (Errorf ''the value of annotation '')
          | None \<Rightarrow>
              if NetworkType config = NetworkModeInternal then ret ([], lb_EIPs (lb_Spec lb))
              else ret ([], [])))"

text \<open>The load balancer with its refreshed status is returned.\<close>

definition updateLBEip ::
  "'s client \<Rightarrow> LoadBalancerConfig \<Rightarrow> LoadBalancer \<Rightarrow> ('s world, LoadBalancer) go" where
  "updateLBEip cl config lb =
     (if ReuseLBID config \<noteq> [] then ret lb
      else
        bind_go (diffLBEip cl config lb) (\<lambda>(eipsToAdd, eipsToDel).
        bind_go
          (if length eipsToAdd > 0 then
             bind_go (lift (deref (lb_LoadBalancerID (lb_Status lb)))) (\<lambda>_.
             bind_go (cloud (cl_AssociateEIPsToLB cl (lb_LoadBalancerID (lb_Status lb)) eipsToAdd)) (\<lambda>_.
             ret True))
           else ret False) (\<lambda>updated.
        bind_go
          (if length eipsToDel > 0 then
             bind_go (lift (deref (lb_LoadBalancerID (lb_Status lb)))) (\<lambda>_.
             bind_go (cloud (cl_DissociateEIPsFromLB cl (lb_LoadBalancerID (lb_Status lb)) eipsToDel)) (\<lambda>_.
             ret True))
           else ret updated) (\<lambda>updated.
        if updated then
          bind_go (wrap_go ''get loadbalancer by name error: ''
                     (cloud (cl_GetLoadBalancerByName cl (LoadBalancerName config)))) (\<lambda>lbNew.
          ret (lb\<lparr>lb_Status := lb_Status lbNew\<rparr>))
        else ret lb))))"

subsection \<open>Finding the load balancer\<close>

definition find_lb :: "'s client \<Rightarrow> LoadBalancerConfig \<Rightarrow> ('s world, LoadBalancer) go" where
  "find_lb cl conf =
     (if ReuseLBID conf \<noteq> [] then cloud (cl_GetLoadBalancerByID cl (ReuseLBID conf))
      else if LoadBalancerName conf \<noteq> [] then
        cloud (cl_GetLoadBalancerByName cl (LoadBalancerName conf))
      else fail (Errorf ''cannot found loadbalance id or name''))"

text \<open>The triple of results: configuration, load balancer and error, each possibly nil.\<close>

type_synonym found = "LoadBalancerConfig option \<times> LoadBalancer option \<times> go_error option"

definition with_error :: "LoadBalancerConfig \<Rightarrow> ('s, LoadBalancer) go \<Rightarrow> ('s, found) go" where
  "with_error conf m =
     bind_go (try_go m) (\<lambda>r.
       case r of Inl e \<Rightarrow> ret (Some conf, None, Some e) | Inr lb \<Rightarrow> ret (Some conf, Some lb, None))"

definition getLoadBalancer :: "'s QingCloud \<Rightarrow> Service \<Rightarrow> ('s world, found) go" where
  "getLoadBalancer qc service =
     bind_go (try_go (lift (ParseServiceLBConfig (qc_Config qc) (cfg_ClusterID (qc_Config qc)) service)))
       (\<lambda>r. case r of
          Inl e \<Rightarrow> ret (None, None, Some e)
        | Inr conf \<Rightarrow>
            (if ReuseLBID conf = [] \<and> LoadBalancerName conf = []
             then ret (None, None, Some (Errorf ''cannot found loadbalance id or name''))
             else with_error conf (find_lb (qc_Client qc) conf)))"

definition getLoadBalancerBeforeDelete :: "'s QingCloud \<Rightarrow> Service \<Rightarrow> ('s world, found) go" where
  "getLoadBalancerBeforeDelete qc svc =
     (let conf = parseServiceLBAndEIP (qc_Config qc) svc in
      with_error conf (find_lb (qc_Client qc) conf))"

text \<open>The public query: the status and whether the load balancer exists.\<close>

definition GetLoadBalancer ::
  "'s QingCloud \<Rightarrow> Service \<Rightarrow> ('s world, LoadBalancerIngress list option \<times> bool) go" where
  "GetLoadBalancer qc service =
     bind_go (getLoadBalancerBeforeDelete qc service) (\<lambda>(_, lb, err).
       if IsResourceNotFound err then ret (None, False)
       else
         (case lb of
            None \<Rightarrow> ret (None, False)
          | Some b \<Rightarrow>
              (case err of
                 None \<Rightarrow> ret (Some (convertLoadBalancerStatus_v1 (lb_Status b)), True)
               | Some e \<Rightarrow> fail e)))"

definition GetLoadBalancerName :: "Service \<Rightarrow> string" where
  "GetLoadBalancerName service = []"

definition HasClusterID :: "'s QingCloud \<Rightarrow> bool" where
  "HasClusterID qc = (cfg_ClusterID (qc_Config qc) \<noteq> [])"

subsection \<open>Choosing the nodes\<close>

text \<open>The loop over the labels of one node; it stops at the first label that differs.\<close>

fun count_labels :: "Node \<Rightarrow> (string, string) gomap \<Rightarrow> nat" where
  "count_labels node [] = 0"
| "count_labels node ((k, v) # labels) =
     (if map_of (node_Labels node) k = Some v then Suc (count_labels node labels) else 0)"

definition endpoint_nodes :: "Endpoints \<Rightarrow> string list outcome" where
  "endpoint_nodes ep = map_ok (\<lambda>addr. deref (addr_NodeName addr)) (concat ep)"

definition filterNodes ::
  "'s QingCloud \<Rightarrow> Service \<Rightarrow> Node list \<Rightarrow> LoadBalancerConfig \<Rightarrow>
   (Node list \<times> LoadBalancerConfig) outcome" where
  "filterNodes qc svc nodes conf =
     (if svc_ExternalTrafficPolicy svc = TrafficPolicyLocal then
        bind_ok (wrap ''get endpoint '' (qc_endpoints qc (svc_Namespace svc) (svc_Name svc))) (\<lambda>ep.
        bind_ok (endpoint_nodes ep) (\<lambda>nodeExists.
        Ok (filter (\<lambda>node. node_Name node \<in> set nodeExists) nodes, conf)))
      else
        bind_ok
          (if BackendLabel conf \<noteq> [] then
             bind_ok (wrap ''parseBackendLabel error: '' (parseBackendLabel (Some conf))) (\<lambda>labels.
             let labelMap = (case labels of None \<Rightarrow> [] | Some m \<Rightarrow> m);
                 newNodes = filter (\<lambda>node. count_labels node labelMap = length labelMap) nodes
             in Ok (newNodes, if length newNodes = 0 then getDefaultBackendCount nodes else 0))
           else if BackendCountConfig conf \<noteq> [] then
             (let backendCountConfig = fst (Atoi (BackendCountConfig conf)) in
              Ok ([], if 0 < backendCountConfig \<and> backendCountConfig \<le> int (length nodes)
                      then backendCountConfig else getDefaultBackendCount nodes))
           else Ok ([], 0)) (\<lambda>(newNodes, backendCountResult).
        Ok (if length newNodes = 0 then nodes else newNodes,
            conf\<lparr>BackendCountResult := backendCountResult\<rparr>)))"

subsection \<open>Listeners and backends\<close>

definition create_backends_of ::
  "'s client \<Rightarrow> LoadBalancer \<Rightarrow> ServicePort list \<Rightarrow> Node list \<Rightarrow> unit \<Rightarrow> LoadBalancerListener \<Rightarrow>
   ('s world, unit) go" where
  "create_backends_of cl lb ports nodes u listener =
     bind_go (lift (generateLoadBalancerBackends nodes listener ports)) (\<lambda>backends.
     bind_go (wrap_ptr ''CreateBackends for loadbalancer '' (lb_LoadBalancerID (lb_Status lb))
                (cloud (cl_CreateBackends cl backends))) (\<lambda>_. ret ()))"

definition createListenersAndBackends ::
  "'s client \<Rightarrow> LoadBalancerConfig \<Rightarrow> LoadBalancer \<Rightarrow> ServicePort list \<Rightarrow> Node list \<Rightarrow> Service \<Rightarrow>
   ('s world, unit) go" where
  "createListenersAndBackends cl conf lb ports nodes svc =
     bind_go (wrap_ptr ''generateLoadBalancerListeners for loadbalancer ''
                (lb_LoadBalancerID (lb_Status lb))
                (lift (generateLoadBalancerListeners (Some conf) lb ports))) (\<lambda>listeners.
     bind_go (wrap_ptr ''CreateListener for loadbalancer '' (lb_LoadBalancerID (lb_Status lb))
                (cloud (cl_CreateListener cl listeners))) (\<lambda>listeners.
     bind_go
       (if svc_ExternalTrafficPolicy svc = TrafficPolicyCluster \<and> BackendCountResult conf \<noteq> 0
        then draw (getRandomNodes nodes (BackendCountResult conf))
        else ret nodes) (\<lambda>nodes.
     fold_go (create_backends_of cl lb ports nodes) () listeners)))"

text \<open>The backends of one kept listener; the result says whether anything was changed.\<close>

definition update_backends ::
  "'s client \<Rightarrow> LoadBalancerConfig \<Rightarrow> Service \<Rightarrow> Node list \<Rightarrow> bool \<Rightarrow> LoadBalancerListener \<Rightarrow>
   ('s world, bool) go" where
  "update_backends cl conf svc nodes changed listener =
     bind_go (lift (deref (ls_LoadBalancerListenerID (ls_Spec listener)))) (\<lambda>_.
     bind_go (lift (deref (ls_LoadBalancerListenerName (ls_Spec listener)))) (\<lambda>_.
     bind_go (draw (diffBackend listener nodes conf svc)) (\<lambda>(toDelete, toAdd).
     bind_go
       (if length toDelete > 0 then
          bind_go (lift (deref (ls_ListenerPort (ls_Spec listener)))) (\<lambda>_.
          bind_go (wrap_go ''delete backends '' (cloud (cl_DeleteBackends cl toDelete))) (\<lambda>_.
          ret True))
        else ret changed) (\<lambda>changed.
     if length toAdd > 0 then
       bind_go (lift (generateLoadBalancerBackends toAdd listener (svc_Ports svc))) (\<lambda>toAddBackends.
       bind_go (lift (deref (ls_ListenerPort (ls_Spec listener)))) (\<lambda>_.
       bind_go (wrap_go ''add backends error: '' (cloud (cl_CreateBackends cl toAddBackends))) (\<lambda>_.
       ret True)))
     else ret changed))))"

text \<open>
  The listeners of an existing load balancer: \<open>None\<close> is the early return because nothing changed.
\<close>

definition update_listeners ::
  "'s client \<Rightarrow> LoadBalancerConfig \<Rightarrow> LoadBalancer \<Rightarrow> Service \<Rightarrow> Node list \<Rightarrow> bool \<Rightarrow>
   ('s world, bool) go" where
  "update_listeners cl conf lb svc nodes changed =
     bind_go (lift (filterListeners (lb_LoadBalancerListeners (lb_Status lb)) (listenerName conf)))
       (\<lambda>listenerIDs.
     if length listenerIDs \<le> 0 then
       bind_go (wrap_go ''createListenersAndBackends for lb ''
                  (createListenersAndBackends cl conf lb (svc_Ports svc) nodes svc)) (\<lambda>_. ret True)
     else
       bind_go (wrap_go ''get listeners '' (cloud (cl_GetListeners cl listenerIDs))) (\<lambda>listeners.
       bind_go (lift (diffListeners listeners (Some conf) (svc_Ports svc)))
         (\<lambda>(toDelete, toAdd, toKeep).
       bind_go
         (if length toDelete > 0 then
            bind_go (wrap_go ''delete listeners '' (cloud (cl_DeleteListener cl toDelete)))
              (\<lambda>_. ret True)
          else ret changed) (\<lambda>changed.
       bind_go
         (if length toAdd > 0 then
            bind_go (wrap_go ''createListenersAndBackends error: ''
                       (createListenersAndBackends cl conf lb toAdd nodes svc)) (\<lambda>_. ret True)
          else ret changed) (\<lambda>changed.
       fold_go (update_backends cl conf svc nodes) changed toKeep)))))"

subsection \<open>Ensuring the load balancer\<close>

definition update_lb ::
  "'s client \<Rightarrow> LoadBalancerConfig \<Rightarrow> LoadBalancer \<Rightarrow> Service \<Rightarrow> Node list \<Rightarrow>
   ('s world, LoadBalancer \<times> bool) go" where
  "update_lb cl conf lb svc nodes =
     bind_go (lift (deref (lb_LoadBalancerID (lb_Status lb)))) (\<lambda>lbID.
     bind_go (lift (needUpdateAttr conf lb)) (\<lambda>result.
     bind_go
       (case result of
          None \<Rightarrow> ret False
        | Some r \<Rightarrow>
            bind_go (wrap_go ''modify lb '' (cloud (cl_ModifyLB cl r))) (\<lambda>_. ret True)) (\<lambda>changed.
     bind_go (wrap_go ''update eip for lb '' (updateLBEip cl conf lb)) (\<lambda>lb.
     bind_go (update_listeners cl conf lb svc nodes changed) (\<lambda>changed.
     ret (lb, changed))))))"

definition lb_request :: "LoadBalancerConfig \<Rightarrow> string option list option \<Rightarrow> LoadBalancer" where
  "lb_request conf eips =
     \<lparr>lb_Spec =
        \<lparr>lb_LoadBalancerName = Some (LoadBalancerName conf),
         lb_EIPs = (case eips of None \<Rightarrow> [] | Some is \<Rightarrow> is),
         lb_LoadBalancerType = LoadBalancerType conf,
         lb_NodeCount = NodeCount conf,
         lb_PrivateIPs = [InternalIP conf],
         lb_VxNetID = VxNetID conf,
         lb_SecurityGroups = SecurityGroupID conf,
         lb_PlaceGroupID = PlaceGroupID conf\<rparr>,
      lb_Status = zero_LoadBalancerStatus\<rparr>"

definition create_lb ::
  "'s client \<Rightarrow> LoadBalancerConfig \<Rightarrow> Service \<Rightarrow> Node list \<Rightarrow> ('s world, LoadBalancer) go" where
  "create_lb cl conf svc nodes =
     bind_go
       (if (case EipIDs conf of None \<Rightarrow> True | Some is \<Rightarrow> length is \<le> 0) \<and> EipSource conf \<noteq> None then
          bind_go (wrap_go ''prepare eip error: '' (prepareEip cl (EipSource conf))) (\<lambda>eip.
          ret (Some [eip_EIPID (eip_Status eip)]))
        else ret (EipIDs conf)) (\<lambda>eips.
     bind_go (wrap_go ''create lb error: '' (cloud (cl_CreateLB cl (lb_request conf eips)))) (\<lambda>lb.
     bind_go (lift (deref (lb_LoadBalancerID (lb_Status lb)))) (\<lambda>lbID.
     bind_go (wrap_go ''create listener ''
                (createListenersAndBackends cl conf lb (svc_Ports svc) nodes svc)) (\<lambda>_.
     ret lb))))"

definition apply_lb :: "'s client \<Rightarrow> LoadBalancer \<Rightarrow> ('s world, LoadBalancerIngress list) go" where
  "apply_lb cl lb =
     (if length (lb_VIP (lb_Status lb)) \<le> 0
      then fail (Errorf ''loadbalance has no vip, please spec it'')
      else
        bind_go (wrap_go ''update lb '' (cloud (cl_UpdateLB cl (lb_LoadBalancerID (lb_Status lb))))) (\<lambda>_.
        ret (convertLoadBalancerStatus_v1 (lb_Status lb))))"

definition ensureLoadBalancer ::
  "'s QingCloud \<Rightarrow> Service \<Rightarrow> Node list \<Rightarrow> ('s world, LoadBalancerIngress list) go" where
  "ensureLoadBalancer qc service nodes =
     bind_go (getLoadBalancer qc service) (\<lambda>(conf, lb, err).
     bind_go
       (case err of
          None \<Rightarrow> ret ()
        | Some e \<Rightarrow>
            (if IsResourceNotFound err then
               bind_go (lift (deref conf)) (\<lambda>c.
               if Policy c \<noteq> ReuseExistingLB \<and> Policy c \<noteq> Shared then ret ()
               else fail (Wrapf ''getLoadBalancer error: '' e))
             else fail (Wrapf ''getLoadBalancer error: '' e))) (\<lambda>_.
     bind_go (lift (deref conf)) (\<lambda>conf.
     bind_go (wrap_go ''filterNodes with externalTrafficPolicy '' (lift (filterNodes qc service nodes conf)))
       (\<lambda>(nodes, conf).
     if err = None then
       bind_go (lift (deref lb)) (\<lambda>lb.
       bind_go (update_lb (qc_Client qc) conf lb service nodes) (\<lambda>(lb, changed).
       if changed then apply_lb (qc_Client qc) lb
       else ret (convertLoadBalancerStatus_v1 (lb_Status lb))))
     else
       bind_go (create_lb (qc_Client qc) conf service nodes) (apply_lb (qc_Client qc))))))"

text \<open>The exported handler logs and passes the result on.\<close>

definition EnsureLoadBalancer ::
  "'s QingCloud \<Rightarrow> Service \<Rightarrow> Node list \<Rightarrow> ('s world, LoadBalancerIngress list) go" where
  "EnsureLoadBalancer qc service nodes = ensureLoadBalancer qc service nodes"

subsection \<open>Updating the backends\<close>

definition read_listener :: "LoadBalancerListener \<Rightarrow> ('s, unit) go" where
  "read_listener listener =
     bind_go (lift (deref (ls_LoadBalancerListenerName (ls_Spec listener)))) (\<lambda>_.
     bind_go (lift (deref (ls_LoadBalancerListenerID (ls_Spec listener)))) (\<lambda>_.
     bind_go (lift (deref (ls_ListenerPort (ls_Spec listener)))) (\<lambda>_. ret ())))"

definition refresh_backends ::
  "'s client \<Rightarrow> LoadBalancerConfig \<Rightarrow> Service \<Rightarrow> Node list \<Rightarrow> bool \<Rightarrow> LoadBalancerListener \<Rightarrow>
   ('s world, bool) go" where
  "refresh_backends cl conf svc nodes changed listener =
     bind_go (draw (diffBackend listener nodes conf svc)) (\<lambda>(toDelete, toAdd).
     bind_go
       (if length toDelete > 0 then
          bind_go (read_listener listener) (\<lambda>_.
          bind_go (wrap_go ''delete backends '' (cloud (cl_DeleteBackends cl toDelete))) (\<lambda>_.
          ret True))
        else ret changed) (\<lambda>changed.
     bind_go (lift (generateLoadBalancerBackends toAdd listener (svc_Ports svc))) (\<lambda>toAddBackends.
     if length toAddBackends > 0 then
       bind_go (read_listener listener) (\<lambda>_.
       bind_go (wrap_go ''add backends error: '' (cloud (cl_CreateBackends cl toAddBackends))) (\<lambda>_.
       ret True))
     else ret changed)))"

definition updateLoadBalancer :: "'s QingCloud \<Rightarrow> Service \<Rightarrow> Node list \<Rightarrow> ('s world, unit) go" where
  "updateLoadBalancer qc service nodes =
     bind_go (getLoadBalancer qc service) (\<lambda>(conf, lb, err).
     case err of
       Some e \<Rightarrow> fail (Wrapf ''getLoadBalancer error: '' e)
     | None \<Rightarrow>
         bind_go (lift (deref lb)) (\<lambda>lb.
         bind_go (lift (deref (lb_LoadBalancerID (lb_Status lb)))) (\<lambda>lbID.
         bind_go (lift (deref conf)) (\<lambda>conf.
         bind_go (wrap_go ''filterNodes with externalTrafficPolicy ''
                    (lift (filterNodes qc service nodes conf))) (\<lambda>(nodes, conf).
         bind_go (lift (filterListeners (lb_LoadBalancerListeners (lb_Status lb)) (listenerName conf)))
           (\<lambda>listenerIDs.
         if length listenerIDs \<le> 0 then ret ()
         else
           bind_go (wrap_go ''get listeners '' (cloud (cl_GetListeners (qc_Client qc) listenerIDs)))
             (\<lambda>listeners.
           bind_go (fold_go (refresh_backends (qc_Client qc) conf service nodes) False listeners)
             (\<lambda>changed.
           if \<not> changed then ret ()
           else
             bind_go (wrap_go ''update lb ''
                        (cloud (cl_UpdateLB (qc_Client qc) (lb_LoadBalancerID (lb_Status lb)))))
               (\<lambda>_. ret ())))))))))"

definition UpdateLoadBalancer :: "'s QingCloud \<Rightarrow> Service \<Rightarrow> Node list \<Rightarrow> ('s world, unit) go" where
  "UpdateLoadBalancer qc service nodes = updateLoadBalancer qc service nodes"

subsection \<open>Deleting the load balancer\<close>

definition delete_found ::
  "'s client \<Rightarrow> LoadBalancerConfig \<Rightarrow> LoadBalancer \<Rightarrow> ('s world, unit) go" where
  "delete_found cl lbConfig lb =
     bind_go (lift (deref (lb_LoadBalancerID (lb_Status lb)))) (\<lambda>lbID.
     bind_go (lift (filterListeners (lb_LoadBalancerListeners (lb_Status lb)) (listenerName lbConfig)))
       (\<lambda>listeners.
     if ReuseLBID lbConfig \<noteq> [] \<or>
        int (length (lb_LoadBalancerListeners (lb_Status lb))) - int (length listeners) > 0 then
       (if length listeners \<le> 0 then ret ()
        else
          bind_go (wrap_go ''delete listener '' (cloud (cl_DeleteListener cl listeners))) (\<lambda>_.
          bind_go (wrap_go ''update lb '' (cloud (cl_UpdateLB cl (lb_LoadBalancerID (lb_Status lb)))))
            (\<lambda>_. ret ())))
     else
       bind_go (wrap_go ''delete lb '' (cloud (cl_DeleteLB cl (lb_LoadBalancerID (lb_Status lb))))) (\<lambda>_.
       if length (lb_CreatedEIPs (lb_Status lb)) > 0 then
         wrap_go ''release eip '' (cloud (cl_ReleaseEIP cl (lb_CreatedEIPs (lb_Status lb))))
       else ret ())))"

definition ensureLoadBalancerDeleted :: "'s QingCloud \<Rightarrow> Service \<Rightarrow> ('s world, unit) go" where
  "ensureLoadBalancerDeleted qc service =
     bind_go (getLoadBalancerBeforeDelete qc service) (\<lambda>(lbConfig, lb, err).
     case err of
       Some e \<Rightarrow> if IsResourceNotFound err then ret () else fail (Wrapf ''get lb error: '' e)
     | None \<Rightarrow>
         (case lb of
            None \<Rightarrow> ret ()
          | Some b \<Rightarrow>
              bind_go (lift (deref lbConfig)) (\<lambda>conf. delete_found (qc_Client qc) conf b)))"

definition EnsureLoadBalancerDeleted :: "'s QingCloud \<Rightarrow> Service \<Rightarrow> ('s world, unit) go" where
  "EnsureLoadBalancerDeleted qc service = ensureLoadBalancerDeleted qc service"

subsection \<open>Sample data\<close>

text \<open>A client over a cloud that holds one load balancer with its listeners and accepts everything.\<close>

definition sample_eip :: EIP where
  "sample_eip =
     \<lparr>eip_Spec = \<lparr>eip_EIPName = None, eip_Bandwidth = None\<rparr>,
      eip_Status = zero_EIPStatus\<lparr>eip_EIPID := Some ''eip-9''\<rparr>\<rparr>"

definition sample_client :: "LoadBalancer \<Rightarrow> LoadBalancerListener list \<Rightarrow> unit client" where
  "sample_client lb ls =
     \<lparr>cl_GetLoadBalancerByName = (\<lambda>n. ret lb),
      cl_GetLoadBalancerByID = (\<lambda>i. ret lb),
      cl_ModifyLB = (\<lambda>b. ret ()),
      cl_CreateLB = (\<lambda>b. ret lb),
      cl_DeleteLB = (\<lambda>i. ret ()),
      cl_UpdateLB = (\<lambda>i. ret ()),
      cl_AssociateEIPsToLB = (\<lambda>i es. ret ()),
      cl_DissociateEIPsFromLB = (\<lambda>i es. ret ()),
      cl_GetSecurityGroupByName = (\<lambda>n. fail (NewResourceNotFoundError ''SecurityGroup'' n [])),
      cl_AllocateEIP = (\<lambda>e. ret sample_eip),
      cl_GetAvaliableEIPs = ret [sample_eip],
      cl_ReleaseEIP = (\<lambda>is. ret ()),
      cl_CreateBackends = (\<lambda>bs. ret []),
      cl_DeleteBackends = (\<lambda>is. ret ()),
      cl_CreateListener = (\<lambda>gs. ret ls),
      cl_GetListeners = (\<lambda>is. ret ls),
      cl_DeleteListener = (\<lambda>is. ret ())\<rparr>"

definition sample_qc :: "LoadBalancer \<Rightarrow> LoadBalancerListener list \<Rightarrow> unit QingCloud" where
  "sample_qc lb ls =
     \<lparr>qc_Config = demo_config, qc_Client = sample_client lb ls,
      qc_endpoints = (\<lambda>ns n. Ok [[\<lparr>addr_NodeName = Some ''node1''\<rparr>]])\<rparr>"

end
