(* ===== verification/Nodes.thy ===== *)
theory Nodes
  imports QingCloud
begin

text \<open>
  Correctness of the node choice (\<open>filterNodes\<close>) and of the EIP comparison (\<open>diffLBEip\<close>,
  \<open>updateLBEip\<close>, \<open>prepareEip\<close>): which nodes become backends, that the limit on the number of
  backends never exceeds them, so that the random choice made later can end, and which EIPs a
  load balancer has after its update.
\<close>

subsection \<open>The choice of nodes\<close>

lemma getDefaultBackendCount_bounds:
  "0 \<le> getDefaultBackendCount nodes \<and> getDefaultBackendCount nodes \<le> int (length nodes)"
proof -
  have "length nodes div 3 \<le> length nodes" by simp
  then show ?thesis
    by (simp add: getDefaultBackendCount_def Let_def DefaultBackendCount_def)
qed

lemma count_labels_le: "count_labels node labels \<le> length labels"
  by (induction node labels rule: count_labels.induct) auto

lemma count_labels_all:
  "count_labels node labels = length labels \<longleftrightarrow>
     (\<forall>kv \<in> set labels. map_of (node_Labels node) (fst kv) = Some (snd kv))"
  by (induction node labels rule: count_labels.induct) auto

lemma filterNodes_cluster:
  assumes "svc_ExternalTrafficPolicy svc \<noteq> TrafficPolicyLocal"
    and "filterNodes qc svc nodes conf = Ok (ns, conf')"
  shows "\<exists>chosen n. ns = (if chosen = [] then nodes else chosen) \<and> subseq chosen nodes \<and>
    conf' = conf\<lparr>BackendCountResult := n\<rparr> \<and> 0 \<le> n \<and> n \<le> int (length nodes) \<and>
    (chosen \<noteq> [] \<longrightarrow> n = 0)"
proof (cases "BackendLabel conf = []")
  case True
  have b: "0 \<le> getDefaultBackendCount nodes" "getDefaultBackendCount nodes \<le> int (length nodes)"
    using getDefaultBackendCount_bounds by auto
  from assms True show ?thesis
    by (intro exI[of _ "[]"] exI[of _ "BackendCountResult conf'"])
      (use b in \<open>auto simp: filterNodes_def Let_def split: if_splits\<close>)
next
  case False
  with assms obtain labels where p: "parseBackendLabel (Some conf) = Ok labels"
    by (auto simp: filterNodes_def bind_ok_Ok_iff)
  let ?m = "case labels of None \<Rightarrow> [] | Some m \<Rightarrow> m"
  let ?chosen = "filter (\<lambda>node. count_labels node ?m = length ?m) nodes"
  from False assms p show ?thesis
    using getDefaultBackendCount_bounds[of nodes]
    by (intro exI[of _ ?chosen] exI[of _ "BackendCountResult conf'"])
      (auto simp: filterNodes_def Let_def subseq_filter_left split: if_splits)
qed

lemma filterNodes_local_Ok:
  assumes "svc_ExternalTrafficPolicy svc = TrafficPolicyLocal"
    and "filterNodes qc svc nodes conf = Ok (ns, conf')"
  shows "conf' = conf \<and> subseq ns nodes"
  using assms by (auto simp: filterNodes_def bind_ok_Ok_iff subseq_filter_left)

text \<open>
  C22: The nodes chosen as backends are some of the given nodes, in their order; with the policies
  other than \<open>Local\<close> there is at least one when any node is given, and the limit stored in the
  configuration lies between 0 and their number. Nothing else of the configuration changes.
\<close>
theorem filterNodes_bounds:
  assumes "filterNodes qc svc nodes conf = Ok (ns, conf')"
  shows "subseq ns nodes \<and> conf' = conf\<lparr>BackendCountResult := BackendCountResult conf'\<rparr> \<and>
    (svc_ExternalTrafficPolicy svc \<noteq> TrafficPolicyLocal \<longrightarrow>
      (nodes \<noteq> [] \<longrightarrow> ns \<noteq> []) \<and> 0 \<le> BackendCountResult conf' \<and>
      BackendCountResult conf' \<le> int (length ns))"
proof (cases "svc_ExternalTrafficPolicy svc = TrafficPolicyLocal")
  case True
  with filterNodes_local_Ok[OF True assms] show ?thesis by simp
next
  case False
  from filterNodes_cluster[OF False assms] obtain chosen n where
    c: "ns = (if chosen = [] then nodes else chosen)" "subseq chosen nodes"
      "conf' = conf\<lparr>BackendCountResult := n\<rparr>" "0 \<le> n" "n \<le> int (length nodes)"
      "chosen \<noteq> [] \<longrightarrow> n = 0" by blast
  then show ?thesis by (cases "chosen = []") simp_all
qed

text \<open>
  With a backend label, the backends are the nodes that carry every label of it; when no node
  does, all nodes are used with the default limit, a third of them but at least 3.
\<close>
theorem filterNodes_labels:
  assumes "svc_ExternalTrafficPolicy svc \<noteq> TrafficPolicyLocal" and "BackendLabel conf \<noteq> []"
    and "parseBackendLabel (Some conf) = Ok (Some labels)"
  shows "filterNodes qc svc nodes conf =
    (let labelled = filter (\<lambda>n. \<forall>kv \<in> set labels. map_of (node_Labels n) (fst kv) = Some (snd kv)) nodes in
     Ok (if labelled = [] then (nodes, conf\<lparr>BackendCountResult :=
              (if length nodes \<le> 3 then 0 else max 3 (int (length nodes div 3)))\<rparr>)
         else (labelled, conf\<lparr>BackendCountResult := 0\<rparr>)))"
proof -
  have "getDefaultBackendCount nodes =
      (if length nodes \<le> 3 then 0 else max 3 (int (length nodes div 3)))"
    by (simp add: getDefaultBackendCount_def DefaultBackendCount_def Let_def max_def)
  moreover have "filter (\<lambda>n. count_labels n labels = length labels) nodes =
      filter (\<lambda>n. \<forall>kv \<in> set labels. map_of (node_Labels n) (fst kv) = Some (snd kv)) nodes"
    by (rule filter_cong) (simp_all only: count_labels_all)
  ultimately show ?thesis using assms by (simp add: filterNodes_def Let_def)
qed

text \<open>
  C23: With the policy \<open>Local\<close> the backends are the nodes that run an endpoint of the service; an
  endpoint address without a node name makes the handler panic.
\<close>
theorem filterNodes_local:
  assumes "svc_ExternalTrafficPolicy svc = TrafficPolicyLocal"
    and "qc_endpoints qc (svc_Namespace svc) (svc_Name svc) = Ok ep"
  shows "filterNodes qc svc nodes conf =
    (if \<exists>sub \<in> set ep. \<exists>addr \<in> set sub. addr_NodeName addr = None then Panic
     else Ok (filter (\<lambda>n. \<exists>sub \<in> set ep. \<exists>addr \<in> set sub. addr_NodeName addr = Some (node_Name n)) nodes,
              conf))"
proof -
  have panics: "endpoint_nodes ep = Panic" if "addr \<in> set (concat ep)" "addr_NodeName addr = None" for addr
  proof -
    have "map_ok (\<lambda>addr. deref (addr_NodeName addr)) xs = Panic"
      if "addr \<in> set xs" for xs using that \<open>addr_NodeName addr = None\<close>
    proof (induction xs)
      case (Cons a xs)
      then show ?case by (cases "addr_NodeName a") auto
    qed simp
    with that show ?thesis by (simp add: endpoint_nodes_def)
  qed
  show ?thesis
  proof (cases "\<exists>sub \<in> set ep. \<exists>addr \<in> set sub. addr_NodeName addr = None")
    case True
    then have "endpoint_nodes ep = Panic" using panics by auto
    with True assms show ?thesis by (simp add: filterNodes_def)
  next
    case False
    then have "endpoint_nodes ep = Ok (map (\<lambda>a. the (addr_NodeName a)) (concat ep))"
      unfolding endpoint_nodes_def by (intro map_ok_Ok) auto
    moreover have "node_Name n \<in> set (map (\<lambda>a. the (addr_NodeName a)) (concat ep)) \<longleftrightarrow>
        (\<exists>sub \<in> set ep. \<exists>addr \<in> set sub. addr_NodeName addr = Some (node_Name n))" for n :: Node
    proof -
      have "node_Name n \<in> (\<lambda>a. the (addr_NodeName a)) ` set sub \<longleftrightarrow>
          (\<exists>addr \<in> set sub. addr_NodeName addr = Some (node_Name n))" if "sub \<in> set ep" for sub
        using False that by (force simp: image_iff)
      moreover have "node_Name n \<in> set (map (\<lambda>a. the (addr_NodeName a)) (concat ep)) \<longleftrightarrow>
          (\<exists>sub \<in> set ep. node_Name n \<in> (\<lambda>a. the (addr_NodeName a)) ` set sub)" by auto
      ultimately show ?thesis by blast
    qed
    ultimately show ?thesis using False assms by (simp add: filterNodes_def)
  qed
qed

text \<open>
  C16: After the node choice the backends of a listener can be compared: when the backends are
  named, no backend's name contains two node ids and the random source is fair, the comparison
  returns, and where the choice set a limit, deleting and adding what it says leaves exactly as many
  backends as the limit.
\<close>
theorem filterNodes_diffBackend:
  assumes "filterNodes qc svc nodes conf = Ok (ns, conf')"
    and "named (ls_LoadBalancerBackends (ls_Status l))"
    and "unambiguous ns (ls_LoadBalancerBackends (ls_Status l))"
    and "\<And>n. fair n e"
  shows "\<exists>del add e'. diffBackend l ns conf' svc e = (Ok (del, add), e') \<and>
    (limited conf' svc \<longrightarrow>
      int (length (ls_LoadBalancerBackends (ls_Status l))) - int (length del) + int (length add) =
        BackendCountResult conf')"
proof (cases "limited conf' svc")
  case True
  then have "svc_ExternalTrafficPolicy svc \<noteq> TrafficPolicyLocal" by (auto simp: limited_def)
  from filterNodes_cluster[OF this assms(1)] obtain chosen n where
    c: "ns = (if chosen = [] then nodes else chosen)"
      "conf' = conf\<lparr>BackendCountResult := n\<rparr>" "0 \<le> n" "n \<le> int (length nodes)"
      "chosen \<noteq> [] \<longrightarrow> n = 0" by blast
  then have "0 \<le> BackendCountResult conf' \<and> BackendCountResult conf' \<le> int (length ns)"
    by (cases "chosen = []") simp_all
  with assms have "\<exists>del add e'. diffBackend l ns conf' svc e = (Ok (del, add), e')"
    by (intro diffBackend_completes) auto
  then show ?thesis using diffBackend_leaves by blast
next
  case False
  with assms(2) show ?thesis by (simp add: diffBackend_steps Let_def)
qed

subsection \<open>EIPs\<close>

lemma map_ok_deref_Some [simp]: "map_ok deref (map Some xs) = Ok xs"
  by (induction xs) auto

lemma missing_eips_Some:
  "missing_eips (map Some have) (map Some want) = Ok (map Some (filter (\<lambda>i. i \<notin> set have) want))"
  by (induction want) (auto simp: missing_eips_def)

lemma diffLBEip_configured:
  assumes "EipIDs config = Some (map Some ids)" and "lb_EIPs (lb_Spec lb) = map Some have"
  shows "diffLBEip cl config lb w =
    (Ok (map Some (filter (\<lambda>i. i \<notin> set have) ids),
         if EipReplace config then map Some (filter (\<lambda>i. i \<notin> set ids) have) else []), w)"
  using assms by (simp add: diffLBEip_def missing_eips_Some ret_def)

text \<open>
  C27: With configured EIPs the comparison makes no call; after associating and dissociating what it
  says, the load balancer has exactly the configured EIPs when replacing is on, and its own plus
  the configured ones otherwise. Nothing it has is associated again.
\<close>
theorem diffLBEip_eips:
  assumes "EipIDs config = Some (map Some ids)" and "lb_EIPs (lb_Spec lb) = map Some have"
  shows "\<exists>add del. diffLBEip cl config lb w = (Ok (map Some add, map Some del), w) \<and>
    (set have \<union> set add) - set del = (if EipReplace config then set ids else set have \<union> set ids) \<and>
    set add \<inter> set have = {} \<and> set del \<subseteq> set have"
proof -
  let ?add = "filter (\<lambda>i. i \<notin> set have) ids"
  let ?del = "if EipReplace config then filter (\<lambda>i. i \<notin> set ids) have else []"
  have "diffLBEip cl config lb w = (Ok (map Some ?add, map Some ?del), w)"
    using diffLBEip_configured[OF assms, of cl w] by simp
  moreover have "(set have \<union> set ?add) - set ?del =
      (if EipReplace config then set ids else set have \<union> set ids)" by auto
  moreover have "set ?add \<inter> set have = {}" "set ?del \<subseteq> set have" by auto
  ultimately show ?thesis by (intro exI[of _ ?add] exI[of _ ?del]) simp
qed

text \<open>
  The calls that prepare an EIP follow its source: \<open>use-available\<close> never allocates,
  \<open>allocate\<close> never looks for an available one, and \<open>auto\<close> allocates exactly when the list of
  available EIPs is empty.
\<close>
theorem prepareEip_calls:
  "calls_of (prepareEip (traced cl) (Some UseAvailableOnly)) s e = [GetAvaliableEIPs] \<and>
   calls_of (prepareEip (traced cl) (Some AllocateOnly)) s e = [AllocateEIP None] \<and>
   calls_of (prepareEip (traced cl) (Some UseAvailableOrAllocateOne)) s e =
     GetAvaliableEIPs #
       (case fst (cl_GetAvaliableEIPs cl s) of Ok [] \<Rightarrow> [AllocateEIP None] | _ \<Rightarrow> [])"
proof -
  have distinct: "UseAvailableOnly \<noteq> AllocateOnly" "UseAvailableOrAllocateOne \<noteq> AllocateOnly"
    "UseAvailableOrAllocateOne \<noteq> UseAvailableOnly" by (simp_all add: value_defs)
  show ?thesis
    by (cases "cl_GetAvaliableEIPs cl s"; cases "cl_AllocateEIP cl None s"; cases "fst (cl_GetAvaliableEIPs cl s)")
      (auto simp: prepareEip_def calls_of_def go_defs distinct first_or_def split: list.splits
        prod.splits outcome.splits)
qed

text \<open>The EIPs of the load balancer need no change.\<close>

definition eips_settled :: "LoadBalancerConfig \<Rightarrow> LoadBalancer \<Rightarrow> bool" where
  "eips_settled config lb =
     (ReuseLBID config \<noteq> [] \<or>
      (None \<notin> set (lb_EIPs (lb_Spec lb)) \<and>
       (case EipIDs config of
          Some ids \<Rightarrow>
            None \<notin> set ids \<and> set ids \<subseteq> set (lb_EIPs (lb_Spec lb)) \<and>
            (EipReplace config \<longrightarrow> set (lb_EIPs (lb_Spec lb)) \<subseteq> set ids)
        | None \<Rightarrow>
            (case EipSource config of
               Some src \<Rightarrow>
                 src \<in> {AllocateOnly, UseAvailableOnly, UseAvailableOrAllocateOne} \<and>
                 lb_EIPs (lb_Spec lb) \<noteq> [] \<and> lb_LoadBalancerID (lb_Status lb) \<noteq> None
             | None \<Rightarrow> NetworkType config = NetworkModeInternal \<longrightarrow> lb_EIPs (lb_Spec lb) = []))))"

lemma no_None_map_Some: "None \<notin> set xs \<Longrightarrow> \<exists>ys. xs = map Some ys"
proof (induction xs)
  case (Cons x xs)
  then obtain y ys where "x = Some y" "xs = map Some ys" by (cases x) auto
  then show ?case by (intro exI[of _ "y # ys"]) simp
qed simp

lemma diffLBEip_settled:
  assumes "eips_settled config lb" and "ReuseLBID config = []"
  shows "diffLBEip cl config lb w = (Ok ([], []), w)"
proof -
  from assms obtain have' where h: "lb_EIPs (lb_Spec lb) = map Some have'"
    by (auto simp: eips_settled_def dest: no_None_map_Some)
  show ?thesis
  proof (cases "EipIDs config")
    case None
    then show ?thesis
      using assms h by (cases "EipSource config")
        (auto simp: diffLBEip_def eips_settled_def bind_go_def ret_def lift_def)
  next
    case (Some ids')
    with assms obtain ids where i: "ids' = map Some ids"
      by (auto simp: eips_settled_def dest: no_None_map_Some)
    with Some assms h have "set ids \<subseteq> set have'" "EipReplace config \<Longrightarrow> set have' \<subseteq> set ids"
      by (auto simp: eips_settled_def)
    then have "filter (\<lambda>i. i \<notin> set have') ids = []"
      "EipReplace config \<Longrightarrow> filter (\<lambda>i. i \<notin> set ids) have' = []" by (auto simp: filter_empty_conv)
    with diffLBEip_configured[of config ids lb have' cl w] Some i h show ?thesis by auto
  qed
qed

lemma updateLBEip_settled:
  assumes "eips_settled config lb"
  shows "updateLBEip cl config lb w = (Ok lb, w)"
  using assms diffLBEip_settled[OF assms, of cl w]
  by (auto simp: updateLBEip_def bind_go_def ret_def)

subsection \<open>Witnesses\<close>

definition labelled_node :: "string \<Rightarrow> Node" where
  "labelled_node name = demo_node name\<lparr>node_Labels := [(''zone'', ''a'')]\<rparr>"

definition label_config :: LoadBalancerConfig where
  "label_config = zero_config\<lparr>BackendLabel := ''zone=a''\<rparr>"

definition local_service :: Service where
  "local_service = demo_service\<lparr>svc_ExternalTrafficPolicy := TrafficPolicyLocal\<rparr>"

lemma label_config_parses: "parseBackendLabel (Some label_config) = Ok (Some [(''zone'', ''a'')])"
  by code_simp

lemma demo_service_policy: "svc_ExternalTrafficPolicy demo_service = TrafficPolicyCluster"
  by (simp add: demo_service_def)

theorem filterNodes_labels_witness:
  "filterNodes (sample_qc demo_lb []) demo_service [demo_node ''node1'', labelled_node ''node2''] label_config =
     Ok ([labelled_node ''node2''], label_config\<lparr>BackendCountResult := 0\<rparr>)"
  using filterNodes_labels[of demo_service label_config "[(''zone'', ''a'')]" "sample_qc demo_lb []"
      "[demo_node ''node1'', labelled_node ''node2'']"] label_config_parses
  by (simp add: demo_service_policy demo_node_def labelled_node_def label_config_def)

lemma demo_filterNodes:
  "filterNodes (sample_qc demo_lb []) demo_service [demo_node ''node1'', demo_node ''node2''] zero_config =
     Ok ([demo_node ''node1'', demo_node ''node2''], zero_config\<lparr>BackendCountResult := 0\<rparr>)"
  by (simp add: filterNodes_def demo_service_policy zero_config_def)

theorem filterNodes_bounds_witness:
  "subseq [demo_node ''node1'', demo_node ''node2''] [demo_node ''node1'', demo_node ''node2'']"
  using filterNodes_bounds[OF demo_filterNodes] by simp

theorem filterNodes_local_witness:
  "filterNodes (sample_qc demo_lb []) local_service [demo_node ''node1'', demo_node ''node2''] zero_config =
     Ok ([demo_node ''node1''], zero_config)"
  using filterNodes_local[of local_service "sample_qc demo_lb []" "[[\<lparr>addr_NodeName = Some ''node1''\<rparr>]]"
      "[demo_node ''node1'', demo_node ''node2'']" zero_config]
  by (simp add: local_service_def sample_qc_def demo_node_def)

lemma limited_choice:
  "filterNodes (sample_qc demo_lb []) demo_service [demo_node ''node1'', demo_node ''node2'']
     (zero_config\<lparr>BackendCountConfig := ''1''\<rparr>) =
   Ok ([demo_node ''node1'', demo_node ''node2''], zero_config\<lparr>BackendCountConfig := ''1'', BackendCountResult := 1\<rparr>)"
  by code_simp

theorem filterNodes_diffBackend_witness:
  "\<exists>del add e'. diffBackend (demo_listener [backend_named ''x_node2'']) [demo_node ''node1'', demo_node ''node2'']
     (zero_config\<lparr>BackendCountConfig := ''1'', BackendCountResult := 1\<rparr>) demo_service (\<lambda>i. i) = (Ok (del, add), e') \<and>
     1 - int (length del) + int (length add) = 1"
proof -
  have "limited (zero_config\<lparr>BackendCountConfig := ''1'', BackendCountResult := 1\<rparr>) demo_service"
    by (simp add: limited_def demo_service_def)
  then show ?thesis
    using filterNodes_diffBackend[OF limited_choice, of "demo_listener [backend_named ''x_node2'']" "\<lambda>i. i"]
    by (simp add: demo_unambiguous demo_fair) (simp add: demo_listener_def)
qed

theorem diffLBEip_eips_witness:
  "\<exists>add del. diffLBEip (sample_client demo_lb []) (zero_config\<lparr>EipIDs := Some [Some ''eip-1'']\<rparr>) demo_lb ((), \<lambda>i. i) =
       (Ok (map Some add, map Some del), ((), \<lambda>i. i)) \<and> ({} \<union> set add) - set del = {''eip-1''}"
  using diffLBEip_eips[of "zero_config\<lparr>EipIDs := Some [Some ''eip-1'']\<rparr>" "[''eip-1'']" demo_lb "[]"
      "sample_client demo_lb []" "((), \<lambda>i. i)"]
  by (auto simp: demo_lb_def zero_LoadBalancerSpec_def zero_config_def)

end
