(* ===== verification/Handlers.thy ===== *)
theory Handlers
  imports Nodes
begin

text \<open>
  Correctness of the handlers of the provider. Which calls each handler can make is shown as an
  invariant of the log of a traced client, one rule per operation (collection \<open>keeps_intros\<close>);
  what a handler does when everything is in place, and what a deletion deletes, are shown as
  equations. The lemmas of the locale \<open>cloud_client\<close> hold for every client with its contract.
\<close>

subsection \<open>The calls of the operations\<close>

lemma keeps_traced_method [keeps_intros]:
  "P c \<Longrightarrow> keeps (on_cloud (only_calls P)) (cloud (log_call c m))"
  by (intro keeps_intros)

lemma keeps_prepareEip [keeps_intros]:
  "P (AllocateEIP None) \<Longrightarrow> P GetAvaliableEIPs \<Longrightarrow>
   keeps (on_cloud (only_calls P)) (prepareEip (traced cl) src)"
  unfolding prepareEip_def by (auto intro!: keeps_intros)

lemma keeps_diffLBEip [keeps_intros]:
  "P (AllocateEIP None) \<Longrightarrow> P GetAvaliableEIPs \<Longrightarrow>
   keeps (on_cloud (only_calls P)) (diffLBEip (traced cl) config lb)"
  unfolding diffLBEip_def by (auto intro!: keeps_intros)

lemma keeps_updateLBEip [keeps_intros]:
  assumes "ReuseLBID config = [] \<Longrightarrow> P (AllocateEIP None) \<and> P GetAvaliableEIPs \<and>
      (\<forall>es. P (AssociateEIPsToLB (lb_LoadBalancerID (lb_Status lb)) es)) \<and>
      (\<forall>es. P (DissociateEIPsFromLB (lb_LoadBalancerID (lb_Status lb)) es)) \<and>
      P (GetLoadBalancerByName (LoadBalancerName config))"
  shows "keeps (on_cloud (only_calls P)) (updateLBEip (traced cl) config lb)"
  unfolding updateLBEip_def using assms by (auto intro!: keeps_intros)

lemma keeps_find_lb [keeps_intros]:
  "(\<And>n. P (GetLoadBalancerByName n)) \<Longrightarrow> (\<And>i. P (GetLoadBalancerByID i)) \<Longrightarrow>
   keeps (on_cloud (only_calls P)) (find_lb (traced cl) conf)"
  unfolding find_lb_def by (auto intro!: keeps_intros)

lemma keeps_with_error [keeps_intros]: "keeps I m \<Longrightarrow> keeps I (with_error conf m)"
  unfolding with_error_def by (auto intro!: keeps_intros)

lemma keeps_getLoadBalancer [keeps_intros]:
  "(\<And>n. P (GetLoadBalancerByName n)) \<Longrightarrow> (\<And>i. P (GetLoadBalancerByID i)) \<Longrightarrow>
   keeps (on_cloud (only_calls P)) (getLoadBalancer (qc\<lparr>qc_Client := traced cl\<rparr>) svc)"
  unfolding getLoadBalancer_def by (auto intro!: keeps_intros)

lemma keeps_getLoadBalancerBeforeDelete [keeps_intros]:
  "(\<And>n. P (GetLoadBalancerByName n)) \<Longrightarrow> (\<And>i. P (GetLoadBalancerByID i)) \<Longrightarrow>
   keeps (on_cloud (only_calls P)) (getLoadBalancerBeforeDelete (qc\<lparr>qc_Client := traced cl\<rparr>) svc)"
  unfolding getLoadBalancerBeforeDelete_def by (auto intro!: keeps_intros)

lemma keeps_create_backends_of [keeps_intros]:
  "(\<And>bs. P (CreateBackends bs)) \<Longrightarrow>
   keeps (on_cloud (only_calls P)) (create_backends_of (traced cl) lb ports nodes u l)"
  unfolding create_backends_of_def by (auto intro!: keeps_intros)

lemma keeps_createListenersAndBackends [keeps_intros]:
  "(\<And>gs. P (CreateListener gs)) \<Longrightarrow> (\<And>bs. P (CreateBackends bs)) \<Longrightarrow>
   keeps (on_cloud (only_calls P)) (createListenersAndBackends (traced cl) conf lb ports nodes svc)"
  unfolding createListenersAndBackends_def by (auto intro!: keeps_intros)

lemma keeps_read_listener [keeps_intros]: "keeps I (read_listener l)"
  unfolding read_listener_def by (auto intro!: keeps_intros)

lemma keeps_refresh_backends [keeps_intros]:
  "(\<And>is. P (DeleteBackends is)) \<Longrightarrow> (\<And>bs. P (CreateBackends bs)) \<Longrightarrow>
   keeps (on_cloud (only_calls P)) (refresh_backends (traced cl) conf svc nodes b l)"
  unfolding refresh_backends_def by (auto intro!: keeps_intros)

lemma keeps_update_backends [keeps_intros]:
  "(\<And>is. P (DeleteBackends is)) \<Longrightarrow> (\<And>bs. P (CreateBackends bs)) \<Longrightarrow>
   keeps (on_cloud (only_calls P)) (update_backends (traced cl) conf svc nodes b l)"
  unfolding update_backends_def by (auto intro!: keeps_intros)

lemma keeps_update_listeners [keeps_intros]:
  "(\<And>is. P (GetListeners is)) \<Longrightarrow> (\<And>is. P (DeleteListener is)) \<Longrightarrow>
   (\<And>gs. P (CreateListener gs)) \<Longrightarrow> (\<And>is. P (DeleteBackends is)) \<Longrightarrow> (\<And>bs. P (CreateBackends bs)) \<Longrightarrow>
   keeps (on_cloud (only_calls P)) (update_listeners (traced cl) conf lb svc nodes b)"
  unfolding update_listeners_def by (auto intro!: keeps_intros)

subsection \<open>Properties: the query and the update\<close>

text \<open>
  C31: The query never returns an error: when the load balancer cannot be found, for whatever reason,
  it says that there is none; otherwise it returns the status of the one that was found.
\<close>
theorem GetLoadBalancer_result:
  "fst (GetLoadBalancer qc svc w) =
     (case fst (find_lb (qc_Client qc) (parseServiceLBAndEIP (qc_Config qc) svc) w) of
        Ok lb \<Rightarrow> Ok (Some (convertLoadBalancerStatus_v1 (lb_Status lb)), True)
      | Err e \<Rightarrow> Ok (None, False)
      | Panic \<Rightarrow> Panic
      | Diverge \<Rightarrow> Diverge)"
  by (cases "find_lb (qc_Client qc) (parseServiceLBAndEIP (qc_Config qc) svc) w")
    (auto simp: GetLoadBalancer_def getLoadBalancerBeforeDelete_def with_error_def go_defs Let_def
      split: outcome.splits)

text \<open>
  C15: The update of the backends makes no call but reads, the deletion and creation of backends, and
  the final apply: load balancers, listeners and EIPs are never created or deleted by it.
\<close>
theorem UpdateLoadBalancer_calls:
  "list_all (\<lambda>c. reads c \<or> (\<exists>is. c = DeleteBackends is) \<or> (\<exists>bs. c = CreateBackends bs) \<or>
      (\<exists>i. c = UpdateLB i))
    (calls_of (UpdateLoadBalancer (qc\<lparr>qc_Client := traced cl\<rparr>) svc nodes) s e)"
  unfolding UpdateLoadBalancer_def updateLoadBalancer_def
  by (rule calls_of_keeps) (auto intro!: keeps_intros)

subsection \<open>Ensuring: which calls\<close>

text \<open>A sequence keeps an invariant when its continuation does for the results its start can have.\<close>

lemma keeps_bind_result:
  assumes "keeps I m" and "\<And>x s s'. m s = (Ok x, s') \<Longrightarrow> keeps I (f x)"
  shows "keeps I (bind_go m f)"
  using assms
  by (fastforce simp: keeps_def bind_go_def split: prod.splits outcome.splits)

definition touches_owned :: "call \<Rightarrow> bool" where
  "touches_owned c =
     (case c of
        CreateLB b \<Rightarrow> True | DeleteLB i \<Rightarrow> True | AllocateEIP x \<Rightarrow> True | GetAvaliableEIPs \<Rightarrow> True
      | ReleaseEIP es \<Rightarrow> True | AssociateEIPsToLB i es \<Rightarrow> True | DissociateEIPsFromLB i es \<Rightarrow> True
      | _ \<Rightarrow> False)"

lemma getLoadBalancer_conf:
  assumes "getLoadBalancer qc svc w = (Ok (Some conf, lb, err), w')"
  shows "ParseServiceLBConfig (qc_Config qc) (cfg_ClusterID (qc_Config qc)) svc = Ok conf"
  using assms
  by (cases "ParseServiceLBConfig (qc_Config qc) (cfg_ClusterID (qc_Config qc)) svc")
    (auto simp: getLoadBalancer_def with_error_def go_defs
      split: prod.splits outcome.splits if_splits)

lemma reuse_policy_conf:
  assumes "ParseServiceLBConfig cfg cluster svc = Ok conf"
    and "index_str (annotations svc) ServiceAnnotationLoadBalancerPolicy = ReuseExistingLB"
  shows "Policy conf = ReuseExistingLB \<and> ReuseLBID conf \<noteq> []"
proof -
  have "Policy conf = ReuseExistingLB"
    using ParseServiceLBConfig_facts(9)[OF assms(1)] assms(2) by simp
  then show ?thesis using ParseServiceLBConfig_facts(3)[OF assms(1)] by (auto simp: policy_ok_def)
qed

lemma filterNodes_frame:
  assumes "filterNodes qc svc nodes conf = Ok (ns, conf')"
  shows "\<exists>n. conf' = conf\<lparr>BackendCountResult := n\<rparr>"
proof (cases "svc_ExternalTrafficPolicy svc = TrafficPolicyLocal")
  case True
  with filterNodes_local_Ok[OF _ assms] have "conf' = conf\<lparr>BackendCountResult := BackendCountResult conf\<rparr>"
    by simp
  then show ?thesis ..
next
  case False
  from filterNodes_cluster[OF this assms] show ?thesis by blast
qed

lemma filterNodes_same_lb:
  assumes "filterNodes qc svc nodes conf = Ok (ns, conf')"
  shows "ReuseLBID conf' = ReuseLBID conf" "listenerName conf' = listenerName conf"
    "LoadBalancerName conf' = LoadBalancerName conf" "EipIDs conf' = EipIDs conf"
    "EipSource conf' = EipSource conf" "VxNetID conf' = VxNetID conf"
  using filterNodes_frame[OF assms] by auto

lemma keeps_update_lb [keeps_intros]:
  assumes "\<And>b. P (ModifyLB b)" and "\<And>is. P (GetListeners is)" and "\<And>is. P (DeleteListener is)"
    and "\<And>gs. P (CreateListener gs)" and "\<And>is. P (DeleteBackends is)" and "\<And>bs. P (CreateBackends bs)"
    and "ReuseLBID conf = [] \<Longrightarrow> P (AllocateEIP None) \<and> P GetAvaliableEIPs \<and>
      (\<forall>es. P (AssociateEIPsToLB (lb_LoadBalancerID (lb_Status lb)) es)) \<and>
      (\<forall>es. P (DissociateEIPsFromLB (lb_LoadBalancerID (lb_Status lb)) es)) \<and>
      P (GetLoadBalancerByName (LoadBalancerName conf))"
  shows "keeps (on_cloud (only_calls P)) (update_lb (traced cl) conf lb svc nodes)"
  unfolding update_lb_def using assms by (auto intro!: keeps_intros)

lemma keeps_apply_lb [keeps_intros]:
  "(\<And>i. P (UpdateLB i)) \<Longrightarrow> keeps (on_cloud (only_calls P)) (apply_lb (traced cl) lb)"
  unfolding apply_lb_def by (auto intro!: keeps_intros)

lemma keeps_create_lb [keeps_intros]:
  assumes "P (AllocateEIP None)" and "P GetAvaliableEIPs"
    and "\<And>es. P (CreateLB (lb_request conf es))" and "\<And>gs. P (CreateListener gs)"
    and "\<And>bs. P (CreateBackends bs)"
  shows "keeps (on_cloud (only_calls P)) (create_lb (traced cl) conf svc nodes)"
  unfolding create_lb_def using assms by (auto intro!: keeps_intros)

text \<open>
  C6: Ensuring never deletes a load balancer and never releases an EIP. With the strategy
  \<open>reuse-lb\<close> it also creates none, and neither looks for, allocates, associates nor dissociates
  EIPs: of a load balancer it does not own it changes only attributes, listeners and backends.
\<close>
theorem EnsureLoadBalancer_calls:
  "list_all (\<lambda>c. \<not> (\<exists>i. c = DeleteLB i) \<and> \<not> (\<exists>es. c = ReleaseEIP es) \<and>
      \<not> (touches_owned c \<and>
         index_str (annotations svc) ServiceAnnotationLoadBalancerPolicy = ReuseExistingLB))
    (calls_of (EnsureLoadBalancer (qc\<lparr>qc_Client := traced cl\<rparr>) svc nodes) s e)"
proof (rule calls_of_keeps)
  let ?qc = "qc\<lparr>qc_Client := traced cl\<rparr>"
  let ?reuse = "index_str (annotations svc) ServiceAnnotationLoadBalancerPolicy = ReuseExistingLB"
  let ?P = "\<lambda>c. \<not> (\<exists>i. c = DeleteLB i) \<and> \<not> (\<exists>es. c = ReleaseEIP es) \<and> \<not> (touches_owned c \<and> ?reuse)"
  show "keeps (on_cloud (only_calls ?P)) (EnsureLoadBalancer ?qc svc nodes)"
    unfolding EnsureLoadBalancer_def ensureLoadBalancer_def
  proof (rule keeps_bind_result, goal_cases)
    case 1
    show ?case by (intro keeps_intros) (auto simp: touches_owned_def)
  next
    case (2 found w w')
    obtain conf lb err where f: "found = (conf, lb, err)" by (cases found)
    have policy: "Policy c = ReuseExistingLB \<and> ReuseLBID c \<noteq> []" if "conf = Some c" ?reuse for c
      using reuse_policy_conf[OF getLoadBalancer_conf] 2 f that by blast
    show ?case
      unfolding f prod.case
    proof (rule keeps_bind_result, goal_cases)
      case 1
      show ?case by (auto intro!: keeps_intros)
    next
      case (2 u v v')
      have gate: "\<not> ?reuse \<or> err = None"
        using 2 policy by (cases err; cases conf)
          (auto simp: bind_go_Ok_iff split: if_splits)
      show ?case
      proof (rule keeps_bind_result, goal_cases)
        case (2 c v v')
        then have c: "conf = Some c" by (cases conf) auto
        show ?case
        proof (rule keeps_bind_result, goal_cases)
          case (2 r v v')
          obtain ns c' where r: "r = (ns, c')" by (cases r)
          with 2 have "filterNodes ?qc svc nodes c = Ok (ns, c')" by simp
          then have "ReuseLBID c' = ReuseLBID c" by (rule filterNodes_same_lb)
          then have "ReuseLBID c' \<noteq> []" if ?reuse using policy[OF c that] by simp
          then show ?case unfolding r prod.case using gate
            by (cases "err = None") (auto intro!: keeps_intros simp: touches_owned_def)
        qed (auto intro!: keeps_intros)
      qed (auto intro!: keeps_intros)
    qed
  qed
qed

subsection \<open>Finding, with a trace\<close>

text \<open>A lookup with a trace behaves like the lookup and logs one read.\<close>

definition lookup_call :: "LoadBalancerConfig \<Rightarrow> call" where
  "lookup_call conf =
     (if ReuseLBID conf \<noteq> [] then GetLoadBalancerByID (ReuseLBID conf)
      else GetLoadBalancerByName (LoadBalancerName conf))"

lemma find_lb_traced:
  assumes "find_lb cl conf (s, e) = (r, (s', e'))"
    and "ReuseLBID conf \<noteq> [] \<or> LoadBalancerName conf \<noteq> []"
  shows "find_lb (traced cl) conf ((s, log), e) = (r, ((s', log @ [lookup_call conf]), e'))"
  using assms
  by (auto simp: find_lb_def lookup_call_def go_defs split: prod.splits)

lemma find_lb_found:
  "find_lb cl conf w = (Ok lb, w') \<Longrightarrow> ReuseLBID conf \<noteq> [] \<or> LoadBalancerName conf \<noteq> []"
  by (auto simp: find_lb_def split: if_splits)

lemma getLoadBalancer_found:
  assumes "ParseServiceLBConfig (qc_Config qc) (cfg_ClusterID (qc_Config qc)) svc = Ok conf"
    and "find_lb (qc_Client qc) conf w = (Ok lb, w')"
  shows "getLoadBalancer qc svc w = (Ok (Some conf, Some lb, None), w')"
  using assms find_lb_found[OF assms(2)]
  by (auto simp: getLoadBalancer_def with_error_def go_defs)

lemma getLoadBalancer_failed:
  assumes "ParseServiceLBConfig (qc_Config qc) (cfg_ClusterID (qc_Config qc)) svc = Ok conf"
    and "find_lb (qc_Client qc) conf w = (Err er, w')"
    and "ReuseLBID conf \<noteq> [] \<or> LoadBalancerName conf \<noteq> []"
  shows "getLoadBalancer qc svc w = (Ok (Some conf, None, Some er), w')"
  using assms by (auto simp: getLoadBalancer_def with_error_def go_defs)

lemma calls_of_bind:
  assumes "m ((s, []), e) = (Ok x, w')" and "on_cloud (only_calls P) w'"
    and "keeps (on_cloud (only_calls P)) (f x)"
  shows "list_all P (calls_of (bind_go m f) s e)"
  using keepsD[OF assms(3,2)]
  by (simp add: calls_of_def bind_go_def assms(1) on_cloud_def only_calls_def)

text \<open>
  C14: A load balancer that is found is never created again: when the lookup of an accepted service
  succeeds, ensuring makes no creation request.
\<close>
theorem EnsureLoadBalancer_no_duplicate:
  assumes "ParseServiceLBConfig (qc_Config qc) (cfg_ClusterID (qc_Config qc)) svc = Ok conf"
    and "find_lb cl conf (s, e) = (Ok lb, w')"
  shows "list_all (\<lambda>c. \<not> (\<exists>b. c = CreateLB b))
    (calls_of (EnsureLoadBalancer (qc\<lparr>qc_Client := traced cl\<rparr>) svc nodes) s e)"
proof -
  let ?qc = "qc\<lparr>qc_Client := traced cl\<rparr>"
  obtain s' e' where w: "w' = (s', e')" by (cases w')
  have "find_lb (traced cl) conf ((s, []), e) = (Ok lb, ((s', [lookup_call conf]), e'))"
    using find_lb_traced[of cl conf s e "Ok lb" s' e' "[]"] assms(2) find_lb_found[OF assms(2)]
    by (simp add: w)
  then have g: "getLoadBalancer ?qc svc ((s, []), e) =
      (Ok (Some conf, Some lb, None), ((s', [lookup_call conf]), e'))"
    using assms(1) by (intro getLoadBalancer_found) simp_all
  show ?thesis
    unfolding EnsureLoadBalancer_def ensureLoadBalancer_def
  proof (rule calls_of_bind[where m = "getLoadBalancer ?qc svc", OF g])
    show "on_cloud (only_calls (\<lambda>c. \<not> (\<exists>b. c = CreateLB b))) ((s', [lookup_call conf]), e')"
      by (simp add: on_cloud_def only_calls_def lookup_call_def)
  qed (auto intro!: keeps_intros)
qed

subsection \<open>Deleting\<close>

lemma filterListeners_all_own:
  assumes "filterListeners ls p = Ok ids" and "length ids = length ls" and "l \<in> set ls"
  shows "\<exists>n. ls_LoadBalancerListenerName (ls_Spec l) = Some n \<and> HasPrefix n p"
proof -
  have "filter_ok f ls = Ok ys \<Longrightarrow> length ys = length ls \<Longrightarrow> l \<in> set ls \<Longrightarrow> f l = Ok True"
    for f ys
  proof (induction ls arbitrary: ys)
    case (Cons x xs)
    from Cons.prems(1) obtain b zs where b: "f x = Ok b" "filter_ok f xs = Ok zs"
      "ys = (if b then x # zs else zs)" by (auto simp: bind_ok_Ok_iff)
    have "length zs \<le> length xs" using b(2)
      by (induction xs arbitrary: zs) (fastforce simp: bind_ok_Ok_iff split: if_splits)+
    with b Cons.prems(2) have "b" "length zs = length xs" by (auto split: if_splits)
    with Cons b show ?case by auto
  qed simp
  from this[of _ "_"] assms show ?thesis
    by (fastforce simp: filterListeners_def bind_ok_Ok_iff)
qed

text \<open>What the deletion may do to the load balancer that was found for the service.\<close>

definition exclusively_owned :: "LoadBalancerConfig \<Rightarrow> LoadBalancer \<Rightarrow> bool" where
  "exclusively_owned conf lb =
     (ReuseLBID conf = [] \<and>
      list_all (\<lambda>l. \<exists>n. ls_LoadBalancerListenerName (ls_Spec l) = Some n \<and> HasPrefix n (listenerName conf))
        (lb_LoadBalancerListeners (lb_Status lb)))"

definition may_delete :: "LoadBalancerConfig \<Rightarrow> LoadBalancer \<Rightarrow> call \<Rightarrow> bool" where
  "may_delete conf lb c =
     (case c of
        DeleteLB i \<Rightarrow> i = lb_LoadBalancerID (lb_Status lb) \<and> exclusively_owned conf lb
      | ReleaseEIP es \<Rightarrow> es = lb_CreatedEIPs (lb_Status lb) \<and> exclusively_owned conf lb
      | DeleteListener is \<Rightarrow>
          filterListeners (lb_LoadBalancerListeners (lb_Status lb)) (listenerName conf) = Ok is
      | UpdateLB i \<Rightarrow> i = lb_LoadBalancerID (lb_Status lb)
      | GetLoadBalancerByName n \<Rightarrow> True
      | GetLoadBalancerByID n \<Rightarrow> True
      | _ \<Rightarrow> False)"

lemma keeps_delete_found:
  "keeps (on_cloud (only_calls (may_delete conf lb))) (delete_found (traced cl) conf lb)"
  unfolding delete_found_def
proof (rule keeps_bind_result, goal_cases)
  case (2 i w w')
  show ?case
  proof (rule keeps_bind_result, goal_cases)
    case (2 ids v v')
    then have ids: "filterListeners (lb_LoadBalancerListeners (lb_Status lb)) (listenerName conf) = Ok ids"
      by simp
    have len: "length ids \<le> length (lb_LoadBalancerListeners (lb_Status lb))"
    proof -
      have "filter_ok f xs = Ok ys \<Longrightarrow> length ys \<le> length xs" for f and xs ys :: "LoadBalancerListener list"
        by (induction xs arbitrary: ys) (fastforce simp: bind_ok_Ok_iff split: if_splits)+
      then show ?thesis using ids by (fastforce simp: filterListeners_def bind_ok_Ok_iff)
    qed
    have own: "list_all (\<lambda>l. \<exists>n. ls_LoadBalancerListenerName (ls_Spec l) = Some n \<and>
        HasPrefix n (listenerName conf)) (lb_LoadBalancerListeners (lb_Status lb))"
      if "\<not> (int (length (lb_LoadBalancerListeners (lb_Status lb))) - int (length ids) > 0)"
      unfolding list_all_iff
      using filterListeners_all_own[OF ids] len that by (intro ballI) auto
    show ?case
      using ids own by (auto intro!: keeps_intros simp: may_delete_def exclusively_owned_def)
  qed (auto intro!: keeps_intros)
qed (auto intro!: keeps_intros)

text \<open>The pass makes the lookup, and goes on only with a load balancer.\<close>

lemma LoadBalancerName_parseServiceLBAndEIP:
  "LoadBalancerName (parseServiceLBAndEIP cfg svc) = exclusive_lb_name (cfg_ClusterID cfg) svc"
  by (simp add: parseServiceLBAndEIP_def Let_def)

lemma listenerName_parseServiceLBAndEIP:
  "listenerName (parseServiceLBAndEIP cfg svc) = listener_name (svc_Namespace svc) (svc_Name svc)"
  by (simp add: parseServiceLBAndEIP_def Let_def)

lemma deletion_lookup:
  assumes "find_lb cl (parseServiceLBAndEIP (qc_Config qc) svc) (s, e) = (r, (s', e'))"
  shows "find_lb (traced cl) (parseServiceLBAndEIP (qc_Config qc) svc) ((s, []), e) =
    (r, ((s', [lookup_call (parseServiceLBAndEIP (qc_Config qc) svc)]), e'))"
  using find_lb_traced[OF assms, of "[]"] by (simp add: LoadBalancerName_parseServiceLBAndEIP)

lemma deletion_calls_found:
  assumes "find_lb cl (parseServiceLBAndEIP (qc_Config qc) svc) (s, e) = (Ok lb, w')"
  shows "list_all (may_delete (parseServiceLBAndEIP (qc_Config qc) svc) lb)
    (calls_of (EnsureLoadBalancerDeleted (qc\<lparr>qc_Client := traced cl\<rparr>) svc) s e)"
proof -
  let ?conf = "parseServiceLBAndEIP (qc_Config qc) svc"
  obtain s' e' where w: "w' = (s', e')" by (cases w')
  have g: "getLoadBalancerBeforeDelete (qc\<lparr>qc_Client := traced cl\<rparr>) svc ((s, []), e) =
      (Ok (Some ?conf, Some lb, None), ((s', [lookup_call ?conf]), e'))"
    using deletion_lookup[OF assms[unfolded w]]
    by (simp add: getLoadBalancerBeforeDelete_def with_error_def go_defs Let_def)
  show ?thesis
    unfolding EnsureLoadBalancerDeleted_def ensureLoadBalancerDeleted_def
  proof (rule calls_of_bind[where m = "getLoadBalancerBeforeDelete (qc\<lparr>qc_Client := traced cl\<rparr>) svc", OF g])
    show "on_cloud (only_calls (may_delete ?conf lb)) ((s', [lookup_call ?conf]), e')"
      by (simp add: on_cloud_def only_calls_def lookup_call_def may_delete_def)
  qed (simp add: keeps_delete_found)
qed

lemma deletion_calls_failed:
  assumes "find_lb cl (parseServiceLBAndEIP (qc_Config qc) svc) (s, e) = (r, w')" and "\<And>lb. r \<noteq> Ok lb"
  shows "calls_of (EnsureLoadBalancerDeleted (qc\<lparr>qc_Client := traced cl\<rparr>) svc) s e =
    [lookup_call (parseServiceLBAndEIP (qc_Config qc) svc)]"
proof -
  obtain s' e' where w: "w' = (s', e')" by (cases w')
  from deletion_lookup[OF assms(1)[unfolded w]] assms(2) show ?thesis
    by (cases r) (auto simp: calls_of_def EnsureLoadBalancerDeleted_def ensureLoadBalancerDeleted_def
        getLoadBalancerBeforeDelete_def with_error_def go_defs Let_def)
qed

text \<open>
  C5: Deleting a service touches only what belongs to it. On the load balancer found for it, it
  deletes the listeners with the service's own prefix; the load balancer itself and the EIPs
  allocated for it go only when it is not a reused one and all of its listeners are the service's own.
  No other call is made.
\<close>
theorem EnsureLoadBalancerDeleted_calls:
  assumes "find_lb cl (parseServiceLBAndEIP (qc_Config qc) svc) (s, e) = (Ok lb, w')"
  shows "list_all (may_delete (parseServiceLBAndEIP (qc_Config qc) svc) lb)
    (calls_of (EnsureLoadBalancerDeleted (qc\<lparr>qc_Client := traced cl\<rparr>) svc) s e)"
  by (rule deletion_calls_found[OF assms])

text \<open>
  C30: Deleting a service whose load balancer does not exist succeeds after the lookup alone; any
  other failure of the lookup is reported and nothing is deleted.
\<close>
theorem EnsureLoadBalancerDeleted_not_found:
  assumes "find_lb cl (parseServiceLBAndEIP (qc_Config qc) svc) (s, e) = (Err er, w')"
  shows "fst (EnsureLoadBalancerDeleted (qc\<lparr>qc_Client := cl\<rparr>) svc (s, e)) =
      (if IsResourceNotFound (Some er) then Ok () else Err (Wrapf ''get lb error: '' er)) \<and>
    snd (EnsureLoadBalancerDeleted (qc\<lparr>qc_Client := cl\<rparr>) svc (s, e)) = w'"
  using assms
  by (simp add: EnsureLoadBalancerDeleted_def ensureLoadBalancerDeleted_def
      getLoadBalancerBeforeDelete_def with_error_def go_defs Let_def)

subsection \<open>Nothing to do\<close>

lemma fold_go_unchanged:
  assumes "\<And>x. x \<in> set xs \<Longrightarrow> f b x w = (Ok b, w)"
  shows "fold_go f b xs w = (Ok b, w)"
  using assms by (induction xs) (auto simp: bind_go_def ret_def)

lemma update_backends_settled:
  assumes "backends_settled l ns conf svc"
    and "ls_LoadBalancerListenerID (ls_Spec l) \<noteq> None" and "ls_LoadBalancerListenerName (ls_Spec l) \<noteq> None"
  shows "update_backends cl conf svc ns b l w = (Ok b, w)"
  using assms diffBackend_settled_Ok[OF assms(1), of "snd w"]
  by (auto simp: update_backends_def go_defs)

lemma refresh_backends_settled:
  assumes "backends_settled l ns conf svc"
  shows "refresh_backends cl conf svc ns b l w = (Ok b, w)"
  using assms diffBackend_settled_Ok[OF assms(1), of "snd w"]
  by (auto simp: refresh_backends_def go_defs generateLoadBalancerBackends_def)

text \<open>
  Everything is in place: the attributes, EIPs, listeners and backends that were found are those
  that are asked for.
\<close>

definition in_place ::
  "LoadBalancerConfig \<Rightarrow> LoadBalancer \<Rightarrow> LoadBalancerListener list \<Rightarrow> Service \<Rightarrow> Node list \<Rightarrow> bool" where
  "in_place conf lb ls svc ns =
     (lb_LoadBalancerID (lb_Status lb) \<noteq> None \<and> needUpdateAttr conf lb = Ok None \<and>
      eips_settled conf lb \<and>
      diffListeners ls (Some conf) (svc_Ports svc) = Ok ([], [], ls) \<and>
      list_all (\<lambda>l. backends_settled l ns conf svc \<and>
                    ls_LoadBalancerListenerID (ls_Spec l) \<noteq> None \<and>
                    ls_LoadBalancerListenerName (ls_Spec l) \<noteq> None) ls)"

lemma filterNodes_client [simp]:
  "filterNodes (qc\<lparr>qc_Client := c\<rparr>) svc nodes conf = filterNodes qc svc nodes conf"
  by (simp add: filterNodes_def)

lemma update_lb_in_place:
  assumes "in_place conf lb ls svc ns"
    and "filterListeners (lb_LoadBalancerListeners (lb_Status lb)) (listenerName conf) = Ok ids"
    and "ids \<noteq> []" and "cl_GetListeners cl ids s = (Ok ls, s')"
  shows "update_lb cl conf lb svc ns (s, e) = (Ok (lb, False), (s', e))"
proof -
  from assms(1) obtain i where i: "lb_LoadBalancerID (lb_Status lb) = Some i"
    by (auto simp: in_place_def)
  have "updateLBEip cl conf lb (s, e) = (Ok lb, (s, e))"
    using assms(1) by (intro updateLBEip_settled) (simp add: in_place_def)
  moreover have "fold_go (update_backends cl conf svc ns) False ls (s', e) = (Ok False, (s', e))"
    using assms(1) by (intro fold_go_unchanged update_backends_settled) (auto simp: in_place_def list_all_iff)
  ultimately show ?thesis
    using assms i by (simp add: update_lb_def update_listeners_def in_place_def go_defs)
qed

lemma EnsureLoadBalancer_settled:
  assumes "ParseServiceLBConfig (qc_Config qc) (cfg_ClusterID (qc_Config qc)) svc = Ok conf"
    and "find_lb cl conf (s, e) = (Ok lb, (s1, e))"
    and "filterNodes qc svc nodes conf = Ok (ns, conf')"
    and "filterListeners (lb_LoadBalancerListeners (lb_Status lb)) (listenerName conf) = Ok ids"
    and "ids \<noteq> []" and "cl_GetListeners cl ids s1 = (Ok ls, s2)"
    and "in_place conf' lb ls svc ns"
  shows "EnsureLoadBalancer (qc\<lparr>qc_Client := traced cl\<rparr>) svc nodes ((s, []), e) =
    (Ok (convertLoadBalancerStatus_v1 (lb_Status lb)), ((s2, [lookup_call conf, GetListeners ids]), e))"
proof -
  let ?qc = "qc\<lparr>qc_Client := traced cl\<rparr>"
  have "find_lb (traced cl) conf ((s, []), e) = (Ok lb, ((s1, [lookup_call conf]), e))"
    using find_lb_traced[OF assms(2), of "[]"] find_lb_found[OF assms(2)] by simp
  then have g: "getLoadBalancer ?qc svc ((s, []), e) =
      (Ok (Some conf, Some lb, None), ((s1, [lookup_call conf]), e))"
    using assms(1) by (intro getLoadBalancer_found) simp_all
  have "listenerName conf' = listenerName conf" by (rule filterNodes_same_lb[OF assms(3)])
  then have ids: "filterListeners (lb_LoadBalancerListeners (lb_Status lb)) (listenerName conf') = Ok ids"
    using assms(4) by simp
  have "cl_GetListeners (traced cl) ids (s1, [lookup_call conf]) =
      (Ok ls, (s2, [lookup_call conf, GetListeners ids]))"
    by (simp add: log_call_def assms(6))
  from update_lb_in_place[OF assms(7) ids assms(5) this] show ?thesis
    by (simp add: EnsureLoadBalancer_def ensureLoadBalancer_def bind_go_def g assms(3) wrap_go_def ret_def lift_def)
qed

text \<open>
  C8: When everything is in place, ensuring only looks up the load balancer and lists its listeners:
  it changes nothing, draws nothing, applies nothing and returns the status it found.
\<close>
theorem EnsureLoadBalancer_in_place:
  assumes "ParseServiceLBConfig (qc_Config qc) (cfg_ClusterID (qc_Config qc)) svc = Ok conf"
    and "find_lb cl conf (s, e) = (Ok lb, (s1, e))"
    and "filterNodes qc svc nodes conf = Ok (ns, conf')"
    and "filterListeners (lb_LoadBalancerListeners (lb_Status lb)) (listenerName conf) = Ok ids"
    and "ids \<noteq> []" and "cl_GetListeners cl ids s1 = (Ok ls, s2)"
    and "in_place conf' lb ls svc ns"
  shows "EnsureLoadBalancer (qc\<lparr>qc_Client := traced cl\<rparr>) svc nodes ((s, []), e) =
    (Ok (convertLoadBalancerStatus_v1 (lb_Status lb)), ((s2, [lookup_call conf, GetListeners ids]), e))"
  using assms by (rule EnsureLoadBalancer_settled)

text \<open>
  The update of the backends, too, changes nothing and applies nothing when the backends of the
  listed listeners are those of the chosen nodes.
\<close>
theorem UpdateLoadBalancer_in_place:
  assumes "ParseServiceLBConfig (qc_Config qc) (cfg_ClusterID (qc_Config qc)) svc = Ok conf"
    and "find_lb cl conf (s, e) = (Ok lb, (s1, e))"
    and "filterNodes qc svc nodes conf = Ok (ns, conf')"
    and "filterListeners (lb_LoadBalancerListeners (lb_Status lb)) (listenerName conf) = Ok ids"
    and "ids \<noteq> []" and "cl_GetListeners cl ids s1 = (Ok ls, s2)"
    and "lb_LoadBalancerID (lb_Status lb) \<noteq> None"
    and "list_all (\<lambda>l. backends_settled l ns conf' svc) ls"
  shows "UpdateLoadBalancer (qc\<lparr>qc_Client := traced cl\<rparr>) svc nodes ((s, []), e) =
    (Ok (), ((s2, [lookup_call conf, GetListeners ids]), e))"
proof -
  let ?qc = "qc\<lparr>qc_Client := traced cl\<rparr>"
  have "find_lb (traced cl) conf ((s, []), e) = (Ok lb, ((s1, [lookup_call conf]), e))"
    using find_lb_traced[OF assms(2), of "[]"] find_lb_found[OF assms(2)] by simp
  then have g: "getLoadBalancer ?qc svc ((s, []), e) =
      (Ok (Some conf, Some lb, None), ((s1, [lookup_call conf]), e))"
    using assms(1) by (intro getLoadBalancer_found) simp_all
  have "listenerName conf' = listenerName conf" by (rule filterNodes_same_lb[OF assms(3)])
  moreover have "fold_go (refresh_backends (traced cl) conf' svc ns) False ls
      ((s2, [lookup_call conf, GetListeners ids]), e) =
      (Ok False, ((s2, [lookup_call conf, GetListeners ids]), e))"
    using assms(8) by (intro fold_go_unchanged refresh_backends_settled) (auto simp: list_all_iff)
  moreover obtain i where "lb_LoadBalancerID (lb_Status lb) = Some i" using assms(7) by auto
  ultimately show ?thesis
    using assms(4-6)
    by (simp add: UpdateLoadBalancer_def updateLoadBalancer_def bind_go_def g assms(3) wrap_go_def ret_def
        lift_def cloud_def log_call_def)
qed

subsection \<open>Two ways to find a load balancer\<close>

text \<open>
  A service with a load balancer id but without the strategy \<open>reuse-lb\<close> is ensured on the load
  balancer with that id and deleted by name: the first call of the one asks for the id, the first
  call of the other for the exclusive name, so the listeners made by the one are not removed by the
  other.
\<close>
theorem ensure_and_delete_look_apart:
  assumes "ParseServiceLBConfig (qc_Config qc) (cfg_ClusterID (qc_Config qc)) svc = Ok conf"
    and "index_str (annotations svc) ServiceAnnotationLoadBalancerPolicy \<noteq> ReuseExistingLB"
    and "index_str (annotations svc) ServiceAnnotationLoadBalancerID = i" and "i \<noteq> []"
  shows "lookup_call conf = GetLoadBalancerByID i \<and>
    lookup_call (parseServiceLBAndEIP (qc_Config qc) svc) =
      GetLoadBalancerByName (exclusive_lb_name (cfg_ClusterID (qc_Config qc)) svc)"
  using ParseServiceLBConfig_facts(6)[OF assms(1)] assms(2-4)
  by (simp add: lookup_call_def parseServiceLBAndEIP_def Let_def zero_config_def)

subsection \<open>What holds for every client with the contract\<close>

context cloud_client
begin

text \<open>Nothing is created for a service without an address for its load balancer.\<close>

lemma create_lb_without_address:
  assumes "VxNetID conf = None" and "EipIDs conf = None" and "EipSource conf = None"
  shows "\<exists>er. create_lb cl conf svc nodes w = (Err er, w)"
proof -
  obtain s e where w: "w = (s, e)" by (cases w)
  have "lb_VxNetID (lb_Spec (lb_request conf None)) = None" "lb_EIPs (lb_Spec (lb_request conf None)) = []"
    using assms by (simp_all add: lb_request_def)
  from create_needs_address[OF this, of s] obtain er where
    "cl_CreateLB cl (lb_request conf None) s = (Err er, s)" by blast
  then show ?thesis using assms by (simp add: create_lb_def go_defs w)
qed

text \<open>A load balancer found without an id has the name that was looked for.\<close>

lemma find_lb_name:
  assumes "find_lb cl conf w = (Ok lb, w')" and "ReuseLBID conf = []"
  shows "lb_LoadBalancerName (lb_Spec lb) = Some (LoadBalancerName conf)"
  using assms by (cases w) (auto simp: find_lb_def cloud_iff split: if_splits intro: found_by_name)

text \<open>Without nodes, creating the backends of a listener does nothing.\<close>

lemma create_backends_of_no_nodes: "create_backends_of cl lb ports [] u l w = (Ok (), w)"
  by (simp add: create_backends_of_def generateLoadBalancerBackends_def go_defs create_no_backends)

lemma create_backends_no_nodes: "fold_go (create_backends_of cl lb ports []) () ls w = (Ok (), w)"
  by (rule fold_go_unchanged) (rule create_backends_of_no_nodes)

text \<open>Listed listeners that the comparison accepts carry their id.\<close>

lemma listed_complete:
  assumes "cl_GetListeners cl is s = (Ok ls, s')" and "l \<in> set ls" and "complete l"
  shows "ls_LoadBalancerListenerID (ls_Spec l) \<noteq> None"
  using listed_ids[OF assms(1,2)] assms(3) by (simp add: complete_def Let_def)

end

subsection \<open>Sample data and witnesses\<close>

definition demo_conf :: LoadBalancerConfig where
  "demo_conf =
     zero_config\<lparr>EipIDs := Some [Some ''eip-1''], Timeout := Some ''80:60'',
       NetworkType := NetworkModePublic, Policy := Exclusive,
       LoadBalancerName := ''k8s_lb_cl-1_default_web_0a1b'',
       listenerName := ''listener_default_web_'', sgName := ''k8s_lb_cl-1_default_web_0a1b''\<rparr>"

definition live_listener :: LoadBalancerListener where
  "live_listener =
     (demo_listener [demo_backend])\<lparr>ls_Spec :=
        (ls_Spec demo_generated)\<lparr>ls_LoadBalancerListenerName := Some ''listener_default_web_'',
           ls_LoadBalancerListenerID := Some ''lbl-1'', ls_Timeout := Some 60\<rparr>\<rparr>"

definition live_lb :: LoadBalancer where
  "live_lb =
     \<lparr>lb_Spec = zero_LoadBalancerSpec\<lparr>lb_EIPs := [Some ''eip-1'']\<rparr>,
      lb_Status = zero_LoadBalancerStatus\<lparr>lb_LoadBalancerID := Some ''lb-1'', lb_VIP := [''1.2.3.4''],
                    lb_LoadBalancerListeners := [live_listener]\<rparr>\<rparr>"

definition live_client :: "unit client" where
  "live_client = sample_client live_lb [live_listener]"

definition live_qc :: "unit traced_state QingCloud" where
  "live_qc =
     \<lparr>qc_Config = demo_config, qc_Client = traced live_client,
      qc_endpoints = (\<lambda>ns n. Ok [[\<lparr>addr_NodeName = Some ''node1''\<rparr>]])\<rparr>"

lemma demo_parse:
  "ParseServiceLBConfig (qc_Config live_qc) (cfg_ClusterID (qc_Config live_qc)) demo_service = Ok demo_conf"
  by code_simp

lemma demo_conf_names: "ReuseLBID demo_conf = []" "LoadBalancerName demo_conf \<noteq> []"
  by (simp_all add: demo_conf_def zero_config_def)

lemma demo_find: "find_lb live_client demo_conf ((), e) = (Ok live_lb, ((), e))"
  by (simp add: find_lb_def demo_conf_names live_client_def sample_client_def go_defs)

lemma demo_find_before_delete:
  "find_lb live_client (parseServiceLBAndEIP (qc_Config live_qc) demo_service) ((), e) = (Ok live_lb, ((), e))"
proof -
  have "ReuseLBID (parseServiceLBAndEIP (qc_Config live_qc) demo_service) = []"
    "LoadBalancerName (parseServiceLBAndEIP (qc_Config live_qc) demo_service) \<noteq> []" by code_simp+
  then show ?thesis by (simp add: find_lb_def live_client_def sample_client_def go_defs)
qed

lemma live_filterNodes:
  "filterNodes live_qc demo_service [demo_node ''node1''] demo_conf =
     Ok ([demo_node ''node1''], demo_conf\<lparr>BackendCountResult := 0\<rparr>)"
  by (simp add: filterNodes_def demo_service_policy demo_conf_def zero_config_def)

lemma live_ids:
  "filterListeners (lb_LoadBalancerListeners (lb_Status live_lb)) (listenerName demo_conf) = Ok [Some ''lbl-1'']"
  by code_simp

lemma live_settled:
  "backends_settled live_listener [demo_node ''node1''] (demo_conf\<lparr>BackendCountResult := 0\<rparr>) demo_service"
  by (simp add: backends_settled_def live_listener_def demo_backend_defs)

lemma live_in_place:
  "in_place (demo_conf\<lparr>BackendCountResult := 0\<rparr>) live_lb [live_listener] demo_service [demo_node ''node1'']"
proof -
  have "diffListeners [live_listener] (Some (demo_conf\<lparr>BackendCountResult := 0\<rparr>)) (svc_Ports demo_service) =
      Ok ([], [], [live_listener])" by code_simp
  moreover have "needUpdateAttr (demo_conf\<lparr>BackendCountResult := 0\<rparr>) live_lb = Ok None" by code_simp
  moreover have "eips_settled (demo_conf\<lparr>BackendCountResult := 0\<rparr>) live_lb"
    by (simp add: eips_settled_def demo_conf_def live_lb_def zero_config_def)
  ultimately show ?thesis
    using live_settled by (simp add: in_place_def live_lb_def live_listener_def)
qed

theorem EnsureLoadBalancer_in_place_witness:
  "EnsureLoadBalancer (live_qc\<lparr>qc_Client := traced live_client\<rparr>) demo_service [demo_node ''node1'']
     (((), []), \<lambda>i. i) =
   (Ok [\<lparr>ing_IP = ''1.2.3.4'', ing_Hostname = []\<rparr>],
    (((), [lookup_call demo_conf, GetListeners [Some ''lbl-1'']]), \<lambda>i. i))"
  using EnsureLoadBalancer_in_place[OF demo_parse demo_find live_filterNodes live_ids _ _ live_in_place]
  by (simp add: live_client_def sample_client_def ret_def convertLoadBalancerStatus_v1_def live_lb_def)

theorem UpdateLoadBalancer_in_place_witness:
  "UpdateLoadBalancer (live_qc\<lparr>qc_Client := traced live_client\<rparr>) demo_service [demo_node ''node1'']
     (((), []), \<lambda>i. i) =
   (Ok (), (((), [lookup_call demo_conf, GetListeners [Some ''lbl-1'']]), \<lambda>i. i))"
  using UpdateLoadBalancer_in_place[OF demo_parse demo_find live_filterNodes live_ids,
      of "[live_listener]" "()"] live_settled
  by (simp add: live_client_def sample_client_def ret_def live_lb_def)

theorem EnsureLoadBalancer_no_duplicate_witness:
  "list_all (\<lambda>c. \<not> (\<exists>b. c = CreateLB b))
    (calls_of (EnsureLoadBalancer (live_qc\<lparr>qc_Client := traced live_client\<rparr>) demo_service []) () (\<lambda>i. i))"
  by (rule EnsureLoadBalancer_no_duplicate[OF demo_parse demo_find])

theorem EnsureLoadBalancerDeleted_calls_witness:
  "list_all (may_delete (parseServiceLBAndEIP (qc_Config live_qc) demo_service) live_lb)
    (calls_of (EnsureLoadBalancerDeleted (live_qc\<lparr>qc_Client := traced live_client\<rparr>) demo_service) () (\<lambda>i. i))"
  by (rule EnsureLoadBalancerDeleted_calls[OF demo_find_before_delete])

theorem EnsureLoadBalancerDeleted_not_found_witness:
  "fst (EnsureLoadBalancerDeleted
     ((sample_qc live_lb [])\<lparr>qc_Client := (sample_client live_lb [])
        \<lparr>cl_GetLoadBalancerByName := \<lambda>n. fail (NewResourceNotFoundError ''LoadBalancer'' n [])\<rparr>\<rparr>)
     demo_service ((), \<lambda>i. i)) = Ok ()"
proof -
  let ?conf = "parseServiceLBAndEIP (qc_Config (sample_qc live_lb [])) demo_service"
  have "ReuseLBID ?conf = []" "LoadBalancerName ?conf \<noteq> []" by code_simp+
  then have "find_lb ((sample_client live_lb [])
        \<lparr>cl_GetLoadBalancerByName := \<lambda>n. fail (NewResourceNotFoundError ''LoadBalancer'' n [])\<rparr>)
      ?conf ((), \<lambda>i. i) =
      (Err (NewResourceNotFoundError ''LoadBalancer'' (LoadBalancerName ?conf) []), ((), \<lambda>i. i))"
    by (simp add: find_lb_def go_defs)
  from EnsureLoadBalancerDeleted_not_found[OF this] show ?thesis by simp
qed

definition mixed_service :: Service where
  "mixed_service =
     demo_service\<lparr>svc_Annotations :=
       Some [(ServiceAnnotationLoadBalancerPolicy, ''exclusive''),
             (ServiceAnnotationLoadBalancerID, ''lb-7'')]\<rparr>"

theorem ensure_and_delete_look_apart_witness:
  "\<exists>conf. ParseServiceLBConfig demo_config (cfg_ClusterID demo_config) mixed_service = Ok conf \<and>
     lookup_call conf = GetLoadBalancerByID ''lb-7'' \<and>
     lookup_call (parseServiceLBAndEIP demo_config mixed_service) \<noteq> GetLoadBalancerByID ''lb-7''"
proof -
  have a: "accepted (ParseServiceLBConfig demo_config (cfg_ClusterID demo_config) mixed_service)"
    "index_str (annotations mixed_service) ServiceAnnotationLoadBalancerPolicy \<noteq> ReuseExistingLB"
    "index_str (annotations mixed_service) ServiceAnnotationLoadBalancerID = ''lb-7''"
    by (simp add: ParseServiceLBConfig_accepted_iff) (simp_all add: mixed_service_def demo_defs
        annotation_key_defs listener_annotations_ok_def number_annotations_ok_def ReuseExistingLB_def)
  then obtain conf where "ParseServiceLBConfig demo_config (cfg_ClusterID demo_config) mixed_service = Ok conf"
    by (auto simp: accepted_def)
  with ensure_and_delete_look_apart[of "sample_qc live_lb []" mixed_service conf "''lb-7''"] a
  show ?thesis by (auto simp: sample_qc_def)
qed

end
