(* ===== verification/Sdk.thy ===== *)
theory Sdk
  imports Client
begin

text \<open>
  The part of \<open>qingcloud-sdk-go\<close> that \<open>pkg/executor\<close> calls, as a parameter: the fields of its
  structs that the executor reads or fills, and a record of its calls. The SDK is not part of the
  repository, so nothing is said about what the calls do; a call returns an output and an error,
  each possibly nil, and changes the state of the cloud. \<open>qcclient.WaitJob\<close>,
  \<open>qcclient.WaitLoadBalancerStatus\<close>, \<open>utils.WaitForSpecificOrError\<close> and \<open>wait.Poll\<close> are
  parameters too; the last two take the closure they poll.
\<close>

subsection \<open>Structs\<close>

record sdk_EIP =
  sdk_EIPID :: "string option"
  sdk_EIPAddr :: "string option"
  sdk_EIPName :: "string option"
  sdk_Bandwidth :: "int option"
  sdk_EIPStatus :: "string option"
  sdk_AssociateMode :: "int option"

record sdk_Backend =
  sdk_BackendID :: "string option"
  sdk_BackendName :: "string option"
  sdk_BackendPort :: "int option"
  sdk_ResourceID :: "string option"

record sdk_Listener =
  sdk_BackendProtocol :: "string option"
  sdk_ListenerPort :: "int option"
  sdk_ListenerProtocol :: "string option"
  sdk_ListenerName :: "string option"
  sdk_ListenerID :: "string option"
  sdk_ListenerLBID :: "string option"
  sdk_HealthyCheckMethod :: "string option"
  sdk_HealthyCheckOption :: "string option"
  sdk_BalanceMode :: "string option"
  sdk_ServerCertificateID :: "string option list"
  sdk_Timeout :: "int option"
  sdk_Scene :: "int option"
  sdk_Forwardfor :: "int option"
  sdk_ListenerOption :: "int option"
  sdk_Backends :: "sdk_Backend list"

record sdk_LoadBalancer =
  sdk_LoadBalancerID :: "string option"
  sdk_LoadBalancerName :: "string option"
  sdk_LoadBalancerType :: "int option"
  sdk_NodeCount :: "int option"
  sdk_VxNetID :: "string option"
  sdk_PrivateIPs :: "string option list"
  sdk_SecurityGroupID :: "string option"
  sdk_Cluster :: "sdk_EIP list"
  sdk_Listeners :: "sdk_Listener list"

record sdk_SecurityGroup =
  sdk_SGID :: "string option"
  sdk_SGName :: "string option"

record SecurityGroupRule =
  rule_Priority :: int
  rule_Protocol :: string
  rule_Action :: string
  rule_Val1 :: string
  rule_Val2 :: string
  rule_Val3 :: "string option"

record ResourceTagPair =
  pair_ResourceID :: "string option"
  pair_TagID :: string
  pair_ResourceType :: string

subsection \<open>Inputs\<close>

record DescribeLoadBalancersInput =
  dl_Status :: "string list"
  dl_SearchWord :: "string option"
  dl_Owner :: "string option"
  dl_LoadBalancers :: "string option list"
  dl_Verbose :: int

record CreateLoadBalancerInput =
  ci_EIPs :: "string option list"
  ci_LoadBalancerName :: "string option"
  ci_LoadBalancerType :: "int option"
  ci_NodeCount :: "int option"
  ci_VxNet :: "string option"
  ci_SecurityGroup :: "string option"
  ci_PlaceGroupID :: "string option"
  ci_PrivateIP :: "string option"
  ci_Mode :: "int option"

record ModifyLoadBalancerAttributesInput =
  mi_LoadBalancer :: "string option"
  mi_NodeCount :: "int option"
  mi_PrivateIP :: "string option"

record AddLoadBalancerBackendsInput =
  bi_Backends :: "sdk_Backend list"
  bi_LoadBalancerListener :: "string option"

record DescribeLoadBalancerListenersInput =
  li_LoadBalancerListeners :: "string option list"
  li_Verbose :: int
  li_Limit :: int

record AddLoadBalancerListenersInput =
  ai_Listeners :: "sdk_Listener list"
  ai_LoadBalancer :: "string option"

record DescribeEIPsInput =
  ei_EIPs :: "string option list"
  ei_Owner :: "string option"
  ei_Status :: "string list"

record AllocateEIPsInput =
  al_Bandwidth :: "int option"
  al_EIPName :: "string option"

record DescribeInstancesInput =
  in_Instances :: "string list"
  in_Status :: "string list"
  in_Verbose :: int
  in_IsClusterNode :: "int option"

subsection \<open>Replies and calls\<close>

record 'p reply =
  rep_RetCode :: "int option"
  rep_Message :: "string option"
  rep_JobID :: "string option"
  rep_Body :: 'p

type_synonym ('s, 'p) api = "'s \<Rightarrow> ('p reply option \<times> go_error option) \<times> 's"

text \<open>The variables that the polled closures of \<open>DeleteLB\<close> and \<open>ReleaseEIP\<close> share with their caller.\<close>

record captured =
  cap_output :: "unit reply option"
  cap_err :: "go_error option"
  cap_quit :: bool

definition no_capture :: captured where
  "no_capture = \<lparr>cap_output = None, cap_err = None, cap_quit = False\<rparr>"

record 's sdk =
  DescribeLoadBalancers :: "DescribeLoadBalancersInput \<Rightarrow> ('s, sdk_LoadBalancer list) api"
  CreateLoadBalancer :: "CreateLoadBalancerInput \<Rightarrow> ('s, string option) api"
  ModifyLoadBalancerAttributes :: "ModifyLoadBalancerAttributesInput \<Rightarrow> ('s, unit) api"
  UpdateLoadBalancers :: "string option list \<Rightarrow> ('s, unit) api"
  DeleteLoadBalancers :: "string option list \<Rightarrow> ('s, unit) api"
  AssociateEIPsToLoadBalancer :: "string option list \<Rightarrow> string option \<Rightarrow> ('s, unit) api"
  DissociateEIPsFromLoadBalancer :: "string option list \<Rightarrow> string option \<Rightarrow> ('s, unit) api"
  AddLoadBalancerBackends :: "AddLoadBalancerBackendsInput \<Rightarrow> ('s, string option list) api"
  DeleteLoadBalancerBackends :: "string option list \<Rightarrow> ('s, unit) api"
  DescribeLoadBalancerListeners ::
    "DescribeLoadBalancerListenersInput \<Rightarrow> ('s, sdk_Listener list) api"
  AddLoadBalancerListeners :: "AddLoadBalancerListenersInput \<Rightarrow> ('s, string option list) api"
  DeleteLoadBalancerListeners :: "string option list \<Rightarrow> ('s, unit) api"
  DescribeEIPs :: "DescribeEIPsInput \<Rightarrow> ('s, sdk_EIP list) api"
  AllocateEIPs :: "AllocateEIPsInput \<Rightarrow> ('s, string option list) api"
  ReleaseEIPs :: "string option list \<Rightarrow> ('s, unit) api"
  DescribeSecurityGroups :: "string \<Rightarrow> string \<Rightarrow> ('s, sdk_SecurityGroup list) api"
  sdk_CreateSecurityGroup :: "string option \<Rightarrow> ('s, string option) api"
  AddSecurityGroupRules :: "string option \<Rightarrow> SecurityGroupRule list \<Rightarrow> ('s, string option list) api"
  ApplySecurityGroup :: "string option \<Rightarrow> ('s, unit) api"
  DeleteSecurityGroups :: "string option list \<Rightarrow> ('s, unit) api"
  AttachTags :: "ResourceTagPair list \<Rightarrow> ('s, unit) api"
  DescribeInstances :: "DescribeInstancesInput \<Rightarrow> ('s, string option list) api"
  DescribeAccessKeys :: "string \<Rightarrow> ('s, string option list) api"
  WaitJob :: "string \<Rightarrow> ('s, unit) go"
  WaitLoadBalancerStatus :: "string \<Rightarrow> ('s, sdk_LoadBalancer) go"
  WaitForSpecificOrError :: "('s \<times> captured, bool) go \<Rightarrow> ('s \<times> captured, unit) go"
  Poll :: "('s, bool) go \<Rightarrow> ('s, unit) go"

subsection \<open>The client\<close>

record ClientConfig =
  cc_IsAPP :: bool
  cc_UserID :: string
  cc_TagIDs :: "string list"

record 's QingCloudClient =
  ex_sdk :: "'s sdk"
  ex_Config :: ClientConfig
  ex_sg :: "SecurityGroup option"

definition call_api :: "('s, 'p) api \<Rightarrow> ('s, 'p reply option \<times> go_error option) go" where
  [go_defs]: "call_api a s = (case a s of (r, s') \<Rightarrow> (Ok r, s'))"

text \<open>
  The pattern \<open>if err != nil || *output.RetCode != 0\<close>: an error is reported with its own text,
  a return code with the message of the output, which is read through its pointer.
\<close>

definition checked ::
  "string \<Rightarrow> string \<Rightarrow> 'p reply option \<times> go_error option \<Rightarrow> 'p reply outcome" where
  "checked err_text code_text r =
     (case snd r of
        Some e \<Rightarrow> Err (Wrapf err_text e)
      | None \<Rightarrow>
          bind_ok (deref (fst r)) (\<lambda>output.
          bind_ok (deref (rep_RetCode output)) (\<lambda>code.
          if code \<noteq> 0 then bind_ok (deref (rep_Message output)) (\<lambda>m. Err (Errorf (code_text @ m)))
          else Ok output)))"

definition api_checked :: "string \<Rightarrow> string \<Rightarrow> ('s, 'p) api \<Rightarrow> ('s, 'p reply) go" where
  [go_defs]: "api_checked err_text code_text a = bind_go (call_api a) (\<lambda>r. lift (checked err_text code_text r))"

text \<open>A reply that says it worked.\<close>

definition succeeded :: "'p reply \<Rightarrow> bool" where
  "succeeded r = (rep_RetCode r = Some 0)"

lemma checked_Ok_iff: "checked a b r = Ok out \<longleftrightarrow> snd r = None \<and> fst r = Some out \<and> succeeded out"
  by (cases r) (auto simp: checked_def bind_ok_Ok_iff succeeded_def split: option.splits if_splits)

lemma api_checked_Ok_iff:
  "api_checked a b m s = (Ok out, s') \<longleftrightarrow> m s = ((Some out, None), s') \<and> succeeded out"
proof -
  obtain out' e s1 where "m s = ((out', e), s1)" by (metis surj_pair)
  then show ?thesis
    by (auto simp: api_checked_def call_api_def bind_go_def checked_Ok_iff lift_def)
qed

end
