(* ===== verification/ExecNet.thy ===== *)
theory ExecNet
  imports Sdk
begin

text \<open>
  \<open>pkg/executor/tags.go\<close>, \<open>instance.go\<close>, \<open>eip.go\<close> and \<open>sg.go\<close>: tags, instances, EIPs and the
  default security group, over the SDK. Shown: which tag pairs are attached, which EIPs are offered,
  and when the security group is created.
\<close>

definition ResourceNameSecurityGroup :: string where "ResourceNameSecurityGroup = ''SecurityGroup''"
definition SGTagResourceType :: string where "SGTagResourceType = ''security_group''"
definition EIPTagResourceType :: string where "EIPTagResourceType = ''eip''"
definition DefaultBandWidth :: int where "DefaultBandWidth = 2"
definition EIPStatusAvailable :: string where "EIPStatusAvailable = ''available''"
definition AllocateEIPName :: string where "AllocateEIPName = ''k8s_lb_allocate_eip''"
definition DefaultSgName :: string where "DefaultSgName = ''k8s_lb_default_sg''"

text \<open>\<open>xs[0]\<close>.\<close>

definition first_ok :: "'a list \<Rightarrow> 'a outcome" where
  "first_ok xs = (case xs of [] \<Rightarrow> Panic | x # _ \<Rightarrow> Ok x)"

text \<open>\<open>StringValueSlice\<close> prints nil as the empty string; a list prints in brackets.\<close>

definition shown_ids :: "string option list \<Rightarrow> string" where
  "shown_ids is = ''['' @ Join (map (\<lambda>i. case i of None \<Rightarrow> [] | Some x \<Rightarrow> x) is) (CHR '' '') @ '']''"

text \<open>\<open>err := f(); if err != nil \<lbrace> log \<rbrace>\<close>.\<close>

definition log_error :: "('s, 'a) go \<Rightarrow> ('s, unit) go" where
  "log_error m = bind_go (try_go m) (\<lambda>_. ret ())"

subsection \<open>Tags and instances\<close>

definition tag_pairs :: "string list \<Rightarrow> string option list \<Rightarrow> string \<Rightarrow> ResourceTagPair list" where
  "tag_pairs tags resourceIDs resourceType =
     concat (map (\<lambda>tag. map (\<lambda>resourceID.
       \<lparr>pair_ResourceID = resourceID, pair_TagID = tag, pair_ResourceType = resourceType\<rparr>)
       resourceIDs) tags)"

definition attachTagsToResources ::
  "'s QingCloudClient \<Rightarrow> string option list \<Rightarrow> string \<Rightarrow> ('s, unit) go" where
  "attachTagsToResources i resourceIDs resourceType =
     (if length (cc_TagIDs (ex_Config i)) \<le> 0 then ret ()
      else
        bind_go (call_api (AttachTags (ex_sdk i)
                   (tag_pairs (cc_TagIDs (ex_Config i)) resourceIDs resourceType)))
          (\<lambda>(output, err).
        case err of
          Some e \<Rightarrow>
            fail (NewCommonServerError ''tag'' (shown_ids resourceIDs) ''attachTagsToResources''
                    (error_text e))
        | None \<Rightarrow>
            bind_go (lift (deref output)) (\<lambda>out.
            bind_go (lift (deref (rep_RetCode out))) (\<lambda>code.
            if code \<noteq> 0 then
              bind_go (lift (deref (rep_Message out))) (\<lambda>m.
              fail (NewCommonServerError ''tag'' (shown_ids resourceIDs) ''attachTagsToResources'' m))
            else ret ()))))"

definition InstancesExist :: "'s QingCloudClient \<Rightarrow> string list \<Rightarrow> ('s, unit) go" where
  "InstancesExist i ids =
     bind_go (call_api (DescribeInstances (ex_sdk i)
                \<lparr>in_Instances = ids, in_Status = [''pending'', ''running'', ''stopped''],
                 in_Verbose = 1,
                 in_IsClusterNode = (if cc_IsAPP (ex_Config i) then Some 1 else None)\<rparr>))
       (\<lambda>(output, err).
     case err of
       Some e \<Rightarrow> fail e
     | None \<Rightarrow>
         bind_go (lift (deref output)) (\<lambda>out.
         if length (rep_Body out) \<noteq> length ids
         then fail (Errorf ''cannot find instances by node ids= '') else ret ()))"

subsection \<open>EIPs\<close>

definition getEIPByID :: "'s QingCloudClient \<Rightarrow> string \<Rightarrow> ('s, sdk_EIP) go" where
  "getEIPByID q i =
     bind_go (api_checked ''failed to get eip by id '' ''failed to get eip by id ''
                (DescribeEIPs (ex_sdk q) \<lparr>ei_EIPs = [Some i], ei_Owner = None, ei_Status = []\<rparr>)) (\<lambda>output.
     lift (first_ok (rep_Body output)))"

definition waitEIPStatus :: "'s QingCloudClient \<Rightarrow> string \<Rightarrow> string \<Rightarrow> ('s, unit) go" where
  "waitEIPStatus q eipid status =
     Poll (ex_sdk q)
       (bind_go (getEIPByID q eipid) (\<lambda>eip.
        bind_go (lift (deref (sdk_EIPStatus eip))) (\<lambda>s. ret (s = status))))"

definition fillEIPDefaultFileds :: "AllocateEIPsInput \<Rightarrow> AllocateEIPsInput" where
  "fillEIPDefaultFileds input =
     (let input = (if al_EIPName input = None then input\<lparr>al_EIPName := Some AllocateEIPName\<rparr> else input)
      in if al_Bandwidth input = None then input\<lparr>al_Bandwidth := Some DefaultBandWidth\<rparr> else input)"

definition AllocateEIP_exec :: "'s QingCloudClient \<Rightarrow> EIP option \<Rightarrow> ('s, EIP) go" where
  "AllocateEIP_exec q eip =
     (let eip = (case eip of
                   Some e \<Rightarrow> e
                 | None \<Rightarrow> \<lparr>eip_Spec = \<lparr>eip_EIPName = None, eip_Bandwidth = None\<rparr>,
                            eip_Status = zero_EIPStatus\<rparr>);
          input = fillEIPDefaultFileds
                    \<lparr>al_Bandwidth = eip_Bandwidth (eip_Spec eip), al_EIPName = eip_EIPName (eip_Spec eip)\<rparr>
      in
      bind_go (api_checked ''failed to allocate eip, err='' ''failed to allocate eip, code=''
                 (AllocateEIPs (ex_sdk q) input)) (\<lambda>output.
      bind_go (lift (first_ok (rep_Body output))) (\<lambda>i.
      bind_go (lift (deref i)) (\<lambda>eipid.
      bind_go (try_go (waitEIPStatus q eipid EIPStatusAvailable)) (\<lambda>r.
      case r of
        Inl e \<Rightarrow> fail (Errorf ''eip '')
      | Inr _ \<Rightarrow>
          bind_go (log_error (attachTagsToResources q [i] EIPTagResourceType)) (\<lambda>_.
          ret (eip\<lparr>eip_Status := (eip_Status eip)\<lparr>eip_EIPID := i\<rparr>\<rparr>)))))))"

definition convertEIP :: "sdk_EIP \<Rightarrow> EIP" where
  "convertEIP eip =
     \<lparr>eip_Spec = \<lparr>eip_EIPName = sdk_EIPName eip, eip_Bandwidth = sdk_Bandwidth eip\<rparr>,
      eip_Status = zero_EIPStatus\<lparr>eip_EIPID := sdk_EIPID eip\<rparr>\<rparr>"

definition GetAvaliableEIPs_exec :: "'s QingCloudClient \<Rightarrow> ('s, EIP list) go" where
  "GetAvaliableEIPs_exec q =
     bind_go (api_checked ''failed to get avaliable eips, err='' ''failed to get avaliable eips, code=''
                (DescribeEIPs (ex_sdk q)
                   \<lparr>ei_EIPs = [], ei_Owner = Some (cc_UserID (ex_Config q)),
                    ei_Status = [EIPStatusAvailable]\<rparr>)) (\<lambda>output.
     bind_go (lift (filter_ok (\<lambda>item. bind_ok (deref (sdk_AssociateMode item)) (\<lambda>m. Ok (m = 0)))
                      (rep_Body output))) (\<lambda>items.
     ret (map convertEIP items)))"

text \<open>The closure polled by \<open>ReleaseEIP\<close>; it writes the captured output and error.\<close>

definition release_once :: "'s QingCloudClient \<Rightarrow> string option list \<Rightarrow> ('s \<times> captured, bool) go" where
  "release_once q ids sc =
     (case ReleaseEIPs (ex_sdk q) ids (fst sc) of
        ((output, err), s) \<Rightarrow>
          (let c = (snd sc)\<lparr>cap_output := output, cap_err := err\<rparr>;
               code = bind_ok (deref output) (\<lambda>out. deref (rep_RetCode out));
               transient = (case err of
                              None \<Rightarrow> True
                            | Some e \<Rightarrow> Contains (error_text e) ''QingCloud Error: Code (1400)'')
           in
           (if \<not> transient
            then Err (Errorf ''failed to release eip, err='')
            else
              bind_ok (if output = None then Ok False
                       else bind_ok code (\<lambda>n. Ok (n \<noteq> 0 \<and> n \<noteq> 1400))) (\<lambda>bad.
              if bad then Err (Errorf ''failed to release eip, err='')
              else if err = None then bind_ok code (\<lambda>n. Ok (n = 0))
              else Ok False),
            (s, c))))"

definition ReleaseEIP_exec :: "'s QingCloudClient \<Rightarrow> string option list \<Rightarrow> ('s, unit) go" where
  "ReleaseEIP_exec q ids s =
     (if length ids \<le> 0 then (Ok (), s)
      else
        (case WaitForSpecificOrError (ex_sdk q) (release_once q ids) (s, no_capture) of
           (Ok _, (s', c)) \<Rightarrow>
             bind_go (lift (deref (cap_output c))) (\<lambda>output.
             bind_go (lift (deref (rep_JobID output))) (\<lambda>job. WaitJob (ex_sdk q) job)) s'
         | (Err e, (s', c)) \<Rightarrow> (Err e, s')
         | (Panic, (s', c)) \<Rightarrow> (Panic, s')
         | (Diverge, (s', c)) \<Rightarrow> (Diverge, s')))"

subsection \<open>Security groups\<close>

definition defaultLBSecurityGroupRules :: "SecurityGroupRule list" where
  "defaultLBSecurityGroupRules =
     [\<lparr>rule_Priority = 0, rule_Protocol = ''icmp'', rule_Action = ''accept'', rule_Val1 = ''8'',
       rule_Val2 = ''0'', rule_Val3 = None\<rparr>,
      \<lparr>rule_Priority = 1, rule_Protocol = ''tcp'', rule_Action = ''accept'', rule_Val1 = ''1'',
       rule_Val2 = ''65535'', rule_Val3 = None\<rparr>,
      \<lparr>rule_Priority = 1, rule_Protocol = ''udp'', rule_Action = ''accept'', rule_Val1 = ''1'',
       rule_Val2 = ''65535'', rule_Val3 = None\<rparr>]"

definition convertSecurityGroup :: "sdk_SecurityGroup \<Rightarrow> SecurityGroup" where
  "convertSecurityGroup sg =
     \<lparr>sg_Spec = \<lparr>sg_SecurityGroupName = sdk_SGName sg\<rparr>,
      sg_Status = zero_SecurityGroupStatus\<lparr>sg_SecurityGroupID := sdk_SGID sg\<rparr>\<rparr>"

definition CreateSecurityGroup :: "'s QingCloudClient \<Rightarrow> SecurityGroup \<Rightarrow> ('s, SecurityGroup) go" where
  "CreateSecurityGroup q input =
     bind_go (api_checked ''failed to create sg, err='' ''failed to create sg, code=''
                (sdk_CreateSecurityGroup (ex_sdk q) (sg_SecurityGroupName (sg_Spec input)))) (\<lambda>output.
     bind_go (try_go (attachTagsToResources q [rep_Body output] SGTagResourceType)) (\<lambda>r.
     bind_go (case r of Inl e \<Rightarrow> lift (deref (rep_Body output)) | Inr _ \<Rightarrow> ret []) (\<lambda>_.
     ret (input\<lparr>sg_Status := (sg_Status input)\<lparr>sg_SecurityGroupID := rep_Body output\<rparr>\<rparr>))))"

definition addSecurityGroupRules ::
  "'s QingCloudClient \<Rightarrow> SecurityGroup \<Rightarrow> SecurityGroupRule list \<Rightarrow> ('s, SecurityGroup) go" where
  "addSecurityGroupRules q sg rules =
     bind_go (api_checked ''failed to add sg rules, err='' ''failed to add sg rules, code=''
                (AddSecurityGroupRules (ex_sdk q) (sg_SecurityGroupID (sg_Status sg)) rules)) (\<lambda>added.
     bind_go (api_checked ''failed to apply sg rules, err='' ''failed to apply sg rules, code=''
                (ApplySecurityGroup (ex_sdk q) (sg_SecurityGroupID (sg_Status sg)))) (\<lambda>applied.
     bind_go (lift (deref (rep_JobID applied))) (\<lambda>job.
     bind_go (wrap_go ''failed to apply sg rules, err='' (WaitJob (ex_sdk q) job)) (\<lambda>_.
     ret (sg\<lparr>sg_Status := (sg_Status sg)\<lparr>sg_SecurityGroupRuleIDs := rep_Body added\<rparr>\<rparr>)))))"

definition DeleteSG :: "'s QingCloudClient \<Rightarrow> string option \<Rightarrow> ('s, unit) go" where
  "DeleteSG q sg s =
     (case DeleteSecurityGroups (ex_sdk q) [sg] s of
        (r, s') \<Rightarrow>
          (case checked ''failed to delete sg '' ''failed to delete sg '' r of
             Ok _ \<Rightarrow> Ok ()
           | Err e \<Rightarrow> (case sg of None \<Rightarrow> Panic | Some _ \<Rightarrow> Err e)
           | Panic \<Rightarrow> Panic
           | Diverge \<Rightarrow> Diverge, s'))"

definition sg_named :: "string \<Rightarrow> sdk_SecurityGroup \<Rightarrow> bool" where
  "sg_named name sg = (sdk_SGName sg = Some name)"

definition GetSecurityGroupByName_exec :: "'s QingCloudClient \<Rightarrow> string \<Rightarrow> ('s, SecurityGroup) go" where
  "GetSecurityGroupByName_exec q name =
     bind_go (api_checked ''get sg by name '' ''get sg by name ''
                (DescribeSecurityGroups (ex_sdk q) name (cc_UserID (ex_Config q)))) (\<lambda>output.
     case find (sg_named name) (rep_Body output) of
       Some sg \<Rightarrow> ret (convertSecurityGroup sg)
     | None \<Rightarrow> fail (NewResourceNotFoundError ResourceNameSecurityGroup name []))"

definition ensureSecurityGroupByName :: "'s QingCloudClient \<Rightarrow> string \<Rightarrow> ('s, SecurityGroup) go" where
  "ensureSecurityGroupByName q name =
     bind_go (try_go (GetSecurityGroupByName_exec q name)) (\<lambda>r.
     case r of
       Inr sg \<Rightarrow> ret sg
     | Inl e \<Rightarrow>
         if IsResourceNotFound (Some e) then
           bind_go (wrap_go ''create sg error: ''
                      (CreateSecurityGroup q
                         \<lparr>sg_Spec = \<lparr>sg_SecurityGroupName = Some name\<rparr>,
                          sg_Status = zero_SecurityGroupStatus\<rparr>)) (\<lambda>sg.
           wrap_go ''add sg rules error: '' (addSecurityGroupRules q sg defaultLBSecurityGroupRules))
         else fail (Wrapf ''get sg by name error: '' e))"

end
