(* ===== verification/ExecLB.thy ===== *)
theory ExecLB
  imports ExecNet
begin

text \<open>
  \<open>pkg/executor/backend.go\<close>, \<open>listener.go\<close> and \<open>lb.go\<close>: the conversions between the structs of the
  SDK and those of \<open>pkg/apis\<close>, and the operations on load balancers, listeners and backends.
\<close>

definition ResourceNameLoadBalancer :: string where "ResourceNameLoadBalancer = ''LoadBalancer''"
definition pageLimt :: int where "pageLimt = 100"
definition QingCloudLBIPPrefix :: string where "QingCloudLBIPPrefix = ''198.19''"
definition DefaultNodeNum :: int where "DefaultNodeNum = 2"
definition DefaultMode :: int where "DefaultMode = 1"
definition DefaultLBType :: int where "DefaultLBType = 0"

subsection \<open>Backends\<close>

definition DeleteBackends_exec :: "'s QingCloudClient \<Rightarrow> string option list \<Rightarrow> ('s, unit) go" where
  "DeleteBackends_exec q ids =
     (if length ids = 0 then ret ()
      else
        bind_go (api_checked ''failed to delete backends,err='' ''failed to delete backends, code=''
                   (DeleteLoadBalancerBackends (ex_sdk q) ids)) (\<lambda>_. ret ()))"

definition backend_to_sdk :: "LoadBalancerBackend \<Rightarrow> sdk_Backend" where
  "backend_to_sdk backend =
     \<lparr>sdk_BackendID = None, sdk_BackendName = be_LoadBalancerBackendName (be_Spec backend),
      sdk_BackendPort = be_Port (be_Spec backend), sdk_ResourceID = be_ResourceID (be_Spec backend)\<rparr>"

definition CreateBackends_exec ::
  "'s QingCloudClient \<Rightarrow> LoadBalancerBackend list \<Rightarrow> ('s, string option list) go" where
  "CreateBackends_exec q backends =
     (case backends of
        [] \<Rightarrow> ret []
      | b # _ \<Rightarrow>
          bind_go (api_checked ''failed to create backends,err='' ''failed to create backends, code=''
                     (AddLoadBalancerBackends (ex_sdk q)
                        \<lparr>bi_Backends = map backend_to_sdk backends,
                         bi_LoadBalancerListener = be_LoadBalancerListenerID (be_Spec b)\<rparr>)) (\<lambda>output.
          ret (rep_Body output)))"

definition convertLoadBalancerBackend :: "sdk_Backend list \<Rightarrow> LoadBalancerBackend list" where
  "convertLoadBalancerBackend backends =
     map (\<lambda>backend.
       \<lparr>be_Spec =
          \<lparr>be_LoadBalancerBackendName = sdk_BackendName backend, be_Port = sdk_BackendPort backend,
           be_ResourceID = sdk_ResourceID backend, be_LoadBalancerListenerID = None\<rparr>,
        be_Status = \<lparr>be_LoadBalancerBackendID = sdk_BackendID backend\<rparr>\<rparr>) backends"

subsection \<open>Listeners\<close>

definition convert_listener :: "sdk_Listener \<Rightarrow> LoadBalancerListener" where
  "convert_listener input =
     \<lparr>ls_Spec =
        \<lparr>ls_BackendProtocol = sdk_BackendProtocol input,
         ls_ListenerPort = sdk_ListenerPort input,
         ls_ListenerProtocol = sdk_ListenerProtocol input,
         ls_LoadBalancerListenerName = sdk_ListenerName input,
         ls_LoadBalancerListenerID = sdk_ListenerID input,
         ls_LoadBalancerID = sdk_ListenerLBID input,
         ls_HealthyCheckMethod = sdk_HealthyCheckMethod input,
         ls_HealthyCheckOption = sdk_HealthyCheckOption input,
         ls_BalanceMode = sdk_BalanceMode input,
         ls_ServerCertificateID = sdk_ServerCertificateID input,
         ls_Timeout = sdk_Timeout input,
         ls_Scene = sdk_Scene input,
         ls_Forwardfor = sdk_Forwardfor input,
         ls_ListenerOption = sdk_ListenerOption input\<rparr>,
      ls_Status =
        \<lparr>ls_StatusListenerID = sdk_ListenerID input,
         ls_LoadBalancerBackends = convertLoadBalancerBackend (sdk_Backends input)\<rparr>\<rparr>"

definition convertLoadBalancerListener :: "sdk_Listener list \<Rightarrow> LoadBalancerListener list" where
  "convertLoadBalancerListener inputs = map convert_listener inputs"

definition convertFromLoadBalancerListener :: "LoadBalancerListener list \<Rightarrow> sdk_Listener list" where
  "convertFromLoadBalancerListener inputs =
     map (\<lambda>input. let s = ls_Spec input in
       \<lparr>sdk_BackendProtocol = ls_BackendProtocol s,
        sdk_ListenerPort = ls_ListenerPort s,
        sdk_ListenerProtocol = ls_ListenerProtocol s,
        sdk_ListenerName = ls_LoadBalancerListenerName s,
        sdk_ListenerID = None,
        sdk_ListenerLBID = None,
        sdk_HealthyCheckMethod = ls_HealthyCheckMethod s,
        sdk_HealthyCheckOption = ls_HealthyCheckOption s,
        sdk_BalanceMode = ls_BalanceMode s,
        sdk_ServerCertificateID = ls_ServerCertificateID s,
        sdk_Timeout = ls_Timeout s,
        sdk_Scene = ls_Scene s,
        sdk_Forwardfor = ls_Forwardfor s,
        sdk_ListenerOption = ls_ListenerOption s,
        sdk_Backends = []\<rparr>) inputs"

definition GetListeners_exec ::
  "'s QingCloudClient \<Rightarrow> string option list \<Rightarrow> ('s, LoadBalancerListener list) go" where
  "GetListeners_exec q i =
     bind_go (call_api (DescribeLoadBalancerListeners (ex_sdk q)
                \<lparr>li_LoadBalancerListeners = i, li_Verbose = 1, li_Limit = pageLimt\<rparr>)) (\<lambda>(resp, err).
     case err of
       Some e \<Rightarrow> fail e
     | None \<Rightarrow>
         bind_go (lift (deref resp)) (\<lambda>r. ret (convertLoadBalancerListener (rep_Body r))))"

definition DeleteListener_exec :: "'s QingCloudClient \<Rightarrow> string option list \<Rightarrow> ('s, unit) go" where
  "DeleteListener_exec q lsnid =
     bind_go (api_checked ''failed to delete listener '' ''failed to delete listener ''
                (DeleteLoadBalancerListeners (ex_sdk q) lsnid)) (\<lambda>_. ret ())"

definition CreateListener_exec ::
  "'s QingCloudClient \<Rightarrow> LoadBalancerListener list \<Rightarrow> ('s, LoadBalancerListener list) go" where
  "CreateListener_exec q inputs =
     bind_go (lift (first_ok inputs)) (\<lambda>l.
     bind_go (api_checked ''failed to create listener, err='' ''failed to create listener, code=''
                (AddLoadBalancerListeners (ex_sdk q)
                   \<lparr>ai_Listeners = convertFromLoadBalancerListener inputs,
                    ai_LoadBalancer = ls_LoadBalancerID (ls_Spec l)\<rparr>)) (\<lambda>output.
     GetListeners_exec q (rep_Body output)))"

subsection \<open>Conversion of a load balancer\<close>

text \<open>The private addresses up to the first that belongs to the balancer itself.\<close>

fun own_vips :: "string option list \<Rightarrow> string list outcome" where
  "own_vips [] = Ok []"
| "own_vips (p # ps) =
     bind_ok (deref p) (\<lambda>privateIP.
       if \<not> HasPrefix privateIP QingCloudLBIPPrefix
       then bind_ok (own_vips ps) (\<lambda>vs. Ok (privateIP # vs))
       else Ok [])"

text \<open>The public addresses, and the EIPs that were allocated by the controller.\<close>

fun eip_vips :: "sdk_EIP list \<Rightarrow> (string list \<times> string option list) outcome" where
  "eip_vips [] = Ok ([], [])"
| "eip_vips (eip # eips) =
     (if sdk_EIPID eip = None \<or> sdk_EIPID eip = Some [] then eip_vips eips
      else
        bind_ok (deref (sdk_EIPAddr eip)) (\<lambda>addr.
        bind_ok (deref (sdk_EIPName eip)) (\<lambda>name.
        bind_ok (eip_vips eips) (\<lambda>(vips, created).
        Ok (addr # vips,
            if name = AllocateEIPName then sdk_EIPID eip # created else created)))))"

definition convertLoadBalancerStatus :: "sdk_LoadBalancer \<Rightarrow> LoadBalancerStatus outcome" where
  "convertLoadBalancerStatus lb =
     bind_ok (own_vips (sdk_PrivateIPs lb)) (\<lambda>private.
     bind_ok (eip_vips (sdk_Cluster lb)) (\<lambda>(public, createdEIP).
     Ok (zero_LoadBalancerStatus
           \<lparr>lb_LoadBalancerID := sdk_LoadBalancerID lb,
            lb_VIP := private @ public,
            lb_LoadBalancerListeners := convertLoadBalancerListener (sdk_Listeners lb),
            lb_CreatedEIPs := createdEIP\<rparr>)))"

definition convertLoadBalancer :: "sdk_LoadBalancer \<Rightarrow> LoadBalancer outcome" where
  "convertLoadBalancer lb =
     bind_ok (map_ok (\<lambda>eip. bind_ok (deref (sdk_EIPID eip)) (\<lambda>i. Ok i)) (sdk_Cluster lb)) (\<lambda>ids.
     bind_ok (convertLoadBalancerStatus lb) (\<lambda>status.
     Ok \<lparr>lb_Spec =
           \<lparr>lb_LoadBalancerName = sdk_LoadBalancerName lb,
            lb_EIPs = map Some (filter (\<lambda>i. i \<noteq> []) ids),
            lb_LoadBalancerType = sdk_LoadBalancerType lb,
            lb_NodeCount = sdk_NodeCount lb,
            lb_PrivateIPs = sdk_PrivateIPs lb,
            lb_VxNetID = sdk_VxNetID lb,
            lb_SecurityGroups = sdk_SecurityGroupID lb,
            lb_PlaceGroupID = None\<rparr>,
         lb_Status = status\<rparr>))"

subsection \<open>Load balancers\<close>

definition error_has :: "string \<Rightarrow> go_error option \<Rightarrow> bool" where
  "error_has code err = (case err of None \<Rightarrow> False | Some e \<Rightarrow> Contains (error_text e) code)"

definition GetLoadBalancerByName_exec :: "'s QingCloudClient \<Rightarrow> string \<Rightarrow> ('s, LoadBalancer) go" where
  "GetLoadBalancerByName_exec q name =
     bind_go (call_api (DescribeLoadBalancers (ex_sdk q)
                \<lparr>dl_Status = [''pending'', ''active'', ''stopped''], dl_SearchWord = Some name,
                 dl_Owner = Some (cc_UserID (ex_Config q)), dl_LoadBalancers = [], dl_Verbose = 2\<rparr>))
       (\<lambda>(output, err).
     if error_has ''QingCloud Error: Code (1300)'' err
     then fail (NewResourceNotFoundError ResourceNameLoadBalancer name [])
     else
       (case err of
          Some e \<Rightarrow> fail (Wrapf ''get lb by name error, err='' e)
        | None \<Rightarrow>
            bind_go (lift (deref output)) (\<lambda>out.
            case find (\<lambda>lb. sdk_LoadBalancerName lb = Some name) (rep_Body out) of
              Some lb \<Rightarrow> lift (convertLoadBalancer lb)
            | None \<Rightarrow> fail (NewResourceNotFoundError ResourceNameLoadBalancer name []))))"

definition GetLoadBalancerByID_exec :: "'s QingCloudClient \<Rightarrow> string \<Rightarrow> ('s, LoadBalancer) go" where
  "GetLoadBalancerByID_exec q i =
     bind_go (call_api (DescribeLoadBalancers (ex_sdk q)
                \<lparr>dl_Status = [], dl_SearchWord = None, dl_Owner = None,
                 dl_LoadBalancers = [Some i], dl_Verbose = 2\<rparr>))
       (\<lambda>(output, err).
     if error_has ''QingCloud Error: Code (1300)'' err
     then fail (NewResourceNotFoundError ResourceNameLoadBalancer i [])
     else
       (case err of
          Some e \<Rightarrow> fail (Wrapf ''get lb by id error, err='' e)
        | None \<Rightarrow>
            bind_go (lift (deref output)) (\<lambda>out.
            case rep_Body out of
              lb # _ \<Rightarrow> lift (convertLoadBalancer lb)
            | [] \<Rightarrow> fail (NewResourceNotFoundError ResourceNameLoadBalancer i []))))"

definition fillLBDefaultFileds ::
  "'s QingCloudClient \<Rightarrow> CreateLoadBalancerInput \<Rightarrow> CreateLoadBalancerInput outcome" where
  "fillLBDefaultFileds q input =
     bind_ok
       (if ci_SecurityGroup input = None then
          bind_ok (deref (ex_sg q)) (\<lambda>sg.
          Ok (input\<lparr>ci_SecurityGroup := sg_SecurityGroupID (sg_Status sg)\<rparr>))
        else Ok input) (\<lambda>input.
     let input = (if ci_NodeCount input = None then input\<lparr>ci_NodeCount := Some DefaultNodeNum\<rparr> else input);
         input = (if ci_Mode input = None then input\<lparr>ci_Mode := Some DefaultMode\<rparr> else input)
     in Ok (if ci_LoadBalancerType input = None
            then input\<lparr>ci_LoadBalancerType := Some DefaultLBType\<rparr> else input))"

definition CreateLB_exec :: "'s QingCloudClient \<Rightarrow> LoadBalancer \<Rightarrow> ('s, LoadBalancer) go" where
  "CreateLB_exec q input =
     (let spec = lb_Spec input in
      if lb_VxNetID spec = None \<and> length (lb_EIPs spec) \<le> 0
      then fail (Errorf ''create lb input invalid, need vxnet or eip'')
      else
        bind_go (lift (fillLBDefaultFileds q
          \<lparr>ci_EIPs = lb_EIPs spec, ci_LoadBalancerName = lb_LoadBalancerName spec,
           ci_LoadBalancerType = lb_LoadBalancerType spec, ci_NodeCount = lb_NodeCount spec,
           ci_VxNet = lb_VxNetID spec, ci_SecurityGroup = lb_SecurityGroups spec,
           ci_PlaceGroupID = lb_PlaceGroupID spec,
           ci_PrivateIP = (case lb_PrivateIPs spec of [] \<Rightarrow> None | p # _ \<Rightarrow> p),
           ci_Mode = None\<rparr>)) (\<lambda>inputLB.
        bind_go (api_checked ''failed to create lb, err='' ''failed to create lb, code=''
                   (CreateLoadBalancer (ex_sdk q) inputLB)) (\<lambda>output.
        bind_go (lift (deref (rep_Body output))) (\<lambda>lbID.
        bind_go (wrap_go ''failed to wait lb '' (WaitLoadBalancerStatus (ex_sdk q) lbID)) (\<lambda>lb.
        bind_go (log_error (attachTagsToResources q [Some lbID] ''loadbalancer'')) (\<lambda>_.
        lift (convertLoadBalancer lb)))))))"

definition ModifyLB_exec :: "'s QingCloudClient \<Rightarrow> LoadBalancer \<Rightarrow> ('s, unit) go" where
  "ModifyLB_exec q conf =
     bind_go (api_checked ''failed to modify lb attr, err='' ''failed to modify lb attr, code=''
                (ModifyLoadBalancerAttributes (ex_sdk q)
                   \<lparr>mi_LoadBalancer = lb_LoadBalancerID (lb_Status conf),
                    mi_NodeCount = lb_NodeCount (lb_Spec conf),
                    mi_PrivateIP = (case lb_PrivateIPs (lb_Spec conf) of [] \<Rightarrow> None | p # _ \<Rightarrow> p)\<rparr>))
       (\<lambda>_. ret ())"

definition UpdateLB_exec :: "'s QingCloudClient \<Rightarrow> string option \<Rightarrow> ('s, unit) go" where
  "UpdateLB_exec q i =
     bind_go (lift (deref i)) (\<lambda>lbid.
     bind_go (wrap_go ''failed get lb '' (GetLoadBalancerByID_exec q lbid)) (\<lambda>lb.
     if lb_IsApplied (lb_Status lb) \<noteq> None \<and> lb_IsApplied (lb_Status lb) \<noteq> Some 0 then ret ()
     else
       bind_go (api_checked ''failed to update lb attr, err='' ''failed to update lb attr, code=''
                  (UpdateLoadBalancers (ex_sdk q) [i])) (\<lambda>output.
       bind_go (lift (deref (rep_JobID output))) (\<lambda>job.
       bind_go (try_go (WaitJob (ex_sdk q) job)) (\<lambda>r.
       case r of Inl e \<Rightarrow> fail (Errorf ''lb '') | Inr _ \<Rightarrow> ret ())))))"

text \<open>The closure polled by \<open>DeleteLB\<close>.\<close>

definition delete_once :: "'s QingCloudClient \<Rightarrow> string option \<Rightarrow> ('s \<times> captured, bool) go" where
  "delete_once q i sc =
     (case DeleteLoadBalancers (ex_sdk q) [i] (fst sc) of
        ((output, err), s) \<Rightarrow>
          (let c = (snd sc)\<lparr>cap_output := output, cap_err := err\<rparr> in
           case err of
             None \<Rightarrow> (Ok True, (s, c))
           | Some e \<Rightarrow>
               if Contains (error_text e) ''QingCloud Error: Code (2100)''
               then (Ok True, (s, c\<lparr>cap_quit := True\<rparr>))
               else if \<not> Contains (error_text e) ''QingCloud Error: Code (1400)''
               then ((case i of None \<Rightarrow> Panic | Some _ \<Rightarrow> Err (Wrapf ''failed to delete lb '' e)), (s, c))
               else (Ok False, (s, c))))"

text \<open>The error that the polling returns is kept in a variable and then only tested.\<close>

definition delete_result ::
  "'s QingCloudClient \<Rightarrow> string option \<Rightarrow> go_error option \<Rightarrow> captured \<Rightarrow> ('s, unit) go" where
  "delete_result q i err c =
     (if cap_quit c then ret ()
      else
        (case (cap_output c, err) of
           (Some output, None) \<Rightarrow>
             bind_go (lift (deref (rep_RetCode output))) (\<lambda>code.
             if code \<noteq> 0 then
               bind_go (lift (deref i)) (\<lambda>_.
               bind_go (lift (deref (rep_Message output))) (\<lambda>m. fail (Errorf (''failed to delete lb '' @ m))))
             else
               bind_go (lift (deref (rep_JobID output))) (\<lambda>job.
               bind_go (try_go (WaitJob (ex_sdk q) job)) (\<lambda>r.
               case r of
                 Inl e \<Rightarrow> bind_go (lift (deref i)) (\<lambda>_. fail (Wrapf ''lb '' e))
               | Inr _ \<Rightarrow> ret ())))
         | _ \<Rightarrow> ret ()))"

definition DeleteLB_exec :: "'s QingCloudClient \<Rightarrow> string option \<Rightarrow> ('s, unit) go" where
  "DeleteLB_exec q i s =
     (case WaitForSpecificOrError (ex_sdk q) (delete_once q i) (s, no_capture) of
        (Ok _, (s', c)) \<Rightarrow> delete_result q i None c s'
      | (Err e, (s', c)) \<Rightarrow> delete_result q i (Some e) c s'
      | (Panic, (s', c)) \<Rightarrow> (Panic, s')
      | (Diverge, (s', c)) \<Rightarrow> (Diverge, s'))"

definition associate_reply ::
  "'s QingCloudClient \<Rightarrow> string \<Rightarrow> string option \<Rightarrow> ('s, unit) api \<Rightarrow> ('s, unit) go" where
  "associate_reply q text i a =
     bind_go (call_api a) (\<lambda>(output, err).
     case err of
       Some e \<Rightarrow> bind_go (lift (deref i)) (\<lambda>_. fail (Wrapf text e))
     | None \<Rightarrow>
         (case output of
            None \<Rightarrow> ret ()
          | Some out \<Rightarrow>
              bind_go (lift (deref (rep_RetCode out))) (\<lambda>code.
              if code \<noteq> 0 then
                bind_go (lift (deref i)) (\<lambda>_.
                bind_go (lift (deref (rep_Message out))) (\<lambda>m. fail (Errorf (text @ m))))
              else
                bind_go (lift (deref (rep_JobID out))) (\<lambda>job.
                bind_go (try_go (WaitJob (ex_sdk q) job)) (\<lambda>r.
                case r of
                  Inl e \<Rightarrow> bind_go (lift (deref i)) (\<lambda>_. fail (Wrapf text e))
                | Inr _ \<Rightarrow> ret ())))))"

definition AssociateEIPsToLB_exec ::
  "'s QingCloudClient \<Rightarrow> string option \<Rightarrow> string option list \<Rightarrow> ('s, unit) go" where
  "AssociateEIPsToLB_exec q i eips =
     (if length eips = 0 then ret ()
      else associate_reply q ''associate eip '' i (AssociateEIPsToLoadBalancer (ex_sdk q) eips i))"

definition DissociateEIPsFromLB_exec ::
  "'s QingCloudClient \<Rightarrow> string option \<Rightarrow> string option list \<Rightarrow> ('s, unit) go" where
  "DissociateEIPsFromLB_exec q i eips =
     (if length eips = 0 then ret ()
      else associate_reply q ''dissociate eip '' i (DissociateEIPsFromLoadBalancer (ex_sdk q) eips i))"

end
