(* ===== verification/Converge.thy ===== *)
theory Converge
  imports Handlers ExecLB
begin

text \<open>
  The composition of two passes of the provider. The cloud is seen through a \<open>view\<close> of its state:
  which load balancer has a name, the listeners of a load balancer with their backends, its node
  count and private addresses, and which EIPs carry the name the controller gives to those it
  allocates. The
  predicate \<open>remembers\<close> says what the platform documents for the operations of the client: what
  is created is stored as it was sent, with a fresh id, and later calls show it. On such a cloud
  the pass that creates a load balancer leaves everything in place for the next one.
\<close>

record 's view =
  v_named :: "'s \<Rightarrow> string \<Rightarrow> (string \<times> LoadBalancerSpec) option"
  v_listeners :: "'s \<Rightarrow> string \<Rightarrow> LoadBalancerListener list"
  v_attributes :: "'s \<Rightarrow> string \<Rightarrow> int option \<times> string option list"
  v_allocated :: "'s \<Rightarrow> string \<Rightarrow> bool"

abbreviation listener_id :: "LoadBalancerListener \<Rightarrow> string option" where
  "listener_id l \<equiv> ls_StatusListenerID (ls_Status l)"

definition same_view :: "'s view \<Rightarrow> 's \<Rightarrow> 's \<Rightarrow> bool" where
  "same_view v s s' = (v_named v s' = v_named v s \<and> v_listeners v s' = v_listeners v s)"

subsection \<open>What the platform documents\<close>

text \<open>A lookup shows the load balancer with the name, with the names and ids of its listeners.\<close>

definition tag_of :: "LoadBalancerListener \<Rightarrow> string option \<times> string option" where
  "tag_of l = (ls_LoadBalancerListenerName (ls_Spec l), listener_id l)"

definition shows_named :: "'s view \<Rightarrow> 's client \<Rightarrow> bool" where
  "shows_named v cl =
     (\<forall>n s r s'. cl_GetLoadBalancerByName cl n s = (r, s') \<longrightarrow> same_view v s s' \<and>
        (case r of
           Ok b \<Rightarrow> \<exists>i. v_named v s n = Some (i, lb_Spec b) \<and> lb_LoadBalancerID (lb_Status b) = Some i \<and>
                      map tag_of (lb_LoadBalancerListeners (lb_Status b)) = map tag_of (v_listeners v s i)
         | Err e \<Rightarrow> IsResourceNotFound (Some e) \<longrightarrow> v_named v s n = None
         | _ \<Rightarrow> True))"

text \<open>A created load balancer is what was requested, with one private address at most, and without listeners.\<close>

definition as_requested :: "LoadBalancerSpec \<Rightarrow> LoadBalancerSpec \<Rightarrow> bool" where
  "as_requested q r =
     (None \<notin> set (lb_EIPs r) \<and> set (lb_EIPs r) = set (lb_EIPs q) \<and>
      (lb_NodeCount q \<noteq> None \<longrightarrow> lb_NodeCount r = lb_NodeCount q) \<and>
      None \<notin> set (lb_PrivateIPs r) \<and>
      (\<forall>ip. Some ip \<in> set (lb_PrivateIPs q) \<longrightarrow> Some ip \<in> set (lb_PrivateIPs r)))"

definition creates_requested :: "'s view \<Rightarrow> 's client \<Rightarrow> bool" where
  "creates_requested v cl =
     (\<forall>b n s r s'. cl_CreateLB cl b s = (Ok r, s') \<longrightarrow>
        lb_LoadBalancerName (lb_Spec b) = Some n \<longrightarrow> length (lb_PrivateIPs (lb_Spec b)) \<le> 1 \<longrightarrow>
        v_named v s n = None \<longrightarrow>
        as_requested (lb_Spec b) (lb_Spec r) \<and>
        (\<exists>i. lb_LoadBalancerID (lb_Status r) = Some i \<and> v_named v s' n = Some (i, lb_Spec r) \<and>
             v_listeners v s' i = []))"

text \<open>
  Created listeners, one page of them at most, are stored as they were sent, with ids that differ on
  one load balancer.
\<close>

definition stored_as :: "LoadBalancerListener \<Rightarrow> LoadBalancerListener \<Rightarrow> bool" where
  "stored_as g l =
     (settings_of l = settings_of g \<and>
      ls_ServerCertificateID (ls_Spec l) = ls_ServerCertificateID (ls_Spec g) \<and>
      ls_LoadBalancerListenerName (ls_Spec l) = ls_LoadBalancerListenerName (ls_Spec g) \<and>
      listener_id l \<noteq> None \<and> ls_LoadBalancerListenerID (ls_Spec l) = listener_id l \<and>
      ls_LoadBalancerBackends (ls_Status l) = [])"

definition stores_listeners :: "'s view \<Rightarrow> 's client \<Rightarrow> bool" where
  "stores_listeners v cl =
     (\<forall>gs i s ls s'. cl_CreateListener cl gs s = (Ok ls, s') \<longrightarrow> gs \<noteq> [] \<longrightarrow> int (length gs) \<le> pageLimt \<longrightarrow>
        list_all (\<lambda>g. ls_LoadBalancerID (ls_Spec g) = Some i) gs \<longrightarrow>
        distinct (map listener_id (v_listeners v s i)) \<longrightarrow>
        list_all2 stored_as gs ls \<and> v_named v s' = v_named v s \<and>
        v_listeners v s' i = v_listeners v s i @ ls \<and> distinct (map listener_id (v_listeners v s' i)))"

text \<open>Created backends are added to their listener under their name and on their port.\<close>

definition stored_backend :: "LoadBalancerBackend \<Rightarrow> LoadBalancerBackend \<Rightarrow> bool" where
  "stored_backend b b' =
     (be_LoadBalancerBackendName (be_Spec b') = be_LoadBalancerBackendName (be_Spec b) \<and>
      be_Port (be_Spec b') = be_Port (be_Spec b))"

definition put_backends ::
  "string \<Rightarrow> LoadBalancerBackend list \<Rightarrow> LoadBalancerListener \<Rightarrow> LoadBalancerListener" where
  "put_backends j bs l =
     (if listener_id l = Some j
      then l\<lparr>ls_Status := (ls_Status l)
             \<lparr>ls_LoadBalancerBackends := ls_LoadBalancerBackends (ls_Status l) @ bs\<rparr>\<rparr>
      else l)"

definition stores_backends :: "'s view \<Rightarrow> 's client \<Rightarrow> bool" where
  "stores_backends v cl =
     (\<forall>bs j s r s'. cl_CreateBackends cl bs s = (Ok r, s') \<longrightarrow>
        list_all (\<lambda>b. be_LoadBalancerListenerID (be_Spec b) = Some j) bs \<longrightarrow>
        (\<exists>bs'. list_all2 stored_backend bs bs' \<and> v_named v s' = v_named v s \<and>
               v_listeners v s' = (\<lambda>i. map (put_backends j bs') (v_listeners v s i))))"

text \<open>
  Applying and the calls about EIPs leave the listeners alone, and a listing by the ids of some of the
  listeners of a load balancer, one page at most, returns those, in their order.
\<close>

definition leaves_view :: "'s view \<Rightarrow> 's client \<Rightarrow> bool" where
  "leaves_view v cl =
     (\<forall>s. (\<forall>p. same_view v s (snd (cl_UpdateLB cl p s))) \<and>
          (\<forall>p. same_view v s (snd (cl_AllocateEIP cl p s))) \<and>
          same_view v s (snd (cl_GetAvaliableEIPs cl s)))"

definition lists_some :: "'s view \<Rightarrow> 's client \<Rightarrow> bool" where
  "lists_some v cl =
     (\<forall>P is i s ls s'. cl_GetListeners cl is s = (Ok ls, s') \<longrightarrow>
        is = map listener_id (filter P (v_listeners v s i)) \<longrightarrow> is \<noteq> [] \<longrightarrow>
        int (length is) \<le> pageLimt \<longrightarrow> distinct (map listener_id (v_listeners v s i)) \<longrightarrow>
        ls = filter P (v_listeners v s i) \<and> v_listeners v s' = v_listeners v s)"

definition remembers :: "'s view \<Rightarrow> 's client \<Rightarrow> bool" where
  "remembers v cl =
     (shows_named v cl \<and> creates_requested v cl \<and> stores_listeners v cl \<and> stores_backends v cl \<and>
      leaves_view v cl \<and> lists_some v cl)"

lemma remembersD:
  assumes "remembers v cl"
  shows "shows_named v cl" "creates_requested v cl" "stores_listeners v cl" "stores_backends v cl"
    "leaves_view v cl" "lists_some v cl"
  using assms by (simp_all add: remembers_def)

text \<open>
  An EIP that the controller allocates carries its name from then on, no other call of a pass that
  creates changes which EIPs carry it, and a lookup by name reports, of the EIPs of the load balancer,
  those that do.
\<close>

definition leaves :: "('s \<Rightarrow> 'x) \<Rightarrow> ('s, 'a) go \<Rightarrow> bool" where
  "leaves f m = (\<forall>s. f (snd (m s)) = f s)"

definition allocated :: "'s view \<Rightarrow> 's \<Rightarrow> string option \<Rightarrow> bool" where
  "allocated v s eip = (case eip of None \<Rightarrow> False | Some i \<Rightarrow> v_allocated v s i)"

definition marks_eips :: "'s view \<Rightarrow> 's client \<Rightarrow> bool" where
  "marks_eips v cl =
     ((\<forall>s eip s'. cl_AllocateEIP cl None s = (Ok eip, s') \<longrightarrow> allocated v s' (eip_EIPID (eip_Status eip))) \<and>
      leaves (v_allocated v) (cl_GetAvaliableEIPs cl) \<and>
      (\<forall>n. leaves (v_allocated v) (cl_GetLoadBalancerByName cl n)) \<and>
      (\<forall>b. leaves (v_allocated v) (cl_CreateLB cl b)) \<and>
      (\<forall>gs. leaves (v_allocated v) (cl_CreateListener cl gs)) \<and>
      (\<forall>bs. leaves (v_allocated v) (cl_CreateBackends cl bs)) \<and>
      (\<forall>i. leaves (v_allocated v) (cl_UpdateLB cl i)) \<and>
      (\<forall>n s b s'. cl_GetLoadBalancerByName cl n s = (Ok b, s') \<longrightarrow>
         lb_CreatedEIPs (lb_Status b) = filter (allocated v s) (lb_EIPs (lb_Spec b))))"

lemma marks_eipsD:
  assumes "marks_eips v cl"
  shows "leaves (v_allocated v) (cl_GetAvaliableEIPs cl)" "leaves (v_allocated v) (cl_GetLoadBalancerByName cl n)"
    "leaves (v_allocated v) (cl_CreateLB cl b)" "leaves (v_allocated v) (cl_CreateListener cl gs)"
    "leaves (v_allocated v) (cl_CreateBackends cl bs)" "leaves (v_allocated v) (cl_UpdateLB cl i)"
    "cl_AllocateEIP cl None s = (Ok eip, s') \<Longrightarrow> allocated v s' (eip_EIPID (eip_Status eip))"
    "cl_GetLoadBalancerByName cl n s = (Ok lb, s') \<Longrightarrow>
       lb_CreatedEIPs (lb_Status lb) = filter (allocated v s) (lb_EIPs (lb_Spec lb))"
  using assms unfolding marks_eips_def by blast+

lemma keeps_leaves: "leaves f m \<Longrightarrow> keeps (\<lambda>s. f s = x) m"
  by (simp add: keeps_def leaves_def)

lemma leavesD: "leaves f m \<Longrightarrow> m s = (r, s') \<Longrightarrow> f s' = f s"
  by (metis leaves_def snd_conv)

lemma same_view_refl [simp]: "same_view v s s"
  by (simp add: same_view_def)

subsection \<open>Storing the backends of the new listeners\<close>

text \<open>
  A listener with its backends: one per node, under the node's instance id and on the node port of
  the service port it was generated for.
\<close>

definition serves :: "Node list \<Rightarrow> ServicePort \<Rightarrow> LoadBalancerListener \<Rightarrow> bool" where
  "serves ns port l =
     list_all2 (\<lambda>n b. be_LoadBalancerBackendName (be_Spec b) = Some (nodeToInstanceIDs n) \<and>
                      be_Port (be_Spec b) = Some (port_NodePort port)) ns
       (ls_LoadBalancerBackends (ls_Status l))"

definition with_backends :: "LoadBalancerListener \<Rightarrow> LoadBalancerListener \<Rightarrow> bool" where
  "with_backends l l' =
     (ls_Spec l' = ls_Spec l \<and> listener_id l' = listener_id l)"

lemma put_backends_other: "listener_id l \<noteq> Some j \<Longrightarrow> put_backends j bs l = l"
  by (simp add: put_backends_def)

lemma map_put_backends_other:
  "Some j \<notin> set (map listener_id ls) \<Longrightarrow> map (put_backends j bs) ls = ls"
  by (induction ls) (auto simp: put_backends_other)

text \<open>One round of the loop: the backends of one new listener.\<close>

lemma create_backends_of_stores:
  assumes "stores_backends v cl"
    and "create_backends_of cl lb ports ns u l (s, e) = (Ok (), (s', e'))"
    and "list_all (\<lambda>p. port_Protocol p \<in> {ProtocolTCP, ProtocolUDP}) ports"
    and "ls_ListenerProtocol (ls_Spec l) = Some proto" "ls_ListenerPort (ls_Spec l) = Some (port_Port port)"
    and "port_for proto (port_Port port) ports = Some (port_NodePort port)"
    and "listener_id l = Some j" "ls_LoadBalancerBackends (ls_Status l) = []"
  shows "e' = e \<and> v_named v s' = v_named v s \<and>
    (\<exists>bs. v_listeners v s' = (\<lambda>i. map (put_backends j bs) (v_listeners v s i)) \<and>
          serves ns port (put_backends j bs l))"
proof -
  let ?bs = "map (backend_of (Some j) (Some (port_NodePort port))) ns"
  have "generateLoadBalancerBackends ns l ports = Ok ?bs"
    using generateLoadBalancerBackends_Ok[OF assms(3,4,5), of ns] assms(6-8) by simp
  with assms(2) obtain r where c: "cl_CreateBackends cl ?bs s = (Ok r, s')" and e: "e' = e"
    by (auto simp: create_backends_of_def bind_go_Ok_iff cloud_iff)
  have "list_all (\<lambda>b. be_LoadBalancerListenerID (be_Spec b) = Some j) ?bs"
    by (simp add: list_all_iff backend_of_def)
  with assms(1) c obtain bs where bs: "list_all2 stored_backend ?bs bs" "v_named v s' = v_named v s"
    "v_listeners v s' = (\<lambda>i. map (put_backends j bs) (v_listeners v s i))"
    unfolding stores_backends_def by blast
  have "serves ns port (put_backends j bs l)"
    using bs(1) assms(7,8)
    by (simp add: serves_def put_backends_def list_all2_map1 stored_backend_def backend_of_def)
  with bs e show ?thesis by blast
qed

text \<open>The whole loop, with the listeners that are done in front.\<close>

lemma create_backends_loop:
  assumes "stores_backends v cl"
    and "fold_go (create_backends_of cl lb ports ns) () ls (s, e) = (Ok (), (s', e'))"
    and "list_all (\<lambda>p. port_Protocol p \<in> {ProtocolTCP, ProtocolUDP}) ports"
    and "list_all2 (\<lambda>port l. ls_ListenerPort (ls_Spec l) = Some (port_Port port) \<and>
        (\<exists>proto. ls_ListenerProtocol (ls_Spec l) = Some proto \<and>
          port_for proto (port_Port port) ports = Some (port_NodePort port)) \<and>
        listener_id l \<noteq> None \<and> ls_LoadBalancerBackends (ls_Status l) = []) ps ls"
    and "v_listeners v s i = done @ ls" and "distinct (map listener_id (done @ ls))"
  shows "e' = e \<and> v_named v s' = v_named v s \<and>
    (\<exists>ls'. v_listeners v s' i = done @ ls' \<and> list_all2 with_backends ls ls' \<and>
           list_all2 (serves ns) ps ls')"
  using assms(2,4-6)
proof (induction ls arbitrary: s e ps "done")
  case Nil
  then show ?case by (auto simp: list_all2_Nil2)
next
  case (Cons l ls)
  from Cons.prems(2) obtain port ps' where ps: "ps = port # ps'"
    by (auto simp: list_all2_Cons2)
  from Cons.prems(2) obtain j proto where
    l: "listener_id l = Some j" "ls_LoadBalancerBackends (ls_Status l) = []"
      "ls_ListenerPort (ls_Spec l) = Some (port_Port port)"
      "ls_ListenerProtocol (ls_Spec l) = Some proto"
      "port_for proto (port_Port port) ports = Some (port_NodePort port)"
    by (auto simp: ps)
  from Cons.prems(1) obtain s1 e1 where
    1: "create_backends_of cl lb ports ns () l (s, e) = (Ok (), (s1, e1))"
      "fold_go (create_backends_of cl lb ports ns) () ls (s1, e1) = (Ok (), (s', e'))"
    by (auto simp: bind_go_Ok_iff)
  from create_backends_of_stores[OF assms(1) 1(1) assms(3) l(4,3,5,1,2)] obtain bs where
    bs: "e1 = e" "v_named v s1 = v_named v s"
      "v_listeners v s1 = (\<lambda>i. map (put_backends j bs) (v_listeners v s i))"
      "serves ns port (put_backends j bs l)" by blast
  let ?l = "put_backends j bs l"
  have i: "listener_id ?l = listener_id l" by (simp add: put_backends_def)
  have w: "with_backends l ?l" by (simp add: with_backends_def put_backends_def)
  have "Some j \<notin> set (map listener_id done)" "Some j \<notin> set (map listener_id ls)"
    using Cons.prems(4) l(1) by auto
  then have vls: "v_listeners v s1 i = (done @ [?l]) @ ls"
    by (simp add: bs(3) Cons.prems(3) map_put_backends_other del: set_map)
  have "list_all2 (\<lambda>port l. ls_ListenerPort (ls_Spec l) = Some (port_Port port) \<and>
        (\<exists>proto. ls_ListenerProtocol (ls_Spec l) = Some proto \<and>
          port_for proto (port_Port port) ports = Some (port_NodePort port)) \<and>
        listener_id l \<noteq> None \<and> ls_LoadBalancerBackends (ls_Status l) = []) ps' ls"
    using Cons.prems(2) by (simp add: ps)
  from Cons.IH[OF 1(2) this vls] Cons.prems(4) i obtain ls' where
    "e' = e1" "v_named v s' = v_named v s1" "v_listeners v s' i = (done @ [?l]) @ ls'"
    "list_all2 with_backends ls ls'" "list_all2 (serves ns) ps' ls'" by auto
  with bs w show ?case
    by (auto simp: ps intro!: exI[of _ "?l # ls'"])
qed

subsection \<open>A load balancer that was just created\<close>

text \<open>
  The nodes that get backends: all of them, or as many as the limit says.
\<close>

definition chosen_nodes :: "LoadBalancerConfig \<Rightarrow> Service \<Rightarrow> Node list \<Rightarrow> Node list \<Rightarrow> bool" where
  "chosen_nodes conf svc ns ns' =
     (if limited conf svc then set ns' \<subseteq> set ns \<and> int (length ns') = BackendCountResult conf else ns' = ns)"

lemma chosen_nodes_not_Nil:
  "chosen_nodes conf svc ns ns' \<Longrightarrow> ns \<noteq> [] \<Longrightarrow> 0 \<le> BackendCountResult conf \<Longrightarrow> ns' \<noteq> []"
  by (auto simp: chosen_nodes_def limited_def split: if_splits)

text \<open>
  A service is plain when the protocol of every port carries it to its own node port: no two ports
  with one number and protocol, and no annotated protocol of the other transport. One page of a
  listing has room for all its listeners.
\<close>

definition plain_ports :: "LoadBalancerConfig \<Rightarrow> ServicePort list \<Rightarrow> bool" where
  "plain_ports conf ports =
     (int (length ports) \<le> pageLimt \<and>
      list_all (\<lambda>p. port_Protocol p \<in> {ProtocolTCP, ProtocolUDP} \<and>
                    carries (wanted_protocol (Some conf) p) p \<and>
                    port_for (wanted_protocol (Some conf) p) (port_Port p) ports = Some (port_NodePort p)) ports)"

text \<open>The listeners that were generated, stored and given their backends.\<close>

definition deployed ::
  "LoadBalancerConfig \<Rightarrow> ServicePort list \<Rightarrow> Node list \<Rightarrow> LoadBalancerListener list \<Rightarrow>
   LoadBalancerListener list \<Rightarrow> bool" where
  "deployed conf ports ns gs ls =
     (list_all2 (\<lambda>g l. settings_of l = settings_of g \<and>
        ls_ServerCertificateID (ls_Spec l) = ls_ServerCertificateID (ls_Spec g) \<and>
        ls_LoadBalancerListenerName (ls_Spec l) = Some (listenerName conf) \<and>
        listener_id l \<noteq> None \<and> ls_LoadBalancerListenerID (ls_Spec l) = listener_id l) gs ls \<and>
      list_all2 (serves ns) ports ls \<and> distinct (map listener_id ls))"

lemma wanted_settings_port:
  assumes "settings_of l = wanted_settings conf port"
  shows "ls_ListenerPort (ls_Spec l) = Some (port_Port port)"
    and "ls_ListenerProtocol (ls_Spec l) = Some (wanted_protocol conf port)"
  using assms by (simp_all add: settings_of_def wanted_settings_def Let_def)

text \<open>The steps of the creation, and what the cloud stores of the generated listeners.\<close>

lemma createListenersAndBackends_steps:
  assumes "createListenersAndBackends cl conf lb ports ns svc (s, e) = (Ok (), (s', e'))"
    and "0 \<le> BackendCountResult conf"
  shows "\<exists>gs ls s1 ns' e1. generateLoadBalancerListeners (Some conf) lb ports = Ok gs \<and>
    cl_CreateListener cl gs s = (Ok ls, s1) \<and> chosen_nodes conf svc ns ns' \<and>
    fold_go (create_backends_of cl lb ports ns') () ls (s1, e1) = (Ok (), (s', e'))"
proof -
  define pick :: "('a world, Node list) go" where
    "pick = (if limited conf svc then draw (getRandomNodes ns (BackendCountResult conf))
    else ret ns)"
  from assms(1)[unfolded createListenersAndBackends_def, folded limited_def, folded pick_def]
  obtain gs ls s1 ns' s2 e2 where
    1: "generateLoadBalancerListeners (Some conf) lb ports = Ok gs" "cl_CreateListener cl gs s = (Ok ls, s1)"
    and ns: "pick (s1, e) = (Ok ns', (s2, e2))"
    and loop: "fold_go (create_backends_of cl lb ports ns') () ls (s2, e2) = (Ok (), (s', e'))"
    by (auto simp: bind_go_Ok_iff cloud_iff dest!: sym[of "Ok _" "generateLoadBalancerListeners _ _ _"])
  have "s2 = s1" "chosen_nodes conf svc ns ns'"
    using ns[unfolded pick_def] nodes.sample_subset nodes.sample_length assms(2)
    by (auto simp: chosen_nodes_def draw_iff split: if_splits) fastforce+
  with 1 loop show ?thesis by blast
qed

lemma created_listeners_stored:
  assumes "stores_listeners v cl" and "generateLoadBalancerListeners (Some conf) lb ports = Ok gs"
    and "cl_CreateListener cl gs s = (Ok ls, s1)" and "lb_LoadBalancerID (lb_Status lb) = Some i"
    and "int (length ports) \<le> pageLimt" and "distinct (map listener_id (v_listeners v s i))"
  shows "list_all2 stored_as gs ls \<and> v_named v s1 = v_named v s \<and> v_listeners v s1 i = v_listeners v s i @ ls \<and>
    distinct (map listener_id (v_listeners v s i @ ls))"
proof -
  note wanted = generateLoadBalancerListeners_wanted[OF assms(2)]
  have "gs \<noteq> []" using assms(2) by (auto simp: generateLoadBalancerListeners_steps bind_ok_Ok_iff split: if_splits)
  moreover have "list_all (\<lambda>g. ls_LoadBalancerID (ls_Spec g) = Some i) gs"
    using wanted assms(4) by (auto simp: list_all2_conv_all_nth list_all_length)
  moreover have "int (length gs) \<le> pageLimt" using list_all2_lengthD[OF wanted] assms(5) by simp
  ultimately show ?thesis
    using assms(1)[unfolded stores_listeners_def, rule_format, OF assms(3), of i] assms(6)
    by (auto simp del: map_append distinct_append)
qed

lemma createListenersAndBackends_deploys:
  assumes laws: "stores_listeners v cl" "stores_backends v cl"
    and run: "createListenersAndBackends cl conf lb ports ns svc (s :: 's, e) = (Ok (), (s', e'))"
    and lb: "lb_LoadBalancerID (lb_Status lb) = Some i" "v_listeners v s i = old" "distinct (map listener_id old)"
    and ports: "plain_ports conf ports" and bounds: "0 \<le> BackendCountResult conf"
  shows "\<exists>gs ns' ls'. generateLoadBalancerListeners (Some conf) lb ports = Ok gs \<and> chosen_nodes conf svc ns ns' \<and>
    v_listeners v s' i = old @ ls' \<and> distinct (map listener_id (old @ ls')) \<and>
    deployed conf ports ns' gs ls' \<and> v_named v s' = v_named v s"
proof -
  from createListenersAndBackends_steps[OF run bounds] obtain gs ls s1 ns' e1 where
    gs: "generateLoadBalancerListeners (Some conf) lb ports = Ok gs"
    and ls: "cl_CreateListener cl gs s = (Ok ls, s1)" and chosen: "chosen_nodes conf svc ns ns'"
    and loop: "fold_go (create_backends_of cl lb ports ns') () ls (s1, e1) = (Ok (), (s', e'))" by blast
  note wanted = generateLoadBalancerListeners_wanted[OF gs]
  have st: "list_all2 stored_as gs ls" "v_named v s1 = v_named v s" "v_listeners v s1 i = old @ ls"
    "distinct (map listener_id (old @ ls))"
    using created_listeners_stored[OF laws(1) gs ls lb(1)] lb(2,3) ports by (simp_all add: plain_ports_def)
  have "list_all2 (\<lambda>port l. ls_ListenerPort (ls_Spec l) = Some (port_Port port) \<and>
        (\<exists>proto. ls_ListenerProtocol (ls_Spec l) = Some proto \<and>
          port_for proto (port_Port port) ports = Some (port_NodePort port)) \<and>
        listener_id l \<noteq> None \<and> ls_LoadBalancerBackends (ls_Status l) = []) ports ls"
    unfolding list_all2_conv_all_nth
  proof (intro conjI allI impI)
    show "length ports = length ls" using wanted st(1) by (auto dest!: list_all2_lengthD)
    fix k assume k: "k < length ports"
    then have w: "settings_of (gs ! k) = wanted_settings (Some conf) (ports ! k)"
      using wanted by (auto dest: list_all2_nthD)
    have "stored_as (gs ! k) (ls ! k)"
      using list_all2_nthD[OF st(1), of k] list_all2_lengthD[OF wanted] k by simp
    moreover from this w have "settings_of (ls ! k) = wanted_settings (Some conf) (ports ! k)"
      by (simp add: stored_as_def)
    note wanted_settings_port[OF this]
    moreover have "port_for (wanted_protocol (Some conf) (ports ! k)) (port_Port (ports ! k)) ports =
        Some (port_NodePort (ports ! k))"
      using ports k by (simp add: plain_ports_def list_all_length)
    ultimately show "ls_ListenerPort (ls_Spec (ls ! k)) = Some (port_Port (ports ! k))"
      "\<exists>proto. ls_ListenerProtocol (ls_Spec (ls ! k)) = Some proto \<and>
          port_for proto (port_Port (ports ! k)) ports = Some (port_NodePort (ports ! k))"
      "listener_id (ls ! k) \<noteq> None" "ls_LoadBalancerBackends (ls_Status (ls ! k)) = []"
      by (simp_all add: stored_as_def)
  qed
  moreover have "list_all (\<lambda>p. port_Protocol p \<in> {ProtocolTCP, ProtocolUDP}) ports"
    using ports by (auto simp: plain_ports_def list_all_iff)
  ultimately obtain ls' where ls': "v_listeners v s' i = old @ ls'" "list_all2 with_backends ls ls'"
    "list_all2 (serves ns') ports ls'" "v_named v s' = v_named v s1"
    using create_backends_loop[OF laws(2) loop, of ports i old] st by auto
  have ids: "map listener_id ls' = map listener_id ls"
    using ls'(2) by (auto simp: list_all2_conv_all_nth with_backends_def intro!: nth_equalityI)
  moreover have "list_all2 (\<lambda>g l. settings_of l = settings_of g \<and>
        ls_ServerCertificateID (ls_Spec l) = ls_ServerCertificateID (ls_Spec g) \<and>
        ls_LoadBalancerListenerName (ls_Spec l) = Some (listenerName conf) \<and>
        listener_id l \<noteq> None \<and> ls_LoadBalancerListenerID (ls_Spec l) = listener_id l) gs ls'"
    unfolding list_all2_conv_all_nth
  proof (intro conjI allI impI)
    show "length gs = length ls'" using list_all2_lengthD[OF st(1)] list_all2_lengthD[OF ls'(2)] by simp
    fix k assume k: "k < length gs"
    have "stored_as (gs ! k) (ls ! k)" by (rule list_all2_nthD[OF st(1) k])
    moreover have "with_backends (ls ! k) (ls' ! k)"
      using list_all2_nthD[OF ls'(2), of k] list_all2_lengthD[OF st(1)] k by simp
    moreover have "ls_LoadBalancerListenerName (ls_Spec (gs ! k)) = Some (listenerName conf)"
      using list_all2_nthD[OF wanted, of k] list_all2_lengthD[OF wanted] k by simp
    ultimately show "settings_of (ls' ! k) = settings_of (gs ! k)"
      "ls_ServerCertificateID (ls_Spec (ls' ! k)) = ls_ServerCertificateID (ls_Spec (gs ! k))"
      "ls_LoadBalancerListenerName (ls_Spec (ls' ! k)) = Some (listenerName conf)"
      "listener_id (ls' ! k) \<noteq> None" "ls_LoadBalancerListenerID (ls_Spec (ls' ! k)) = listener_id (ls' ! k)"
      by (simp_all add: with_backends_def stored_as_def settings_of_def)
  qed
  ultimately have "deployed conf ports ns' gs ls'"
    using ls'(3) st(4) by (simp only: deployed_def map_append distinct_append simp_thms)
  moreover have "distinct (map listener_id (old @ ls'))"
    using st(4) by (simp only: map_append ids)
  ultimately show ?thesis
    using gs chosen ls'(1,4) st(2)
    by (intro exI[of _ gs] exI[of _ ns'] exI[of _ ls']) (simp only: simp_thms)
qed

subsection \<open>Nothing is left to do\<close>

lemma serves_settled:
  assumes "serves ns' port l" and "chosen_nodes conf svc ns ns'"
  shows "backends_settled l ns conf svc"
proof -
  let ?bs = "ls_LoadBalancerBackends (ls_Status l)"
  have len: "length ?bs = length ns'" using assms(1) by (auto simp: serves_def dest: list_all2_lengthD)
  have own: "be_LoadBalancerBackendName (be_Spec (?bs ! k)) = Some (nodeToInstanceIDs (ns' ! k))"
    if "k < length ns'" for k
    using assms(1) that by (auto simp: serves_def dest: list_all2_nthD)
  have match: "matches (?bs ! k) (ns' ! k)" if "k < length ns'" for k
    using own[OF that] by (simp add: matches_def)
  have hit: "\<exists>b \<in> set ?bs. matches b n" if "n \<in> set ns'" for n
    using that match len by (metis in_set_conv_nth nth_mem)
  have sub: "set ns' \<subseteq> set ns" using assms(2) by (auto simp: chosen_nodes_def split: if_splits)
  have "named ?bs" using own len by (simp add: named_def list_all_length)
  moreover have "stale ns ?bs = []"
    using match len sub by (auto simp: stale_def filter_empty_conv in_set_conv_nth) (metis nth_mem subsetD)
  moreover have "missing ns ?bs = []" if "\<not> limited conf svc"
    using hit that assms(2) by (auto simp: missing_def filter_empty_conv chosen_nodes_def)
  moreover have "int (length ?bs) = BackendCountResult conf" if "limited conf svc"
    using len that assms(2) by (simp add: chosen_nodes_def)
  ultimately show ?thesis by (simp add: backends_settled_def Let_def)
qed

lemma serves_first_port:
  assumes "serves ns port l" and "ns \<noteq> []"
  shows "first_backend_port l = port_NodePort port"
    and "list_all (\<lambda>b. be_Port (be_Spec b) \<noteq> None) (ls_LoadBalancerBackends (ls_Status l))"
proof -
  from assms obtain n ns' b bs where "ns = n # ns'" "ls_LoadBalancerBackends (ls_Status l) = b # bs"
    "be_Port (be_Spec b) = Some (port_NodePort port)"
    by (cases ns) (auto simp: serves_def list_all2_Cons1)
  then show "first_backend_port l = port_NodePort port" by (simp add: first_backend_port_def)
  show "list_all (\<lambda>b. be_Port (be_Spec b) \<noteq> None) (ls_LoadBalancerBackends (ls_Status l))"
    using assms(1) by (auto simp: serves_def list_all_length list_all2_conv_all_nth)
qed

lemma deployed_nothing_to_do:
  assumes gs: "generateLoadBalancerListeners (Some conf) lb ports = Ok gs"
    and d: "deployed conf ports ns' gs ls" and ns: "chosen_nodes conf svc ns ns'" "ns' \<noteq> []"
  shows "diffListeners ls (Some conf) ports = Ok ([], [], ls)"
    and "list_all (\<lambda>l. backends_settled l ns conf svc \<and> ls_LoadBalancerListenerID (ls_Spec l) \<noteq> None \<and>
      ls_LoadBalancerListenerName (ls_Spec l) = Some (listenerName conf) \<and> listener_id l \<noteq> None) ls"
    and "ls \<noteq> []"
proof -
  note g = d[unfolded deployed_def, THEN conjunct1]
  note p = d[unfolded deployed_def, THEN conjunct2, THEN conjunct1]
  have "list_all2 (\<lambda>(g, port) l. created_as g port l) (zip gs ports) ls"
    unfolding list_all2_conv_all_nth
  proof (intro conjI allI impI)
    show "length (zip gs ports) = length ls"
      using list_all2_lengthD[OF g] list_all2_lengthD[OF p] by simp
    fix k assume k: "k < length (zip gs ports)"
    show "(\<lambda>(g, port) l. created_as g port l) (zip gs ports ! k) (ls ! k)"
      using list_all2_nthD[OF g, of k] list_all2_nthD[OF p, of k] k
        serves_first_port[of ns' "ports ! k" "ls ! k"] ns(2)
      by (simp add: created_as_def)
  qed
  from diffListeners_created[OF gs this] d show "diffListeners ls (Some conf) ports = Ok ([], [], ls)"
    by (simp add: deployed_def)
  show "list_all (\<lambda>l. backends_settled l ns conf svc \<and> ls_LoadBalancerListenerID (ls_Spec l) \<noteq> None \<and>
      ls_LoadBalancerListenerName (ls_Spec l) = Some (listenerName conf) \<and> listener_id l \<noteq> None) ls"
    unfolding list_all_length
  proof (intro allI impI)
    fix k assume k: "k < length ls"
    have "serves ns' (ports ! k) (ls ! k)" using list_all2_nthD2[OF p k] .
    from serves_settled[OF this ns(1)] list_all2_nthD2[OF g k]
    show "backends_settled (ls ! k) ns conf svc \<and> ls_LoadBalancerListenerID (ls_Spec (ls ! k)) \<noteq> None \<and>
      ls_LoadBalancerListenerName (ls_Spec (ls ! k)) = Some (listenerName conf) \<and> listener_id (ls ! k) \<noteq> None"
      by simp
  qed
  show "ls \<noteq> []"
    using gs list_all2_lengthD[OF g]
    by (auto simp: generateLoadBalancerListeners_steps bind_ok_Ok_iff split: if_splits)
qed

lemma filterListeners_all:
  assumes "map tag_of ls = map tag_of ls'"
    and "list_all (\<lambda>l. ls_LoadBalancerListenerName (ls_Spec l) = Some pre) ls'"
  shows "filterListeners ls pre = Ok (map listener_id ls')"
proof -
  have n: "list_all (\<lambda>l. ls_LoadBalancerListenerName (ls_Spec l) = Some pre) ls"
    using assms unfolding tag_of_def by (auto simp: list_all_length map_equality_iff)
  then have "filter_ok (\<lambda>l. bind_ok (deref (ls_LoadBalancerListenerName (ls_Spec l))) (\<lambda>name. Ok (HasPrefix name pre))) ls =
      Ok (filter (\<lambda>l. True) ls)"
    by (intro filter_ok_Ok) (auto simp: list_all_iff HasPrefix_def)
  moreover have "map listener_id ls = map listener_id ls'"
    using arg_cong[OF assms(1), of "map snd"] by (simp add: tag_of_def comp_def)
  ultimately show ?thesis by (simp add: filterListeners_def)
qed

subsection \<open>The attributes and the EIPs\<close>

lemma has_private_ip:
  assumes "Some ip \<in> set ps" and "None \<notin> set ps"
  shows "exists_ok (\<lambda>p. bind_ok (deref p) (\<lambda>q. Ok (q = ip))) ps = Ok True"
proof -
  have "exists_ok (\<lambda>p. bind_ok (deref p) (\<lambda>q. Ok (q = ip))) ps = Ok (\<exists>p \<in> set ps. p = Some ip)"
  proof (intro exists_ok_Ok)
    fix p assume "p \<in> set ps"
    with assms(2) obtain q where "p = Some q" by (cases p) auto
    then show "bind_ok (deref p) (\<lambda>q. Ok (q = ip)) = Ok (p = Some ip)" by simp
  qed
  with assms(1) show ?thesis by auto
qed

text \<open>The node count and the private addresses are those that the service asks for, if any.\<close>

definition attributes_settled :: "LoadBalancerConfig \<Rightarrow> int option \<times> string option list \<Rightarrow> bool" where
  "attributes_settled conf a =
     ((NodeCount conf \<noteq> None \<longrightarrow> fst a = NodeCount conf) \<and>
      (\<forall>ip. InternalIP conf = Some ip \<longrightarrow>
         exists_ok (\<lambda>p. bind_ok (deref p) (\<lambda>q. Ok (q = ip))) (snd a) = Ok True))"

abbreviation attributes_of :: "LoadBalancer \<Rightarrow> int option \<times> string option list" where
  "attributes_of lb \<equiv> (lb_NodeCount (lb_Spec lb), lb_PrivateIPs (lb_Spec lb))"

lemma needUpdateAttr_None_iff:
  "needUpdateAttr conf lb = Ok None \<longleftrightarrow> attributes_settled conf (attributes_of lb)"
  by (cases "NodeCount conf"; cases "InternalIP conf"; cases "lb_NodeCount (lb_Spec lb)")
    (auto simp: needUpdateAttr_def attributes_settled_def Let_def bind_ok_Ok_iff split: if_splits)

lemma needUpdateAttr_settled:
  assumes "as_requested (lb_Spec (lb_request conf eips)) (lb_Spec lb)"
  shows "needUpdateAttr conf lb = Ok None"
  using assms has_private_ip
  by (auto simp: needUpdateAttr_None_iff attributes_settled_def as_requested_def lb_request_def)

text \<open>The EIPs of the request: the configured ones, one that was prepared, or none.\<close>

definition requested_eips :: "LoadBalancerConfig \<Rightarrow> string option list option \<Rightarrow> bool" where
  "requested_eips conf eips =
     (if EipSource conf \<noteq> None then \<exists>i. eips = Some [i] else eips = EipIDs conf)"

lemma requested_eips_settled:
  assumes "eip_conf_ok conf" and "requested_eips conf eips"
    and "as_requested (lb_Spec (lb_request conf eips)) (lb_Spec lb)"
    and "lb_LoadBalancerID (lb_Status lb) \<noteq> None"
  shows "eips_settled conf lb"
  using assms
  by (cases "EipIDs conf"; cases "EipSource conf")
    (auto simp: eips_settled_def eip_conf_ok_def requested_eips_def as_requested_def lb_request_def
      list_all_iff)

lemma keeps_same_view_prepareEip:
  assumes "leaves_view v cl"
  shows "keeps (on_cloud (same_view v s)) (prepareEip cl src)"
proof -
  have "keeps (same_view v s) (cl_AllocateEIP cl None)" "keeps (same_view v s) (cl_GetAvaliableEIPs cl)"
    using assms by (auto simp: keeps_def leaves_view_def same_view_def)
  then show ?thesis unfolding prepareEip_def by (auto intro!: keeps_intros)
qed

text \<open>The first step of a creation: the EIPs it is made with.\<close>

definition prepared_eips ::
  "'s client \<Rightarrow> LoadBalancerConfig \<Rightarrow> ('s world, string option list option) go" where
  "prepared_eips cl conf =
     (if EipSource conf \<noteq> None then
        bind_go (wrap_go ''prepare eip error: '' (prepareEip cl (EipSource conf)))
          (\<lambda>eip. ret (Some [eip_EIPID (eip_Status eip)]))
      else ret (EipIDs conf))"

lemma create_lb_steps:
  assumes "create_lb cl conf svc ns (s, e) = (Ok lb, (s', e'))" and "eip_conf_ok conf"
  shows "\<exists>eips s1 e1 s2 i. prepared_eips cl conf (s, e) = (Ok eips, (s1, e1)) \<and>
    cl_CreateLB cl (lb_request conf eips) s1 = (Ok lb, s2) \<and> lb_LoadBalancerID (lb_Status lb) = Some i \<and>
    createListenersAndBackends cl conf lb (svc_Ports svc) ns svc (s2, e1) = (Ok (), (s', e'))"
proof -
  have "create_lb cl conf svc ns = bind_go (prepared_eips cl conf) (\<lambda>eips.
     bind_go (wrap_go ''create lb error: '' (cloud (cl_CreateLB cl (lb_request conf eips)))) (\<lambda>lb.
     bind_go (lift (deref (lb_LoadBalancerID (lb_Status lb)))) (\<lambda>lbID.
     bind_go (wrap_go ''create listener ''
                (createListenersAndBackends cl conf lb (svc_Ports svc) ns svc)) (\<lambda>_.
     ret lb))))"
    using assms(2) by (cases "EipIDs conf"; cases "EipSource conf")
      (auto simp: create_lb_def eip_conf_ok_def prepared_eips_def)
  with assms(1) show ?thesis
    by (fastforce simp: cloud_iff bind_go_Ok_iff dest!: sym[of "Ok _" "deref _"])
qed

lemma create_lb_deploys:
  assumes laws: "remembers v cl"
    and run: "create_lb cl conf svc ns (s, e) = (Ok lb, (s', e'))"
    and new: "v_named v s (LoadBalancerName conf) = None"
    and conf: "eip_conf_ok conf" "plain_ports conf (svc_Ports svc)" "0 \<le> BackendCountResult conf"
  shows "\<exists>i eips gs ns'. v_named v s' (LoadBalancerName conf) = Some (i, lb_Spec lb) \<and>
    requested_eips conf eips \<and> as_requested (lb_Spec (lb_request conf eips)) (lb_Spec lb) \<and>
    generateLoadBalancerListeners (Some conf) lb (svc_Ports svc) = Ok gs \<and>
    chosen_nodes conf svc ns ns' \<and> deployed conf (svc_Ports svc) ns' gs (v_listeners v s' i)"
proof -
  from create_lb_steps[OF run conf(1)] obtain eips s1 e1 s2 i where
    p: "prepared_eips cl conf (s, e) = (Ok eips, (s1, e1))"
    and c: "cl_CreateLB cl (lb_request conf eips) s1 = (Ok lb, s2)"
    and i: "lb_LoadBalancerID (lb_Status lb) = Some i"
    and d: "createListenersAndBackends cl conf lb (svc_Ports svc) ns svc (s2, e1) = (Ok (), (s', e'))" by blast
  have "keeps (on_cloud (same_view v s)) (prepared_eips cl conf)"
    unfolding prepared_eips_def
    using keeps_same_view_prepareEip[OF remembersD(5)[OF laws]] by (auto intro!: keeps_intros)
  from keepsD'[OF this p] have "same_view v s s1" by (simp add: on_cloud_def)
  with new have new1: "v_named v s1 (LoadBalancerName conf) = None" by (simp add: same_view_def)
  have "requested_eips conf eips" using p by (auto simp: requested_eips_def prepared_eips_def bind_go_Ok_iff split: if_splits)
  moreover have "as_requested (lb_Spec (lb_request conf eips)) (lb_Spec lb)"
    "v_named v s2 (LoadBalancerName conf) = Some (i, lb_Spec lb)" "v_listeners v s2 i = []"
    using remembersD(2)[OF laws] c new1 i
    unfolding creates_requested_def by (fastforce simp: lb_request_def)+
  moreover from createListenersAndBackends_deploys[OF remembersD(3,4)[OF laws] d i this(3) _ conf(2,3)]
  obtain gs ns' where "generateLoadBalancerListeners (Some conf) lb (svc_Ports svc) = Ok gs"
    "chosen_nodes conf svc ns ns'" "deployed conf (svc_Ports svc) ns' gs (v_listeners v s' i)"
    "v_named v s' = v_named v s2" by auto
  ultimately show ?thesis by auto
qed

subsection \<open>The next pass\<close>

text \<open>A provider with its configuration, its endpoints cache and its client.\<close>

definition provider ::
  "Config \<Rightarrow> (string \<Rightarrow> string \<Rightarrow> Endpoints outcome) \<Rightarrow> 's client \<Rightarrow> 's QingCloud" where
  "provider cfg ep cl = \<lparr>qc_Config = cfg, qc_Client = cl, qc_endpoints = ep\<rparr>"

lemma provider_simps [simp]:
  "qc_Config (provider cfg ep cl) = cfg" "qc_Client (provider cfg ep cl) = cl"
  "provider cfg ep cl\<lparr>qc_Client := cl'\<rparr> = provider cfg ep cl'"
  by (simp_all add: provider_def)

text \<open>The choice of the nodes does not look at the client.\<close>

lemma filterNodes_provider:
  "filterNodes (provider cfg ep cl) svc nodes conf = filterNodes (provider cfg ep cl') svc nodes conf"
  by (simp add: filterNodes_def provider_def)

lemma exclusive_has_name:
  assumes "ParseServiceLBConfig cfg cluster svc = Ok conf" and "Policy conf = Exclusive"
  shows "LoadBalancerName conf = exclusive_lb_name cluster svc" "LoadBalancerName conf \<noteq> []"
proof -
  have "[] \<noteq> Exclusive" by (simp add: Exclusive_def)
  then show "LoadBalancerName conf = exclusive_lb_name cluster svc"
    using assms(2) ParseServiceLBConfig_facts(8,9)[OF assms(1)] by (auto simp: Let_def split: if_splits)
  then show "LoadBalancerName conf \<noteq> []" by simp
qed

lemma ensure_creates:
  assumes "ParseServiceLBConfig cfg (cfg_ClusterID cfg) svc = Ok conf"
    and "Policy conf = Exclusive"
    and "find_lb cl conf w = (Err er, w1)" and "IsResourceNotFound (Some er)"
    and "filterNodes (provider cfg ep cl) svc nodes conf = Ok (ns, conf')"
  shows "EnsureLoadBalancer (provider cfg ep cl) svc nodes w =
    bind_go (create_lb cl conf' svc ns) (apply_lb cl) w1"
proof -
  have "LoadBalancerName conf \<noteq> []" by (rule exclusive_has_name(2)[OF assms(1,2)])
  then have "getLoadBalancer (provider cfg ep cl) svc w = (Ok (Some conf, None, Some er), w1)"
    using assms(1,3) by (intro getLoadBalancer_failed) simp_all
  then show ?thesis
    using assms(2,4,5)
    by (simp add: EnsureLoadBalancer_def ensureLoadBalancer_def bind_go_def wrap_go_def ret_def lift_def)
qed

lemma apply_lb_same_view:
  assumes "leaves_view v cl" and "apply_lb cl lb (s, e) = (Ok st, (s', e'))"
  shows "same_view v s s' \<and> e' = e \<and> st = convertLoadBalancerStatus_v1 (lb_Status lb)"
proof -
  obtain r where "cl_UpdateLB cl (lb_LoadBalancerID (lb_Status lb)) s = (r, s')"
    using assms(2) by (auto simp: apply_lb_def bind_go_Ok_iff cloud_iff split: if_splits)
  then have "same_view v s s'" using assms(1) unfolding leaves_view_def by (metis snd_conv)
  then show ?thesis
    using assms(2) by (auto simp: apply_lb_def bind_go_Ok_iff cloud_iff split: if_splits)
qed

lemma plain_ports_count [simp]:
  "plain_ports (conf\<lparr>BackendCountResult := n\<rparr>) ports = plain_ports conf ports"
  by (simp add: plain_ports_def wanted_protocol_def parseProtocol_def parse_setting_def)

lemma filterNodes_conf:
  assumes "filterNodes qc svc nodes conf = Ok (ns, conf')"
  shows "conf' = conf\<lparr>BackendCountResult := BackendCountResult conf'\<rparr>"
    and "0 \<le> BackendCountResult conf \<Longrightarrow> 0 \<le> BackendCountResult conf'"
proof -
  have "conf' = conf \<or> (\<exists>n. conf' = conf\<lparr>BackendCountResult := n\<rparr> \<and> 0 \<le> n)"
    using filterNodes_cluster[OF _ assms] filterNodes_local_Ok[OF _ assms] by blast
  then show "conf' = conf\<lparr>BackendCountResult := BackendCountResult conf'\<rparr>"
    "0 \<le> BackendCountResult conf \<Longrightarrow> 0 \<le> BackendCountResult conf'" by auto
qed

lemma shows_named_Err:
  assumes "shows_named v cl" and "cl_GetLoadBalancerByName cl n s = (Err e, s')"
    and "IsResourceNotFound (Some e)"
  shows "v_named v s' n = None"
proof -
  have "same_view v s s' \<and> (IsResourceNotFound (Some e) \<longrightarrow> v_named v s n = None)"
    using assms(1)[unfolded shows_named_def, rule_format, OF assms(2)] by simp
  with assms(3) show ?thesis by (simp add: same_view_def)
qed

lemma shows_named_Ok:
  assumes "shows_named v cl" and "cl_GetLoadBalancerByName cl n s = (Ok b, s')"
    and "v_named v s n = Some (i, spec)"
  shows "lb_Spec b = spec" "lb_LoadBalancerID (lb_Status b) = Some i"
    "map tag_of (lb_LoadBalancerListeners (lb_Status b)) = map tag_of (v_listeners v s i)"
    "v_listeners v s' = v_listeners v s"
  using assms(1)[unfolded shows_named_def, rule_format, OF assms(2)] assms(3)
  by (auto simp: same_view_def)

text \<open>What the cloud holds for a service after the pass that created its load balancer.\<close>

definition holds_service ::
  "'s view \<Rightarrow> 's \<Rightarrow> LoadBalancerConfig \<Rightarrow> Service \<Rightarrow> Node list \<Rightarrow> string \<Rightarrow> bool" where
  "holds_service v s conf svc ns i =
     (\<exists>b eips gs ns'. v_named v s (LoadBalancerName conf) = Some (i, lb_Spec b) \<and>
        requested_eips conf eips \<and> as_requested (lb_Spec (lb_request conf eips)) (lb_Spec b) \<and>
        generateLoadBalancerListeners (Some conf) b (svc_Ports svc) = Ok gs \<and>
        chosen_nodes conf svc ns ns' \<and> ns' \<noteq> [] \<and>
        deployed conf (svc_Ports svc) ns' gs (v_listeners v s i))"

lemma first_pass_runs:
  assumes "ParseServiceLBConfig cfg (cfg_ClusterID cfg) svc = Ok conf"
    and "Policy conf = Exclusive" and "ReuseLBID conf = []"
    and "find_lb cl conf (s, e) = (Err er, w)" and "IsResourceNotFound (Some er)"
    and "filterNodes (provider cfg ep cl) svc nodes conf = Ok (ns, conf')"
    and "EnsureLoadBalancer (provider cfg ep cl) svc nodes (s, e) = (Ok st, (s', e'))"
  shows "\<exists>w0 b s1 e1. w = (w0, e) \<and> cl_GetLoadBalancerByName cl (LoadBalancerName conf) s = (Err er, w0) \<and>
    create_lb cl conf' svc ns (w0, e) = (Ok b, (s1, e1)) \<and> apply_lb cl b (s1, e1) = (Ok st, (s', e'))"
proof -
  have name: "LoadBalancerName conf \<noteq> []" by (rule exclusive_has_name(2)[OF assms(1,2)])
  obtain w0 where w: "w = (w0, e)" "cl_GetLoadBalancerByName cl (LoadBalancerName conf) s = (Err er, w0)"
    using assms(3,4) name by (auto simp: find_lb_def cloud_iff)
  have "bind_go (create_lb cl conf' svc ns) (apply_lb cl) (w0, e) = (Ok st, (s', e'))"
    using assms(7) ensure_creates[OF assms(1,2,4,5,6)] by (simp add: w)
  with w show ?thesis by (auto simp: bind_go_Ok_iff)
qed

lemma first_pass:
  assumes "remembers v cl"
    and "ParseServiceLBConfig cfg (cfg_ClusterID cfg) svc = Ok conf"
    and "Policy conf = Exclusive" and "ReuseLBID conf = []"
    and "find_lb cl conf (s, e) = (Err er, w)" and "IsResourceNotFound (Some er)"
    and "filterNodes (provider cfg ep cl) svc nodes conf = Ok (ns, conf')" and "ns \<noteq> []"
    and "plain_ports conf (svc_Ports svc)"
    and "EnsureLoadBalancer (provider cfg ep cl) svc nodes (s, e) = (Ok st, (s', e'))"
  shows "\<exists>i w0 b s1 e1. holds_service v s' conf' svc ns i \<and>
    v_named v s' (LoadBalancerName conf') = Some (i, lb_Spec b) \<and> w = (w0, e) \<and>
    v_named v w0 (LoadBalancerName conf') = None \<and>
    create_lb cl conf' svc ns (w0, e) = (Ok b, (s1, e1)) \<and> apply_lb cl b (s1, e1) = (Ok st, (s', e'))"
proof -
  note laws = remembersD[OF assms(1)]
  from first_pass_runs[OF assms(2-7,10)] obtain w0 b s1 e1 where
    w: "w = (w0, e)" "cl_GetLoadBalancerByName cl (LoadBalancerName conf) s = (Err er, w0)"
    and c: "create_lb cl conf' svc ns (w0, e) = (Ok b, (s1, e1))"
    and a: "apply_lb cl b (s1, e1) = (Ok st, (s', e'))" by blast
  have conf': "conf' = conf\<lparr>BackendCountResult := BackendCountResult conf'\<rparr>"
    and count: "0 \<le> BackendCountResult conf'"
    using filterNodes_conf[OF assms(7)] ParseServiceLBConfig_facts(5)[OF assms(2)] by auto
  have eip: "eip_conf_ok conf'" and same: "LoadBalancerName conf' = LoadBalancerName conf"
    and plain: "plain_ports conf' (svc_Ports svc)"
    using ParseServiceLBConfig_facts(2)[OF assms(2)] assms(9) by (subst conf', simp)+
  have new: "v_named v w0 (LoadBalancerName conf') = None"
    unfolding same by (rule shows_named_Err[OF laws(1) w(2) assms(6)])
  have "same_view v s1 s'" using apply_lb_same_view[OF laws(5) a] by simp
  with create_lb_deploys[OF assms(1) c new eip plain count] assms(8) count
  have "\<exists>i. holds_service v s' conf' svc ns i \<and> v_named v s' (LoadBalancerName conf') = Some (i, lb_Spec b)"
    unfolding holds_service_def same_view_def
    by (metis chosen_nodes_not_Nil)
  with w(1) new c a show ?thesis by blast
qed

lemma held_listeners:
  assumes "remembers v cl" and "holds_service v s conf svc ns i"
    and "cl_GetLoadBalancerByName cl (LoadBalancerName conf) s = (Ok lb, s1)"
  shows "lb_LoadBalancerID (lb_Status lb) = Some i \<and>
    filterListeners (lb_LoadBalancerListeners (lb_Status lb)) (listenerName conf) =
      Ok (map listener_id (v_listeners v s i)) \<and>
    length (v_listeners v s i) = length (lb_LoadBalancerListeners (lb_Status lb))"
proof -
  from assms(2) obtain b eips gs ns' where d:
    "v_named v s (LoadBalancerName conf) = Some (i, lb_Spec b)"
    "generateLoadBalancerListeners (Some conf) b (svc_Ports svc) = Ok gs"
    "chosen_nodes conf svc ns ns'" "ns' \<noteq> []" "deployed conf (svc_Ports svc) ns' gs (v_listeners v s i)"
    unfolding holds_service_def by blast
  note lb = shows_named_Ok[OF remembersD(1)[OF assms(1)] assms(3) d(1)]
  have "list_all (\<lambda>l. ls_LoadBalancerListenerName (ls_Spec l) = Some (listenerName conf)) (v_listeners v s i)"
    using deployed_nothing_to_do(2)[OF d(2,5,3,4)] by (auto simp: list_all_iff)
  from filterListeners_all[OF lb(3) this] lb(2) arg_cong[OF lb(3), of length] show ?thesis by simp
qed

lemma held_in_place:
  assumes "remembers v cl" and "holds_service v s conf svc ns i" and "eip_conf_ok conf"
    and "cl_GetLoadBalancerByName cl (LoadBalancerName conf) s = (Ok lb, s1)"
    and "filterListeners (lb_LoadBalancerListeners (lb_Status lb)) (listenerName conf) = Ok ids"
    and "plain_ports conf (svc_Ports svc)" and "cl_GetListeners cl ids s1 = (Ok ls, s2)"
  shows "in_place conf lb ls svc ns \<and> ids \<noteq> []"
proof -
  from assms(2) obtain b eips gs ns' where d:
    "v_named v s (LoadBalancerName conf) = Some (i, lb_Spec b)" "requested_eips conf eips"
    "as_requested (lb_Spec (lb_request conf eips)) (lb_Spec b)"
    "generateLoadBalancerListeners (Some conf) b (svc_Ports svc) = Ok gs"
    "chosen_nodes conf svc ns ns'" "ns' \<noteq> []" "deployed conf (svc_Ports svc) ns' gs (v_listeners v s i)"
    unfolding holds_service_def by blast
  note todo = deployed_nothing_to_do[OF d(4,7,5,6)]
  note lb = shows_named_Ok[OF remembersD(1)[OF assms(1)] assms(4) d(1)]
  have ids: "ids = map listener_id (v_listeners v s i)"
    using held_listeners[OF assms(1,2,4)] assms(5) by simp
  have "list_all2 (serves ns') (svc_Ports svc) (v_listeners v s i)" using d(7) by (simp add: deployed_def)
  from list_all2_lengthD[OF this] have len: "int (length ids) \<le> pageLimt"
    using assms(6) ids by (simp add: plain_ports_def)
  have ne: "ids \<noteq> []" using todo(3) ids by simp
  have ls: "ls = v_listeners v s i"
    using remembersD(6)[OF assms(1), unfolded lists_some_def, rule_format, OF assms(7) _ ne len,
        of "\<lambda>_. True" i] d(7)
    by (simp add: ids lb(4) deployed_def)
  have "eips_settled conf lb"
    using requested_eips_settled[OF assms(3) d(2), of lb] d(3) lb by simp
  moreover have "needUpdateAttr conf lb = Ok None"
    using d(3) by (intro needUpdateAttr_settled) (simp add: lb)
  ultimately show ?thesis
    using todo(1,2) lb(2) ne by (auto simp: in_place_def ls list_all_iff)
qed

text \<open>
  C1: Ensuring converges on a cloud that remembers what it is sent, for a service with the strategy
  \<open>exclusive\<close> and without a load balancer id, whose ports are plain (at most 100, every annotated
  protocol one of the port's own transport, no two ports alike) and for which at least one node is
  chosen. After a pass that found no load balancer and created one, the next pass with the same service
  and nodes, when its lookup and its listing succeed, makes only these two calls: it sends nothing,
  draws nothing and does not apply again.
\<close>
theorem EnsureLoadBalancer_converges:
  assumes "remembers v cl"
    and "ParseServiceLBConfig cfg (cfg_ClusterID cfg) svc = Ok conf"
    and "Policy conf = Exclusive" and "ReuseLBID conf = []"
    and "find_lb cl conf (s, e) = (Err er, w)" and "IsResourceNotFound (Some er)"
    and "filterNodes (provider cfg ep cl) svc nodes conf = Ok (ns, conf')" and "ns \<noteq> []"
    and "plain_ports conf (svc_Ports svc)"
    and "EnsureLoadBalancer (provider cfg ep cl) svc nodes (s, e) = (Ok st, (s', e'))"
    and "find_lb cl conf (s', e') = (Ok lb, (s1, e1))"
    and "filterListeners (lb_LoadBalancerListeners (lb_Status lb)) (listenerName conf) = Ok ids"
    and "cl_GetListeners cl ids s1 = (Ok ls, s2)"
  shows "EnsureLoadBalancer (provider cfg ep (traced cl)) svc nodes ((s', []), e') =
    (Ok (convertLoadBalancerStatus_v1 (lb_Status lb)), ((s2, [lookup_call conf, GetListeners ids]), e'))"
proof -
  have name: "LoadBalancerName conf \<noteq> []" by (rule exclusive_has_name(2)[OF assms(2,3)])
  have conf': "conf' = conf\<lparr>BackendCountResult := BackendCountResult conf'\<rparr>"
    by (rule filterNodes_conf(1)[OF assms(7)])
  have same: "eip_conf_ok conf'" "LoadBalancerName conf' = LoadBalancerName conf"
    "listenerName conf' = listenerName conf" "plain_ports conf' (svc_Ports svc)"
    using ParseServiceLBConfig_facts(2)[OF assms(2)] assms(9) by (subst conf', simp)+
  obtain i where i: "holds_service v s' conf' svc ns i"
    using first_pass[OF assms(1-10)] by blast
  have find: "cl_GetLoadBalancerByName cl (LoadBalancerName conf) s' = (Ok lb, s1)" "e1 = e'"
    using assms(4,11) name by (auto simp: find_lb_def cloud_iff)
  have "in_place conf' lb ls svc ns \<and> ids \<noteq> []"
    using held_in_place[OF assms(1) i same(1) _ _ same(4) assms(13), of lb] find(1) assms(12) same by simp
  moreover have "filterNodes (provider cfg ep (traced cl)) svc nodes conf = Ok (ns, conf')"
    by (subst filterNodes_provider[where cl' = cl]) (rule assms(7))
  ultimately show ?thesis
    using EnsureLoadBalancer_settled[of "provider cfg ep (traced cl)" svc conf cl s' e' lb s1 nodes
        ns conf' ids ls s2] assms(2,11-13) find(2)
    by simp
qed

text \<open>The EIPs that a lookup reports as allocated after the pass that created the load balancer.\<close>

lemma prepared_eips_conf:
  assumes "filterNodes qc svc nodes conf = Ok (ns, conf')"
  shows "prepared_eips cl conf' = prepared_eips cl conf"
  by (subst filterNodes_conf(1)[OF assms]) (simp add: prepared_eips_def)

lemma prepared_eips_allocated:
  assumes "marks_eips v cl" and "prepared_eips cl conf (s, e) = (Ok eips, (s', e'))"
    and "EipSource conf = Some AllocateOnly"
  shows "\<exists>p. eips = Some [p] \<and> allocated v s' p"
  using assms(2,3) marks_eipsD(7)[OF assms(1)]
  by (auto simp: prepared_eips_def prepareEip_def bind_go_Ok_iff cloud_iff)

lemma keeps_createListenersAndBackends_cloud:
  assumes "\<And>gs. keeps I (cl_CreateListener cl gs)" and "\<And>bs. keeps I (cl_CreateBackends cl bs)"
  shows "keeps (on_cloud I) (createListenersAndBackends cl conf lb ports nodes svc)"
  unfolding createListenersAndBackends_def create_backends_of_def
  using assms by (auto intro!: keeps_intros)

lemma apply_lb_leaves:
  assumes "apply_lb cl lb (s, e) = (Ok st, (s', e'))" and "\<And>i. leaves f (cl_UpdateLB cl i)"
  shows "f s' = f s"
  using assms(1) leavesD[OF assms(2)]
  by (fastforce simp: apply_lb_def bind_go_Ok_iff cloud_iff split: if_splits)

lemma created_eips_marked:
  assumes "remembers v cl" and "marks_eips v cl"
    and "eip_conf_ok conf" and "create_lb cl conf svc ns (w0, e) = (Ok b, (s1, e1))"
    and "v_named v w0 (LoadBalancerName conf) = None"
    and "apply_lb cl b (s1, e1) = (Ok st, (s', e'))"
    and "cl_GetLoadBalancerByName cl (LoadBalancerName conf) s' = (Ok lb, s2)" and "lb_Spec lb = lb_Spec b"
  shows "\<exists>eips w1. prepared_eips cl conf (w0, e) = (Ok eips, w1) \<and>
    set (lb_CreatedEIPs (lb_Status lb)) = {p \<in> set (case eips of None \<Rightarrow> [] | Some is \<Rightarrow> is). allocated v (fst w1) p}"
proof -
  note marks = marks_eipsD[OF assms(2)]
  from create_lb_steps[OF assms(4,3)] obtain eips p1 e2 p2 i where
    p: "prepared_eips cl conf (w0, e) = (Ok eips, (p1, e2))"
    and c: "cl_CreateLB cl (lb_request conf eips) p1 = (Ok b, p2)"
    and d: "createListenersAndBackends cl conf b (svc_Ports svc) ns svc (p2, e2) = (Ok (), (s1, e1))" by blast
  have "keeps (on_cloud (same_view v w0)) (prepared_eips cl conf)"
    unfolding prepared_eips_def
    using keeps_same_view_prepareEip[OF remembersD(5)[OF assms(1)]] by (auto intro!: keeps_intros)
  from keepsD'[OF this p] assms(5) have "v_named v p1 (LoadBalancerName conf) = None"
    by (simp add: on_cloud_def same_view_def)
  then have "as_requested (lb_Spec (lb_request conf eips)) (lb_Spec b)"
    using remembersD(2)[OF assms(1)] c unfolding creates_requested_def by (fastforce simp: lb_request_def)
  then have eips: "set (lb_EIPs (lb_Spec lb)) = set (case eips of None \<Rightarrow> [] | Some is \<Rightarrow> is)"
    using assms(8) by (simp add: as_requested_def lb_request_def)
  have "keeps (on_cloud (\<lambda>s. v_allocated v s = v_allocated v p2))
      (createListenersAndBackends cl conf b (svc_Ports svc) ns svc)"
    using marks by (intro keeps_createListenersAndBackends_cloud keeps_leaves)
  from keepsD'[OF this d] have "v_allocated v s1 = v_allocated v p2" by (simp add: on_cloud_def)
  moreover have "v_allocated v p2 = v_allocated v p1" by (rule leavesD[OF marks(3) c])
  moreover have "v_allocated v s' = v_allocated v s1" using apply_lb_leaves[OF assms(6)] marks(6) by blast
  ultimately have "allocated v s' = allocated v p1" by (intro ext) (simp add: allocated_def split: option.split)
  then show ?thesis
    using p eips marks(8)[OF assms(7)] by (intro exI[of _ eips] exI[of _ "(p1, e2)"]) simp
qed

text \<open>The calls of a deletion on the load balancer that a pass created.\<close>

lemma deletion_of_held:
  assumes "remembers v cl" and "holds_service v s conf svc ns i"
    and "LoadBalancerName conf = exclusive_lb_name (cfg_ClusterID cfg) svc"
    and "listenerName conf = listener_name (svc_Namespace svc) (svc_Name svc)"
    and "index_str (annotations svc) ServiceAnnotationLoadBalancerPolicy \<noteq> ReuseExistingLB"
    and "find_lb cl (parseServiceLBAndEIP cfg svc) (s, e) = (Ok lb, (s1, e1))"
    and "cl_DeleteLB cl (lb_LoadBalancerID (lb_Status lb)) s1 = (Ok (), s2)"
  shows "cl_GetLoadBalancerByName cl (LoadBalancerName conf) s = (Ok lb, s1) \<and>
    calls_of (EnsureLoadBalancerDeleted (provider cfg ep (traced cl)) svc) s e =
      [GetLoadBalancerByName (exclusive_lb_name (cfg_ClusterID cfg) svc), DeleteLB (lb_LoadBalancerID (lb_Status lb))] @
      (if lb_CreatedEIPs (lb_Status lb) = [] then [] else [ReleaseEIP (lb_CreatedEIPs (lb_Status lb))])"
proof -
  let ?del = "parseServiceLBAndEIP cfg svc"
  have del: "ReuseLBID ?del = []" "LoadBalancerName ?del = exclusive_lb_name (cfg_ClusterID cfg) svc"
    "listenerName ?del = listener_name (svc_Namespace svc) (svc_Name svc)"
    using assms(5) by (simp_all add: parseServiceLBAndEIP_def Let_def zero_config_def)
  have find: "cl_GetLoadBalancerByName cl (LoadBalancerName conf) s = (Ok lb, s1)" "e1 = e"
    using assms(6) by (auto simp: find_lb_def cloud_iff del assms(3) split: if_splits)
  obtain ls where ids: "filterListeners (lb_LoadBalancerListeners (lb_Status lb)) (listenerName conf) =
      Ok (map listener_id ls)" "length ls = length (lb_LoadBalancerListeners (lb_Status lb))"
    and lb: "lb_LoadBalancerID (lb_Status lb) = Some i"
    using held_listeners[OF assms(1,2) find(1)] by blast
  have "find_lb (traced cl) ?del ((s, []), e) =
      (Ok lb, ((s1, [GetLoadBalancerByName (exclusive_lb_name (cfg_ClusterID cfg) svc)]), e))"
    using find_lb_traced[of cl ?del s e "Ok lb" s1 e1 "[]"] assms(6) find_lb_found[OF assms(6)]
    by (simp add: lookup_call_def del find(2))
  then show ?thesis
    using assms(7) ids lb find(1)
    by (auto simp: calls_of_def EnsureLoadBalancerDeleted_def ensureLoadBalancerDeleted_def
        getLoadBalancerBeforeDelete_def with_error_def delete_found_def del assms(4) log_call_def
        go_defs Let_def split: outcome.splits prod.splits)
qed

text \<open>
  C4: The deletion undoes the creation. For a service with the strategy \<open>exclusive\<close> and without a load
  balancer id, whose ports are plain (at most 100, every annotated protocol one of the port's own
  transport, no two ports alike) and for which at least one node is chosen, on a cloud that remembers
  what it is sent and marks the EIPs that are allocated: after a pass that found no load balancer and
  created one, a deletion whose lookup and deletion succeed looks the load balancer up by the name of
  the service, deletes it, never takes the branch that keeps it, and releases exactly those of the EIPs
  it was created with that carry the mark of an allocation. With the EIP source \<open>allocate\<close> that is the
  one EIP the pass allocated; of configured or available EIPs it is those that the controller allocated
  before.
\<close>
theorem EnsureLoadBalancerDeleted_undoes:
  assumes "remembers v cl" and "marks_eips v cl"
    and "ParseServiceLBConfig cfg (cfg_ClusterID cfg) svc = Ok conf"
    and "Policy conf = Exclusive" and "ReuseLBID conf = []"
    and "find_lb cl conf (s, e) = (Err er, w)" and "IsResourceNotFound (Some er)"
    and "filterNodes (provider cfg ep cl) svc nodes conf = Ok (ns, conf')" and "ns \<noteq> []"
    and "plain_ports conf (svc_Ports svc)"
    and "EnsureLoadBalancer (provider cfg ep cl) svc nodes (s, e) = (Ok st, (s', e'))"
    and "find_lb cl (parseServiceLBAndEIP cfg svc) (s', e') = (Ok lb, (s1, e1))"
    and "cl_DeleteLB cl (lb_LoadBalancerID (lb_Status lb)) s1 = (Ok (), s2)"
  shows "calls_of (EnsureLoadBalancerDeleted (provider cfg ep (traced cl)) svc) s' e' =
      [GetLoadBalancerByName (exclusive_lb_name (cfg_ClusterID cfg) svc),
       DeleteLB (lb_LoadBalancerID (lb_Status lb))] @
      (if lb_CreatedEIPs (lb_Status lb) = [] then [] else [ReleaseEIP (lb_CreatedEIPs (lb_Status lb))]) \<and>
    (\<exists>eips w1. prepared_eips cl conf w = (Ok eips, w1) \<and>
       set (lb_CreatedEIPs (lb_Status lb)) =
         {p \<in> set (case eips of None \<Rightarrow> [] | Some is \<Rightarrow> is). allocated v (fst w1) p} \<and>
       (EipSource conf = Some AllocateOnly \<longrightarrow> set (lb_CreatedEIPs (lb_Status lb)) = set (the eips)))"
proof -
  have strategy: "index_str (annotations svc) ServiceAnnotationLoadBalancerPolicy \<noteq> ReuseExistingLB"
    using assms(4) ParseServiceLBConfig_facts(9)[OF assms(3)] by (auto simp: Let_def)
  have conf': "conf' = conf\<lparr>BackendCountResult := BackendCountResult conf'\<rparr>"
    by (rule filterNodes_conf(1)[OF assms(8)])
  have same: "LoadBalancerName conf' = exclusive_lb_name (cfg_ClusterID cfg) svc"
    "listenerName conf' = listener_name (svc_Namespace svc) (svc_Name svc)" "eip_conf_ok conf'"
    using exclusive_has_name(1)[OF assms(3,4)] ParseServiceLBConfig_facts(2,7)[OF assms(3)]
    by (subst conf', simp)+
  from first_pass[OF assms(1,3-11)] obtain i w0 b p1 ep1 where
    i: "holds_service v s' conf' svc ns i" "v_named v s' (LoadBalancerName conf') = Some (i, lb_Spec b)"
    and w: "w = (w0, e)" "v_named v w0 (LoadBalancerName conf') = None"
    and run: "create_lb cl conf' svc ns (w0, e) = (Ok b, (p1, ep1))" "apply_lb cl b (p1, ep1) = (Ok st, (s', e'))"
    by blast
  from deletion_of_held[OF assms(1) i(1) same(1,2) strategy assms(12,13)] have
    find: "cl_GetLoadBalancerByName cl (LoadBalancerName conf') s' = (Ok lb, s1)"
    and calls: "calls_of (EnsureLoadBalancerDeleted (provider cfg ep (traced cl)) svc) s' e' =
      [GetLoadBalancerByName (exclusive_lb_name (cfg_ClusterID cfg) svc), DeleteLB (lb_LoadBalancerID (lb_Status lb))] @
      (if lb_CreatedEIPs (lb_Status lb) = [] then [] else [ReleaseEIP (lb_CreatedEIPs (lb_Status lb))])" by simp_all
  have "lb_Spec lb = lb_Spec b" by (rule shows_named_Ok(1)[OF remembersD(1)[OF assms(1)] find i(2)])
  from created_eips_marked[OF assms(1,2) same(3) run(1) w(2) run(2) find this] obtain eips w1 where
    eips: "prepared_eips cl conf w = (Ok eips, w1)" "set (lb_CreatedEIPs (lb_Status lb)) =
      {p \<in> set (case eips of None \<Rightarrow> [] | Some is \<Rightarrow> is). allocated v (fst w1) p}"
    by (auto simp: w(1) prepared_eips_conf[OF assms(8)])
  have "\<exists>p. eips = Some [p] \<and> allocated v (fst w1) p" if "EipSource conf = Some AllocateOnly"
    using prepared_eips_allocated[OF assms(2) _ that, of w0 e eips "fst w1" "snd w1"] eips(1) w(1) by simp
  with eips calls show ?thesis by (intro conjI exI[of _ eips] exI[of _ w1]) auto
qed

text \<open>
  C33: A service with the id of a load balancer that does not exist, and without a strategy that
  reuses, gets a new load balancer at every synchronisation: the pass looks for the id alone and
  creates, even when the cloud already has a load balancer with the name of the service.
\<close>
theorem EnsureLoadBalancer_creates_again:
  assumes "ParseServiceLBConfig cfg (cfg_ClusterID cfg) svc = Ok conf"
    and "Policy conf = Exclusive" and "ReuseLBID conf \<noteq> []"
    and "cl_GetLoadBalancerByID cl (ReuseLBID conf) s = (Err er, s1)" and "IsResourceNotFound (Some er)"
    and "filterNodes (provider cfg ep cl) svc nodes conf = Ok (ns, conf')"
    and "shows_named v cl" and "v_named v s (exclusive_lb_name (cfg_ClusterID cfg) svc) = Some (i, spec)"
  shows "EnsureLoadBalancer (provider cfg ep (traced cl)) svc nodes ((s, []), e) =
      bind_go (create_lb (traced cl) conf' svc ns) (apply_lb (traced cl))
        ((s1, [GetLoadBalancerByID (ReuseLBID conf)]), e) \<and>
    LoadBalancerName conf' = exclusive_lb_name (cfg_ClusterID cfg) svc \<and>
    (\<forall>er s2. cl_GetLoadBalancerByName cl (exclusive_lb_name (cfg_ClusterID cfg) svc) s = (Err er, s2) \<longrightarrow>
       \<not> IsResourceNotFound (Some er))"
proof (intro conjI allI impI)
  have "find_lb (traced cl) conf ((s, []), e) = (Err er, ((s1, [GetLoadBalancerByID (ReuseLBID conf)]), e))"
    using assms(3,4) by (simp add: find_lb_def go_defs)
  moreover have "filterNodes (provider cfg ep (traced cl)) svc nodes conf = Ok (ns, conf')"
    by (subst filterNodes_provider[where cl' = cl]) (rule assms(6))
  ultimately show "EnsureLoadBalancer (provider cfg ep (traced cl)) svc nodes ((s, []), e) =
      bind_go (create_lb (traced cl) conf' svc ns) (apply_lb (traced cl))
        ((s1, [GetLoadBalancerByID (ReuseLBID conf)]), e)"
    by (intro ensure_creates[OF assms(1,2) _ assms(5)])
  show "LoadBalancerName conf' = exclusive_lb_name (cfg_ClusterID cfg) svc"
    using exclusive_has_name(1)[OF assms(1,2)] by (subst filterNodes_conf(1)[OF assms(6)]) simp
  fix er s2
  assume "cl_GetLoadBalancerByName cl (exclusive_lb_name (cfg_ClusterID cfg) svc) s = (Err er, s2)"
  from assms(7)[unfolded shows_named_def, rule_format, OF this] assms(8)
  show "\<not> IsResourceNotFound (Some er)" by auto
qed

subsection \<open>A cloud that remembers\<close>

text \<open>
  A cloud with room for one load balancer, to show that the laws hold together: it numbers the
  listeners in unary and refuses a second set of listeners.
\<close>

record mem =
  m_lb :: "(string \<times> LoadBalancerSpec) option"
  m_ls :: "LoadBalancerListener list"

definition mem_view :: "mem view" where
  "mem_view =
     \<lparr>v_named = (\<lambda>s n. case m_lb s of None \<Rightarrow> None
        | Some (n', spec) \<Rightarrow> if n = n' then Some (''lb-1'', spec) else None),
      v_listeners = (\<lambda>s i. if i = ''lb-1'' then m_ls s else []),
      v_attributes = (\<lambda>s i. (None, [])), v_allocated = (\<lambda>s i. i = ''eip-9'')\<rparr>"

definition mem_lb :: "LoadBalancerSpec \<Rightarrow> LoadBalancerListener list \<Rightarrow> LoadBalancer" where
  "mem_lb spec ls =
     \<lparr>lb_Spec = spec,
      lb_Status = zero_LoadBalancerStatus\<lparr>lb_LoadBalancerID := Some ''lb-1'', lb_VIP := [''1.2.3.4''],
                    lb_CreatedEIPs := filter (\<lambda>p. p = Some ''eip-9'') (lb_EIPs spec),
                    lb_LoadBalancerListeners := ls\<rparr>\<rparr>"

definition mem_find :: "string \<Rightarrow> (mem, LoadBalancer) go" where
  "mem_find n s =
     (case m_lb s of
        None \<Rightarrow> (Err (NewResourceNotFoundError ''LoadBalancer'' n []), s)
      | Some (n', spec) \<Rightarrow>
          if n = n' then (Ok (mem_lb spec (m_ls s)), s)
          else (Err (NewResourceNotFoundError ''LoadBalancer'' n []), s))"

definition mem_create :: "LoadBalancer \<Rightarrow> (mem, LoadBalancer) go" where
  "mem_create b s =
     (case lb_LoadBalancerName (lb_Spec b) of
        None \<Rightarrow> (Err (Errorf ''no name''), s)
      | Some n \<Rightarrow>
          if None \<in> set (lb_EIPs (lb_Spec b)) then (Err (Errorf ''no eip''), s)
          else let spec = (lb_Spec b)\<lparr>lb_PrivateIPs := filter (\<lambda>p. p \<noteq> None) (lb_PrivateIPs (lb_Spec b))\<rparr>
            in (Ok (mem_lb spec []), \<lparr>m_lb = Some (n, spec), m_ls = []\<rparr>))"

definition mem_store :: "nat \<Rightarrow> LoadBalancerListener \<Rightarrow> LoadBalancerListener" where
  "mem_store k g =
     \<lparr>ls_Spec = (ls_Spec g)\<lparr>ls_LoadBalancerListenerID := Some (replicate (Suc k) (CHR ''x''))\<rparr>,
      ls_Status = \<lparr>ls_StatusListenerID = Some (replicate (Suc k) (CHR ''x'')), ls_LoadBalancerBackends = []\<rparr>\<rparr>"

definition mem_listen :: "LoadBalancerListener list \<Rightarrow> (mem, LoadBalancerListener list) go" where
  "mem_listen gs s =
     (if m_ls s = [] \<and> list_all (\<lambda>g. ls_LoadBalancerID (ls_Spec g) = Some ''lb-1'') gs
      then let ls = map2 mem_store [0..<length gs] gs in (Ok ls, s\<lparr>m_ls := ls\<rparr>)
      else (Err (Errorf ''refused''), s))"

definition mem_backends :: "LoadBalancerBackend list \<Rightarrow> (mem, string option list) go" where
  "mem_backends bs s =
     (case bs of
        [] \<Rightarrow> (Ok [], s)
      | b # _ \<Rightarrow>
          (case be_LoadBalancerListenerID (be_Spec b) of
             None \<Rightarrow> (Err (Errorf ''no listener''), s)
           | Some j \<Rightarrow> (Ok [], s\<lparr>m_ls := map (put_backends j bs) (m_ls s)\<rparr>)))"

definition mem_client :: "mem client" where
  "mem_client =
     \<lparr>cl_GetLoadBalancerByName = mem_find,
      cl_GetLoadBalancerByID = (\<lambda>i. fail (NewResourceNotFoundError ''LoadBalancer'' i [])),
      cl_ModifyLB = (\<lambda>b. ret ()),
      cl_CreateLB = mem_create,
      cl_DeleteLB = (\<lambda>i s. (Ok (), \<lparr>m_lb = None, m_ls = []\<rparr>)),
      cl_UpdateLB = (\<lambda>i. ret ()),
      cl_AssociateEIPsToLB = (\<lambda>i es. ret ()),
      cl_DissociateEIPsFromLB = (\<lambda>i es. ret ()),
      cl_GetSecurityGroupByName = (\<lambda>n. fail (NewResourceNotFoundError ''SecurityGroup'' n [])),
      cl_AllocateEIP = (\<lambda>e. ret sample_eip),
      cl_GetAvaliableEIPs = ret [sample_eip],
      cl_ReleaseEIP = (\<lambda>is. ret ()),
      cl_CreateBackends = mem_backends,
      cl_DeleteBackends = (\<lambda>is. ret ()),
      cl_CreateListener = mem_listen,
      cl_GetListeners = (\<lambda>is s. (Ok (filter (\<lambda>l. listener_id l \<in> set is) (m_ls s)), s)),
      cl_DeleteListener = (\<lambda>is. ret ())\<rparr>"

lemma put_no_backends: "put_backends j [] l = l"
  by (simp add: put_backends_def)

lemma mem_stored:
  "list_all2 stored_as gs (map2 mem_store [0..<length gs] gs)"
  "distinct (map listener_id (map2 mem_store [0..<length gs] gs))"
  by (auto simp: list_all2_conv_all_nth stored_as_def settings_of_def mem_store_def Let_def distinct_conv_nth
      dest: arg_cong[of _ _ length])

lemma filter_by_ids:
  assumes "distinct (map f xs)"
  shows "filter (\<lambda>x. f x \<in> f ` set (filter P xs)) xs = filter P xs"
  using assms by (intro filter_cong) (auto simp: distinct_map inj_on_def)

lemma mem_shows: "shows_named mem_view mem_client"
  by (auto simp: shows_named_def mem_client_def mem_view_def mem_find_def mem_lb_def
      zero_LoadBalancerStatus_def split: option.splits if_splits)

lemma mem_creates: "creates_requested mem_view mem_client"
  by (auto simp: creates_requested_def mem_client_def mem_view_def mem_create_def mem_lb_def Let_def
      as_requested_def zero_LoadBalancerStatus_def split: option.splits if_splits)

lemma mem_listens: "stores_listeners mem_view mem_client"
proof -
  have "i = ''lb-1''" if "list_all (\<lambda>g. ls_LoadBalancerID (ls_Spec g) = Some i) gs" "gs \<noteq> []"
    "list_all (\<lambda>g. ls_LoadBalancerID (ls_Spec g) = Some ''lb-1'') gs" for i gs
    using that by (cases gs) auto
  then show ?thesis
    by (auto simp: stores_listeners_def mem_client_def mem_view_def mem_listen_def Let_def mem_stored
        simp del: map_map split: if_splits)
qed

lemma mem_serves: "stores_backends mem_view mem_client"
proof -
  have same: "list_all2 stored_backend bs bs" for bs
    by (simp add: stored_backend_def list.rel_refl)
  show ?thesis
    unfolding stores_backends_def
  proof (intro allI impI)
    fix bs j s r s'
    assume c: "cl_CreateBackends mem_client bs s = (Ok r, s')"
      and j: "list_all (\<lambda>b. be_LoadBalancerListenerID (be_Spec b) = Some j) bs"
    then have "m_lb s' = m_lb s \<and> m_ls s' = map (put_backends j bs) (m_ls s)"
      by (cases bs) (auto simp: mem_client_def mem_backends_def put_no_backends[abs_def])
    then have "v_named mem_view s' = v_named mem_view s \<and>
        v_listeners mem_view s' = (\<lambda>i. map (put_backends j bs) (v_listeners mem_view s i))"
      by (auto simp: mem_view_def)
    with same show "\<exists>bs'. list_all2 stored_backend bs bs' \<and> v_named mem_view s' = v_named mem_view s \<and>
        v_listeners mem_view s' = (\<lambda>i. map (put_backends j bs') (v_listeners mem_view s i))" by blast
  qed
qed

lemma mem_remembers: "remembers mem_view mem_client"
proof -
  have "leaves_view mem_view mem_client" "lists_some mem_view mem_client"
    by (auto simp: leaves_view_def lists_some_def mem_client_def mem_view_def ret_def filter_by_ids
        simp del: set_filter split: if_splits)
  then show ?thesis using mem_shows mem_creates mem_listens mem_serves by (simp add: remembers_def)
qed

text \<open>The pass that creates the load balancer of the sample service, and what it leaves behind.\<close>

definition mem_qc :: "mem QingCloud" where
  "mem_qc = provider demo_config (qc_endpoints live_qc) mem_client"

definition mem_empty :: mem where
  "mem_empty = \<lparr>m_lb = None, m_ls = []\<rparr>"

definition mem_pass :: "LoadBalancerIngress list outcome \<times> mem world" where
  "mem_pass = EnsureLoadBalancer mem_qc demo_service [demo_node ''node1''] (mem_empty, \<lambda>i. i)"

lemma mem_pass_created:
  "fst mem_pass = Ok [\<lparr>ing_IP = ''1.2.3.4'', ing_Hostname = []\<rparr>] \<and>
   map_option fst (m_lb (fst (snd mem_pass))) = Some (LoadBalancerName demo_conf) \<and>
   map listener_id (m_ls (fst (snd mem_pass))) = [Some ''x''] \<and>
   map (\<lambda>l. ls_LoadBalancerListenerName (ls_Spec l)) (m_ls (fst (snd mem_pass))) = [Some (listenerName demo_conf)]"
  by code_simp

lemma mem_settings:
  "ParseServiceLBConfig demo_config (cfg_ClusterID demo_config) demo_service = Ok demo_conf"
  "Policy demo_conf = Exclusive" "ReuseLBID demo_conf = []"
  "plain_ports demo_conf (svc_Ports demo_service)"
  by code_simp+

lemma mem_nothing_yet:
  "find_lb mem_client demo_conf (mem_empty, e) =
     (Err (NewResourceNotFoundError ''LoadBalancer'' (LoadBalancerName demo_conf) []), (mem_empty, e))"
  by (simp add: find_lb_def demo_conf_names mem_client_def mem_find_def mem_empty_def cloud_def)

lemma mem_found:
  "\<exists>s e spec. mem_pass = (Ok [\<lparr>ing_IP = ''1.2.3.4'', ing_Hostname = []\<rparr>], (s, e)) \<and>
    find_lb mem_client demo_conf (s, e) = (Ok (mem_lb spec (m_ls s)), (s, e)) \<and>
    filterListeners (m_ls s) (listenerName demo_conf) = Ok [Some ''x''] \<and>
    cl_GetListeners mem_client [Some ''x''] s = (Ok (m_ls s), s)"
proof -
  obtain r s e where p: "mem_pass = (r, (s, e))" by (metis surj_pair)
  note made = mem_pass_created[unfolded p fst_conv snd_conv]
  then obtain spec where "m_lb s = Some (LoadBalancerName demo_conf, spec)" by auto
  then have "find_lb mem_client demo_conf (s, e) = (Ok (mem_lb spec (m_ls s)), (s, e))"
    by (simp add: find_lb_def demo_conf_names mem_client_def mem_find_def cloud_def)
  moreover have "filterListeners (m_ls s) (listenerName demo_conf) = Ok (map listener_id (m_ls s))"
    using made by (intro filterListeners_all) (auto simp: list_all_iff map_eq_Cons_conv)
  ultimately show ?thesis using made p by (fastforce simp: mem_client_def)
qed

lemma mem_nodes:
  "filterNodes (provider demo_config (qc_endpoints live_qc) mem_client) demo_service [demo_node ''node1''] demo_conf =
     Ok ([demo_node ''node1''], demo_conf\<lparr>BackendCountResult := 0\<rparr>)"
  by (simp add: filterNodes_def demo_service_policy demo_conf_def zero_config_def)

theorem EnsureLoadBalancer_converges_witness:
  "\<exists>s e s2. mem_pass = (Ok [\<lparr>ing_IP = ''1.2.3.4'', ing_Hostname = []\<rparr>], (s, e)) \<and>
    EnsureLoadBalancer (provider demo_config (qc_endpoints live_qc) (traced mem_client)) demo_service
      [demo_node ''node1''] ((s, []), e) =
    (Ok [\<lparr>ing_IP = ''1.2.3.4'', ing_Hostname = []\<rparr>],
     ((s2, [lookup_call demo_conf, GetListeners [Some ''x'']]), e))"
proof -
  from mem_found obtain s e spec where f:
    "mem_pass = (Ok [\<lparr>ing_IP = ''1.2.3.4'', ing_Hostname = []\<rparr>], (s, e))"
    "find_lb mem_client demo_conf (s, e) = (Ok (mem_lb spec (m_ls s)), (s, e))"
    "filterListeners (m_ls s) (listenerName demo_conf) = Ok [Some ''x'']"
    "cl_GetListeners mem_client [Some ''x''] s = (Ok (m_ls s), s)" by blast
  from EnsureLoadBalancer_converges[OF mem_remembers mem_settings(1-3) mem_nothing_yet _ mem_nodes _
      mem_settings(4) f(1)[unfolded mem_pass_def mem_qc_def] f(2) _ f(4)] f(1,3)
  show ?thesis by (auto simp: mem_lb_def zero_LoadBalancerStatus_def convertLoadBalancerStatus_v1_def)
qed

lemma mem_marks: "marks_eips mem_view mem_client"
proof -
  have "allocated mem_view s = (\<lambda>p. p = Some ''eip-9'')" for s
    by (auto simp: allocated_def mem_view_def fun_eq_iff split: option.splits)
  then show ?thesis
    by (auto simp: marks_eips_def leaves_def mem_view_def mem_client_def mem_find_def mem_lb_def ret_def
        sample_eip_def zero_EIPStatus_def zero_LoadBalancerStatus_def split: option.splits if_splits)
qed

text \<open>A service that has its EIP allocated.\<close>

definition alloc_service :: Service where
  "alloc_service =
     demo_service\<lparr>svc_Annotations := Some [(ServiceAnnotationLoadBalancerPolicy, ''exclusive''),
                                          (ServiceAnnotationLoadBalancerEipSource, AllocateOnly)]\<rparr>"

definition alloc_conf :: LoadBalancerConfig where
  "alloc_conf = demo_conf\<lparr>EipIDs := None, EipSource := Some AllocateOnly, Timeout := None\<rparr>"

definition alloc_pass :: "LoadBalancerIngress list outcome \<times> mem world" where
  "alloc_pass = EnsureLoadBalancer mem_qc alloc_service [demo_node ''node1''] (mem_empty, \<lambda>i. i)"

lemma alloc_pass_created:
  "fst alloc_pass = Ok [\<lparr>ing_IP = ''1.2.3.4'', ing_Hostname = []\<rparr>]"
  "map_option fst (m_lb (fst (snd alloc_pass))) = Some (LoadBalancerName alloc_conf)"
  "map_option (lb_EIPs \<circ> snd) (m_lb (fst (snd alloc_pass))) = Some [Some ''eip-9'']"
  by code_simp+

lemma alloc_settings:
  "ParseServiceLBConfig demo_config (cfg_ClusterID demo_config) alloc_service = Ok alloc_conf"
  "Policy alloc_conf = Exclusive" "ReuseLBID alloc_conf = []" "LoadBalancerName alloc_conf \<noteq> []"
  "plain_ports alloc_conf (svc_Ports alloc_service)" "EipSource alloc_conf = Some AllocateOnly"
  "ReuseLBID (parseServiceLBAndEIP demo_config alloc_service) = []"
  "LoadBalancerName (parseServiceLBAndEIP demo_config alloc_service) = LoadBalancerName alloc_conf"
  "exclusive_lb_name (cfg_ClusterID demo_config) alloc_service = ''k8s_lb_cl-1_default_web_0a1b''"
  by code_simp+

lemma alloc_nothing_yet:
  "find_lb mem_client alloc_conf (mem_empty, e) =
     (Err (NewResourceNotFoundError ''LoadBalancer'' (LoadBalancerName alloc_conf) []), (mem_empty, e))"
  by (simp add: find_lb_def alloc_settings(3,4) mem_client_def mem_find_def mem_empty_def cloud_def)

lemma alloc_nodes:
  "filterNodes (provider demo_config (qc_endpoints live_qc) mem_client) alloc_service [demo_node ''node1''] alloc_conf =
     Ok ([demo_node ''node1''], alloc_conf\<lparr>BackendCountResult := 0\<rparr>)"
  by (simp add: filterNodes_def alloc_service_def demo_service_policy alloc_conf_def demo_conf_def zero_config_def)

theorem EnsureLoadBalancerDeleted_undoes_witness:
  "\<exists>s e. alloc_pass = (Ok [\<lparr>ing_IP = ''1.2.3.4'', ing_Hostname = []\<rparr>], (s, e)) \<and>
    calls_of (EnsureLoadBalancerDeleted (provider demo_config (qc_endpoints live_qc) (traced mem_client)) alloc_service)
      s e =
    [GetLoadBalancerByName ''k8s_lb_cl-1_default_web_0a1b'', DeleteLB (Some ''lb-1''), ReleaseEIP [Some ''eip-9'']]"
proof -
  obtain r s e where p: "alloc_pass = (r, (s, e))" by (metis surj_pair)
  note made = alloc_pass_created[unfolded p fst_conv snd_conv]
  from made(2,3) obtain spec where m: "m_lb s = Some (LoadBalancerName alloc_conf, spec)"
    "lb_EIPs spec = [Some ''eip-9'']" by auto
  then have d: "find_lb mem_client (parseServiceLBAndEIP demo_config alloc_service) (s, e) =
      (Ok (mem_lb spec (m_ls s)), (s, e))"
    by (simp add: find_lb_def alloc_settings(4,7,8) mem_client_def mem_find_def cloud_def)
  have "cl_DeleteLB mem_client i s = (Ok (), \<lparr>m_lb = None, m_ls = []\<rparr>)" for i by (simp add: mem_client_def)
  from EnsureLoadBalancerDeleted_undoes[OF mem_remembers mem_marks alloc_settings(1-3) alloc_nothing_yet _ alloc_nodes _
      alloc_settings(5) p[unfolded alloc_pass_def mem_qc_def made(1)] d this] p made(1) m(2)
  show ?thesis by (auto simp: mem_lb_def zero_LoadBalancerStatus_def alloc_settings(9))
qed

definition missing_id_service :: Service where
  "missing_id_service =
     demo_service\<lparr>svc_Annotations :=
       Some [(ServiceAnnotationLoadBalancerID, ''lb-7''), (ServiceAnnotationLoadBalancerEipIds, ''eip-1'')]\<rparr>"

definition mem_full :: mem where
  "mem_full =
     \<lparr>m_lb = Some (exclusive_lb_name (cfg_ClusterID demo_config) missing_id_service, zero_LoadBalancerSpec), m_ls = []\<rparr>"

theorem EnsureLoadBalancer_creates_again_witness:
  "\<exists>conf. v_named mem_view mem_full (LoadBalancerName conf) \<noteq> None \<and>
    EnsureLoadBalancer (provider demo_config (qc_endpoints live_qc) (traced mem_client)) missing_id_service []
        ((mem_full, []), \<lambda>i. i) =
      bind_go (create_lb (traced mem_client) conf missing_id_service []) (apply_lb (traced mem_client))
        ((mem_full, [GetLoadBalancerByID ''lb-7'']), \<lambda>i. i)"
proof -
  have "case ParseServiceLBConfig demo_config (cfg_ClusterID demo_config) missing_id_service of
      Ok conf \<Rightarrow> Policy conf = Exclusive \<and> ReuseLBID conf = ''lb-7'' \<and> BackendLabel conf = [] \<and> BackendCountConfig conf = []
    | _ \<Rightarrow> False" by code_simp
  then obtain conf where c: "ParseServiceLBConfig demo_config (cfg_ClusterID demo_config) missing_id_service = Ok conf"
    and p: "Policy conf = Exclusive" "ReuseLBID conf = ''lb-7''" "BackendLabel conf = []" "BackendCountConfig conf = []"
    by (auto split: outcome.splits)
  have f: "filterNodes (provider demo_config (qc_endpoints live_qc) mem_client) missing_id_service [] conf =
      Ok ([], conf\<lparr>BackendCountResult := 0\<rparr>)"
    using p by (simp add: filterNodes_def missing_id_service_def demo_service_policy)
  have n: "v_named mem_view mem_full (exclusive_lb_name (cfg_ClusterID demo_config) missing_id_service) =
      Some (''lb-1'', zero_LoadBalancerSpec)" by (simp add: mem_view_def mem_full_def)
  have "cl_GetLoadBalancerByID mem_client (ReuseLBID conf) mem_full =
      (Err (NewResourceNotFoundError ''LoadBalancer'' (ReuseLBID conf) []), mem_full)"
    by (simp add: mem_client_def fail_def)
  from EnsureLoadBalancer_creates_again[OF c p(1) _ this _ f mem_shows n, of "\<lambda>i. i"] p(2) n
  show ?thesis by (intro exI[of _ "conf\<lparr>BackendCountResult := 0\<rparr>"]) simp
qed

end
