(* ===== verification/Repair.thy ===== *)
theory Repair
  imports Converge
begin

text \<open>
  Ensuring on a load balancer that exists already, in whatever state its listeners are: what one
  successful pass leaves behind is what the next pass asks for. The load balancer may be shared with
  other services, as a reused one is: their listeners are left as they are.

  The laws of the cloud are those of theory Converge for what is created, with deletion and listing
  beside them: \<open>repairs\<close>. The main lemmas follow the code: \<open>diffBackend\<close> settles one listener, the
  loop over the kept listeners settles each, new listeners are deployed as in theory Converge, and
  the comparison finds nothing to do with the two together.
\<close>

abbreviation backends_of :: "LoadBalancerListener \<Rightarrow> LoadBalancerBackend list" where
  "backends_of l \<equiv> ls_LoadBalancerBackends (ls_Status l)"

subsection \<open>The backends of one listener\<close>

lemma filter_backend_ids:
  assumes "distinct (map f bs)" and "distinct del" and "set del \<subseteq> f ` set bs"
  shows "length (filter (\<lambda>b. f b \<notin> set del) bs) = length bs - length del"
proof -
  have "distinct bs" "inj_on f (set bs)" using assms(1) by (simp_all add: distinct_map)
  have "card {b \<in> set bs. f b \<in> set del} = card (f ` {b \<in> set bs. f b \<in> set del})"
    using \<open>inj_on f (set bs)\<close> by (intro card_image[symmetric]) (auto simp: inj_on_def)
  also have "f ` {b \<in> set bs. f b \<in> set del} = set del" using assms(3) by auto
  finally have "length (filter (\<lambda>b. f b \<in> set del) bs) = length del"
    using \<open>distinct bs\<close> assms(2) by (metis distinct_card distinct_filter set_filter)
  then show ?thesis using length_filter_split[of "\<lambda>b. f b \<in> set del" bs] by simp
qed

text \<open>What the comparison deletes and adds, whatever branch it takes.\<close>

lemma diffBackend_parts:
  assumes "diffBackend l ns conf svc e = (Ok (del, add), e')" and "distinct (map backend_id (backends_of l))"
  shows "named (backends_of l) \<and> distinct del \<and> set del \<subseteq> backend_id ` set (backends_of l) \<and>
    set (map backend_id (stale ns (backends_of l))) \<subseteq> set del \<and> set add \<subseteq> set (missing ns (backends_of l)) \<and>
    (\<not> limited conf svc \<longrightarrow> del = map backend_id (stale ns (backends_of l)) \<and> add = missing ns (backends_of l))"
proof -
  let ?bs = "backends_of l"
  have named: "named ?bs"
    using assms(1) split_backends_panics[of ?bs ns] by (cases "named ?bs") (auto simp: diffBackend_def)
  have ids: "distinct (map backend_id (stale ns ?bs))" "distinct (map backend_id (kept ns ?bs))"
    "set (map backend_id (stale ns ?bs)) \<inter> set (map backend_id (kept ns ?bs)) = {}"
    using assms(2) by (auto simp: stale_def kept_def distinct_map_filter distinct_map inj_on_def)
  show ?thesis
  proof (cases "limited conf svc \<and> BackendCountResult conf < int (length (kept ns ?bs))")
    case True
    then obtain more where m: "GetRandomItems (map backend_id (kept ns ?bs))
        (int (length (kept ns ?bs)) - BackendCountResult conf) e = (Ok more, e')"
      and del: "del = map backend_id (stale ns ?bs) @ more" "add = []"
      using assms(1) by (auto simp: diffBackend_steps[OF named] Let_def bind_go_Ok_iff)
    from items.sample_distinct[OF m ids(2)] items.sample_subset[OF m] ids del named True
    show ?thesis by (auto simp: kept_def stale_def)
  next
    case False
    then have "del = map backend_id (stale ns ?bs)" "set add \<subseteq> set (missing ns ?bs)"
      "\<not> limited conf svc \<longrightarrow> add = missing ns ?bs"
      using assms(1) nodes.sample_subset
      by (auto simp: diffBackend_steps[OF named] Let_def bind_go_Ok_iff split: if_splits) blast
    with ids(1) named False show ?thesis by (auto simp: stale_def)
  qed
qed

lemma list_all2_right: "list_all2 P xs ys \<Longrightarrow> y \<in> set ys \<Longrightarrow> \<exists>x \<in> set xs. P x y"
  by (metis in_set_conv_nth list_all2_conv_all_nth)

lemma list_all2_left: "list_all2 P xs ys \<Longrightarrow> x \<in> set xs \<Longrightarrow> \<exists>y \<in> set ys. P x y"
  by (metis in_set_conv_nth list_all2_conv_all_nth)

lemma diffBackend_settles_listener:
  assumes "diffBackend l ns conf svc e = (Ok (del, add), e')"
    and "distinct (map backend_id (backends_of l))"
    and "list_all2 (\<lambda>n b. be_LoadBalancerBackendName (be_Spec b) = Some (nodeToInstanceIDs n)) add new"
    and "backends_of l' = filter (\<lambda>b. backend_id b \<notin> set del) (backends_of l) @ new"
  shows "backends_settled l' ns conf svc"
proof -
  let ?bs = "backends_of l" and ?rem = "filter (\<lambda>b. backend_id b \<notin> set del) (backends_of l)"
  note p = diffBackend_parts[OF assms(1,2)]
  have new: "\<exists>n \<in> set ns. be_LoadBalancerBackendName (be_Spec b) = Some (nodeToInstanceIDs n)" if "b \<in> set new" for b
    using list_all2_right[OF assms(3) that] p by (auto simp: missing_def)
  have "named (backends_of l')"
    using p new by (fastforce simp: assms(4) named_def list_all_iff)
  moreover have "stale ns (backends_of l') = []"
  proof -
    have "\<exists>n \<in> set ns. matches b n" if "b \<in> set ?rem" for b
    proof (rule ccontr)
      assume "\<not> (\<exists>n \<in> set ns. matches b n)"
      with that have "backend_id b \<in> set (map backend_id (stale ns ?bs))" by (auto simp: stale_def)
      moreover have "set (map backend_id (stale ns ?bs)) \<subseteq> set del" using p by blast
      ultimately show False using that by auto
    qed
    moreover have "\<exists>n \<in> set ns. matches b n" if "b \<in> set new" for b
      using new[OF that] by (force simp: matches_def)
    ultimately show ?thesis by (auto simp: stale_def assms(4) filter_empty_conv)
  qed
  moreover have "int (length (backends_of l')) = BackendCountResult conf" if "limited conf svc"
  proof -
    have "length ?rem = length ?bs - length del" "length del \<le> length ?bs"
      using p filter_backend_ids[OF assms(2)] card_mono[of "backend_id ` set ?bs" "set del"]
        distinct_card[of del] distinct_card[of "map backend_id ?bs"] assms(2) by auto
    moreover have "length new = length add" using list_all2_lengthD[OF assms(3)] by simp
    ultimately show ?thesis
      using diffBackend_leaves[OF assms(1) that] by (simp add: assms(4))
  qed
  moreover have "missing ns (backends_of l') = []" if "\<not> limited conf svc"
  proof -
    have del: "del = map backend_id (stale ns ?bs)" "add = missing ns ?bs" using p that by auto
    have "\<exists>b \<in> set (backends_of l'). matches b n" if "n \<in> set ns" for n
    proof (cases "\<exists>b \<in> set ?bs. matches b n")
      case True
      then obtain b where b: "b \<in> set ?bs" "matches b n" by blast
      then have "b \<notin> set (stale ns ?bs)" using that by (auto simp: stale_def)
      moreover have "inj_on backend_id (set ?bs)" using assms(2) by (simp add: distinct_map)
      ultimately have "backend_id b \<notin> set del"
        using b(1) by (auto simp: del inj_on_def stale_def)
      with b show ?thesis by (auto simp: assms(4))
    next
      case False
      with that have "n \<in> set add" by (auto simp: del missing_def)
      from list_all2_left[OF assms(3) this] show ?thesis by (force simp: assms(4) matches_def)
    qed
    then show ?thesis by (auto simp: missing_def filter_empty_conv)
  qed
  ultimately show ?thesis by (simp add: backends_settled_def Let_def)
qed

subsection \<open>What the platform documents\<close>

definition drop_backends :: "string option list \<Rightarrow> LoadBalancerListener \<Rightarrow> LoadBalancerListener" where
  "drop_backends is l =
     l\<lparr>ls_Status := (ls_Status l)\<lparr>ls_LoadBalancerBackends := filter (\<lambda>b. backend_id b \<notin> set is) (backends_of l)\<rparr>\<rparr>"

text \<open>The ids of all backends of a load balancer differ.\<close>

definition numbered :: "LoadBalancerListener list \<Rightarrow> bool" where
  "numbered ls = distinct (map backend_id (concat (map backends_of ls)))"

definition deletes_listeners :: "'s view \<Rightarrow> 's client \<Rightarrow> bool" where
  "deletes_listeners v cl =
     (\<forall>is s s'. cl_DeleteListener cl is s = (Ok (), s') \<longrightarrow>
        v_listeners v s' = (\<lambda>i. filter (\<lambda>l. listener_id l \<notin> set is) (v_listeners v s i)))"

definition deletes_backends :: "'s view \<Rightarrow> 's client \<Rightarrow> bool" where
  "deletes_backends v cl =
     (\<forall>is s s'. cl_DeleteBackends cl is s = (Ok (), s') \<longrightarrow>
        v_listeners v s' = (\<lambda>i. map (drop_backends is) (v_listeners v s i)))"

definition numbers_backends :: "'s view \<Rightarrow> 's client \<Rightarrow> bool" where
  "numbers_backends v cl =
     (\<forall>bs s r s' i. cl_CreateBackends cl bs s = (Ok r, s') \<longrightarrow>
        numbered (v_listeners v s i) \<longrightarrow> numbered (v_listeners v s' i))"

text \<open>
  A modification sets the node count and the private address it asks for and leaves the listeners
  alone; no other call of a pass on a load balancer that exists changes its attributes.
\<close>

definition modified ::
  "LoadBalancerSpec \<Rightarrow> int option \<times> string option list \<Rightarrow> int option \<times> string option list \<Rightarrow> bool" where
  "modified q old new =
     (fst new = (if lb_NodeCount q = None then fst old else lb_NodeCount q) \<and>
      (lb_PrivateIPs q = [] \<longrightarrow> snd new = snd old) \<and>
      (\<forall>ip. lb_PrivateIPs q = [Some ip] \<longrightarrow> Some ip \<in> set (snd new) \<and> None \<notin> set (snd new)))"

definition modifies :: "'s view \<Rightarrow> 's client \<Rightarrow> bool" where
  "modifies v cl =
     (\<forall>b s s'. cl_ModifyLB cl b s = (Ok (), s') \<longrightarrow> v_listeners v s' = v_listeners v s \<and>
        (\<forall>i. lb_LoadBalancerID (lb_Status b) = Some i \<longrightarrow>
           modified (lb_Spec b) (v_attributes v s i) (v_attributes v s' i)))"

definition keeps_attributes :: "'s view \<Rightarrow> 's client \<Rightarrow> bool" where
  "keeps_attributes v cl =
     ((\<forall>i. leaves (v_attributes v) (cl_GetLoadBalancerByID cl i)) \<and>
      (\<forall>is. leaves (v_attributes v) (cl_GetListeners cl is)) \<and>
      (\<forall>gs. leaves (v_attributes v) (cl_CreateListener cl gs)) \<and>
      (\<forall>is. leaves (v_attributes v) (cl_DeleteListener cl is)) \<and>
      (\<forall>bs. leaves (v_attributes v) (cl_CreateBackends cl bs)) \<and>
      (\<forall>is. leaves (v_attributes v) (cl_DeleteBackends cl is)) \<and>
      (\<forall>i. leaves (v_attributes v) (cl_UpdateLB cl i)))"

definition repairs :: "'s view \<Rightarrow> 's client \<Rightarrow> bool" where
  "repairs v cl =
     (stores_listeners v cl \<and> stores_backends v cl \<and> deletes_listeners v cl \<and> deletes_backends v cl \<and>
      numbers_backends v cl \<and> lists_some v cl \<and> modifies v cl \<and> keeps_attributes v cl)"

lemma repairsD:
  assumes "repairs v cl"
  shows "stores_listeners v cl" "stores_backends v cl" "deletes_listeners v cl" "deletes_backends v cl"
    "numbers_backends v cl" "lists_some v cl" "modifies v cl" "keeps_attributes v cl"
  using assms by (simp_all add: repairs_def)

lemma drop_backends_simps [simp]:
  "ls_Spec (drop_backends is l) = ls_Spec l" "listener_id (drop_backends is l) = listener_id l"
  "backends_of (drop_backends is l) = filter (\<lambda>b. backend_id b \<notin> set is) (backends_of l)"
  "drop_backends [] = (\<lambda>l. l)"
  by (simp_all add: drop_backends_def fun_eq_iff)

lemma put_backends_simps [simp]:
  "ls_Spec (put_backends j bs l) = ls_Spec l" "listener_id (put_backends j bs l) = listener_id l"
  "backends_of (put_backends j bs l) = (if listener_id l = Some j then backends_of l @ bs else backends_of l)"
  "put_backends j [] = (\<lambda>l. l)"
  by (simp_all add: put_backends_def fun_eq_iff)

lemma drop_backends_other:
  assumes "\<And>b. b \<in> set (backends_of l) \<Longrightarrow> backend_id b \<notin> set is"
  shows "drop_backends is l = l"
proof -
  have "filter (\<lambda>b. backend_id b \<notin> set is) (backends_of l) = backends_of l"
    using assms by (simp add: filter_id_conv)
  then show ?thesis by (simp add: drop_backends_def)
qed

lemma numbered_drop: "numbered ls \<Longrightarrow> numbered (map (drop_backends is) ls)"
proof -
  have "concat (map backends_of (map (drop_backends is) ls)) =
      filter (\<lambda>b. backend_id b \<notin> set is) (concat (map backends_of ls))"
    by (induction ls) simp_all
  then show "numbered ls \<Longrightarrow> numbered (map (drop_backends is) ls)"
    by (simp add: numbered_def distinct_map_filter)
qed

lemma numbered_Cons:
  "numbered (l # ls) \<longleftrightarrow> distinct (map backend_id (backends_of l)) \<and> numbered ls \<and>
     (\<forall>b \<in> set (backends_of l). \<forall>x \<in> set ls. \<forall>b' \<in> set (backends_of x). backend_id b \<noteq> backend_id b')"
  by (simp add: numbered_def) blast

lemma numbered_filter: "numbered ls \<Longrightarrow> numbered (filter P ls)"
  by (induction ls) (auto simp: numbered_Cons)

lemma numbered_one: "numbered ls \<Longrightarrow> l \<in> set ls \<Longrightarrow> distinct (map backend_id (backends_of l))"
  by (induction ls) (auto simp: numbered_Cons)

lemma numbered_apart:
  assumes "numbered ls" and "l \<in> set ls" and "x \<in> set ls" and "x \<noteq> l"
    and "b \<in> set (backends_of x)" and "b' \<in> set (backends_of l)"
  shows "backend_id b \<noteq> backend_id b'"
  using assms
proof (induction ls)
  case (Cons y ls)
  then consider "x = y" "l \<in> set ls" | "l = y" "x \<in> set ls" | "l \<in> set ls" "x \<in> set ls" by auto
  then show ?case
  proof cases
    case 1
    with Cons.prems show ?thesis by (simp add: numbered_Cons)
  next
    case 2
    with Cons.prems show ?thesis by (metis numbered_Cons)
  next
    case 3
    with Cons show ?thesis by (simp add: numbered_Cons)
  qed
qed simp

subsection \<open>The loop over the kept listeners\<close>

text \<open>A listener from the cloud: complete, with named backends that all have the port of the first.\<close>

definition regular :: "LoadBalancerListener \<Rightarrow> bool" where
  "regular l =
     (complete l \<and> ls_LoadBalancerListenerID (ls_Spec l) = listener_id l \<and>
      list_all (\<lambda>b. be_Port (be_Spec b) = Some (first_backend_port l)) (backends_of l))"

text \<open>The listener as the pass leaves it.\<close>

definition settled_as ::
  "LoadBalancerConfig \<Rightarrow> Service \<Rightarrow> Node list \<Rightarrow> LoadBalancerListener \<Rightarrow> LoadBalancerListener \<Rightarrow> bool" where
  "settled_as conf svc ns l l' =
     (with_backends l l' \<and> backends_settled l' ns conf svc \<and>
      list_all (\<lambda>b. be_Port (be_Spec b) = Some (first_backend_port l)) (backends_of l'))"

text \<open>The port of the listener's service port carries its protocol to the port of its backends.\<close>

definition served :: "ServicePort list \<Rightarrow> LoadBalancerListener \<Rightarrow> bool" where
  "served ports l =
     (\<exists>proto n. ls_ListenerProtocol (ls_Spec l) = Some proto \<and> ls_ListenerPort (ls_Spec l) = Some n \<and>
        port_for proto n ports = Some (first_backend_port l))"

lemma update_backends_Ok:
  assumes "update_backends cl conf svc ns b l (s, e) = (Ok b', (s', e'))"
  shows "\<exists>del add s1. diffBackend l ns conf svc e = (Ok (del, add), e') \<and>
    (if del = [] then s1 = s else cl_DeleteBackends cl del s = (Ok (), s1)) \<and>
    (if add = [] then s' = s1
     else \<exists>bs r. generateLoadBalancerBackends add l (svc_Ports svc) = Ok bs \<and> cl_CreateBackends cl bs s1 = (Ok r, s'))"
proof -
  from assms obtain del add e1 c s1 e2 where d: "diffBackend l ns conf svc e = (Ok (del, add), e1)"
    and m: "(if length del > 0 then
          bind_go (lift (deref (ls_ListenerPort (ls_Spec l)))) (\<lambda>_.
          bind_go (wrap_go ''delete backends '' (cloud (cl_DeleteBackends cl del))) (\<lambda>_. ret True))
        else ret b) (s, e1) = (Ok c, (s1, e2))"
    and f: "(if length add > 0 then
       bind_go (lift (generateLoadBalancerBackends add l (svc_Ports svc))) (\<lambda>toAddBackends.
       bind_go (lift (deref (ls_ListenerPort (ls_Spec l)))) (\<lambda>_.
       bind_go (wrap_go ''add backends error: '' (cloud (cl_CreateBackends cl toAddBackends))) (\<lambda>_. ret True)))
     else ret c) (s1, e2) = (Ok b', (s', e'))"
    by (auto simp: update_backends_def bind_go_Ok_iff[of "lift _"] bind_go_Ok_iff[of "draw _"]
        bind_go_Ok_iff[of "If _ _ _"] draw_iff)
  have "(if del = [] then s1 = s else cl_DeleteBackends cl del s = (Ok (), s1)) \<and> e2 = e1"
    using m by (auto simp: bind_go_Ok_iff cloud_iff split: if_splits)
  moreover have "(if add = [] then s' = s1
     else \<exists>bs r. generateLoadBalancerBackends add l (svc_Ports svc) = Ok bs \<and> cl_CreateBackends cl bs s1 = (Ok r, s')) \<and>
     e' = e2"
    using f by (auto simp: bind_go_Ok_iff cloud_iff split: if_splits) metis
  ultimately show ?thesis using d by blast
qed

lemma update_backends_step:
  assumes "repairs v cl" and "list_all (\<lambda>p. port_Protocol p \<in> {ProtocolTCP, ProtocolUDP}) (svc_Ports svc)"
    and run: "update_backends cl conf svc ns b l (s, e) = (Ok b', (s', e'))"
    and l: "l \<in> set (v_listeners v s i)" "regular l" "served (svc_Ports svc) l"
    and ids: "distinct (map listener_id (v_listeners v s i))" "numbered (v_listeners v s i)"
  shows "\<exists>l'. v_listeners v s' i = map (\<lambda>x. if x = l then l' else x) (v_listeners v s i) \<and>
    settled_as conf svc ns l l' \<and> numbered (v_listeners v s' i)"
proof -
  note laws = repairsD[OF assms(1)]
  let ?V = "v_listeners v s i"
  from l(2) obtain j where j: "listener_id l = Some j" by (auto simp: regular_def complete_def Let_def)
  from update_backends_Ok[OF run] obtain del add s1 where
    d: "diffBackend l ns conf svc e = (Ok (del, add), e')"
    and del: "if del = [] then s1 = s else cl_DeleteBackends cl del s = (Ok (), s1)"
    and add: "if add = [] then s' = s1 else \<exists>bs r. generateLoadBalancerBackends add l (svc_Ports svc) = Ok bs \<and>
        cl_CreateBackends cl bs s1 = (Ok r, s')" by blast
  note parts = diffBackend_parts[OF d numbered_one[OF ids(2) l(1)]]
  have V1: "v_listeners v s1 i = map (drop_backends del) ?V"
    using del laws(4) by (auto simp: deletes_backends_def split: if_splits)
  have num1: "numbered (v_listeners v s1 i)" by (simp add: V1 numbered_drop ids(2))
  have "\<exists>new. v_listeners v s' i = map (put_backends j new) (v_listeners v s1 i) \<and> numbered (v_listeners v s' i) \<and>
      list_all2 (\<lambda>n b. be_LoadBalancerBackendName (be_Spec b) = Some (nodeToInstanceIDs n) \<and>
        be_Port (be_Spec b) = Some (first_backend_port l)) add new"
  proof (cases "add = []")
    case True
    with add num1 show ?thesis by (intro exI[of _ "[]"]) simp
  next
    case False
    let ?bs = "map (backend_of (Some j) (Some (first_backend_port l))) add"
    from l(3) obtain proto n where p: "ls_ListenerProtocol (ls_Spec l) = Some proto"
      "ls_ListenerPort (ls_Spec l) = Some n" "port_for proto n (svc_Ports svc) = Some (first_backend_port l)"
      by (auto simp: served_def)
    have "generateLoadBalancerBackends add l (svc_Ports svc) = Ok ?bs"
      using generateLoadBalancerBackends_Ok[OF assms(2) p(1,2), of add] p(3) j l(2)
      by (auto simp: regular_def split: list.splits)
    with add False obtain r where c: "cl_CreateBackends cl ?bs s1 = (Ok r, s')" by auto
    have "list_all (\<lambda>b. be_LoadBalancerListenerID (be_Spec b) = Some j) ?bs"
      by (simp add: list_all_iff backend_of_def)
    with laws(2) c obtain new where new: "list_all2 stored_backend ?bs new"
      "v_listeners v s' = (\<lambda>i. map (put_backends j new) (v_listeners v s1 i))"
      unfolding stores_backends_def by blast
    moreover have "numbered (v_listeners v s' i)"
      using laws(5) c num1 unfolding numbers_backends_def by blast
    ultimately show ?thesis
      by (intro exI[of _ new]) (simp add: list_all2_map1 stored_backend_def backend_of_def)
  qed
  then obtain new where new: "v_listeners v s' i = map (put_backends j new) (v_listeners v s1 i)"
    "numbered (v_listeners v s' i)"
    "list_all2 (\<lambda>n b. be_LoadBalancerBackendName (be_Spec b) = Some (nodeToInstanceIDs n) \<and>
        be_Port (be_Spec b) = Some (first_backend_port l)) add new" by blast
  let ?l = "put_backends j new (drop_backends del l)"
  have other: "put_backends j new (drop_backends del x) = x" if "x \<in> set ?V" "x \<noteq> l" for x
  proof -
    have "listener_id x \<noteq> Some j" using ids(1) l(1) that j by (auto simp: distinct_map inj_on_def)
    moreover have "drop_backends del x = x"
      using numbered_apart[OF ids(2) l(1) that] parts by (intro drop_backends_other) blast
    ultimately show ?thesis by (simp add: put_backends_other)
  qed
  have "v_listeners v s' i = map (\<lambda>x. if x = l then ?l else x) ?V"
    using other by (simp add: new(1) V1)
  moreover have "backends_settled ?l ns conf svc"
    by (rule diffBackend_settles_listener[OF d numbered_one[OF ids(2) l(1)] list_all2_mono[OF new(3)]]) (simp_all add: j)
  moreover have "list_all (\<lambda>b. be_Port (be_Spec b) = Some (first_backend_port l)) (backends_of ?l)"
    using l(2) list_all2_right[OF new(3)] j by (auto simp: regular_def list_all_iff)
  ultimately show ?thesis
    using new(2) by (intro exI[of _ ?l]) (simp add: settled_as_def with_backends_def)
qed

text \<open>The whole loop: the kept listeners are settled one by one, the others stay.\<close>

definition settles_kept ::
  "LoadBalancerConfig \<Rightarrow> Service \<Rightarrow> Node list \<Rightarrow> LoadBalancerListener list \<Rightarrow> LoadBalancerListener \<Rightarrow>
   LoadBalancerListener \<Rightarrow> bool" where
  "settles_kept conf svc ns ks l l' = (if l \<in> set ks then settled_as conf svc ns l l' else l' = l)"

lemma settled_as_id: "settled_as conf svc ns l l' \<Longrightarrow> listener_id l' = listener_id l"
  by (simp add: settled_as_def with_backends_def)

lemma update_backends_loop:
  assumes "repairs v cl" and "list_all (\<lambda>p. port_Protocol p \<in> {ProtocolTCP, ProtocolUDP}) (svc_Ports svc)"
    and "fold_go (update_backends cl conf svc ns) b ks (s, e) = (Ok b', (s', e'))"
    and "set ks \<subseteq> set (v_listeners v s i)" and "distinct ks"
    and "\<And>l. l \<in> set ks \<Longrightarrow> regular l \<and> served (svc_Ports svc) l"
    and "distinct (map listener_id (v_listeners v s i))" "numbered (v_listeners v s i)"
  shows "list_all2 (settles_kept conf svc ns ks) (v_listeners v s i) (v_listeners v s' i) \<and>
    numbered (v_listeners v s' i)"
  using assms(3-8)
proof (induction ks arbitrary: b s e)
  case Nil
  then show ?case by (simp add: settles_kept_def ret_def list.rel_refl)
next
  case (Cons l ks)
  let ?V = "v_listeners v s i"
  from Cons.prems(1) obtain b1 s1 e1 where
    1: "update_backends cl conf svc ns b l (s, e) = (Ok b1, (s1, e1))"
      "fold_go (update_backends cl conf svc ns) b1 ks (s1, e1) = (Ok b', (s', e'))"
    by (auto simp: bind_go_Ok_iff)
  from update_backends_step[OF assms(1,2) 1(1), of i] Cons.prems obtain l' where
    l': "v_listeners v s1 i = map (\<lambda>x. if x = l then l' else x) ?V" "settled_as conf svc ns l l'"
      "numbered (v_listeners v s1 i)" by auto
  note id = settled_as_id[OF l'(2)]
  have ids: "map listener_id (v_listeners v s1 i) = map listener_id ?V"
    by (simp add: l'(1) id)
  have inj: "inj_on listener_id (set ?V)" using Cons.prems(5) by (simp add: distinct_map)
  have "l \<in> set ?V" "l \<notin> set ks" "set ks \<subseteq> set ?V" using Cons.prems(2,3) by auto
  then have l_new: "l' \<notin> set ks" using inj id by (auto simp: inj_on_def)
  have "set ks \<subseteq> set (v_listeners v s1 i)"
    using \<open>set ks \<subseteq> set ?V\<close> \<open>l \<notin> set ks\<close> by (auto simp: l'(1))
  with Cons.IH[OF 1(2)] Cons.prems(3-5) ids l'(3)
  have rest: "list_all2 (settles_kept conf svc ns ks) (v_listeners v s1 i) (v_listeners v s' i)"
    "numbered (v_listeners v s' i)" by (simp_all del: set_map)
  have "list_all2 (\<lambda>x y. settles_kept conf svc ns ks (if x = l then l' else x) y) ?V (v_listeners v s' i)"
    using rest(1) by (simp add: l'(1) list_all2_map1)
  then have "list_all2 (settles_kept conf svc ns (l # ks)) ?V (v_listeners v s' i)"
    by (rule list_all2_mono) (use l_new l'(2) \<open>l \<notin> set ks\<close> in \<open>auto simp: settles_kept_def split: if_splits\<close>)
  with rest(2) show ?case by simp
qed

subsection \<open>The new listeners\<close>

text \<open>The ports of a plain service that are left after a selection are plain.\<close>

lemma find_Some_filter:
  assumes "p \<in> set ps" and "P p" and "Q p"
  shows "\<exists>q. find P (filter Q ps) = Some q \<and> q \<in> set ps \<and> P q"
  using assms by (induction ps) auto

lemma carries_protocols:
  assumes "carries proto p" and "carries proto q"
    and "port_Protocol p \<in> {ProtocolTCP, ProtocolUDP}" "port_Protocol q \<in> {ProtocolTCP, ProtocolUDP}"
  shows "port_Protocol p = port_Protocol q"
proof -
  have "\<not> (EqualFold s ProtocolTCP \<and> EqualFold s ProtocolUDP)" for s
    by (auto simp: EqualFold_def ToLower_protocols)
  then show ?thesis
    using assms EqualFold_protocols(3,4) by (auto simp: carries_def)
qed

lemma plain_ports_filter:
  assumes "plain_ports conf ports"
  shows "plain_ports conf (filter Q ports)"
proof -
  have "port_for (wanted_protocol (Some conf) p) (port_Port p) (filter Q ports) = Some (port_NodePort p)"
    if p: "p \<in> set ports" "Q p" for p
  proof -
    let ?P = "\<lambda>proto n q. port_Port q = n \<and> carries proto q"
    let ?w = "\<lambda>p. wanted_protocol (Some conf) p"
    have plain: "port_Protocol q \<in> {ProtocolTCP, ProtocolUDP}"
      "port_for (?w q) (port_Port q) ports = Some (port_NodePort q)" if "q \<in> set ports" for q
      using assms that by (auto simp: plain_ports_def list_all_iff)
    have own: "carries (?w p) p" using assms p(1) by (auto simp: plain_ports_def list_all_iff)
    then obtain q where q: "find (?P (?w p) (port_Port p)) (filter Q ports) = Some q" "q \<in> set ports"
      "port_Port q = port_Port p" "carries (?w p) q"
      using find_Some_filter[of p ports "?P (?w p) (port_Port p)" Q] p by auto
    have same: "port_Protocol q = port_Protocol p"
      using carries_protocols[OF q(4) own] plain(1)[OF q(2)] plain(1)[OF p(1)] by simp
    have "?w q = ?w p" unfolding wanted_protocol_def q(3) same ..
    with plain(2)[OF q(2)] plain(2)[OF p(1)] q(3) have "port_NodePort q = port_NodePort p" by simp
    with q(1) show ?thesis by (simp add: port_for_def)
  qed
  moreover have "int (length (filter Q ports)) \<le> pageLimt"
    using assms length_filter_le[of Q ports] by (simp add: plain_ports_def del: length_filter_le)
  ultimately show ?thesis using assms by (auto simp: plain_ports_def list_all_iff)
qed

text \<open>\<open>fits\<close> with the port of the first backend for the map of node ports.\<close>

definition fits_port :: "LoadBalancerConfig \<Rightarrow> ServicePort \<Rightarrow> LoadBalancerListener \<Rightarrow> bool" where
  "fits_port conf p l =
     (settings_of l = wanted_settings (Some conf) p \<and> certificate_fits (Some conf) p l \<and>
      first_backend_port l = port_NodePort p)"

lemma fits_node_ports:
  assumes "distinct (map listener_id ls)" and "\<And>l. l \<in> set ls \<Longrightarrow> complete l" and "l \<in> set ls"
  shows "fits (node_ports ls) (Some conf) p l = fits_port conf p l"
  using node_ports_lookup[OF assms(1,3,2)] by (simp add: fits_def fits_port_def)

lemma nothing_to_change:
  assumes "distinct (map listener_id ls)" and "\<And>l. l \<in> set ls \<Longrightarrow> complete l"
    and "\<And>l. l \<in> set ls \<Longrightarrow> \<exists>p \<in> set ports. fits_port conf p l"
    and "\<And>p. p \<in> set ports \<Longrightarrow> \<exists>l \<in> set ls. fits_port conf p l"
  shows "diffListeners ls (Some conf) ports = Ok ([], [], ls)"
  using assms(3,4) fits_node_ports[OF assms(1,2)]
  by (simp add: diffListeners_Ok[OF assms(2)] filter_empty_conv)

lemma settled_not_Nil:
  assumes "backends_settled l ns conf svc" and "ns \<noteq> []" and "0 \<le> BackendCountResult conf"
  shows "backends_of l \<noteq> []"
  using assms by (cases "limited conf svc") (auto simp: backends_settled_def limited_def missing_def Let_def)

text \<open>A kept listener after its update.\<close>

lemma settled_as_keeps:
  assumes "settled_as conf svc ns l l'" and "regular l" and "ns \<noteq> []" and "0 \<le> BackendCountResult conf"
  shows "regular l'" and "fits_port conf p l' = fits_port conf p l"
proof -
  have s: "ls_Spec l' = ls_Spec l" "listener_id l' = listener_id l" "backends_settled l' ns conf svc"
    "list_all (\<lambda>b. be_Port (be_Spec b) = Some (first_backend_port l)) (backends_of l')"
    using assms(1) by (simp_all add: settled_as_def with_backends_def)
  have "backends_of l' \<noteq> []" by (rule settled_not_Nil[OF s(3) assms(3,4)])
  with s(4) have port: "first_backend_port l' = first_backend_port l"
    by (cases "backends_of l'") (auto simp: first_backend_port_def)
  then show "fits_port conf p l' = fits_port conf p l"
    unfolding fits_port_def settings_of_def certificate_fits_def s(1) by simp
  show "regular l'"
    using assms(2) s(1,2,4) port by (auto simp: regular_def complete_def Let_def list_all_iff)
qed

text \<open>A kept listener can be given backends.\<close>

lemma fits_port_served:
  assumes "plain_ports conf ports" and "p \<in> set ports" and "fits_port conf p l"
  shows "served ports l"
proof -
  note w = wanted_settings_port[OF conjunct1[OF assms(3)[unfolded fits_port_def]]]
  have "port_for (wanted_protocol (Some conf) p) (port_Port p) ports = Some (port_NodePort p)"
    using assms(1,2) by (auto simp: plain_ports_def list_all_iff)
  with w assms(3) show ?thesis by (simp add: served_def fits_port_def)
qed

text \<open>The new listeners.\<close>

lemma deployed_regular:
  assumes "generateLoadBalancerListeners (Some conf) lb ports = Ok gs"
    and "deployed conf ports ns' gs ls" and "ns' \<noteq> []"
  shows "list_all2 (\<lambda>p l. regular l \<and> fits_port conf p l \<and>
    ls_LoadBalancerListenerName (ls_Spec l) = Some (listenerName conf)) ports ls"
  unfolding list_all2_conv_all_nth
proof (intro conjI allI impI)
  note wanted = generateLoadBalancerListeners_wanted[OF assms(1)]
  note d = assms(2)[unfolded deployed_def]
  note gs = d[THEN conjunct1] and serves = d[THEN conjunct2, THEN conjunct1]
  show "length ports = length ls" by (rule list_all2_lengthD[OF serves])
  fix k assume k: "k < length ports"
  then have kl: "k < length ls" "k < length gs"
    using list_all2_lengthD[OF serves] list_all2_lengthD[OF wanted] by simp_all
  note w = list_all2_nthD[OF wanted k] and g = list_all2_nthD[OF gs kl(2)]
  note port = serves_first_port[OF list_all2_nthD[OF serves k] assms(3)]
  show name: "ls_LoadBalancerListenerName (ls_Spec (ls ! k)) = Some (listenerName conf)" using g by simp
  show "fits_port conf (ports ! k) (ls ! k)"
    using w g port(1) by (auto simp: fits_port_def certificate_fits_def split: option.splits)
  have "complete (ls ! k)"
    using w g port(2) by (intro wanted_settings_complete) auto
  moreover have "list_all (\<lambda>b. be_Port (be_Spec b) = Some (first_backend_port (ls ! k))) (backends_of (ls ! k))"
    using list_all2_nthD[OF serves k] by (auto simp: port(1) serves_def list_all_length list_all2_conv_all_nth)
  ultimately show "regular (ls ! k)" using g by (simp add: regular_def)
qed

subsection \<open>One pass over the listeners\<close>

text \<open>The listeners of a service are those with its prefix; the others belong to someone else.\<close>

definition own :: "LoadBalancerConfig \<Rightarrow> LoadBalancerListener \<Rightarrow> bool" where
  "own conf l = (\<exists>n. ls_LoadBalancerListenerName (ls_Spec l) = Some n \<and> HasPrefix n (listenerName conf))"

lemma filter_ok_own:
  "filter_ok (\<lambda>l. bind_ok (deref (ls_LoadBalancerListenerName (ls_Spec l)))
     (\<lambda>name. Ok (HasPrefix name (listenerName conf)))) ls = Ok ys \<Longrightarrow> ys = filter (own conf) ls"
  by (induction ls arbitrary: ys) (auto simp: bind_ok_Ok_iff own_def)

lemma own_tag: "tag_of l = tag_of l' \<Longrightarrow> own conf l = own conf l' \<and> listener_id l = listener_id l'"
  by (simp add: tag_of_def own_def)

lemma filterListeners_own:
  assumes "filterListeners ls (listenerName conf) = Ok ids" and "map tag_of ls = map tag_of ls'"
  shows "ids = map listener_id (filter (own conf) ls')"
proof -
  have "ids = map listener_id (filter (own conf) ls)"
    using assms(1) by (auto simp: filterListeners_def bind_ok_Ok_iff dest!: filter_ok_own)
  also have "list_all2 (\<lambda>l l'. tag_of l = tag_of l') ls ls'"
    using assms(2) by (simp add: list_all2_conv_all_nth map_equality_iff)
  then have "map listener_id (filter (own conf) ls) = map listener_id (filter (own conf) ls')"
    by induction (auto dest: own_tag)
  finally show ?thesis .
qed

text \<open>A load balancer whose listeners a pass can work on, and the same after a pass.\<close>

definition workable :: "LoadBalancerConfig \<Rightarrow> LoadBalancerListener list \<Rightarrow> bool" where
  "workable conf ls =
     (distinct (map listener_id ls) \<and> numbered ls \<and> (\<forall>l \<in> set ls. own conf l \<longrightarrow> regular l))"

definition repaired ::
  "LoadBalancerConfig \<Rightarrow> Service \<Rightarrow> Node list \<Rightarrow> LoadBalancerListener list \<Rightarrow> bool" where
  "repaired conf svc ns ls =
     (workable conf ls \<and>
      (\<forall>l \<in> set ls. own conf l \<longrightarrow> backends_settled l ns conf svc \<and>
         (\<exists>p \<in> set (svc_Ports svc). fits_port conf p l)) \<and>
      (\<forall>p \<in> set (svc_Ports svc). \<exists>l \<in> set ls. own conf l \<and> fits_port conf p l))"

text \<open>The steps of a pass that found listeners of the service.\<close>

lemma update_listeners_steps:
  assumes "update_listeners cl conf lb svc ns b (s, e) = (Ok b', (s', e'))"
    and "filterListeners (lb_LoadBalancerListeners (lb_Status lb)) (listenerName conf) = Ok ids" and "ids \<noteq> []"
  shows "\<exists>ls s1 del add keep s2 s3 e3 b3. cl_GetListeners cl ids s = (Ok ls, s1) \<and>
    diffListeners ls (Some conf) (svc_Ports svc) = Ok (del, add, keep) \<and>
    (if del = [] then s2 = s1 else cl_DeleteListener cl del s1 = (Ok (), s2)) \<and>
    (if add = [] then s3 = s2 \<and> e3 = e
     else createListenersAndBackends cl conf lb add ns svc (s2, e) = (Ok (), (s3, e3))) \<and>
    fold_go (update_backends cl conf svc ns) b3 keep (s3, e3) = (Ok b', (s', e'))"
proof -
  from assms obtain ls s1 del add keep b2 s2 e2 b3 s3 e3 where
    1: "cl_GetListeners cl ids s = (Ok ls, s1)"
      "diffListeners ls (Some conf) (svc_Ports svc) = Ok (del, add, keep)"
    and 2: "(if length del > 0 then
            bind_go (wrap_go ''delete listeners '' (cloud (cl_DeleteListener cl del))) (\<lambda>_. ret True)
          else ret b) (s1, e) = (Ok b2, (s2, e2))"
    and 3: "(if length add > 0 then
            bind_go (wrap_go ''createListenersAndBackends error: ''
                       (createListenersAndBackends cl conf lb add ns svc)) (\<lambda>_. ret True)
          else ret b2) (s2, e2) = (Ok b3, (s3, e3))"
    and 4: "fold_go (update_backends cl conf svc ns) b3 keep (s3, e3) = (Ok b', (s', e'))"
    by (auto simp: update_listeners_def bind_go_Ok_iff[of "lift _"] bind_go_Ok_iff[of "wrap_go ''get listeners '' _"]
        bind_go_Ok_iff[of "If _ _ _"] cloud_iff dest!: sym[of "Ok _" "diffListeners _ _ _"])
  have "(if del = [] then s2 = s1 else cl_DeleteListener cl del s1 = (Ok (), s2)) \<and> e2 = e"
    using 2 by (auto simp: bind_go_Ok_iff cloud_iff split: if_splits)
  moreover have "if add = [] then s3 = s2 \<and> e3 = e2
     else createListenersAndBackends cl conf lb add ns svc (s2, e2) = (Ok (), (s3, e3))"
    using 3 by (auto simp: bind_go_Ok_iff split: if_splits)
  ultimately show ?thesis using 1 4 by (metis (full_types))
qed

text \<open>Creating listeners keeps the backends numbered.\<close>

lemma fold_go_Ok_keeps:
  assumes "fold_go f b xs w = (Ok b', w')" and "I w"
    and "\<And>b x w b' w'. I w \<Longrightarrow> f b x w = (Ok b', w') \<Longrightarrow> I w'"
  shows "I w'"
  using assms(1,2) by (induction xs arbitrary: b w) (auto simp: bind_go_Ok_iff ret_def dest: assms(3))

lemma numbered_append_new: "list_all2 stored_as gs new \<Longrightarrow> numbered ls \<Longrightarrow> numbered (ls @ new)"
proof -
  assume "list_all2 stored_as gs new"
  then have "concat (map backends_of new) = []" by induction (simp_all add: stored_as_def)
  then show "numbered ls \<Longrightarrow> numbered (ls @ new)"
    by (simp only: numbered_def map_append concat_append append_Nil2)
qed

lemma create_keeps_numbered:
  assumes "repairs v cl" and "createListenersAndBackends cl conf lb ports ns svc (s, e) = (Ok (), (s', e'))"
    and "lb_LoadBalancerID (lb_Status lb) = Some i" and "0 \<le> BackendCountResult conf"
    and "numbered (v_listeners v s i)" and "int (length ports) \<le> pageLimt"
    and "distinct (map listener_id (v_listeners v s i))"
  shows "numbered (v_listeners v s' i)"
proof -
  note laws = repairsD[OF assms(1)]
  from createListenersAndBackends_steps[OF assms(2,4)] obtain gs ls s1 ns' e1 where
    gs: "generateLoadBalancerListeners (Some conf) lb ports = Ok gs"
    and ls: "cl_CreateListener cl gs s = (Ok ls, s1)"
    and loop: "fold_go (create_backends_of cl lb ports ns') () ls (s1, e1) = (Ok (), (s', e'))" by blast
  let ?I = "\<lambda>w. numbered (v_listeners v (fst w) i)"
  from created_listeners_stored[OF laws(1) gs ls assms(3,6,7)] numbered_append_new assms(5)
  have "?I (s1, e1)" by auto
  then have "?I (s', e')"
  proof (rule fold_go_Ok_keeps[where I = ?I, OF loop])
    fix u l w u' w'
    assume "?I w" and "create_backends_of cl lb ports ns' u l w = (Ok u', w')"
    moreover from this(2) have "\<exists>bs r. cl_CreateBackends cl bs (fst w) = (Ok r, fst w')"
      by (cases w; cases w') (auto simp: create_backends_of_def bind_go_Ok_iff cloud_iff)
    ultimately show "?I w'" using laws(5) unfolding numbers_backends_def by blast
  qed
  then show ?thesis by simp
qed

lemma settles_kept_simps:
  assumes "settles_kept conf svc ns ks l l'"
  shows "ls_Spec l' = ls_Spec l" "listener_id l' = listener_id l" "own conf l' = own conf l"
  using assms by (auto simp: settles_kept_def settled_as_def with_backends_def own_def split: if_splits)

text \<open>What the loop leaves of the listeners it found, once every own listener is kept or new.\<close>

lemma settled_repaired:
  assumes "list_all2 (settles_kept conf svc ns keep) ls ls'"
    and "distinct (map listener_id ls)" and "numbered ls'"
    and "ns \<noteq> []" "0 \<le> BackendCountResult conf"
    and own: "\<And>l. l \<in> set ls \<Longrightarrow> own conf l \<Longrightarrow> regular l \<and> (\<exists>p \<in> set (svc_Ports svc). fits_port conf p l) \<and>
      (l \<in> set keep \<or> backends_settled l ns conf svc)"
    and ports: "\<And>p. p \<in> set (svc_Ports svc) \<Longrightarrow> \<exists>l \<in> set ls. own conf l \<and> fits_port conf p l"
    and foreign: "\<And>l. l \<in> set keep \<Longrightarrow> own conf l"
  shows "repaired conf svc ns ls' \<and> filter (\<lambda>l. \<not> own conf l) ls' = filter (\<lambda>l. \<not> own conf l) ls"
proof -
  note S = settles_kept_simps
  have "map listener_id ls' = map listener_id ls"
    using assms(1) by induction (simp_all add: S)
  then have ids: "distinct (map listener_id ls')" using assms(2) by (simp only:)
  have good: "regular l' \<and> backends_settled l' ns conf svc \<and> (\<forall>p. fits_port conf p l' = fits_port conf p l)"
    if "l \<in> set ls" "own conf l" "settles_kept conf svc ns keep l l'" for l l'
  proof (cases "l \<in> set keep")
    case True
    with that(3) have "settled_as conf svc ns l l'" by (simp add: settles_kept_def)
    moreover from this have "backends_settled l' ns conf svc" by (simp add: settled_as_def)
    ultimately show ?thesis using settled_as_keeps[OF _ _ assms(4,5)] own[OF that(1,2)] by blast
  next
    case False
    with that own[OF that(1,2)] show ?thesis by (simp add: settles_kept_def)
  qed
  have origin: "\<exists>l \<in> set ls. own conf l \<and> settles_kept conf svc ns keep l l'"
    if "l' \<in> set ls'" "own conf l'" for l'
    using list_all2_right[OF assms(1) that(1)] that(2) S(3) by blast
  have "workable conf ls'"
    unfolding workable_def using ids assms(3) origin good by blast
  moreover have "backends_settled l' ns conf svc \<and> (\<exists>p \<in> set (svc_Ports svc). fits_port conf p l')"
    if "l' \<in> set ls'" "own conf l'" for l'
    using origin[OF that] good own by blast
  moreover have "\<exists>l' \<in> set ls'. own conf l' \<and> fits_port conf p l'" if "p \<in> set (svc_Ports svc)" for p
  proof -
    from ports[OF that] obtain l where l: "l \<in> set ls" "own conf l" "fits_port conf p l" by blast
    from list_all2_left[OF assms(1) l(1)] obtain l' where "l' \<in> set ls'" "settles_kept conf svc ns keep l l'" by blast
    with l good S(3) show ?thesis by blast
  qed
  moreover have "filter (\<lambda>l. \<not> own conf l) ls' = filter (\<lambda>l. \<not> own conf l) ls"
    using assms(1)
  proof induction
    case (Cons l ls l' ls')
    then show ?case using S(3)[OF Cons.hyps(1)] foreign by (auto simp: settles_kept_def split: if_splits)
  qed simp
  ultimately show ?thesis unfolding repaired_def by blast
qed

text \<open>The new listeners as the pass leaves them.\<close>

lemma deployed_good:
  assumes "generateLoadBalancerListeners (Some conf) lb ports = Ok gs"
    and "deployed conf ports ns' gs new" and "chosen_nodes conf svc ns ns'" and "ns' \<noteq> []"
  shows "l \<in> set new \<Longrightarrow> own conf l \<and> regular l \<and> backends_settled l ns conf svc \<and>
      (\<exists>p \<in> set ports. fits_port conf p l)"
    and "p \<in> set ports \<Longrightarrow> \<exists>l \<in> set new. own conf l \<and> fits_port conf p l"
proof -
  note d = deployed_regular[OF assms(1,2,4)]
  have own: "own conf l" if "ls_LoadBalancerListenerName (ls_Spec l) = Some (listenerName conf)" for l
    using that by (simp add: own_def HasPrefix_def)
  show "own conf l \<and> regular l \<and> backends_settled l ns conf svc \<and> (\<exists>p \<in> set ports. fits_port conf p l)"
    if "l \<in> set new"
    using list_all2_right[OF d that] own deployed_nothing_to_do(2)[OF assms(1-4)] that
    by (auto simp: list_all_iff)
  show "\<exists>l \<in> set new. own conf l \<and> fits_port conf p l" if "p \<in> set ports"
    using list_all2_left[OF d that] own by blast
qed

lemma create_pass:
  assumes "repairs v cl" and "createListenersAndBackends cl conf lb ports ns svc (s, e) = (Ok (), (s', e'))"
    and "lb_LoadBalancerID (lb_Status lb) = Some i" and "0 \<le> BackendCountResult conf" and "ns \<noteq> []"
    and "plain_ports conf ports"
    and "distinct (map listener_id (v_listeners v s i))" and "numbered (v_listeners v s i)"
  shows "\<exists>new. v_listeners v s' i = v_listeners v s i @ new \<and> distinct (map listener_id (v_listeners v s i @ new)) \<and>
    numbered (v_listeners v s i @ new) \<and>
    (\<forall>l \<in> set new. own conf l \<and> regular l \<and> backends_settled l ns conf svc \<and> (\<exists>p \<in> set ports. fits_port conf p l)) \<and>
    (\<forall>p \<in> set ports. \<exists>l \<in> set new. own conf l \<and> fits_port conf p l)"
proof -
  note laws = repairsD[OF assms(1)]
  obtain gs ns' new where n: "generateLoadBalancerListeners (Some conf) lb ports = Ok gs"
    "chosen_nodes conf svc ns ns'" "v_listeners v s' i = v_listeners v s i @ new"
    "distinct (map listener_id (v_listeners v s i @ new))" "deployed conf ports ns' gs new"
    using createListenersAndBackends_deploys[OF laws(1,2) assms(2,3) refl assms(7,6,4)] by blast
  have "ns' \<noteq> []" by (rule chosen_nodes_not_Nil[OF n(2) assms(5,4)])
  note good = deployed_good[OF n(1,5,2) this]
  have "numbered (v_listeners v s' i)" 
    using create_keeps_numbered[OF assms(1-4,8) _ assms(7)] assms(6) by (simp add: plain_ports_def)
  then show ?thesis using n(3,4) good by (intro exI[of _ new]) (simp only: n(3), blast)
qed

lemma update_listeners_repairs:
  assumes "repairs v cl" and run: "update_listeners cl conf lb svc ns b (s, e) = (Ok b', (s', e'))"
    and i: "lb_LoadBalancerID (lb_Status lb) = Some i"
    and shown: "map tag_of (lb_LoadBalancerListeners (lb_Status lb)) = map tag_of (v_listeners v s i)"
    and work: "workable conf (v_listeners v s i)"
    and plain: "plain_ports conf (svc_Ports svc)" and ns: "ns \<noteq> []" "0 \<le> BackendCountResult conf"
    and page: "int (length (filter (own conf) (v_listeners v s i))) \<le> pageLimt"
  shows "repaired conf svc ns (v_listeners v s' i) \<and>
    filter (\<lambda>l. \<not> own conf l) (v_listeners v s' i) = filter (\<lambda>l. \<not> own conf l) (v_listeners v s i)"
proof -
  note laws = repairsD[OF assms(1)]
  let ?V = "v_listeners v s i"
  have ids: "distinct (map listener_id ?V)" and num: "numbered ?V"
    and reg: "\<And>l. l \<in> set ?V \<Longrightarrow> own conf l \<Longrightarrow> regular l"
    using work by (simp_all add: workable_def)
  obtain lids where f: "filterListeners (lb_LoadBalancerListeners (lb_Status lb)) (listenerName conf) = Ok lids"
    using run by (auto simp: update_listeners_def bind_go_Ok_iff dest!: sym[of "Ok _" "filterListeners _ _"])
  from filterListeners_own[OF f shown] have lids: "lids = map listener_id (filter (own conf) ?V)" .
  show ?thesis
  proof (cases "lids = []")
    case True
    then have "createListenersAndBackends cl conf lb (svc_Ports svc) ns svc (s, e) = (Ok (), (s', e'))"
      using run f by (auto simp: update_listeners_def bind_go_Ok_iff)
    from create_pass[OF assms(1) this i ns(2,1) plain ids num] obtain new where
      new: "v_listeners v s' i = ?V @ new" "distinct (map listener_id (?V @ new))" "numbered (?V @ new)"
        "\<And>l. l \<in> set new \<Longrightarrow> own conf l \<and> regular l \<and> backends_settled l ns conf svc \<and>
           (\<exists>p \<in> set (svc_Ports svc). fits_port conf p l)"
        "\<And>p. p \<in> set (svc_Ports svc) \<Longrightarrow> \<exists>l \<in> set new. own conf l \<and> fits_port conf p l" by blast
    have none: "\<not> own conf l" if "l \<in> set ?V" for l
      using True lids that by (auto simp: filter_empty_conv)
    have same: "list_all2 (settles_kept conf svc ns []) (?V @ new) (?V @ new)"
      by (simp add: settles_kept_def list.rel_refl)
    have "repaired conf svc ns (?V @ new) \<and> filter (\<lambda>l. \<not> own conf l) (?V @ new) = filter (\<lambda>l. \<not> own conf l) (?V @ new)"
    proof (rule settled_repaired[OF same new(2,3) ns])
      show "regular l \<and> (\<exists>p \<in> set (svc_Ports svc). fits_port conf p l) \<and> (l \<in> set [] \<or> backends_settled l ns conf svc)"
        if "l \<in> set (?V @ new)" "own conf l" for l using that none new(4) by auto
      show "\<exists>l \<in> set (?V @ new). own conf l \<and> fits_port conf p l" if "p \<in> set (svc_Ports svc)" for p
        using new(5)[OF that] by auto
    qed simp
    moreover have "filter (\<lambda>l. \<not> own conf l) new = []" using new(4) by (auto simp: filter_empty_conv)
    ultimately show ?thesis by (simp add: new(1))
  next
    case False
    from update_listeners_steps[OF run f False] obtain ls s1 del add keep s2 s3 e3 b3 where
      list: "cl_GetListeners cl lids s = (Ok ls, s1)"
      and diff: "diffListeners ls (Some conf) (svc_Ports svc) = Ok (del, add, keep)"
      and deleted: "if del = [] then s2 = s1 else cl_DeleteListener cl del s1 = (Ok (), s2)"
      and created: "if add = [] then s3 = s2 \<and> e3 = e
        else createListenersAndBackends cl conf lb add ns svc (s2, e) = (Ok (), (s3, e3))"
      and loop: "fold_go (update_backends cl conf svc ns) b3 keep (s3, e3) = (Ok b', (s', e'))"
      by (elim exE conjE) (rule that)
    have "int (length lids) \<le> pageLimt" using page lids by simp
    from laws(6)[unfolded lists_some_def, rule_format, OF list lids False this ids]
    have ls: "ls = filter (own conf) ?V" and V1: "v_listeners v s1 = v_listeners v s" by simp_all
    have ls_ids: "distinct (map listener_id ls)" using ids by (simp add: ls distinct_map_filter)
    have complete: "complete l" if "l \<in> set ls" for l
      using reg that by (auto simp: ls regular_def)
    note fit = fits_node_ports[OF ls_ids complete]
    let ?fit = "\<lambda>l. \<exists>p \<in> set (svc_Ports svc). fits_port conf p l"
    have "(\<exists>p \<in> set (svc_Ports svc). fits (node_ports ls) (Some conf) p l) = ?fit l" if "l \<in> set ls" for l
      using fit that by blast
    then have del: "del = map listener_id (filter (\<lambda>l. \<not> ?fit l) ls)" and keep: "keep = filter ?fit ls"
      and add: "add = filter (\<lambda>p. \<not> (\<exists>l \<in> set ls. fits_port conf p l)) (svc_Ports svc)"
      using diff fit by (auto simp: diffListeners_Ok[OF complete] cong: filter_cong)
    let ?V2 = "filter (\<lambda>l. own conf l \<longrightarrow> ?fit l) ?V"
    have inj: "inj_on listener_id (set ?V)" using ids by (simp add: distinct_map)
    have "listener_id l \<notin> set del \<longleftrightarrow> (own conf l \<longrightarrow> ?fit l)" if "l \<in> set ?V" for l
      using that inj by (auto simp: del ls inj_on_def)
    then have "filter (\<lambda>l. listener_id l \<notin> set del) ?V = ?V2" by (intro filter_cong) simp_all
    moreover have "v_listeners v s2 i = filter (\<lambda>l. listener_id l \<notin> set del) ?V"
      using deleted laws(3) V1 unfolding deletes_listeners_def by (auto split: if_splits)
    ultimately have V2: "v_listeners v s2 i = ?V2" by simp
    have V2_ids: "distinct (map listener_id ?V2)" "numbered ?V2"
      using ids num by (simp_all add: distinct_map_filter numbered_filter)
    obtain new where new: "v_listeners v s3 i = ?V2 @ new" "distinct (map listener_id (?V2 @ new))"
      "numbered (?V2 @ new)"
      "\<And>l. l \<in> set new \<Longrightarrow> own conf l \<and> regular l \<and> backends_settled l ns conf svc \<and>
         (\<exists>p \<in> set add. fits_port conf p l)"
      "\<And>p. p \<in> set add \<Longrightarrow> \<exists>l \<in> set new. own conf l \<and> fits_port conf p l"
    proof (cases "add = []")
      case True
      with created V2 V2_ids that[of "[]"] show ?thesis by simp
    next
      case False
      with created have "createListenersAndBackends cl conf lb add ns svc (s2, e) = (Ok (), (s3, e3))" by simp
      from create_pass[OF assms(1) this i ns(2,1)] V2 V2_ids plain_ports_filter[OF plain] add that
      show ?thesis by (metis (no_types, lifting))
    qed
    have keep_own: "l \<in> set ?V \<and> own conf l \<and> regular l \<and> ?fit l" if "l \<in> set keep" for l
      using that reg by (auto simp: keep ls)
    have sub: "set keep \<subseteq> set (v_listeners v s3 i)" using keep_own by (auto simp: new(1))
    have "distinct ?V" using ids by (simp add: distinct_map)
    then have dist: "distinct keep" by (simp add: keep ls)
    have tcp: "list_all (\<lambda>p. port_Protocol p \<in> {ProtocolTCP, ProtocolUDP}) (svc_Ports svc)"
      using plain by (auto simp: plain_ports_def list_all_iff)
    have "regular l \<and> served (svc_Ports svc) l" if "l \<in> set keep" for l
      using keep_own[OF that] fits_port_served[OF plain] by blast
    from update_backends_loop[OF assms(1) tcp loop sub dist this] new(1-3)
    have settled: "list_all2 (settles_kept conf svc ns keep) (?V2 @ new) (v_listeners v s' i)"
      "numbered (v_listeners v s' i)" by simp_all
    have "repaired conf svc ns (v_listeners v s' i) \<and>
        filter (\<lambda>l. \<not> own conf l) (v_listeners v s' i) = filter (\<lambda>l. \<not> own conf l) (?V2 @ new)"
    proof (rule settled_repaired[OF settled(1) new(2) settled(2) ns])
      show "regular l \<and> ?fit l \<and> (l \<in> set keep \<or> backends_settled l ns conf svc)"
        if "l \<in> set (?V2 @ new)" "own conf l" for l
      proof (cases "l \<in> set new")
        case True
        with new(4)[OF this] show ?thesis by (auto simp: add)
      next
        case False
        with that reg show ?thesis by (auto simp: keep ls)
      qed
      show "\<exists>l \<in> set (?V2 @ new). own conf l \<and> fits_port conf p l" if "p \<in> set (svc_Ports svc)" for p
      proof (cases "p \<in> set add")
        case True
        from new(5)[OF this] show ?thesis by auto
      next
        case False
        with that obtain l where "l \<in> set ls" "fits_port conf p l" by (auto simp: add)
        then show ?thesis using that by (intro bexI[of _ l]) (auto simp: ls)
      qed
    qed (use keep_own in blast)
    moreover have "filter (\<lambda>l. \<not> own conf l) (?V2 @ new) = filter (\<lambda>l. \<not> own conf l) ?V"
      using new(4) by (auto simp: filter_empty_conv intro!: filter_cong)
    ultimately show ?thesis by simp
  qed
qed

subsection \<open>The next pass\<close>

lemma repaired_nothing_to_do:
  assumes "repaired conf svc ns ls" and "svc_Ports svc \<noteq> []"
  shows "diffListeners (filter (own conf) ls) (Some conf) (svc_Ports svc) = Ok ([], [], filter (own conf) ls)"
    and "list_all (\<lambda>l. backends_settled l ns conf svc \<and> ls_LoadBalancerListenerID (ls_Spec l) \<noteq> None \<and>
      ls_LoadBalancerListenerName (ls_Spec l) \<noteq> None) (filter (own conf) ls)"
    and "filter (own conf) ls \<noteq> []"
proof -
  have work: "distinct (map listener_id ls)" "\<And>l. l \<in> set ls \<Longrightarrow> own conf l \<Longrightarrow> regular l"
    using assms(1) by (simp_all add: repaired_def workable_def)
  have complete: "complete l" if "l \<in> set (filter (own conf) ls)" for l
    using that work(2) by (auto simp: regular_def)
  show "diffListeners (filter (own conf) ls) (Some conf) (svc_Ports svc) = Ok ([], [], filter (own conf) ls)"
    using assms(1) work(1) by (intro nothing_to_change complete) (auto simp: distinct_map_filter repaired_def)
  show "list_all (\<lambda>l. backends_settled l ns conf svc \<and> ls_LoadBalancerListenerID (ls_Spec l) \<noteq> None \<and>
      ls_LoadBalancerListenerName (ls_Spec l) \<noteq> None) (filter (own conf) ls)"
    using assms(1) work(2) complete
    by (auto simp: list_all_iff repaired_def own_def regular_def complete_def Let_def)
  show "filter (own conf) ls \<noteq> []"
    using assms by (cases "svc_Ports svc") (auto simp: repaired_def filter_empty_conv)
qed

text \<open>A lookup by id shows the listeners and the attributes of the load balancer.\<close>

definition shows_id :: "'s view \<Rightarrow> 's client \<Rightarrow> bool" where
  "shows_id v cl =
     (\<forall>i s b s'. cl_GetLoadBalancerByID cl i s = (Ok b, s') \<longrightarrow>
        same_view v s s' \<and> lb_LoadBalancerID (lb_Status b) = Some i \<and>
        attributes_of b = v_attributes v s i \<and>
        map tag_of (lb_LoadBalancerListeners (lb_Status b)) = map tag_of (v_listeners v s i))"

lemma shows_idD:
  assumes "shows_id v cl" and "cl_GetLoadBalancerByID cl i s = (Ok b, s')"
  shows "v_listeners v s' = v_listeners v s" "lb_LoadBalancerID (lb_Status b) = Some i"
    "map tag_of (lb_LoadBalancerListeners (lb_Status b)) = map tag_of (v_listeners v s i)"
    "attributes_of b = v_attributes v s i"
  using assms(1)[unfolded shows_id_def, rule_format, OF assms(2)] by (simp_all add: same_view_def)

text \<open>After a modification the attributes are settled.\<close>

lemma needUpdateAttr_Some:
  assumes "needUpdateAttr conf lb = Ok (Some r)"
  shows "lb_LoadBalancerID (lb_Status r) = lb_LoadBalancerID (lb_Status lb)"
    and "NodeCount conf \<noteq> None \<Longrightarrow>
      (if lb_NodeCount (lb_Spec r) = None then lb_NodeCount (lb_Spec lb) else lb_NodeCount (lb_Spec r)) = NodeCount conf"
    and "InternalIP conf = Some ip \<Longrightarrow> lb_PrivateIPs (lb_Spec r) = [Some ip] \<or> lb_PrivateIPs (lb_Spec r) = [] \<and>
      exists_ok (\<lambda>p. bind_ok (deref p) (\<lambda>q. Ok (q = ip))) (lb_PrivateIPs (lb_Spec lb)) = Ok True"
  using assms
  by (auto simp: needUpdateAttr_def Let_def bind_ok_Ok_iff zero_LoadBalancerSpec_def zero_LoadBalancerStatus_def
      split: option.splits if_splits)

lemma needUpdateAttr_settles:
  assumes "needUpdateAttr conf lb = Ok (Some r)" and "modified (lb_Spec r) (attributes_of lb) new"
  shows "attributes_settled conf new"
  using assms(2) needUpdateAttr_Some(2,3)[OF assms(1)] has_private_ip
  by (auto simp: attributes_settled_def modified_def split: if_splits)

lemma keeps_update_listeners_cloud:
  assumes "\<And>is. keeps I (cl_GetListeners cl is)" "\<And>gs. keeps I (cl_CreateListener cl gs)"
    "\<And>is. keeps I (cl_DeleteListener cl is)" "\<And>bs. keeps I (cl_CreateBackends cl bs)"
    "\<And>is. keeps I (cl_DeleteBackends cl is)"
  shows "keeps (on_cloud I) (update_listeners cl conf lb svc ns b)"
  unfolding update_listeners_def update_backends_def
  using assms by (auto intro!: keeps_intros keeps_createListenersAndBackends_cloud)

lemma keeps_attributesD:
  assumes "keeps_attributes v cl"
  shows "leaves (v_attributes v) (cl_GetLoadBalancerByID cl i)" "leaves (v_attributes v) (cl_GetListeners cl is)"
    "leaves (v_attributes v) (cl_CreateListener cl gs)" "leaves (v_attributes v) (cl_DeleteListener cl is)"
    "leaves (v_attributes v) (cl_CreateBackends cl bs)" "leaves (v_attributes v) (cl_DeleteBackends cl is)"
    "leaves (v_attributes v) (cl_UpdateLB cl p)"
  using assms by (simp_all add: keeps_attributes_def)

text \<open>On a reused load balancer a pass modifies attributes, works on the listeners, and then applies or not.\<close>

lemma reused_pass_runs:
  assumes "ParseServiceLBConfig cfg (cfg_ClusterID cfg) svc = Ok conf" and "ReuseLBID conf \<noteq> []"
    and "cl_GetLoadBalancerByID cl (ReuseLBID conf) s = (Ok lb, s0)"
    and "filterNodes (provider cfg ep cl) svc nodes conf = Ok (ns, conf')"
    and "EnsureLoadBalancer (provider cfg ep cl) svc nodes (s, e) = (Ok st, (s', e'))"
  shows "\<exists>res sm b s1 e1. needUpdateAttr conf' lb = Ok res \<and>
    (case res of None \<Rightarrow> sm = s0 | Some r \<Rightarrow> cl_ModifyLB cl r s0 = (Ok (), sm)) \<and>
    update_listeners cl conf' lb svc ns (res \<noteq> None) (sm, e) = (Ok b, (s1, e1)) \<and>
    (if b then apply_lb cl lb else ret (convertLoadBalancerStatus_v1 (lb_Status lb))) (s1, e1) = (Ok st, (s', e'))"
proof -
  have "ReuseLBID conf' \<noteq> []" using assms(2) by (subst filterNodes_conf(1)[OF assms(4)]) simp
  then have eip: "updateLBEip cl conf' lb = ret lb" by (simp add: updateLBEip_def)
  have "find_lb (qc_Client (provider cfg ep cl)) conf (s, e) = (Ok lb, (s0, e))"
    using assms(2,3) by (simp add: find_lb_def cloud_def)
  then have g: "getLoadBalancer (provider cfg ep cl) svc (s, e) = (Ok (Some conf, Some lb, None), (s0, e))"
    using assms(1,2) by (intro getLoadBalancer_found) simp_all
  have "needUpdateAttr conf' lb = Ok res \<longleftrightarrow> Ok res = needUpdateAttr conf' lb" for res by (rule eq_commute)
  with assms(5) g assms(4) eip obtain res b0 sm e0 b s1 e1 where res: "needUpdateAttr conf' lb = Ok res"
    and m: "(case res of None \<Rightarrow> ret False
        | Some r \<Rightarrow> bind_go (wrap_go ''modify lb '' (cloud (cl_ModifyLB cl r))) (\<lambda>_. ret True)) (s0, e) = (Ok b0, (sm, e0))"
    and u: "update_listeners cl conf' lb svc ns b0 (sm, e0) = (Ok b, (s1, e1))"
    and a: "(if b then apply_lb cl lb else ret (convertLoadBalancerStatus_v1 (lb_Status lb))) (s1, e1) = (Ok st, (s', e'))"
    by (auto simp: EnsureLoadBalancer_def ensureLoadBalancer_def update_lb_def bind_go_Ok_iff[of "getLoadBalancer _ _"]
        bind_go_Ok_iff[of "lift _"] bind_go_Ok_iff[of "wrap_go _ _"] bind_go_Ok_iff[of "case_option _ _ _"]
        bind_go_Ok_iff[of "update_listeners _ _ _ _ _ _"] bind_go_Ok_iff[of "bind_go _ _"] cong: if_cong)
  have "b0 = (res \<noteq> None)" "e0 = e" "case res of None \<Rightarrow> sm = s0 | Some r \<Rightarrow> cl_ModifyLB cl r s0 = (Ok (), sm)"
    using m by (auto simp: bind_go_Ok_iff cloud_iff split: option.splits)
  with res u a show ?thesis by blast
qed

lemma reused_pass:
  assumes "repairs v cl" and "shows_id v cl" and "leaves_view v cl"
    and "ParseServiceLBConfig cfg (cfg_ClusterID cfg) svc = Ok conf"
    and "ReuseLBID conf = i" and "i \<noteq> []"
    and "cl_GetLoadBalancerByID cl i s = (Ok lb, s0)"
    and "filterNodes (provider cfg ep cl) svc nodes conf = Ok (ns, conf')"
    and "EnsureLoadBalancer (provider cfg ep cl) svc nodes (s, e) = (Ok st, (s', e'))"
  shows "\<exists>b0 sm b s1 e1. update_listeners cl conf' lb svc ns b0 (sm, e) = (Ok b, (s1, e1)) \<and>
    v_listeners v sm = v_listeners v s \<and> v_listeners v s' = v_listeners v s1 \<and>
    attributes_settled conf' (v_attributes v s' i)"
proof -
  have reuse: "ReuseLBID conf \<noteq> []" using assms(5,6) by simp
  note get = assms(7)[folded assms(5)]
  from reused_pass_runs[OF assms(4) reuse get assms(8,9)] obtain res sm b s1 e1 where
    res: "needUpdateAttr conf' lb = Ok res" "case res of None \<Rightarrow> sm = s0 | Some r \<Rightarrow> cl_ModifyLB cl r s0 = (Ok (), sm)"
    and u: "update_listeners cl conf' lb svc ns (res \<noteq> None) (sm, e) = (Ok b, (s1, e1))"
    and a: "(if b then apply_lb cl lb else ret (convertLoadBalancerStatus_v1 (lb_Status lb))) (s1, e1) = (Ok st, (s', e'))"
    by blast
  note shown = shows_idD[OF assms(2,7)] and attr = keeps_attributesD[OF repairsD(8)[OF assms(1)]]
  have "v_attributes v s0 = v_attributes v s" by (rule leavesD[OF attr(1) assms(7)])
  then have attr0: "v_attributes v s0 i = attributes_of lb" by (simp only: shown(4))
  have "v_listeners v sm = v_listeners v s \<and> attributes_settled conf' (v_attributes v sm i)"
  proof (cases res)
    case None
    with res attr0 shown(1) show ?thesis by (simp add: needUpdateAttr_None_iff)
  next
    case (Some r)
    with res have r: "needUpdateAttr conf' lb = Ok (Some r)" "cl_ModifyLB cl r s0 = (Ok (), sm)" by simp_all
    from repairsD(7)[OF assms(1), unfolded modifies_def, rule_format, OF r(2)] needUpdateAttr_Some(1)[OF r(1)]
      shown(1,2) attr0
    have "v_listeners v sm = v_listeners v s" "modified (lb_Spec r) (attributes_of lb) (v_attributes v sm i)" by simp_all
    with needUpdateAttr_settles[OF r(1)] show ?thesis by blast
  qed
  moreover have "keeps (on_cloud (\<lambda>x. v_attributes v x = v_attributes v sm)) (update_listeners cl conf' lb svc ns c)" for c
    using attr by (intro keeps_update_listeners_cloud keeps_leaves)
  from keepsD'[OF this u] have "v_attributes v s1 = v_attributes v sm" by (simp add: on_cloud_def)
  moreover have "v_attributes v s' = v_attributes v s1" "v_listeners v s' = v_listeners v s1"
    using a apply_lb_leaves[of cl lb s1 e1 st s' e' "v_attributes v"] attr(7) apply_lb_same_view[OF assms(3)]
    by (auto simp: same_view_def ret_def split: if_splits)
  ultimately show ?thesis
    using u by (intro exI[of _ "res \<noteq> None"] exI[of _ sm] exI[of _ b] exI[of _ s1] exI[of _ e1]) simp
qed

text \<open>The pass that finds everything in place, for a load balancer that is looked up by its id.\<close>

lemma EnsureLoadBalancer_settled_by_id:
  assumes "ParseServiceLBConfig cfg (cfg_ClusterID cfg) svc = Ok conf"
    and "ReuseLBID conf = i" and "i \<noteq> []" and "cl_GetLoadBalancerByID cl i s = (Ok lb, s1)"
    and "filterNodes (provider cfg ep cl) svc nodes conf = Ok (ns, conf')"
    and "filterListeners (lb_LoadBalancerListeners (lb_Status lb)) (listenerName conf) = Ok ids" and "ids \<noteq> []"
    and "cl_GetListeners cl ids s1 = (Ok ls, s2)" and "in_place conf' lb ls svc ns"
  shows "EnsureLoadBalancer (provider cfg ep (traced cl)) svc nodes ((s, []), e) =
    (Ok (convertLoadBalancerStatus_v1 (lb_Status lb)), ((s2, [GetLoadBalancerByID i, GetListeners ids]), e))"
proof -
  have "find_lb cl conf (s, e) = (Ok lb, (s1, e))" using assms(2-4) by (simp add: find_lb_def cloud_def)
  moreover have "filterNodes (provider cfg ep (traced cl)) svc nodes conf = Ok (ns, conf')"
    by (subst filterNodes_provider[where cl' = cl]) (rule assms(5))
  moreover have "listenerName conf' = listenerName conf" by (subst filterNodes_conf(1)[OF assms(5)]) simp
  ultimately show ?thesis
    using EnsureLoadBalancer_settled[of "provider cfg ep (traced cl)" svc conf cl s e lb s1 nodes ns conf' ids ls s2] assms
    by (simp add: lookup_call_def)
qed

text \<open>
  C11: One round settles a listener: after deleting and adding what the comparison says, the backends
  are those of the nodes, as many as the limit where there is one, and the next comparison finds
  nothing to do.
\<close>
theorem diffBackend_settles:
  assumes "diffBackend l ns conf svc e = (Ok (del, add), e')"
    and "distinct (map backend_id (backends_of l))"
    and "list_all2 (\<lambda>n b. be_LoadBalancerBackendName (be_Spec b) = Some (nodeToInstanceIDs n)) add new"
    and "backends_of l' = filter (\<lambda>b. backend_id b \<notin> set del) (backends_of l) @ new"
  shows "backends_settled l' ns conf svc \<and> diffBackend l' ns conf svc e'' = (Ok ([], []), e'')"
  using diffBackend_settles_listener[OF assms] diffBackend_settled_Ok by blast

text \<open>
  C2: A pass repairs a load balancer that the service reuses by its id. On a cloud whose calls store,
  delete, list and modify what they are sent: when the listeners of the load balancer have different
  ids and their backends too, every listener of the service is complete (as the API returns them)
  with named backends on one port each, the ports of the service are plain (at most 100, every annotated protocol one of
  the port's own transport, no two ports alike), at least one node is chosen, and no more than 100
  listeners of the service are there before and after, then one successful pass, whatever settings
  those listeners have, whichever ports they serve, whatever backends they hold and whatever
  attributes the load balancer has, leaves a load balancer on which the next pass, when its lookup and
  its listing succeed, makes only these two calls; and the listeners of all others on it are what they
  were before. Where the service asks for a node count or a private address, the first pass sets it.
\<close>
theorem EnsureLoadBalancer_repairs:
  assumes "repairs v cl" and "shows_id v cl" and "leaves_view v cl"
    and "ParseServiceLBConfig cfg (cfg_ClusterID cfg) svc = Ok conf"
    and "ReuseLBID conf = i" and "i \<noteq> []"
    and "filterNodes (provider cfg ep cl) svc nodes conf = Ok (ns, conf')" and "ns \<noteq> []"
    and "plain_ports conf (svc_Ports svc)" and "svc_Ports svc \<noteq> []"
    and "cl_GetLoadBalancerByID cl i s = (Ok lb0, s0)" and "workable conf (v_listeners v s i)"
    and "int (length (filter (own conf) (v_listeners v s i))) \<le> pageLimt"
    and "EnsureLoadBalancer (provider cfg ep cl) svc nodes (s, e) = (Ok st, (s', e'))"
    and "int (length (filter (own conf) (v_listeners v s' i))) \<le> pageLimt"
    and "cl_GetLoadBalancerByID cl i s' = (Ok lb, s1)"
    and "filterListeners (lb_LoadBalancerListeners (lb_Status lb)) (listenerName conf) = Ok ids"
    and "cl_GetListeners cl ids s1 = (Ok ls, s2)"
  shows "EnsureLoadBalancer (provider cfg ep (traced cl)) svc nodes ((s', []), e') =
      (Ok (convertLoadBalancerStatus_v1 (lb_Status lb)), ((s2, [GetLoadBalancerByID i, GetListeners ids]), e')) \<and>
    filter (\<lambda>l. \<not> own conf l) (v_listeners v s' i) = filter (\<lambda>l. \<not> own conf l) (v_listeners v s i) \<and>
    attributes_settled conf (v_attributes v s' i)"
proof -
  note conf' = filterNodes_conf(1)[OF assms(7)]
  have same: "ReuseLBID conf' = i" "listenerName conf' = listenerName conf" "plain_ports conf' (svc_Ports svc)"
    "attributes_settled conf' = attributes_settled conf"
    using assms(5,9) by (subst conf', simp add: attributes_settled_def fun_eq_iff)+
  have own: "own conf' = own conf" by (rule ext) (simp add: own_def same(2))
  have count: "0 \<le> BackendCountResult conf'"
    using filterNodes_conf(2)[OF assms(7)] ParseServiceLBConfig_facts(5)[OF assms(4)] by simp
  have work: "workable conf' = workable conf" by (rule ext) (simp add: workable_def own)
  from reused_pass[OF assms(1-6,11,7,14)] obtain b0 sm b s3 e3 where
    u: "update_listeners cl conf' lb0 svc ns b0 (sm, e) = (Ok b, (s3, e3))"
    and before: "v_listeners v sm = v_listeners v s" and after: "v_listeners v s' = v_listeners v s3"
    and attr: "attributes_settled conf (v_attributes v s' i)" by (auto simp: same(4))
  note shown = shows_idD[OF assms(2,11)] and shown' = shows_idD[OF assms(2,16)]
  from update_listeners_repairs[OF assms(1) u shown(2) _ _ same(3) assms(8) count] before shown(3) assms(12,13)
  have rep: "repaired conf' svc ns (v_listeners v s' i)"
    and foreign: "filter (\<lambda>l. \<not> own conf l) (v_listeners v s' i) = filter (\<lambda>l. \<not> own conf l) (v_listeners v s i)"
    by (simp_all add: after own work)
  note todo = repaired_nothing_to_do[OF rep assms(10), unfolded own]
  have ids: "ids = map listener_id (filter (own conf) (v_listeners v s1 i))"
    using filterListeners_own[OF assms(17) shown'(3)] shown'(1) by simp
  then have ne: "ids \<noteq> []" using todo(3) shown'(1) by simp
  have "int (length ids) \<le> pageLimt" "distinct (map listener_id (v_listeners v s1 i))"
    using assms(15) ids rep by (simp_all add: shown'(1) repaired_def workable_def)
  from repairsD(6)[OF assms(1), unfolded lists_some_def, rule_format, OF assms(18) ids ne this]
  have ls: "ls = filter (own conf) (v_listeners v s' i)" by (simp add: shown'(1))
  have "in_place conf' lb ls svc ns"
    using todo(1,2) shown'(2) same(1) assms(6) attr[folded shown'(4) same(4), folded needUpdateAttr_None_iff]
    by (simp add: in_place_def ls eips_settled_def)
  then show ?thesis
    using EnsureLoadBalancer_settled_by_id[OF assms(4-6,16,7,17) ne assms(18)] foreign attr by blast
qed

subsection \<open>A shared load balancer\<close>

text \<open>
  A cloud with one load balancer, \<open>lb-7\<close>, to show that the laws hold together. It numbers what it
  stores in unary and refuses a request that would repeat an id.
\<close>

record shelf =
  sh_ls :: "LoadBalancerListener list"
  sh_next :: nat
  sh_attributes :: "int option \<times> string option list"

definition shelf_view :: "shelf view" where
  "shelf_view = \<lparr>v_named = (\<lambda>s n. None), v_listeners = (\<lambda>s i. if i = ''lb-7'' then sh_ls s else []),
     v_attributes = (\<lambda>s i. sh_attributes s), v_allocated = (\<lambda>s i. False)\<rparr>"

definition unary :: "nat \<Rightarrow> string option" where
  "unary k = Some (replicate k (CHR ''y''))"

definition shelf_lb :: "shelf \<Rightarrow> LoadBalancer" where
  "shelf_lb s =
     \<lparr>lb_Spec = zero_LoadBalancerSpec
        \<lparr>lb_NodeCount := fst (sh_attributes s), lb_PrivateIPs := snd (sh_attributes s)\<rparr>,
      lb_Status = zero_LoadBalancerStatus\<lparr>lb_LoadBalancerID := Some ''lb-7'', lb_VIP := [''1.2.3.7''],
                    lb_LoadBalancerListeners := sh_ls s\<rparr>\<rparr>"

definition shelf_find :: "string \<Rightarrow> (shelf, LoadBalancer) go" where
  "shelf_find i s =
     (if i = ''lb-7'' then (Ok (shelf_lb s), s)
      else (Err (NewResourceNotFoundError ''LoadBalancer'' i []), s))"

definition shelf_store :: "nat \<Rightarrow> LoadBalancerListener \<Rightarrow> LoadBalancerListener" where
  "shelf_store k g =
     \<lparr>ls_Spec = (ls_Spec g)\<lparr>ls_LoadBalancerListenerID := unary k\<rparr>,
      ls_Status = \<lparr>ls_StatusListenerID = unary k, ls_LoadBalancerBackends = []\<rparr>\<rparr>"

definition shelf_listen :: "LoadBalancerListener list \<Rightarrow> (shelf, LoadBalancerListener list) go" where
  "shelf_listen gs s =
     (let ls = map2 shelf_store [sh_next s..<sh_next s + length gs] gs
      in if list_all (\<lambda>g. ls_LoadBalancerID (ls_Spec g) = Some ''lb-7'') gs \<and>
            distinct (map listener_id (sh_ls s @ ls))
         then (Ok ls, s\<lparr>sh_ls := sh_ls s @ ls, sh_next := sh_next s + length gs\<rparr>)
         else (Err (Errorf ''refused''), s))"

definition shelf_backend :: "nat \<Rightarrow> LoadBalancerBackend \<Rightarrow> LoadBalancerBackend" where
  "shelf_backend k b = b\<lparr>be_Status := \<lparr>be_LoadBalancerBackendID = unary k\<rparr>\<rparr>"

definition shelf_backends :: "LoadBalancerBackend list \<Rightarrow> (shelf, string option list) go" where
  "shelf_backends bs s =
     (case bs of
        [] \<Rightarrow> (Ok [], s)
      | b # _ \<Rightarrow>
          (case be_LoadBalancerListenerID (be_Spec b) of
             None \<Rightarrow> (Err (Errorf ''no listener''), s)
           | Some j \<Rightarrow>
               let ls = map (put_backends j (map2 shelf_backend [sh_next s..<sh_next s + length bs] bs)) (sh_ls s)
               in if numbered ls then (Ok [], s\<lparr>sh_ls := ls, sh_next := sh_next s + length bs\<rparr>)
                  else (Err (Errorf ''refused''), s)))"

definition shelf_modify :: "LoadBalancer \<Rightarrow> (shelf, unit) go" where
  "shelf_modify b s =
     (let q = lb_Spec b; old = sh_attributes s
      in (Ok (), s\<lparr>sh_attributes := (if lb_NodeCount q = None then fst old else lb_NodeCount q,
                                     if lb_PrivateIPs q = [] then snd old else lb_PrivateIPs q)\<rparr>))"

definition shelf_client :: "shelf client" where
  "shelf_client =
     \<lparr>cl_GetLoadBalancerByName = (\<lambda>n. fail (NewResourceNotFoundError ''LoadBalancer'' n [])),
      cl_GetLoadBalancerByID = shelf_find,
      cl_ModifyLB = shelf_modify,
      cl_CreateLB = (\<lambda>b. fail (Errorf ''full'')),
      cl_DeleteLB = (\<lambda>i. ret ()),
      cl_UpdateLB = (\<lambda>i. ret ()),
      cl_AssociateEIPsToLB = (\<lambda>i es. ret ()),
      cl_DissociateEIPsFromLB = (\<lambda>i es. ret ()),
      cl_GetSecurityGroupByName = (\<lambda>n. fail (NewResourceNotFoundError ''SecurityGroup'' n [])),
      cl_AllocateEIP = (\<lambda>e. ret sample_eip),
      cl_GetAvaliableEIPs = ret [sample_eip],
      cl_ReleaseEIP = (\<lambda>is. ret ()),
      cl_CreateBackends = shelf_backends,
      cl_DeleteBackends = (\<lambda>is s. (Ok (), s\<lparr>sh_ls := map (drop_backends is) (sh_ls s)\<rparr>)),
      cl_CreateListener = shelf_listen,
      cl_GetListeners = (\<lambda>is s. (Ok (filter (\<lambda>l. listener_id l \<in> set is) (sh_ls s)), s)),
      cl_DeleteListener = (\<lambda>is s. (Ok (), s\<lparr>sh_ls := filter (\<lambda>l. listener_id l \<notin> set is) (sh_ls s)\<rparr>))\<rparr>"

lemma shelf_stores_listeners: "stores_listeners shelf_view shelf_client"
proof -
  have stored: "list_all2 stored_as gs (map2 shelf_store [k..<k + length gs] gs)" for gs k
    by (auto simp: list_all2_conv_all_nth stored_as_def settings_of_def shelf_store_def unary_def Let_def)
  have "i = ''lb-7''" if "list_all (\<lambda>g. ls_LoadBalancerID (ls_Spec g) = Some i) gs" "gs \<noteq> []"
    "list_all (\<lambda>g. ls_LoadBalancerID (ls_Spec g) = Some ''lb-7'') gs" for i gs
    using that by (cases gs) auto
  then show ?thesis
    by (auto simp: stores_listeners_def shelf_client_def shelf_view_def shelf_listen_def Let_def stored
        simp del: map_map split: if_splits)
qed

lemma shelf_backends_Ok:
  assumes "shelf_backends bs s = (Ok r, s')"
    and "list_all (\<lambda>b. be_LoadBalancerListenerID (be_Spec b) = Some j) bs"
  shows "sh_ls s' = map (put_backends j (map2 shelf_backend [sh_next s..<sh_next s + length bs] bs)) (sh_ls s)"
  using assms by (cases bs) (auto simp: shelf_backends_def Let_def split: if_splits)

lemma shelf_stores_backends: "stores_backends shelf_view shelf_client"
  unfolding stores_backends_def
proof (intro allI impI)
  fix bs j s r s'
  assume "cl_CreateBackends shelf_client bs s = (Ok r, s')"
    and "list_all (\<lambda>b. be_LoadBalancerListenerID (be_Spec b) = Some j) bs"
  then have "sh_ls s' = map (put_backends j (map2 shelf_backend [sh_next s..<sh_next s + length bs] bs)) (sh_ls s)"
    by (intro shelf_backends_Ok) (simp_all add: shelf_client_def)
  moreover have "list_all2 stored_backend bs (map2 shelf_backend [k..<k + length bs] bs)" for k
    by (auto simp: list_all2_conv_all_nth stored_backend_def shelf_backend_def)
  ultimately show "\<exists>bs'. list_all2 stored_backend bs bs' \<and> v_named shelf_view s' = v_named shelf_view s \<and>
      v_listeners shelf_view s' = (\<lambda>i. map (put_backends j bs') (v_listeners shelf_view s i))"
    by (intro exI conjI) (auto simp: shelf_view_def)
qed

lemma shelf_numbers: "numbers_backends shelf_view shelf_client"
  by (auto simp: numbers_backends_def shelf_client_def shelf_view_def shelf_backends_def Let_def
      split: list.splits option.splits if_splits)

lemma shelf_lists: "lists_some shelf_view shelf_client"
  by (auto simp: lists_some_def shelf_client_def shelf_view_def filter_by_ids simp del: set_filter split: if_splits)

lemma shelf_modifies: "modifies shelf_view shelf_client"
  by (auto simp: modifies_def modified_def shelf_client_def shelf_modify_def shelf_view_def Let_def)

lemma shelf_keeps: "keeps_attributes shelf_view shelf_client"
  by (auto simp: keeps_attributes_def leaves_def shelf_client_def shelf_view_def shelf_find_def shelf_listen_def
      shelf_backends_def ret_def Let_def split: list.splits option.splits)

lemma shelf_repairs: "repairs shelf_view shelf_client" "shows_id shelf_view shelf_client" "leaves_view shelf_view shelf_client"
proof -
  have "deletes_listeners shelf_view shelf_client" "deletes_backends shelf_view shelf_client"
    by (auto simp: deletes_listeners_def deletes_backends_def shelf_client_def shelf_view_def)
  then show "repairs shelf_view shelf_client"
    using shelf_stores_listeners shelf_stores_backends shelf_numbers shelf_lists shelf_modifies shelf_keeps by (simp add: repairs_def)
  show "shows_id shelf_view shelf_client"
    by (auto simp: shows_id_def shelf_client_def shelf_find_def shelf_view_def shelf_lb_def
        zero_LoadBalancerStatus_def split: if_splits)
  show "leaves_view shelf_view shelf_client"
    by (simp add: leaves_view_def shelf_client_def ret_def)
qed

text \<open>
  The service asks for ports 80 and 81 and four nodes. Its load balancer has two nodes, the service's port 80 with a backend on a node
  that is gone, a port 90 that it gave up, and the listener of another service.
\<close>

definition two_port_service :: Service where
  "two_port_service =
     demo_service\<lparr>svc_Annotations := Some [(ServiceAnnotationLoadBalancerPolicy, ReuseExistingLB),
                                          (ServiceAnnotationLoadBalancerID, ''lb-7''),
                                          (ServiceAnnotationLoadBalancerNodes, ''4'')],
       svc_Ports := [\<lparr>port_Protocol = ProtocolTCP, port_Port = 80, port_NodePort = 30080\<rparr>,
                     \<lparr>port_Protocol = ProtocolTCP, port_Port = 81, port_NodePort = 30081\<rparr>]\<rparr>"

definition shelf_listener :: "string \<Rightarrow> string \<Rightarrow> int \<Rightarrow> LoadBalancerBackend list \<Rightarrow> LoadBalancerListener" where
  "shelf_listener name i port bs =
     \<lparr>ls_Spec = (ls_Spec demo_generated)\<lparr>ls_LoadBalancerListenerName := Some name,
        ls_LoadBalancerListenerID := Some i, ls_ListenerPort := Some port\<rparr>,
      ls_Status = \<lparr>ls_StatusListenerID = Some i, ls_LoadBalancerBackends = bs\<rparr>\<rparr>"

definition shelf_used :: shelf where
  "shelf_used =
     \<lparr>sh_ls = [shelf_listener ''listener_default_web_'' ''lbl-1'' 80
                 [demo_backend\<lparr>be_Spec := (be_Spec demo_backend)\<lparr>be_LoadBalancerBackendName := Some ''gone''\<rparr>\<rparr>],
               shelf_listener ''listener_default_mail_'' ''lbl-2'' 25 [],
               shelf_listener ''listener_default_web_'' ''lbl-3'' 90 []],
      sh_next = 0, sh_attributes = (Some 2, [])\<rparr>"

definition shelf_pass :: "LoadBalancerIngress list outcome \<times> shelf world" where
  "shelf_pass =
     EnsureLoadBalancer (provider demo_config (qc_endpoints live_qc) shelf_client) two_port_service
       [demo_node ''node1''] (shelf_used, \<lambda>i. i)"

lemma shelf_pass_result:
  "fst shelf_pass = Ok [\<lparr>ing_IP = ''1.2.3.7'', ing_Hostname = []\<rparr>]"
  "map (\<lambda>l. (ls_ListenerPort (ls_Spec l), listener_id l)) (sh_ls (fst (snd shelf_pass))) =
     [(Some 80, Some ''lbl-1''), (Some 25, Some ''lbl-2''), (Some 81, Some [])]"
  "sh_attributes (fst (snd shelf_pass)) = (Some 4, [])"
  by code_simp+

definition two_port_conf :: LoadBalancerConfig where
  "two_port_conf =
     zero_config\<lparr>NodeCount := Some 4, NetworkType := NetworkModePublic, Policy := ReuseExistingLB, ReuseLBID := ''lb-7'',
       listenerName := ''listener_default_web_''\<rparr>"

lemma two_port_settings:
  "ParseServiceLBConfig demo_config (cfg_ClusterID demo_config) two_port_service = Ok two_port_conf"
  "ReuseLBID two_port_conf = ''lb-7''"
  "plain_ports two_port_conf (svc_Ports two_port_service)" "svc_Ports two_port_service \<noteq> []"
  by code_simp+

lemma two_port_nodes:
  "filterNodes (provider demo_config ep cl) two_port_service [demo_node ''node1''] two_port_conf =
     Ok ([demo_node ''node1''], two_port_conf\<lparr>BackendCountResult := 0\<rparr>)"
  by (simp add: filterNodes_def two_port_service_def demo_service_policy two_port_conf_def zero_config_def)

lemma shelf_workable: "workable two_port_conf (v_listeners shelf_view shelf_used ''lb-7'')"
  by (simp add: workable_def shelf_view_def shelf_used_def shelf_listener_def numbered_def regular_def
      complete_def own_def demo_generated_def demo_backend_def two_port_conf_def HasPrefix_def
      first_backend_port_def)

lemma shelf_lookup: "cl_GetLoadBalancerByID shelf_client ''lb-7'' s = (Ok (shelf_lb s), s)"
  by (simp add: shelf_client_def shelf_find_def)

lemma shelf_few: "length (sh_ls s) \<le> 3 \<Longrightarrow> int (length (filter P (v_listeners shelf_view s ''lb-7''))) \<le> pageLimt"
  by (simp add: shelf_view_def pageLimt_def le_trans[OF length_filter_le])

theorem EnsureLoadBalancer_repairs_witness:
  "\<exists>s e s2. shelf_pass = (Ok [\<lparr>ing_IP = ''1.2.3.7'', ing_Hostname = []\<rparr>], (s, e)) \<and>
    EnsureLoadBalancer (provider demo_config (qc_endpoints live_qc) (traced shelf_client)) two_port_service
      [demo_node ''node1''] ((s, []), e) =
    (Ok [\<lparr>ing_IP = ''1.2.3.7'', ing_Hostname = []\<rparr>],
     ((s2, [GetLoadBalancerByID ''lb-7'', GetListeners [Some ''lbl-1'', Some []]]), e)) \<and>
    filter (\<lambda>l. \<not> own two_port_conf l) (sh_ls s) = filter (\<lambda>l. \<not> own two_port_conf l) (sh_ls shelf_used) \<and>
    fst (sh_attributes s) = Some 4"
proof -
  obtain r s e where p: "shelf_pass = (r, (s, e))" by (metis surj_pair)
  have r: "r = Ok [\<lparr>ing_IP = ''1.2.3.7'', ing_Hostname = []\<rparr>]" by (rule shelf_pass_result(1)[unfolded p fst_conv])
  have "filterListeners (sh_ls (fst (snd shelf_pass))) (listenerName two_port_conf) = Ok [Some ''lbl-1'', Some []]"
    by code_simp
  then have ids: "filterListeners (lb_LoadBalancerListeners (lb_Status (shelf_lb s))) (listenerName two_port_conf) =
      Ok [Some ''lbl-1'', Some []]" by (simp add: p shelf_lb_def)
  have few: "length (sh_ls s) \<le> 3" "length (sh_ls shelf_used) \<le> 3"
    using arg_cong[OF shelf_pass_result(2), of length] by (simp_all add: p shelf_used_def)
  have list: "cl_GetListeners shelf_client is s =
      (Ok (filter (\<lambda>l. listener_id l \<in> set is) (sh_ls s)), s)" for "is" by (simp add: shelf_client_def)
  from EnsureLoadBalancer_repairs[OF shelf_repairs two_port_settings(1,2) _
      two_port_nodes _ two_port_settings(3,4) shelf_lookup shelf_workable shelf_few[OF few(2)]
      p[unfolded shelf_pass_def r] shelf_few[OF few(1)] shelf_lookup ids list] p r
  show ?thesis
    by (auto simp: shelf_lb_def zero_LoadBalancerStatus_def convertLoadBalancerStatus_v1_def shelf_view_def
        attributes_settled_def two_port_conf_def)
qed

theorem diffBackend_settles_witness:
  "\<exists>new. backends_settled (demo_listener new) [demo_node ''node2''] zero_config demo_service \<and>
    diffBackend (demo_listener new) [demo_node ''node2''] zero_config demo_service (\<lambda>i. 7) = (Ok ([], []), \<lambda>i. 7)"
proof -
  have "\<not> sublist ''node2'' ''node1''" by code_simp
  then have d: "diffBackend (demo_listener [demo_backend]) [demo_node ''node2''] zero_config demo_service (\<lambda>i. i) =
      (Ok ([Some ''lbb-1''], [demo_node ''node2'']), \<lambda>i. i)"
    by (simp add: diffBackend_steps demo_backend_defs zero_config_def Let_def)
  from diffBackend_settles[OF d, of "[backend_named ''node2'']" "demo_listener [backend_named ''node2'']" "\<lambda>i. 7"]
  show ?thesis
    by (intro exI[of _ "[backend_named ''node2'']"]) (simp add: demo_backend_defs)
qed


end
