(* ===== verification/Executor.thy ===== *)
theory Executor
  imports ExecLB Handlers
begin

text \<open>
  \<open>pkg/executor/client.go\<close>: the client made of the operations of the executor, its start-up, and the
  proof that it meets the contract \<open>cloud_client\<close> on which the provider relies, whatever the SDK
  does. Then properties of the executor itself and of the provider running on it.
\<close>

definition executor_client :: "'s QingCloudClient \<Rightarrow> 's client" where
  "executor_client q =
     \<lparr>cl_GetLoadBalancerByName = GetLoadBalancerByName_exec q,
      cl_GetLoadBalancerByID = GetLoadBalancerByID_exec q,
      cl_ModifyLB = ModifyLB_exec q,
      cl_CreateLB = CreateLB_exec q,
      cl_DeleteLB = DeleteLB_exec q,
      cl_UpdateLB = UpdateLB_exec q,
      cl_AssociateEIPsToLB = AssociateEIPsToLB_exec q,
      cl_DissociateEIPsFromLB = DissociateEIPsFromLB_exec q,
      cl_GetSecurityGroupByName = GetSecurityGroupByName_exec q,
      cl_AllocateEIP = AllocateEIP_exec q,
      cl_GetAvaliableEIPs = GetAvaliableEIPs_exec q,
      cl_ReleaseEIP = ReleaseEIP_exec q,
      cl_CreateBackends = CreateBackends_exec q,
      cl_DeleteBackends = DeleteBackends_exec q,
      cl_CreateListener = CreateListener_exec q,
      cl_GetListeners = GetListeners_exec q,
      cl_DeleteListener = DeleteListener_exec q\<rparr>"

text \<open>
  The end of \<open>NewQingCloudClient\<close>, after the SDK's services are opened: the user id comes
  from the access key, and the default security group is ensured.
\<close>

definition finish_client ::
  "'s sdk \<Rightarrow> string \<Rightarrow> ClientConfig \<Rightarrow> ('s, 's QingCloudClient) go" where
  "finish_client sdk accessKeyID config =
     bind_go (call_api (DescribeAccessKeys sdk accessKeyID)) (\<lambda>(output, err).
     case err of
       Some e \<Rightarrow> fail (Wrapf ''failed to get user id, err='' e)
     | None \<Rightarrow>
         bind_go (lift (deref output)) (\<lambda>out.
         bind_go (lift (first_ok (rep_Body out))) (\<lambda>owner.
         bind_go (lift (deref owner)) (\<lambda>userID.
         let qc = \<lparr>ex_sdk = sdk, ex_Config = config\<lparr>cc_UserID := userID\<rparr>, ex_sg = None\<rparr> in
         bind_go (ensureSecurityGroupByName qc DefaultSgName) (\<lambda>sg.
         ret (qc\<lparr>ex_sg := Some sg\<rparr>))))))"

subsection \<open>Conversions\<close>

lemma convert_listener_ids [simp]:
  "ls_LoadBalancerListenerID (ls_Spec (convert_listener l)) =
     ls_StatusListenerID (ls_Status (convert_listener l))"
  by (simp add: convert_listener_def)

lemma convertLoadBalancer_Ok:
  assumes "convertLoadBalancer lb = Ok b"
  shows "lb_LoadBalancerName (lb_Spec b) = sdk_LoadBalancerName lb"
    and "lb_LoadBalancerID (lb_Status b) = sdk_LoadBalancerID lb"
    and "lb_IsApplied (lb_Status b) = None"
    and "lb_LoadBalancerListeners (lb_Status b) = convertLoadBalancerListener (sdk_Listeners lb)"
  using assms
  by (auto simp: convertLoadBalancer_def convertLoadBalancerStatus_def bind_ok_Ok_iff
      zero_LoadBalancerStatus_def)

definition by_name_request :: "'s QingCloudClient \<Rightarrow> string \<Rightarrow> DescribeLoadBalancersInput" where
  "by_name_request q name =
     \<lparr>dl_Status = [''pending'', ''active'', ''stopped''], dl_SearchWord = Some name,
      dl_Owner = Some (cc_UserID (ex_Config q)), dl_LoadBalancers = [], dl_Verbose = 2\<rparr>"

definition by_id_request :: "string \<Rightarrow> DescribeLoadBalancersInput" where
  "by_id_request i =
     \<lparr>dl_Status = [], dl_SearchWord = None, dl_Owner = None, dl_LoadBalancers = [Some i],
      dl_Verbose = 2\<rparr>"

text \<open>What the two lookups make of the reply.\<close>

definition lookup_result ::
  "string \<Rightarrow> string \<Rightarrow> (sdk_LoadBalancer list \<Rightarrow> sdk_LoadBalancer option) \<Rightarrow>
   sdk_LoadBalancer list reply option \<times> go_error option \<Rightarrow> LoadBalancer outcome" where
  "lookup_result key text pick r =
     (case r of
        (_, Some e) \<Rightarrow>
          Err (if Contains (error_text e) ''QingCloud Error: Code (1300)''
               then NewResourceNotFoundError ResourceNameLoadBalancer key [] else Wrapf text e)
      | (None, None) \<Rightarrow> Panic
      | (Some out, None) \<Rightarrow>
          (case pick (rep_Body out) of
             Some lb \<Rightarrow> convertLoadBalancer lb
           | None \<Rightarrow> Err (NewResourceNotFoundError ResourceNameLoadBalancer key [])))"

lemma GetLoadBalancerByName_exec_eq:
  assumes "DescribeLoadBalancers (ex_sdk q) (by_name_request q n) s = (r, s')"
  shows "GetLoadBalancerByName_exec q n s =
    (lookup_result n ''get lb by name error, err=''
       (find (\<lambda>lb. sdk_LoadBalancerName lb = Some n)) r, s')"
proof -
  obtain out err where r: "r = (out, err)" by (cases r)
  show ?thesis
    using assms[unfolded by_name_request_def r]
    by (cases err; cases out)
      (simp_all add: r GetLoadBalancerByName_exec_def call_api_def bind_go_def error_has_def
        lookup_result_def fail_def lift_def split: option.split)
qed

lemma GetLoadBalancerByID_exec_eq:
  assumes "DescribeLoadBalancers (ex_sdk q) (by_id_request i) s = (r, s')"
  shows "GetLoadBalancerByID_exec q i s =
    (lookup_result i ''get lb by id error, err=''
       (\<lambda>lbs. case lbs of [] \<Rightarrow> None | lb # _ \<Rightarrow> Some lb) r, s')"
proof -
  obtain out err where r: "r = (out, err)" by (cases r)
  show ?thesis
    using assms[unfolded by_id_request_def r]
    by (cases err; cases out)
      (simp_all add: r GetLoadBalancerByID_exec_def call_api_def bind_go_def error_has_def
        lookup_result_def fail_def lift_def split: option.split list.split)
qed

lemma lookup_result_Ok:
  assumes "lookup_result key text pick r = Ok b"
  shows "\<exists>out lb. r = (Some out, None) \<and> pick (rep_Body out) = Some lb \<and> convertLoadBalancer lb = Ok b"
  using assms by (auto simp: lookup_result_def split: prod.splits option.splits)

lemma GetLoadBalancerByName_exec_Ok:
  assumes "GetLoadBalancerByName_exec q n s = (Ok b, s')"
  shows "lb_LoadBalancerName (lb_Spec b) = Some n \<and> lb_IsApplied (lb_Status b) = None"
proof -
  obtain r s1 where d: "DescribeLoadBalancers (ex_sdk q) (by_name_request q n) s = (r, s1)" by fastforce
  with assms have "lookup_result n ''get lb by name error, err=''
      (find (\<lambda>lb. sdk_LoadBalancerName lb = Some n)) r = Ok b"
    by (simp add: GetLoadBalancerByName_exec_eq)
  from lookup_result_Ok[OF this] obtain lbs lb where
    "find (\<lambda>lb. sdk_LoadBalancerName lb = Some n) lbs = Some lb" "convertLoadBalancer lb = Ok b" by blast
  then show ?thesis using convertLoadBalancer_Ok by (auto simp: find_Some_iff)
qed

lemma GetLoadBalancerByID_exec_Ok:
  assumes "GetLoadBalancerByID_exec q i s = (Ok b, s')"
  shows "lb_IsApplied (lb_Status b) = None"
proof -
  obtain r s1 where d: "DescribeLoadBalancers (ex_sdk q) (by_id_request i) s = (r, s1)" by fastforce
  with assms have "lookup_result i ''get lb by id error, err=''
      (\<lambda>lbs. case lbs of [] \<Rightarrow> None | lb # _ \<Rightarrow> Some lb) r = Ok b"
    by (simp add: GetLoadBalancerByID_exec_eq)
  from lookup_result_Ok[OF this] show ?thesis using convertLoadBalancer_Ok by blast
qed

lemma GetListeners_exec_ids:
  assumes "GetListeners_exec q is s = (Ok ls, s')" and "l \<in> set ls"
  shows "ls_LoadBalancerListenerID (ls_Spec l) = ls_StatusListenerID (ls_Status l)"
  using assms
  by (auto simp: GetListeners_exec_def call_api_def bind_go_Ok_iff convertLoadBalancerListener_def
      split: option.splits prod.splits)

subsection \<open>The contract holds\<close>

interpretation exec: cloud_client "executor_client q" for q
proof unfold_locales
  show "cl_CreateBackends (executor_client q) [] s = (Ok [], s)" for s
    by (simp add: executor_client_def CreateBackends_exec_def ret_def)
  show "cl_DeleteBackends (executor_client q) [] s = (Ok (), s)" for s
    by (simp add: executor_client_def DeleteBackends_exec_def ret_def)
  show "cl_AssociateEIPsToLB (executor_client q) i [] s = (Ok (), s)" for i s
    by (simp add: executor_client_def AssociateEIPsToLB_exec_def ret_def)
  show "cl_DissociateEIPsFromLB (executor_client q) i [] s = (Ok (), s)" for i s
    by (simp add: executor_client_def DissociateEIPsFromLB_exec_def ret_def)
  show "cl_ReleaseEIP (executor_client q) [] s = (Ok (), s)" for s
    by (simp add: executor_client_def ReleaseEIP_exec_def)
  show "lb_LoadBalancerName (lb_Spec lb) = Some n"
    if "cl_GetLoadBalancerByName (executor_client q) n s = (Ok lb, s')" for n s lb s'
    using GetLoadBalancerByName_exec_Ok that by (fastforce simp: executor_client_def)
  show "ls_LoadBalancerListenerID (ls_Spec l) = ls_StatusListenerID (ls_Status l)"
    if "cl_GetListeners (executor_client q) is s = (Ok ls, s')" "l \<in> set ls" for "is" s ls s' l
    using GetListeners_exec_ids that by (fastforce simp: executor_client_def)
  show "ls_LoadBalancerListenerID (ls_Spec l) = ls_StatusListenerID (ls_Status l)"
    if "cl_CreateListener (executor_client q) gs s = (Ok ls, s')" "l \<in> set ls" for gs s ls s' l
    using GetListeners_exec_ids that
    by (fastforce simp: executor_client_def CreateListener_exec_def bind_go_Ok_iff)
  show "\<exists>e. cl_CreateLB (executor_client q) b s = (Err e, s)"
    if "lb_VxNetID (lb_Spec b) = None" "lb_EIPs (lb_Spec b) = []" for b s
    using that by (simp add: executor_client_def CreateLB_exec_def fail_def)
qed

subsection \<open>Properties of the executor\<close>

text \<open>
  C38: The lookup by name returns the first described load balancer with exactly that name (the
  search itself matches parts of names); when none has it, or the API answers with code 1300, the
  error is \<open>ResourceNotFound\<close>, and every other API error is not.
\<close>
theorem GetLoadBalancerByName_result:
  assumes "DescribeLoadBalancers (ex_sdk q) (by_name_request q n) s = (r, s')"
  shows "GetLoadBalancerByName_exec q n s =
      (lookup_result n ''get lb by name error, err=''
         (find (\<lambda>lb. sdk_LoadBalancerName lb = Some n)) r, s') \<and>
    (\<forall>b. fst (GetLoadBalancerByName_exec q n s) = Ok b \<longrightarrow> lb_LoadBalancerName (lb_Spec b) = Some n) \<and>
    (\<forall>e. snd r = Some e \<longrightarrow>
      (case fst (GetLoadBalancerByName_exec q n s) of
         Err er \<Rightarrow> IsResourceNotFound (Some er) = Contains (error_text e) ''QingCloud Error: Code (1300)''
       | _ \<Rightarrow> False))"
proof -
  have eq: "GetLoadBalancerByName_exec q n s =
      (lookup_result n ''get lb by name error, err=''
         (find (\<lambda>lb. sdk_LoadBalancerName lb = Some n)) r, s')"
    by (rule GetLoadBalancerByName_exec_eq[OF assms])
  have "lb_LoadBalancerName (lb_Spec b) = Some n" if "fst (GetLoadBalancerByName_exec q n s) = Ok b" for b
    using GetLoadBalancerByName_exec_Ok[of q n s b s'] that eq by simp
  moreover have "case fst (GetLoadBalancerByName_exec q n s) of
      Err er \<Rightarrow> IsResourceNotFound (Some er) = Contains (error_text e) ''QingCloud Error: Code (1300)''
    | _ \<Rightarrow> False" if "snd r = Some e" for e
    using that by (cases r; cases "fst r") (auto simp: eq lookup_result_def)
  ultimately show ?thesis using eq by blast
qed

text \<open>
  C39: Deleting a load balancer reports success whenever the polling of the request ends with an
  error: a refused request and a timeout both look like a deletion.
\<close>
theorem DeleteLB_ignores_errors:
  assumes "WaitForSpecificOrError (ex_sdk q) (delete_once q i) (s, no_capture) = (Err e, (s', c))"
  shows "DeleteLB_exec q i s = (Ok (), s')"
  using assms by (simp add: DeleteLB_exec_def delete_result_def ret_def split: option.splits)

text \<open>
  C40: A listener that the cloud stores as it was sent comes back with the settings, the name and
  the certificates that were generated, so the next comparison of listeners sees what was asked for.
\<close>
theorem convert_listener_roundtrip:
  "list_all2 (\<lambda>g l. settings_of l = settings_of g \<and>
      ls_ServerCertificateID (ls_Spec l) = ls_ServerCertificateID (ls_Spec g) \<and>
      ls_LoadBalancerListenerName (ls_Spec l) = ls_LoadBalancerListenerName (ls_Spec g) \<and>
      ls_BackendProtocol (ls_Spec l) = ls_BackendProtocol (ls_Spec g))
    gs (convertLoadBalancerListener (convertFromLoadBalancerListener gs))"
  by (auto simp: list_all2_conv_all_nth convertLoadBalancerListener_def
      convertFromLoadBalancerListener_def convert_listener_def settings_of_def Let_def)

text \<open>
  A load balancer with an EIP that has no id cannot be converted: the conversion panics, although
  the conversion of its status alone skips such an EIP.
\<close>
theorem convertLoadBalancer_nil_eip:
  assumes "e \<in> set (sdk_Cluster lb)" and "sdk_EIPID e = None"
  shows "convertLoadBalancer lb = Panic \<and> eip_vips (e # es) = eip_vips es"
proof -
  have "map_ok (\<lambda>eip. bind_ok (deref (sdk_EIPID eip)) (\<lambda>i. Ok i)) es = Panic" if "e \<in> set es" for es
    using that
  proof (induction es)
    case (Cons x xs)
    then show ?case using assms(2) by (cases "sdk_EIPID x") auto
  qed simp
  with assms show ?thesis by (simp add: convertLoadBalancer_def)
qed

text \<open>
  Applying the changes of a load balancer always sends the request: the test for already applied
  changes never succeeds, because the conversion leaves that field unset.
\<close>
theorem UpdateLB_always_applies:
  assumes "GetLoadBalancerByID_exec q i s = (Ok b, s1)"
  shows "UpdateLB_exec q (Some i) s =
    bind_go (api_checked ''failed to update lb attr, err='' ''failed to update lb attr, code=''
               (UpdateLoadBalancers (ex_sdk q) [Some i])) (\<lambda>output.
    bind_go (lift (deref (rep_JobID output))) (\<lambda>job.
    bind_go (try_go (WaitJob (ex_sdk q) job)) (\<lambda>r.
    case r of Inl e \<Rightarrow> fail (Errorf ''lb '') | Inr _ \<Rightarrow> ret ()))) s1"
proof -
  have w: "wrap_go ''failed get lb '' (GetLoadBalancerByID_exec q i) s = (Ok b, s1)" using assms by simp
  have found: "bind_go (wrap_go ''failed get lb '' (GetLoadBalancerByID_exec q i)) f s = f b s1"
    for f :: "LoadBalancer \<Rightarrow> ('a, unit) go"
    by (simp only: bind_go_def w prod.case outcome.case)
  show ?thesis
    unfolding UpdateLB_exec_def deref_simps bind_go_simps found
    by (subst if_not_P) (simp_all only: GetLoadBalancerByID_exec_Ok[OF assms] simp_thms)
qed

text \<open>
  The request for a new load balancer is complete: what the service asks for is kept, and the
  security group, the node count, the mode and the type have defaults.
\<close>
theorem fillLBDefaultFileds_complete:
  assumes "fillLBDefaultFileds q input = Ok input'"
  shows "ci_NodeCount input' = Some (case ci_NodeCount input of None \<Rightarrow> 2 | Some n \<Rightarrow> n) \<and>
    ci_Mode input' = Some (case ci_Mode input of None \<Rightarrow> 1 | Some n \<Rightarrow> n) \<and>
    ci_LoadBalancerType input' = Some (case ci_LoadBalancerType input of None \<Rightarrow> 0 | Some n \<Rightarrow> n) \<and>
    ci_SecurityGroup input' =
      (case ci_SecurityGroup input of
         Some g \<Rightarrow> Some g
       | None \<Rightarrow> (case ex_sg q of None \<Rightarrow> None | Some sg \<Rightarrow> sg_SecurityGroupID (sg_Status sg))) \<and>
    ci_EIPs input' = ci_EIPs input \<and> ci_VxNet input' = ci_VxNet input \<and>
    ci_LoadBalancerName input' = ci_LoadBalancerName input"
  using assms
  by (cases "ci_NodeCount input"; cases "ci_Mode input"; cases "ci_LoadBalancerType input";
      cases "ci_SecurityGroup input"; cases "ex_sg q")
    (auto simp: fillLBDefaultFileds_def Let_def DefaultNodeNum_def DefaultMode_def DefaultLBType_def)

text \<open>
  The default security group is created only when no group has exactly its name; one that is
  found is taken as it is, whether or not its rules were ever added.
\<close>
theorem ensureSecurityGroupByName_found:
  assumes "DescribeSecurityGroups (ex_sdk q) name (cc_UserID (ex_Config q)) s = ((Some out, None), s')"
    and "succeeded out" and "find (sg_named name) (rep_Body out) = Some sg"
  shows "ensureSecurityGroupByName q name s = (Ok (convertSecurityGroup sg), s')"
  using assms
  by (simp add: ensureSecurityGroupByName_def GetSecurityGroupByName_exec_def api_checked_def
      call_api_def bind_go_def try_go_def lift_def ret_def checked_def succeeded_def)

subsection \<open>The provider on the executor\<close>

text \<open>
  C28: A service without a network, an EIP and an EIP source gets no load balancer: when none is found
  for it, ensuring fails and, after the lookup, calls nothing.
\<close>
theorem EnsureLoadBalancer_without_address:
  assumes "ParseServiceLBConfig (qc_Config qc) (cfg_ClusterID (qc_Config qc)) svc = Ok conf"
    and "find_lb (executor_client q) conf w = (Err er, w')" and "IsResourceNotFound (Some er)"
    and "Policy conf = Exclusive"
    and "VxNetID conf = None" and "EipIDs conf = None" and "EipSource conf = None"
    and "filterNodes qc svc nodes conf = Ok (ns, conf')"
  shows "\<exists>er'. EnsureLoadBalancer (qc\<lparr>qc_Client := executor_client q\<rparr>) svc nodes w = (Err er', w')"
proof -
  let ?qc = "qc\<lparr>qc_Client := executor_client q\<rparr>"
  have "policy_ok conf" by (rule ParseServiceLBConfig_facts(3)[OF assms(1)])
  then have "ReuseLBID conf \<noteq> [] \<or> LoadBalancerName conf \<noteq> []"
    using assms(4) by (auto simp: policy_ok_def)
  then have g: "getLoadBalancer ?qc svc w = (Ok (Some conf, None, Some er), w')"
    using assms(1,2) by (intro getLoadBalancer_failed) simp_all
  from exec.create_lb_without_address[of conf' q svc ns w'] filterNodes_same_lb[OF assms(8)] assms(5-7)
  obtain er' where "create_lb (executor_client q) conf' svc ns w' = (Err er', w')" by auto
  with assms(3,4) show ?thesis
    by (simp add: EnsureLoadBalancer_def ensureLoadBalancer_def bind_go_def g assms(8) ret_def
        lift_def wrap_go_def)
qed

text \<open>
  C29: With the executor as its client, the deletion of a service, from any state of the cloud and
  with any outcome, deletes a load balancer or releases EIPs only after its lookup returned a load
  balancer whose name is the exclusive name of the service and whose listeners all bear the service's
  prefix, and only when the service reuses no load balancer by id; it deletes that load balancer and
  releases the EIPs recorded as created for it.
\<close>
theorem EnsureLoadBalancerDeleted_own_lb:
  assumes "c \<in> set (calls_of (EnsureLoadBalancerDeleted (qc\<lparr>qc_Client := traced (executor_client q)\<rparr>) svc) s e)"
    and "c = DeleteLB i \<or> c = ReleaseEIP is"
  shows "\<exists>lb w'. find_lb (executor_client q) (parseServiceLBAndEIP (qc_Config qc) svc) (s, e) = (Ok lb, w') \<and>
    lb_LoadBalancerName (lb_Spec lb) = Some (exclusive_lb_name (cfg_ClusterID (qc_Config qc)) svc) \<and>
    ReuseLBID (parseServiceLBAndEIP (qc_Config qc) svc) = [] \<and>
    list_all (\<lambda>l. \<exists>n. ls_LoadBalancerListenerName (ls_Spec l) = Some n \<and>
                      HasPrefix n (listener_name (svc_Namespace svc) (svc_Name svc)))
      (lb_LoadBalancerListeners (lb_Status lb)) \<and>
    (c = DeleteLB (lb_LoadBalancerID (lb_Status lb)) \<or> c = ReleaseEIP (lb_CreatedEIPs (lb_Status lb)))"
proof -
  let ?conf = "parseServiceLBAndEIP (qc_Config qc) svc"
  obtain r w' where f: "find_lb (executor_client q) ?conf (s, e) = (r, w')" by (metis surj_pair)
  have "c \<noteq> lookup_call ?conf" using assms(2) by (auto simp: lookup_call_def)
  with deletion_calls_failed[OF f] assms(1) obtain lb where lb: "r = Ok lb"
    by (cases r) auto
  from deletion_calls_found[OF f[unfolded lb]] assms(1) have "may_delete ?conf lb c"
    by (auto simp: list_all_iff)
  with assms(2) have own: "exclusively_owned ?conf lb"
    "c = DeleteLB (lb_LoadBalancerID (lb_Status lb)) \<or> c = ReleaseEIP (lb_CreatedEIPs (lb_Status lb))"
    by (auto simp: may_delete_def)
  from exec.find_lb_name[OF f[unfolded lb]] own f lb show ?thesis
    by (auto simp: exclusively_owned_def LoadBalancerName_parseServiceLBAndEIP listenerName_parseServiceLBAndEIP)
qed

subsection \<open>Sample data and witnesses\<close>

text \<open>An SDK over a cloud without state: it lists some load balancers, refuses deletions, and polls once.\<close>

definition sample_reply :: "'p \<Rightarrow> 'p reply" where
  "sample_reply p = \<lparr>rep_RetCode = Some 0, rep_Message = None, rep_JobID = Some ''j-1'', rep_Body = p\<rparr>"

definition replies :: "'p \<Rightarrow> ('s, 'p) api" where
  "replies p s = ((Some (sample_reply p), None), s)"

definition poll_once :: "('t, bool) go \<Rightarrow> ('t, unit) go" where
  "poll_once f s =
     (case f s of
        (Ok True, s') \<Rightarrow> (Ok (), s')
      | (Ok False, s') \<Rightarrow> (Err (ForeignError ''timeout''), s')
      | (Err e, s') \<Rightarrow> (Err e, s')
      | (Panic, s') \<Rightarrow> (Panic, s')
      | (Diverge, s') \<Rightarrow> (Diverge, s'))"

definition sample_sdk_lb :: sdk_LoadBalancer where
  "sample_sdk_lb =
     \<lparr>sdk_LoadBalancerID = Some ''lb-1'', sdk_LoadBalancerName = Some ''k8s_lb_cl-1_default_web_0a1b'',
      sdk_LoadBalancerType = Some 0, sdk_NodeCount = Some 2, sdk_VxNetID = None, sdk_PrivateIPs = [],
      sdk_SecurityGroupID = None, sdk_Cluster = [], sdk_Listeners = []\<rparr>"

definition sample_sg :: sdk_SecurityGroup where
  "sample_sg = \<lparr>sdk_SGID = Some ''sg-1'', sdk_SGName = Some DefaultSgName\<rparr>"

definition sample_sdk :: "sdk_LoadBalancer list \<Rightarrow> unit sdk" where
  "sample_sdk lbs =
     \<lparr>DescribeLoadBalancers = (\<lambda>i. replies lbs),
      CreateLoadBalancer = (\<lambda>i. replies (Some ''lb-1'')),
      ModifyLoadBalancerAttributes = (\<lambda>i. replies ()),
      UpdateLoadBalancers = (\<lambda>i. replies ()),
      DeleteLoadBalancers = (\<lambda>i s. ((None, Some (ForeignError ''QingCloud Error: Code (5000)'')), s)),
      AssociateEIPsToLoadBalancer = (\<lambda>es i. replies ()),
      DissociateEIPsFromLoadBalancer = (\<lambda>es i. replies ()),
      AddLoadBalancerBackends = (\<lambda>i. replies []),
      DeleteLoadBalancerBackends = (\<lambda>i. replies ()),
      DescribeLoadBalancerListeners = (\<lambda>i. replies []),
      AddLoadBalancerListeners = (\<lambda>i. replies []),
      DeleteLoadBalancerListeners = (\<lambda>i. replies ()),
      DescribeEIPs = (\<lambda>i. replies []),
      AllocateEIPs = (\<lambda>i. replies [Some ''eip-1'']),
      ReleaseEIPs = (\<lambda>i. replies ()),
      DescribeSecurityGroups = (\<lambda>n u. replies [sample_sg]),
      sdk_CreateSecurityGroup = (\<lambda>n. replies (Some ''sg-1'')),
      AddSecurityGroupRules = (\<lambda>g r. replies []),
      ApplySecurityGroup = (\<lambda>g. replies ()),
      DeleteSecurityGroups = (\<lambda>g. replies ()),
      AttachTags = (\<lambda>p. replies ()),
      DescribeInstances = (\<lambda>i. replies []),
      DescribeAccessKeys = (\<lambda>k. replies [Some ''usr-1'']),
      WaitJob = (\<lambda>j. ret ()),
      WaitLoadBalancerStatus = (\<lambda>i. ret sample_sdk_lb),
      WaitForSpecificOrError = poll_once,
      Poll = poll_once\<rparr>"

definition sample_q :: "sdk_LoadBalancer list \<Rightarrow> unit QingCloudClient" where
  "sample_q lbs =
     \<lparr>ex_sdk = sample_sdk lbs,
      ex_Config = \<lparr>cc_IsAPP = False, cc_UserID = ''usr-1'', cc_TagIDs = []\<rparr>,
      ex_sg = Some (convertSecurityGroup sample_sg)\<rparr>"

lemma sample_describe:
  "DescribeLoadBalancers (ex_sdk (sample_q lbs)) i () = ((Some (sample_reply lbs), None), ())"
  by (simp add: sample_q_def sample_sdk_def replies_def)

theorem GetLoadBalancerByName_result_witness:
  "GetLoadBalancerByName_exec (sample_q [sample_sdk_lb]) ''web'' () =
     (Err (NewResourceNotFoundError ResourceNameLoadBalancer ''web'' []), ())"
  using GetLoadBalancerByName_result[OF sample_describe, of "[sample_sdk_lb]" "''web''"]
  by (simp add: lookup_result_def sample_reply_def sample_sdk_lb_def)

lemma sample_delete:
  "WaitForSpecificOrError (ex_sdk (sample_q lbs)) (delete_once (sample_q lbs) (Some i)) ((), no_capture) =
     (Err (Wrapf ''failed to delete lb '' (ForeignError ''QingCloud Error: Code (5000)'')),
      ((), no_capture\<lparr>cap_output := None, cap_err := Some (ForeignError ''QingCloud Error: Code (5000)'')\<rparr>))"
  by (simp add: sample_q_def sample_sdk_def poll_once_def delete_once_def Let_def Contains_def
      sublist_code)

theorem DeleteLB_ignores_errors_witness:
  "DeleteLB_exec (sample_q []) (Some ''lb-1'') () = (Ok (), ())"
  by (rule DeleteLB_ignores_errors[OF sample_delete])

definition null_eip :: sdk_EIP where
  "null_eip =
     \<lparr>sdk_EIPID = None, sdk_EIPAddr = None, sdk_EIPName = None, sdk_Bandwidth = None,
      sdk_EIPStatus = None, sdk_AssociateMode = None\<rparr>"

theorem convertLoadBalancer_nil_eip_witness:
  "convertLoadBalancer (sample_sdk_lb\<lparr>sdk_Cluster := [null_eip]\<rparr>) = Panic"
  using convertLoadBalancer_nil_eip[of null_eip "sample_sdk_lb\<lparr>sdk_Cluster := [null_eip]\<rparr>" "[]"]
  by (simp add: null_eip_def)

lemma sample_by_id:
  "GetLoadBalancerByID_exec (sample_q [sample_sdk_lb]) i () =
     (convertLoadBalancer sample_sdk_lb, ())"
  by (simp add: GetLoadBalancerByID_exec_eq[OF sample_describe] lookup_result_def sample_reply_def)

lemma sample_convert: "\<exists>b. convertLoadBalancer sample_sdk_lb = Ok b"
  by (simp add: convertLoadBalancer_def convertLoadBalancerStatus_def sample_sdk_lb_def)

theorem UpdateLB_always_applies_witness:
  "UpdateLB_exec (sample_q [sample_sdk_lb]) (Some ''lb-1'') () = (Ok (), ())"
proof -
  obtain b where "GetLoadBalancerByID_exec (sample_q [sample_sdk_lb]) ''lb-1'' () = (Ok b, ())"
    using sample_convert by (auto simp: sample_by_id)
  from UpdateLB_always_applies[OF this] show ?thesis
    by (simp add: sample_q_def sample_sdk_def replies_def sample_reply_def go_defs checked_def)
qed

definition sample_request :: CreateLoadBalancerInput where
  "sample_request =
     \<lparr>ci_EIPs = [Some ''eip-1''], ci_LoadBalancerName = Some ''x'', ci_LoadBalancerType = None,
      ci_NodeCount = Some 3, ci_VxNet = None, ci_SecurityGroup = None, ci_PlaceGroupID = None,
      ci_PrivateIP = None, ci_Mode = None\<rparr>"

theorem fillLBDefaultFileds_complete_witness:
  "\<exists>i. fillLBDefaultFileds (sample_q []) sample_request = Ok i \<and> ci_NodeCount i = Some 3 \<and>
     ci_SecurityGroup i = Some ''sg-1''"
proof -
  obtain i where i: "fillLBDefaultFileds (sample_q []) sample_request = Ok i"
    by (simp add: fillLBDefaultFileds_def sample_request_def sample_q_def Let_def)
  from fillLBDefaultFileds_complete[OF i] i show ?thesis
    by (simp add: sample_request_def sample_q_def convertSecurityGroup_def sample_sg_def)
qed

theorem ensureSecurityGroupByName_found_witness:
  "ensureSecurityGroupByName (sample_q []) DefaultSgName () = (Ok (convertSecurityGroup sample_sg), ())"
  by (rule ensureSecurityGroupByName_found[where out = "sample_reply [sample_sg]"])
    (simp_all add: sample_q_def sample_sdk_def replies_def sample_reply_def succeeded_def
      sg_named_def sample_sg_def)

definition bare_service :: Service where
  "bare_service =
     demo_service\<lparr>svc_Annotations := Some [(ServiceAnnotationLoadBalancerPolicy, ''exclusive'')]\<rparr>"

definition bare_conf :: LoadBalancerConfig where
  "bare_conf =
     zero_config\<lparr>NetworkType := NetworkModePublic, Policy := Exclusive,
       LoadBalancerName := ''k8s_lb_cl-1_default_web_0a1b'',
       listenerName := ''listener_default_web_'', sgName := ''k8s_lb_cl-1_default_web_0a1b''\<rparr>"

lemma bare_parse:
  "ParseServiceLBConfig (qc_Config (sample_qc demo_lb [])) (cfg_ClusterID (qc_Config (sample_qc demo_lb [])))
     bare_service = Ok bare_conf"
  by code_simp

lemma bare_find:
  "find_lb (executor_client (sample_q [])) bare_conf ((), e) =
     (Err (NewResourceNotFoundError ResourceNameLoadBalancer (LoadBalancerName bare_conf) []), ((), e))"
proof -
  have "ReuseLBID bare_conf = []" "LoadBalancerName bare_conf \<noteq> []"
    by (simp_all add: bare_conf_def zero_config_def)
  then show ?thesis
    by (simp add: find_lb_def executor_client_def cloud_def GetLoadBalancerByName_exec_eq[OF sample_describe]
        lookup_result_def sample_reply_def)
qed

theorem EnsureLoadBalancer_without_address_witness:
  "\<exists>er. EnsureLoadBalancer ((sample_qc demo_lb [])\<lparr>qc_Client := executor_client (sample_q [])\<rparr>)
     bare_service [demo_node ''node1''] ((), \<lambda>i. i) = (Err er, ((), \<lambda>i. i))"
proof (rule EnsureLoadBalancer_without_address[OF bare_parse bare_find])
  show "filterNodes (sample_qc demo_lb []) bare_service [demo_node ''node1''] bare_conf =
      Ok ([demo_node ''node1''], bare_conf\<lparr>BackendCountResult := 0\<rparr>)"
    by (simp add: filterNodes_def bare_service_def demo_service_def bare_conf_def zero_config_def)
qed (simp_all add: bare_conf_def zero_config_def)

definition deletion_pass :: "call list" where
  "deletion_pass =
     calls_of (EnsureLoadBalancerDeleted
       (live_qc\<lparr>qc_Client := traced (executor_client (sample_q [sample_sdk_lb]))\<rparr>) demo_service)
       () (\<lambda>i. i)"

theorem EnsureLoadBalancerDeleted_own_lb_witness:
  "DeleteLB (Some ''lb-1'') \<in> set deletion_pass \<and>
   (\<exists>b w'. find_lb (executor_client (sample_q [sample_sdk_lb])) (parseServiceLBAndEIP demo_config demo_service)
       ((), \<lambda>i. i) = (Ok b, w') \<and>
     lb_LoadBalancerID (lb_Status b) = Some ''lb-1'' \<and>
     lb_LoadBalancerName (lb_Spec b) = Some (exclusive_lb_name (cfg_ClusterID demo_config) demo_service))"
proof -
  have d: "DeleteLB (Some ''lb-1'') \<in> set deletion_pass" by code_simp
  have c: "qc_Config live_qc = demo_config" by (simp add: live_qc_def)
  from EnsureLoadBalancerDeleted_own_lb[OF d[unfolded deletion_pass_def]] d show ?thesis
    by (fastforce simp: c)
qed

end
