(* ===== verification/Platform.thy ===== *)
theory Platform
  imports Repair Executor
begin

text \<open>
  The provider on the executor on the platform. Theories Converge and Repair rest on laws of a client;
  here the client is the executor, and the laws are proved from what the QingCloud API documents of
  its own calls, one law per call: predicate \<open>documented\<close>. The main theorem is a refinement: through
  the executor's conversions, an SDK that keeps its documented promises is a cloud that keeps those of
  the client interface.
\<close>

subsection \<open>What the API shows of its state\<close>

record 's platform =
  pl_named :: "'s \<Rightarrow> string \<Rightarrow> (string \<times> sdk_LoadBalancer) option"
  pl_listeners :: "'s \<Rightarrow> string \<Rightarrow> sdk_Listener list"
  pl_attributes :: "'s \<Rightarrow> string \<Rightarrow> int option \<times> string option list"
  pl_allocated :: "'s \<Rightarrow> string \<Rightarrow> bool"

text \<open>
  The node count and the private addresses of a load balancer, by its id, and the EIPs that bear the
  name under which the controller allocates.
\<close>

definition same_platform :: "'s platform \<Rightarrow> 's \<Rightarrow> 's \<Rightarrow> bool" where
  "same_platform w s s' = (pl_named w s' = pl_named w s \<and> pl_listeners w s' = pl_listeners w s \<and>
     pl_attributes w s' = pl_attributes w s)"

text \<open>A load balancer without its listeners, and a listener without what the platform adds.\<close>

definition attributes :: "sdk_LoadBalancer \<Rightarrow> sdk_LoadBalancer" where
  "attributes lb = lb\<lparr>sdk_Listeners := []\<rparr>"

definition bare_listener :: "sdk_Listener \<Rightarrow> sdk_Listener" where
  "bare_listener l = l\<lparr>sdk_ListenerID := None, sdk_ListenerLBID := None, sdk_Backends := []\<rparr>"

text \<open>
  A described load balancer has its id, its attributes, the names and ids of its listeners, and its
  EIPs under their names.
\<close>

definition sdk_tag :: "sdk_Listener \<Rightarrow> string option \<times> string option" where
  "sdk_tag l = (sdk_ListenerName l, sdk_ListenerID l)"

definition described :: "'s platform \<Rightarrow> 's \<Rightarrow> string \<Rightarrow> sdk_LoadBalancer \<Rightarrow> bool" where
  "described w s i lb =
     (sdk_LoadBalancerID lb = Some i \<and> (sdk_NodeCount lb, sdk_PrivateIPs lb) = pl_attributes w s i \<and>
      map sdk_tag (sdk_Listeners lb) = map sdk_tag (pl_listeners w s i) \<and>
      (\<forall>eip \<in> set (sdk_Cluster lb). \<forall>j. sdk_EIPID eip = Some j \<longrightarrow> j \<noteq> [] \<longrightarrow>
         (sdk_EIPName eip = Some AllocateEIPName \<longleftrightarrow> pl_allocated w s j)))"

subsection \<open>The laws of the calls\<close>

text \<open>
  Calls that change no load balancer and name no EIP; polling runs its closure and nothing else.
  Allocation changes no load balancer either.
\<close>

definition holds_on :: "('s \<Rightarrow> bool) \<Rightarrow> ('s \<Rightarrow> 'r \<times> 's) \<Rightarrow> bool" where
  "holds_on I m = (\<forall>s. I s \<longrightarrow> I (snd (m s)))"

definition silent :: "('s \<Rightarrow> bool) \<Rightarrow> 's sdk \<Rightarrow> bool" where
  "silent I d =
     ((\<forall>x. holds_on I (DescribeLoadBalancers d x)) \<and> (\<forall>x. holds_on I (DescribeLoadBalancerListeners d x)) \<and>
      (\<forall>x. holds_on I (UpdateLoadBalancers d x)) \<and> (\<forall>x. holds_on I (DescribeEIPs d x)) \<and>
      (\<forall>x. holds_on I (AttachTags d x)) \<and> (\<forall>x. holds_on I (WaitJob d x)) \<and>
      (\<forall>x. holds_on I (WaitLoadBalancerStatus d x)) \<and> (\<forall>m. keeps I m \<longrightarrow> keeps I (Poll d m)))"

definition quiet_calls :: "'s platform \<Rightarrow> 's sdk \<Rightarrow> bool" where
  "quiet_calls w d =
     ((\<forall>s. silent (same_platform w s) d) \<and> (\<forall>s x. holds_on (same_platform w s) (AllocateEIPs d x)) \<and>
      (\<forall>s. silent (\<lambda>s'. pl_allocated w s' = pl_allocated w s) d))"

text \<open>An EIP allocated under the controller's name bears it; the other calls of a pass name no EIP.\<close>

definition unchanged :: "('s \<Rightarrow> 'x) \<Rightarrow> ('s \<Rightarrow> 'r \<times> 's) \<Rightarrow> bool" where
  "unchanged f m = (\<forall>s. f (snd (m s)) = f s)"

definition names_eips :: "'s platform \<Rightarrow> 's sdk \<Rightarrow> bool" where
  "names_eips w d =
     ((\<forall>inp s out s' i is. AllocateEIPs d inp s = ((Some out, None), s') \<longrightarrow> succeeded out \<longrightarrow>
         al_EIPName inp = Some AllocateEIPName \<longrightarrow> rep_Body out = Some i # is \<longrightarrow> pl_allocated w s' i) \<and>
      (\<forall>x. unchanged (pl_allocated w) (CreateLoadBalancer d x)) \<and>
      (\<forall>x. unchanged (pl_allocated w) (AddLoadBalancerListeners d x)) \<and>
      (\<forall>x. unchanged (pl_allocated w) (AddLoadBalancerBackends d x)))"

text \<open>A modification sets what it names; calls on listeners and backends change no attribute.\<close>

definition modifies_balancer :: "'s platform \<Rightarrow> 's sdk \<Rightarrow> bool" where
  "modifies_balancer w d =
     ((\<forall>inp s out s'. ModifyLoadBalancerAttributes d inp s = ((Some out, None), s') \<longrightarrow> succeeded out \<longrightarrow>
         pl_listeners w s' = pl_listeners w s \<and>
         (\<forall>i. mi_LoadBalancer inp = Some i \<longrightarrow>
            (let old = pl_attributes w s i; new = pl_attributes w s' i
             in fst new = (if mi_NodeCount inp = None then fst old else mi_NodeCount inp) \<and>
                (if mi_PrivateIP inp = None then snd new = snd old
                 else mi_PrivateIP inp \<in> set (snd new) \<and> None \<notin> set (snd new))))) \<and>
      (\<forall>x. unchanged (pl_attributes w) (AddLoadBalancerListeners d x)) \<and>
      (\<forall>x. unchanged (pl_attributes w) (DeleteLoadBalancerListeners d x)) \<and>
      (\<forall>x. unchanged (pl_attributes w) (AddLoadBalancerBackends d x)) \<and>
      (\<forall>x. unchanged (pl_attributes w) (DeleteLoadBalancerBackends d x)))"

text \<open>
  The description by name and owner, which answers with code 1300 when there is nothing to describe.
  The request sets no limit, so the law asks that the answer holds the load balancer of the exact name
  whenever there is one: it is for accounts whose matches fit the page that the service answers with.
\<close>

definition finds_named :: "'s platform \<Rightarrow> 's QingCloudClient \<Rightarrow> bool" where
  "finds_named w q =
     (\<forall>n s r s'. DescribeLoadBalancers (ex_sdk q) (by_name_request q n) s = (r, s') \<longrightarrow>
        (case r of
           (_, Some e) \<Rightarrow> Contains (error_text e) ''QingCloud Error: Code (1300)'' \<longrightarrow> pl_named w s n = None
         | (None, None) \<Rightarrow> True
         | (Some out, None) \<Rightarrow>
             (case find (\<lambda>lb. sdk_LoadBalancerName lb = Some n) (rep_Body out) of
                None \<Rightarrow> pl_named w s n = None
              | Some lb \<Rightarrow> \<exists>i. described w s i lb \<and> pl_named w s n = Some (i, attributes lb))))"

definition finds_id :: "'s platform \<Rightarrow> 's sdk \<Rightarrow> bool" where
  "finds_id w d =
     (\<forall>i s out s' lb lbs. DescribeLoadBalancers d (by_id_request i) s = ((Some out, None), s') \<longrightarrow>
        rep_Body out = lb # lbs \<longrightarrow> described w s i lb)"

text \<open>A new load balancer has the EIPs, the private address and the node count of the request.\<close>

definition eip_ids :: "sdk_LoadBalancer \<Rightarrow> string option list" where
  "eip_ids lb = filter (\<lambda>i. i \<noteq> None \<and> i \<noteq> Some []) (map sdk_EIPID (sdk_Cluster lb))"

definition meets :: "CreateLoadBalancerInput \<Rightarrow> sdk_LoadBalancer \<Rightarrow> bool" where
  "meets inp lb =
     (set (eip_ids lb) = set (ci_EIPs inp) \<and> None \<notin> set (sdk_PrivateIPs lb) \<and>
      (ci_PrivateIP inp \<noteq> None \<longrightarrow> ci_PrivateIP inp \<in> set (sdk_PrivateIPs lb)) \<and>
      (ci_NodeCount inp \<noteq> None \<longrightarrow> sdk_NodeCount lb = ci_NodeCount inp))"

definition creates_balancer :: "'s platform \<Rightarrow> 's sdk \<Rightarrow> bool" where
  "creates_balancer w d =
     (\<forall>inp n s out s'. CreateLoadBalancer d inp s = ((Some out, None), s') \<longrightarrow> succeeded out \<longrightarrow>
        ci_LoadBalancerName inp = Some n \<longrightarrow> pl_named w s n = None \<longrightarrow>
        (\<exists>i lb. rep_Body out = Some i \<and> pl_named w s' n = Some (i, lb) \<and>
                meets inp lb \<and> pl_listeners w s' i = []))"

definition waits_for :: "'s platform \<Rightarrow> 's sdk \<Rightarrow> bool" where
  "waits_for w d =
     (\<forall>i s lb s' n lb0. WaitLoadBalancerStatus d i s = (Ok lb, s') \<longrightarrow> pl_named w s n = Some (i, lb0) \<longrightarrow>
        sdk_LoadBalancerID lb = Some i \<and> attributes lb = lb0)"

text \<open>Listeners are added in the order of the request, with fresh ids, and described by their ids.\<close>

definition adds_listeners :: "'s platform \<Rightarrow> 's sdk \<Rightarrow> bool" where
  "adds_listeners w d =
     (\<forall>inp i s out s'. AddLoadBalancerListeners d inp s = ((Some out, None), s') \<longrightarrow> succeeded out \<longrightarrow>
        ai_LoadBalancer inp = Some i \<longrightarrow> distinct (map sdk_ListenerID (pl_listeners w s i)) \<longrightarrow>
        (\<exists>new. list_all2 (\<lambda>g l. bare_listener l = bare_listener g \<and> sdk_ListenerID l \<noteq> None \<and>
                                sdk_Backends l = []) (ai_Listeners inp) new \<and>
               rep_Body out = map sdk_ListenerID new \<and> pl_named w s' = pl_named w s \<and>
               pl_listeners w s' i = pl_listeners w s i @ new \<and>
               distinct (map sdk_ListenerID (pl_listeners w s' i))))"

definition describes_listeners :: "'s platform \<Rightarrow> 's sdk \<Rightarrow> bool" where
  "describes_listeners w d =
     (\<forall>inp P i s out s'. DescribeLoadBalancerListeners d inp s = ((Some out, None), s') \<longrightarrow>
        li_LoadBalancerListeners inp = map sdk_ListenerID (filter P (pl_listeners w s i)) \<longrightarrow>
        li_LoadBalancerListeners inp \<noteq> [] \<longrightarrow>
        int (length (li_LoadBalancerListeners inp)) \<le> li_Limit inp \<longrightarrow>
        distinct (map sdk_ListenerID (pl_listeners w s i)) \<longrightarrow>
        rep_Body out = filter P (pl_listeners w s i))"

definition removes_listeners :: "'s platform \<Rightarrow> 's sdk \<Rightarrow> bool" where
  "removes_listeners w d =
     (\<forall>is s out s'. DeleteLoadBalancerListeners d is s = ((Some out, None), s') \<longrightarrow> succeeded out \<longrightarrow>
        pl_listeners w s' = (\<lambda>i. filter (\<lambda>l. sdk_ListenerID l \<notin> set is) (pl_listeners w s i)))"

text \<open>Backends are added to their listener with fresh ids.\<close>

definition sdk_put_backends :: "string \<Rightarrow> sdk_Backend list \<Rightarrow> sdk_Listener \<Rightarrow> sdk_Listener" where
  "sdk_put_backends j bs l =
     (if sdk_ListenerID l = Some j then l\<lparr>sdk_Backends := sdk_Backends l @ bs\<rparr> else l)"

definition sdk_drop_backends :: "string option list \<Rightarrow> sdk_Listener \<Rightarrow> sdk_Listener" where
  "sdk_drop_backends is l = l\<lparr>sdk_Backends := filter (\<lambda>b. sdk_BackendID b \<notin> set is) (sdk_Backends l)\<rparr>"

definition sdk_numbered :: "sdk_Listener list \<Rightarrow> bool" where
  "sdk_numbered ls = distinct (map sdk_BackendID (concat (map sdk_Backends ls)))"

definition adds_backends :: "'s platform \<Rightarrow> 's sdk \<Rightarrow> bool" where
  "adds_backends w d =
     (\<forall>inp s out s'. AddLoadBalancerBackends d inp s = ((Some out, None), s') \<longrightarrow> succeeded out \<longrightarrow>
        (\<forall>j. bi_LoadBalancerListener inp = Some j \<longrightarrow>
           (\<exists>new. list_all2 (\<lambda>b b'. sdk_BackendName b' = sdk_BackendName b \<and> sdk_BackendPort b' = sdk_BackendPort b)
                    (bi_Backends inp) new \<and>
                  pl_named w s' = pl_named w s \<and>
                  pl_listeners w s' = (\<lambda>i. map (sdk_put_backends j new) (pl_listeners w s i)))) \<and>
        (\<forall>i. sdk_numbered (pl_listeners w s i) \<longrightarrow> sdk_numbered (pl_listeners w s' i)))"

definition removes_backends :: "'s platform \<Rightarrow> 's sdk \<Rightarrow> bool" where
  "removes_backends w d =
     (\<forall>is s out s'. DeleteLoadBalancerBackends d is s = ((Some out, None), s') \<longrightarrow> succeeded out \<longrightarrow>
        pl_listeners w s' = (\<lambda>i. map (sdk_drop_backends is) (pl_listeners w s i)))"

definition documented :: "'s platform \<Rightarrow> 's QingCloudClient \<Rightarrow> bool" where
  "documented w q =
     (quiet_calls w (ex_sdk q) \<and> finds_named w q \<and> finds_id w (ex_sdk q) \<and>
      creates_balancer w (ex_sdk q) \<and> waits_for w (ex_sdk q) \<and>
      adds_listeners w (ex_sdk q) \<and> describes_listeners w (ex_sdk q) \<and> removes_listeners w (ex_sdk q) \<and>
      adds_backends w (ex_sdk q) \<and> removes_backends w (ex_sdk q) \<and>
      names_eips w (ex_sdk q) \<and> modifies_balancer w (ex_sdk q))"

lemma documentedD:
  assumes "documented w q"
  shows "quiet_calls w (ex_sdk q)" "finds_named w q" "finds_id w (ex_sdk q)"
    "creates_balancer w (ex_sdk q)" "waits_for w (ex_sdk q)" "adds_listeners w (ex_sdk q)"
    "describes_listeners w (ex_sdk q)" "removes_listeners w (ex_sdk q)" "adds_backends w (ex_sdk q)"
    "removes_backends w (ex_sdk q)" "names_eips w (ex_sdk q)" "modifies_balancer w (ex_sdk q)"
  using assms by (simp_all add: documented_def)

subsection \<open>The state through the conversions\<close>

definition spec_of :: "sdk_LoadBalancer \<Rightarrow> LoadBalancerSpec" where
  "spec_of lb =
     \<lparr>lb_LoadBalancerName = sdk_LoadBalancerName lb, lb_EIPs = eip_ids lb,
      lb_LoadBalancerType = sdk_LoadBalancerType lb, lb_NodeCount = sdk_NodeCount lb,
      lb_PrivateIPs = sdk_PrivateIPs lb, lb_VxNetID = sdk_VxNetID lb,
      lb_SecurityGroups = sdk_SecurityGroupID lb, lb_PlaceGroupID = None\<rparr>"

definition seen :: "'s platform \<Rightarrow> 's view" where
  "seen w =
     \<lparr>v_named = (\<lambda>s n. map_option (map_prod id spec_of) (pl_named w s n)),
      v_listeners = (\<lambda>s i. convertLoadBalancerListener (pl_listeners w s i)),
      v_attributes = pl_attributes w, v_allocated = pl_allocated w\<rparr>"

lemma seen_simps:
  "v_listeners (seen w) s i = map convert_listener (pl_listeners w s i)"
  "v_named (seen w) s n = map_option (map_prod id spec_of) (pl_named w s n)"
  "v_attributes (seen w) = pl_attributes w" "v_allocated (seen w) = pl_allocated w"
  by (simp_all add: seen_def convertLoadBalancerListener_def)

lemma same_platform_seen: "same_platform w s s' \<Longrightarrow> same_view (seen w) s s'"
  by (simp add: same_platform_def same_view_def seen_def fun_eq_iff)

lemma attributes_simps [simp]:
  "spec_of (attributes lb) = spec_of lb" "sdk_LoadBalancerID (attributes lb) = sdk_LoadBalancerID lb"
  by (simp_all add: attributes_def spec_of_def eip_ids_def)

lemma convertLoadBalancer_spec:
  assumes "convertLoadBalancer lb = Ok b"
  shows "lb_Spec b = spec_of lb"
proof -
  obtain ids where ids: "map_ok (\<lambda>eip. bind_ok (deref (sdk_EIPID eip)) (\<lambda>i. Ok i)) (sdk_Cluster lb) = Ok ids"
    and b: "lb_EIPs (lb_Spec b) = map Some (filter (\<lambda>i. i \<noteq> []) ids)"
      "lb_Spec b = (spec_of lb)\<lparr>lb_EIPs := lb_EIPs (lb_Spec b)\<rparr>"
    using assms by (auto simp: convertLoadBalancer_def bind_ok_Ok_iff spec_of_def)
  from ids have "map sdk_EIPID (sdk_Cluster lb) = map Some ids"
    by (auto simp: map_ok_Ok_iff list_all2_conv_all_nth bind_ok_Ok_iff intro!: nth_equalityI)
  then have "eip_ids lb = map Some (filter (\<lambda>i. i \<noteq> []) ids)"
    by (simp add: eip_ids_def filter_map comp_def)
  with b show ?thesis by (simp add: spec_of_def)
qed

text \<open>A conversion that fails panics: it never returns an error.\<close>

lemma convertLoadBalancer_not_Err: "convertLoadBalancer lb \<noteq> Err e"
proof -
  have "own_vips ps \<noteq> Err e" for ps by (induction ps) (auto simp: bind_ok_Err_iff)
  moreover have "eip_vips es \<noteq> Err e" for es by (induction es) (auto simp: bind_ok_Err_iff)
  moreover have "map_ok (\<lambda>eip. bind_ok (deref (sdk_EIPID eip)) (\<lambda>i. Ok i)) es \<noteq> Err e" for es
    by (induction es) (auto simp: bind_ok_Err_iff)
  ultimately show ?thesis
    by (auto simp: convertLoadBalancer_def convertLoadBalancerStatus_def bind_ok_Err_iff)
qed

lemma convert_listener_simps [simp]:
  "tag_of (convert_listener l) = sdk_tag l" "listener_id (convert_listener l) = sdk_ListenerID l"
  "backends_of (convert_listener l) = convertLoadBalancerBackend (sdk_Backends l)"
  by (simp_all add: tag_of_def sdk_tag_def convert_listener_def)

lemma backend_id_convert:
  "map backend_id (convertLoadBalancerBackend bs) = map sdk_BackendID bs"
  by (simp add: convertLoadBalancerBackend_def)

lemma convert_put:
  "convert_listener (sdk_put_backends j bs l) = put_backends j (convertLoadBalancerBackend bs) (convert_listener l)"
  by (simp add: sdk_put_backends_def put_backends_def convert_listener_def convertLoadBalancerBackend_def)

lemma convert_drop: "convert_listener (sdk_drop_backends is l) = drop_backends is (convert_listener l)"
  by (simp add: sdk_drop_backends_def drop_backends_def convert_listener_def convertLoadBalancerBackend_def
      filter_map comp_def)

lemma numbered_convert: "numbered (map convert_listener ls) = sdk_numbered ls"
proof -
  have "map backend_id (concat (map backends_of (map convert_listener ls))) =
      map sdk_BackendID (concat (map sdk_Backends ls))"
    by (induction ls) (simp_all add: backend_id_convert)
  then show ?thesis by (simp only: numbered_def sdk_numbered_def)
qed

lemma convert_stored:
  assumes "bare_listener l = bare_listener (hd (convertFromLoadBalancerListener [g]))"
    and "sdk_ListenerID l \<noteq> None" and "sdk_Backends l = []"
  shows "stored_as g (convert_listener l)"
  using assms
  by (cases l)
    (simp add: bare_listener_def convertFromLoadBalancerListener_def Let_def stored_as_def settings_of_def
      convert_listener_def convertLoadBalancerBackend_def)

subsection \<open>The calls of the executor\<close>

lemma same_platform_refl [simp]: "same_platform w s s"
  by (simp add: same_platform_def)

lemma holds_onD: "holds_on I m \<Longrightarrow> m s = (r, s') \<Longrightarrow> I s \<Longrightarrow> I s'"
  by (metis holds_on_def snd_conv)

lemma keeps_holds_on: "keeps I m = holds_on I m"
  by (simp add: keeps_def holds_on_def)

lemma leaves_unchanged: "leaves f m = unchanged f m"
  by (simp add: leaves_def unchanged_def)

lemma leaves_iff_keeps: "leaves f m \<longleftrightarrow> (\<forall>s. keeps (\<lambda>s'. f s' = f s) m)"
  by (auto simp: leaves_def keeps_def)

lemma unchanged_holds: "unchanged f a \<Longrightarrow> holds_on (\<lambda>s'. f s' = f s) a"
  by (simp add: unchanged_def holds_on_def)

text \<open>Calls that keep an invariant make operations that keep it.\<close>

lemma keeps_api_call:
  assumes "holds_on I a"
  shows "keeps I (call_api a)" and "keeps I (api_checked t c a)"
proof -
  have "snd (call_api a s) = snd (a s)" for s by (simp add: call_api_def split: prod.split)
  then show call: "keeps I (call_api a)"
    using assms by (auto simp: keeps_def holds_on_def)
  show "keeps I (api_checked t c a)"
    unfolding api_checked_def by (intro keeps_intros call)
qed

lemma keeps_case_list [keeps_intros]:
  "(xs = [] \<Longrightarrow> keeps I a) \<Longrightarrow> (\<And>y ys. xs = y # ys \<Longrightarrow> keeps I (f y ys)) \<Longrightarrow>
   keeps I (case xs of [] \<Rightarrow> a | y # ys \<Rightarrow> f y ys)"
  by (cases xs) auto

lemma silentD:
  assumes "silent I d"
  shows "holds_on I (DescribeLoadBalancers d x1)" "holds_on I (DescribeLoadBalancerListeners d x2)"
    "holds_on I (UpdateLoadBalancers d x3)" "holds_on I (DescribeEIPs d x4)"
    "holds_on I (AttachTags d x5)" "holds_on I (WaitJob d x6)" "holds_on I (WaitLoadBalancerStatus d x7)"
    "keeps I m \<Longrightarrow> keeps I (Poll d m)"
  using assms by (simp_all add: silent_def)

lemmas keeps_calls = silentD(1-5)[THEN keeps_api_call(1)] silentD(1-5)[THEN keeps_api_call(2)]
  silentD(6,7)[folded keeps_holds_on] silentD(8)

lemma keeps_executor:
  assumes "silent I (ex_sdk q)"
  shows "keeps I (attachTagsToResources q is t)" and "keeps I (UpdateLB_exec q p)"
    and "keeps I (GetAvaliableEIPs_exec q)" and "keeps I (GetLoadBalancerByName_exec q n)"
    and "keeps I (GetLoadBalancerByID_exec q i)" and "keeps I (GetListeners_exec q is)"
    and "keeps I (waitEIPStatus q i st)"
proof -
  note calls = keeps_calls[OF assms]
  show "keeps I (attachTagsToResources q is t)"
    unfolding attachTagsToResources_def by (intro keeps_intros calls)
  show "keeps I (UpdateLB_exec q p)"
    unfolding UpdateLB_exec_def GetLoadBalancerByID_exec_def by (intro keeps_intros calls)
  show "keeps I (GetAvaliableEIPs_exec q)"
    unfolding GetAvaliableEIPs_exec_def by (intro keeps_intros calls)
  show "keeps I (GetLoadBalancerByName_exec q n)" "keeps I (GetLoadBalancerByID_exec q i)"
    unfolding GetLoadBalancerByName_exec_def GetLoadBalancerByID_exec_def by (intro keeps_intros calls)+
  show "keeps I (GetListeners_exec q is)"
    unfolding GetListeners_exec_def by (intro keeps_intros calls)
  show "keeps I (waitEIPStatus q i st)"
    unfolding waitEIPStatus_def getEIPByID_def by (intro keeps_intros calls)
qed

lemma keeps_AllocateEIP:
  assumes "silent I (ex_sdk q)" and "\<And>x. holds_on I (AllocateEIPs (ex_sdk q) x)"
  shows "keeps I (AllocateEIP_exec q e)"
  unfolding AllocateEIP_exec_def log_error_def Let_def
  by (intro keeps_intros keeps_executor[OF assms(1)] keeps_api_call[OF assms(2)])

lemma documented_silent:
  assumes "documented w q"
  shows "silent (same_platform w s) (ex_sdk q)" "silent (\<lambda>s'. pl_allocated w s' = pl_allocated w s) (ex_sdk q)"
    "holds_on (same_platform w s) (AllocateEIPs (ex_sdk q) x)"
  using documentedD(1)[OF assms] by (simp_all add: quiet_calls_def)

lemma keeps_same_platformD:
  assumes "\<And>s. keeps (same_platform w s) m"
  shows "leaves (pl_attributes w) m" and "m s = (r, s') \<Longrightarrow> same_platform w s s'"
proof -
  show same: "m s = (r, s') \<Longrightarrow> same_platform w s s'" for s r s'
    by (rule keepsD'[OF assms _ same_platform_refl])
  show "leaves (pl_attributes w) m"
    unfolding leaves_def using same by (metis same_platform_def surjective_pairing)
qed

subsection \<open>Lookups\<close>

lemma described_tags:
  assumes "described w s i lb"
  shows "map tag_of (convertLoadBalancerListener (sdk_Listeners lb)) = map tag_of (v_listeners (seen w) s i)"
  using assms by (auto simp: described_def seen_simps convertLoadBalancerListener_def comp_def)

lemma described_quietly:
  assumes "documented w q" and "DescribeLoadBalancers (ex_sdk q) x s = (r, s')"
  shows "same_view (seen w) s s'"
  by (rule same_platform_seen[OF holds_onD[OF silentD(1)[OF documented_silent(1)[OF assms(1)]] assms(2)
      same_platform_refl]])

lemma executor_shows_named:
  assumes "documented w q"
  shows "shows_named (seen w) (executor_client q)"
  unfolding shows_named_def
proof (intro allI impI)
  fix n s r s'
  assume "cl_GetLoadBalancerByName (executor_client q) n s = (r, s')"
  then have get: "GetLoadBalancerByName_exec q n s = (r, s')" by (simp add: executor_client_def)
  obtain out err s1 where d: "DescribeLoadBalancers (ex_sdk q) (by_name_request q n) s = ((out, err), s1)"
    by (metis surj_pair)
  from GetLoadBalancerByName_exec_eq[OF d] get have r: "s1 = s'"
    "r = lookup_result n ''get lb by name error, err='' (find (\<lambda>lb. sdk_LoadBalancerName lb = Some n)) (out, err)"
    by simp_all
  have same: "same_view (seen w) s s'"
    using described_quietly[OF assms d] by (simp add: r(1))
  note law = documentedD(2)[OF assms, unfolded finds_named_def, rule_format, OF d]
  have "case r of
      Ok b \<Rightarrow> \<exists>i. v_named (seen w) s n = Some (i, lb_Spec b) \<and> lb_LoadBalancerID (lb_Status b) = Some i \<and>
        map tag_of (lb_LoadBalancerListeners (lb_Status b)) = map tag_of (v_listeners (seen w) s i)
    | Err e \<Rightarrow> IsResourceNotFound (Some e) \<longrightarrow> v_named (seen w) s n = None
    | _ \<Rightarrow> True"
  proof (cases r)
    case (Ok b)
    from lookup_result_Ok[OF r(2)[symmetric, unfolded Ok]] obtain o' lb where
      lb: "out = Some o'" "err = None" "find (\<lambda>lb. sdk_LoadBalancerName lb = Some n) (rep_Body o') = Some lb"
      "convertLoadBalancer lb = Ok b" by auto
    then obtain i where i: "described w s i lb" "pl_named w s n = Some (i, attributes lb)" using law by auto
    then have "sdk_LoadBalancerID lb = Some i" by (simp add: described_def)
    then show ?thesis
      using Ok i convertLoadBalancer_spec[OF lb(4)] convertLoadBalancer_Ok[OF lb(4)] described_tags
      by (simp add: seen_simps(2))
  next
    case (Err e)
    with r(2) law show ?thesis
      by (auto simp: lookup_result_def seen_simps(2) convertLoadBalancer_not_Err split: option.splits if_splits outcome.splits)
  qed simp_all
  with same show "same_view (seen w) s s' \<and> (case r of
      Ok b \<Rightarrow> \<exists>i. v_named (seen w) s n = Some (i, lb_Spec b) \<and> lb_LoadBalancerID (lb_Status b) = Some i \<and>
        map tag_of (lb_LoadBalancerListeners (lb_Status b)) = map tag_of (v_listeners (seen w) s i)
    | Err e \<Rightarrow> IsResourceNotFound (Some e) \<longrightarrow> v_named (seen w) s n = None
    | _ \<Rightarrow> True)" ..
qed

lemma executor_shows_id:
  assumes "documented w q"
  shows "shows_id (seen w) (executor_client q)"
  unfolding shows_id_def
proof (intro allI impI)
  fix i s b s'
  assume "cl_GetLoadBalancerByID (executor_client q) i s = (Ok b, s')"
  then have get: "GetLoadBalancerByID_exec q i s = (Ok b, s')" by (simp add: executor_client_def)
  obtain r s1 where d: "DescribeLoadBalancers (ex_sdk q) (by_id_request i) s = (r, s1)" by (metis surj_pair)
  from GetLoadBalancerByID_exec_eq[OF d] get have r: "s1 = s'"
    "lookup_result i ''get lb by id error, err='' (\<lambda>lbs. case lbs of [] \<Rightarrow> None | lb # _ \<Rightarrow> Some lb) r = Ok b"
    by simp_all
  from lookup_result_Ok[OF r(2)] obtain out lb lbs where
    lb: "r = (Some out, None)" "rep_Body out = lb # lbs" "convertLoadBalancer lb = Ok b"
    by (metis list.exhaust list.simps(4,5) option.distinct(1) option.inject)
  from documentedD(3)[OF assms, unfolded finds_id_def, rule_format, OF d[unfolded lb(1)] lb(2)]
  have shown: "described w s i lb" .
  then have i: "sdk_LoadBalancerID lb = Some i" by (simp add: described_def)
  have "same_view (seen w) s s'"
    using described_quietly[OF assms d] by (simp add: r(1))
  then show "same_view (seen w) s s' \<and> lb_LoadBalancerID (lb_Status b) = Some i \<and>
      attributes_of b = v_attributes (seen w) s i \<and>
      map tag_of (lb_LoadBalancerListeners (lb_Status b)) = map tag_of (v_listeners (seen w) s i)"
    using convertLoadBalancer_Ok[OF lb(3)] convertLoadBalancer_spec[OF lb(3)] i shown described_tags[OF shown]
    by (simp add: described_def seen_simps spec_of_def)
qed

lemma executor_leaves_view:
  assumes "documented w q"
  shows "leaves_view (seen w) (executor_client q)"
proof -
  note keeps = keeps_executor[OF documented_silent(1)[OF assms]]
    keeps_AllocateEIP[OF documented_silent(1,3)[OF assms]]
  show ?thesis
    unfolding leaves_view_def
    by (auto simp: executor_client_def intro!: same_platform_seen keepsD[OF keeps(2)] keepsD[OF keeps(3)]
        keepsD[OF keeps(8)])
qed

subsection \<open>Listeners\<close>

lemma GetListeners_exec_Ok:
  assumes "documented w q" and "GetListeners_exec q is s = (Ok ls, s')"
    and "is = map sdk_ListenerID (filter P (pl_listeners w s i))" and "is \<noteq> []" and "int (length is) \<le> pageLimt"
    and "distinct (map sdk_ListenerID (pl_listeners w s i))"
  shows "ls = map convert_listener (filter P (pl_listeners w s i)) \<and> same_platform w s s'"
proof -
  let ?inp = "\<lparr>li_LoadBalancerListeners = is, li_Verbose = 1, li_Limit = pageLimt\<rparr>"
  obtain out where d: "DescribeLoadBalancerListeners (ex_sdk q) ?inp s = ((Some out, None), s')"
    and ls: "ls = convertLoadBalancerListener (rep_Body out)"
    using assms(2) by (auto simp: GetListeners_exec_def call_api_def bind_go_Ok_iff split: option.splits prod.splits
        dest!: sym[of "Ok _" "deref _"])
  have "rep_Body out = filter P (pl_listeners w s i)"
    using documentedD(7)[OF assms(1), unfolded describes_listeners_def, rule_format, OF d, of P i] assms(3-6) by simp
  with ls show ?thesis
    using holds_onD[OF silentD(2)[OF documented_silent(1)[OF assms(1)]] d] by (simp add: convertLoadBalancerListener_def)
qed

lemma map_convert_filter:
  "filter P (map convert_listener ls) = map convert_listener (filter (\<lambda>l. P (convert_listener l)) ls)"
  by (induction ls) simp_all

lemma ids_convert: "map listener_id (map convert_listener ls) = map sdk_ListenerID ls"
  by simp

lemma executor_lists_some:
  assumes "documented w q"
  shows "lists_some (seen w) (executor_client q)"
  unfolding lists_some_def
proof (intro allI impI)
  fix P "is" i s ls s'
  assume a: "cl_GetListeners (executor_client q) is s = (Ok ls, s')"
    "is = map listener_id (filter P (v_listeners (seen w) s i))" "is \<noteq> []" "int (length is) \<le> pageLimt"
    "distinct (map listener_id (v_listeners (seen w) s i))"
  have "GetListeners_exec q is s = (Ok ls, s')" using a(1) by (simp add: executor_client_def)
  from GetListeners_exec_Ok[OF assms this _ a(3,4), of "\<lambda>l. P (convert_listener l)" i] a(2,5)
  show "ls = filter P (v_listeners (seen w) s i) \<and> v_listeners (seen w) s' = v_listeners (seen w) s"
    by (simp add: seen_simps map_convert_filter fun_eq_iff same_platform_def comp_def)
qed

lemma executor_stores_listeners:
  assumes "documented w q"
  shows "stores_listeners (seen w) (executor_client q)"
  unfolding stores_listeners_def
proof (intro allI impI)
  fix gs i s ls s'
  assume a: "cl_CreateListener (executor_client q) gs s = (Ok ls, s')" "gs \<noteq> []" "int (length gs) \<le> pageLimt"
    "list_all (\<lambda>g. ls_LoadBalancerID (ls_Spec g) = Some i) gs" "distinct (map listener_id (v_listeners (seen w) s i))"
  let ?inp = "\<lparr>ai_Listeners = convertFromLoadBalancerListener gs, ai_LoadBalancer = Some i\<rparr>"
  obtain g gs' where gs: "gs = g # gs'" "ls_LoadBalancerID (ls_Spec g) = Some i" using a(2,4) by (cases gs) auto
  with a(1) obtain out s1 where
    add: "AddLoadBalancerListeners (ex_sdk q) ?inp s = ((Some out, None), s1)" "succeeded out"
    and get: "GetListeners_exec q (rep_Body out) s1 = (Ok ls, s')"
    by (auto simp: executor_client_def CreateListener_exec_def first_ok_def bind_go_Ok_iff api_checked_Ok_iff)
  have before: "distinct (map sdk_ListenerID (pl_listeners w s i))" using a(5) by (simp add: seen_simps comp_def)
  from documentedD(6)[OF assms, unfolded adds_listeners_def, rule_format, OF add, of i] before obtain new where
    new: "list_all2 (\<lambda>g l. bare_listener l = bare_listener g \<and> sdk_ListenerID l \<noteq> None \<and> sdk_Backends l = [])
        (convertFromLoadBalancerListener gs) new"
      "rep_Body out = map sdk_ListenerID new" "pl_named w s1 = pl_named w s"
      "pl_listeners w s1 i = pl_listeners w s i @ new" "distinct (map sdk_ListenerID (pl_listeners w s1 i))" by auto
  let ?P = "\<lambda>l. sdk_ListenerID l \<in> sdk_ListenerID ` set new"
  have mine: "filter ?P (pl_listeners w s1 i) = new"
    using new(5) by (auto simp: new(4) filter_empty_conv)
  have len: "length new = length gs"
    using list_all2_lengthD[OF new(1)] by (simp add: convertFromLoadBalancerListener_def)
  have "int (length (rep_Body out)) \<le> pageLimt" "rep_Body out \<noteq> []"
    using len a(2,3) by (auto simp: new(2))
  from GetListeners_exec_Ok[OF assms get _ this(2,1) new(5), of ?P] have
    got: "ls = map convert_listener new" "same_platform w s1 s'" by (simp_all add: mine new(2))
  have "list_all2 stored_as gs ls"
    unfolding list_all2_conv_all_nth
  proof (intro conjI allI impI)
    show "length gs = length ls" using len by (simp add: got(1))
    fix k assume k: "k < length gs"
    have "convertFromLoadBalancerListener gs ! k = hd (convertFromLoadBalancerListener [gs ! k])"
      using k by (simp add: convertFromLoadBalancerListener_def)
    then have "stored_as (gs ! k) (convert_listener (new ! k))"
      using list_all2_nthD2[OF new(1), of k] k len by (intro convert_stored) simp_all
    then show "stored_as (gs ! k) (ls ! k)" using k len by (simp add: got(1))
  qed
  moreover have "pl_named w s' = pl_named w s" "pl_listeners w s' i = pl_listeners w s i @ new"
    using got(2) new(3,4) by (simp_all add: same_platform_def)
  ultimately show "list_all2 stored_as gs ls \<and> v_named (seen w) s' = v_named (seen w) s \<and>
      v_listeners (seen w) s' i = v_listeners (seen w) s i @ ls \<and>
      distinct (map listener_id (v_listeners (seen w) s' i))"
    using new(5) got(2) by (simp add: seen_simps got(1) fun_eq_iff same_platform_def comp_def)
qed

lemma executor_deletes_listeners:
  assumes "documented w q"
  shows "deletes_listeners (seen w) (executor_client q)"
proof -
  note law = documentedD(8)[OF assms, unfolded removes_listeners_def, rule_format]
  show ?thesis
    by (auto simp: deletes_listeners_def executor_client_def DeleteListener_exec_def bind_go_Ok_iff
        api_checked_Ok_iff fun_eq_iff seen_simps map_convert_filter dest!: law)
qed

subsection \<open>Backends\<close>

lemma CreateBackends_exec_Ok:
  assumes "CreateBackends_exec q bs s = (Ok r, s')" and "bs \<noteq> []"
  shows "\<exists>out j. AddLoadBalancerBackends (ex_sdk q)
      \<lparr>bi_Backends = map backend_to_sdk bs, bi_LoadBalancerListener = j\<rparr> s = ((Some out, None), s') \<and>
    succeeded out \<and> j = be_LoadBalancerListenerID (be_Spec (hd bs))"
  using assms by (cases bs) (auto simp: CreateBackends_exec_def bind_go_Ok_iff api_checked_Ok_iff)

lemma CreateBackends_exec_Nil: "CreateBackends_exec q [] s = (Ok [], s)"
  by (simp add: CreateBackends_exec_def ret_def)

lemma put_no_backend: "put_backends j [] = (\<lambda>l. l)"
  by (simp add: put_backends_def fun_eq_iff)

lemma executor_stores_backends:
  assumes "documented w q"
  shows "stores_backends (seen w) (executor_client q)"
  unfolding stores_backends_def
proof (intro allI impI)
  fix bs j s r s'
  assume a: "cl_CreateBackends (executor_client q) bs s = (Ok r, s')"
    "list_all (\<lambda>b. be_LoadBalancerListenerID (be_Spec b) = Some j) bs"
  then have create: "CreateBackends_exec q bs s = (Ok r, s')" by (simp add: executor_client_def)
  show "\<exists>bs'. list_all2 stored_backend bs bs' \<and> v_named (seen w) s' = v_named (seen w) s \<and>
      v_listeners (seen w) s' = (\<lambda>i. map (put_backends j bs') (v_listeners (seen w) s i))"
  proof (cases "bs = []")
    case True
    with create show ?thesis
      by (intro exI[of _ "[]"]) (simp add: CreateBackends_exec_Nil put_no_backend)
  next
    case False
    then have "be_LoadBalancerListenerID (be_Spec (hd bs)) = Some j" using a(2) by (cases bs) auto
    with CreateBackends_exec_Ok[OF create False] obtain out where
      add: "AddLoadBalancerBackends (ex_sdk q)
        \<lparr>bi_Backends = map backend_to_sdk bs, bi_LoadBalancerListener = Some j\<rparr> s = ((Some out, None), s')"
      "succeeded out" by auto
    from documentedD(9)[OF assms, unfolded adds_backends_def, rule_format, OF add] obtain new where
      new: "list_all2 (\<lambda>b b'. sdk_BackendName b' = sdk_BackendName b \<and> sdk_BackendPort b' = sdk_BackendPort b)
          (map backend_to_sdk bs) new"
        "pl_named w s' = pl_named w s"
        "pl_listeners w s' = (\<lambda>i. map (sdk_put_backends j new) (pl_listeners w s i))" by fastforce
    have "list_all2 stored_backend bs (convertLoadBalancerBackend new)"
      using new(1)
      by (simp add: convertLoadBalancerBackend_def list_all2_map1 list_all2_map2 stored_backend_def backend_to_sdk_def)
    moreover have "map (convert_listener \<circ> sdk_put_backends j new) ls =
        map (put_backends j (convertLoadBalancerBackend new)) (map convert_listener ls)" for ls
      by (simp add: convert_put)
    ultimately show ?thesis
      using new(2,3)
      by (intro exI[of _ "convertLoadBalancerBackend new"]) (simp add: seen_simps fun_eq_iff)
  qed
qed

lemma executor_numbers_backends:
  assumes "documented w q"
  shows "numbers_backends (seen w) (executor_client q)"
  unfolding numbers_backends_def
proof (intro allI impI)
  fix bs s r s' i
  assume "cl_CreateBackends (executor_client q) bs s = (Ok r, s')" and n: "numbered (v_listeners (seen w) s i)"
  then have create: "CreateBackends_exec q bs s = (Ok r, s')" by (simp add: executor_client_def)
  show "numbered (v_listeners (seen w) s' i)"
  proof (cases "bs = []")
    case True
    with create n show ?thesis by (simp add: CreateBackends_exec_Nil)
  next
    case False
    from CreateBackends_exec_Ok[OF create this] documentedD(9)[OF assms, unfolded adds_backends_def] n
    show ?thesis unfolding seen_simps numbered_convert by blast
  qed
qed

lemma drop_no_backend: "drop_backends [] = (\<lambda>l. l)"
  by (simp add: drop_backends_def fun_eq_iff)

lemma executor_deletes_backends:
  assumes "documented w q"
  shows "deletes_backends (seen w) (executor_client q)"
proof -
  note law = documentedD(10)[OF assms, unfolded removes_backends_def, rule_format]
  have "map (convert_listener \<circ> sdk_drop_backends is) ls = map (drop_backends is \<circ> convert_listener) ls" for "is" ls
    by (simp add: convert_drop)
  then show ?thesis
    by (auto simp: deletes_backends_def executor_client_def DeleteBackends_exec_def bind_go_Ok_iff
        api_checked_Ok_iff fun_eq_iff seen_simps drop_no_backend dest!: law split: if_splits)
qed

subsection \<open>Creation\<close>

text \<open>The defaults fill what is not requested.\<close>

lemma fillLBDefaultFileds_requested:
  assumes "fillLBDefaultFileds q inp = Ok inp'"
  shows "ci_EIPs inp' = ci_EIPs inp" "ci_LoadBalancerName inp' = ci_LoadBalancerName inp"
    "ci_PrivateIP inp' = ci_PrivateIP inp" "ci_NodeCount inp \<noteq> None \<Longrightarrow> ci_NodeCount inp' = ci_NodeCount inp"
  using assms by (auto simp: fillLBDefaultFileds_def bind_ok_Ok_iff Let_def split: if_splits)

lemma log_error_Ok: "log_error m s = (Ok (), s') \<Longrightarrow> s' = snd (m s)"
  by (auto simp: log_error_def try_go_def bind_go_Ok_iff split: prod.splits outcome.splits)

lemma CreateLB_exec_Ok:
  assumes "CreateLB_exec q b s = (Ok r, s')"
  shows "\<exists>inp out s1 i lb s2.
    ci_EIPs inp = lb_EIPs (lb_Spec b) \<and> ci_LoadBalancerName inp = lb_LoadBalancerName (lb_Spec b) \<and>
    ci_PrivateIP inp = (case lb_PrivateIPs (lb_Spec b) of [] \<Rightarrow> None | p # _ \<Rightarrow> p) \<and>
    (lb_NodeCount (lb_Spec b) \<noteq> None \<longrightarrow> ci_NodeCount inp = lb_NodeCount (lb_Spec b)) \<and>
    CreateLoadBalancer (ex_sdk q) inp s = ((Some out, None), s1) \<and> succeeded out \<and> rep_Body out = Some i \<and>
    WaitLoadBalancerStatus (ex_sdk q) i s1 = (Ok lb, s2) \<and>
    s' = snd (attachTagsToResources q [Some i] ''loadbalancer'' s2) \<and> convertLoadBalancer lb = Ok r"
proof -
  let ?inp = "\<lparr>ci_EIPs = lb_EIPs (lb_Spec b), ci_LoadBalancerName = lb_LoadBalancerName (lb_Spec b),
    ci_LoadBalancerType = lb_LoadBalancerType (lb_Spec b), ci_NodeCount = lb_NodeCount (lb_Spec b),
    ci_VxNet = lb_VxNetID (lb_Spec b), ci_SecurityGroup = lb_SecurityGroups (lb_Spec b),
    ci_PlaceGroupID = lb_PlaceGroupID (lb_Spec b),
    ci_PrivateIP = (case lb_PrivateIPs (lb_Spec b) of [] \<Rightarrow> None | p # _ \<Rightarrow> p), ci_Mode = None\<rparr>"
  obtain inp out s1 i lb s2 where
    fill: "fillLBDefaultFileds q ?inp = Ok inp"
    and rest: "CreateLoadBalancer (ex_sdk q) inp s = ((Some out, None), s1)" "succeeded out" "rep_Body out = Some i"
      "WaitLoadBalancerStatus (ex_sdk q) i s1 = (Ok lb, s2)"
      "log_error (attachTagsToResources q [Some i] ''loadbalancer'') s2 = (Ok (), s')" "convertLoadBalancer lb = Ok r"
    using assms
    by (auto simp: CreateLB_exec_def Let_def bind_go_Ok_iff api_checked_Ok_iff split: if_splits
        dest!: sym[of "Ok _" "fillLBDefaultFileds _ _"] sym[of "Ok _" "convertLoadBalancer _"] sym[of "Ok _" "deref _"])
  from fillLBDefaultFileds_requested[OF fill] rest log_error_Ok[OF rest(5)] show ?thesis
    by (intro exI[of _ inp] exI[of _ out] exI[of _ s1] exI[of _ i] exI[of _ lb] exI[of _ s2]) simp
qed

lemma executor_creates_requested:
  assumes "documented w q"
  shows "creates_requested (seen w) (executor_client q)"
  unfolding creates_requested_def
proof (intro allI impI)
  fix b n s r s'
  assume a: "cl_CreateLB (executor_client q) b s = (Ok r, s')" "lb_LoadBalancerName (lb_Spec b) = Some n"
    "length (lb_PrivateIPs (lb_Spec b)) \<le> 1" "v_named (seen w) s n = None"
  have "CreateLB_exec q b s = (Ok r, s')" using a(1) by (simp add: executor_client_def)
  from CreateLB_exec_Ok[OF this] obtain inp out s1 i lb s2 where
    inp: "ci_EIPs inp = lb_EIPs (lb_Spec b)" "ci_LoadBalancerName inp = Some n"
      "ci_PrivateIP inp = (case lb_PrivateIPs (lb_Spec b) of [] \<Rightarrow> None | p # _ \<Rightarrow> p)"
      "lb_NodeCount (lb_Spec b) \<noteq> None \<longrightarrow> ci_NodeCount inp = lb_NodeCount (lb_Spec b)"
    and create: "CreateLoadBalancer (ex_sdk q) inp s = ((Some out, None), s1)" "succeeded out" "rep_Body out = Some i"
    and wait: "WaitLoadBalancerStatus (ex_sdk q) i s1 = (Ok lb, s2)"
    and tag: "s' = snd (attachTagsToResources q [Some i] ''loadbalancer'' s2)" and conv: "convertLoadBalancer lb = Ok r"
    using a(2) by auto
  note laws = documentedD[OF assms]
  note silent = documented_silent(1)[OF assms]
  have quiet: "same_platform w s1 s'"
    unfolding tag
    by (intro keepsD[OF keeps_executor(1)[OF silent]] holds_onD[OF silentD(7)[OF silent] wait] same_platform_refl)
  have "pl_named w s n = None" using a(4) by (simp add: seen_simps)
  from laws(4)[unfolded creates_balancer_def, rule_format, OF create(1,2) inp(2) this] create(3) obtain lb0 where
    made: "pl_named w s1 n = Some (i, lb0)" "meets inp lb0" "pl_listeners w s1 i = []" by auto
  from laws(5)[unfolded waits_for_def, rule_format, OF wait made(1)] have
    lb: "sdk_LoadBalancerID lb = Some i" "attributes lb = lb0" by simp_all
  have spec: "lb_Spec r = spec_of lb0" "spec_of lb = spec_of lb0"
    using convertLoadBalancer_spec[OF conv] lb(2) attributes_simps(1)[of lb] by simp_all
  have "as_requested (lb_Spec b) (lb_Spec r)"
    using made(2) inp a(3)
    by (auto simp: as_requested_def spec spec_of_def meets_def eip_ids_def split: list.splits)
  moreover have "lb_LoadBalancerID (lb_Status r) = Some i" using convertLoadBalancer_Ok(2)[OF conv] lb(1) by simp
  moreover have "v_named (seen w) s' n = Some (i, lb_Spec r)" "v_listeners (seen w) s' i = []"
    using made quiet spec by (simp_all add: seen_simps same_platform_def)
  ultimately show "as_requested (lb_Spec b) (lb_Spec r) \<and>
      (\<exists>i. lb_LoadBalancerID (lb_Status r) = Some i \<and> v_named (seen w) s' n = Some (i, lb_Spec r) \<and>
           v_listeners (seen w) s' i = [])" by blast
qed

subsection \<open>Attributes\<close>

lemma executor_modifies:
  assumes "documented w q"
  shows "modifies (seen w) (executor_client q)"
  unfolding modifies_def
proof (intro allI impI)
  fix b s s'
  assume "cl_ModifyLB (executor_client q) b s = (Ok (), s')"
  then obtain out where m: "ModifyLoadBalancerAttributes (ex_sdk q)
      \<lparr>mi_LoadBalancer = lb_LoadBalancerID (lb_Status b), mi_NodeCount = lb_NodeCount (lb_Spec b),
       mi_PrivateIP = (case lb_PrivateIPs (lb_Spec b) of [] \<Rightarrow> None | p # _ \<Rightarrow> p)\<rparr> s = ((Some out, None), s')"
    "succeeded out"
    by (auto simp: executor_client_def ModifyLB_exec_def bind_go_Ok_iff api_checked_Ok_iff)
  note law = documentedD(12)[OF assms, unfolded modifies_balancer_def, THEN conjunct1, rule_format, OF m]
  from law show "v_listeners (seen w) s' = v_listeners (seen w) s \<and>
      (\<forall>i. lb_LoadBalancerID (lb_Status b) = Some i \<longrightarrow>
         modified (lb_Spec b) (v_attributes (seen w) s i) (v_attributes (seen w) s' i))"
    by (auto simp: seen_simps fun_eq_iff modified_def Let_def)
qed

lemma executor_keeps_attributes:
  assumes "documented w q"
  shows "keeps_attributes (seen w) (executor_client q)"
proof -
  note keeps = keeps_executor[OF documented_silent(1)[OF assms]]
  note quiet = keeps_same_platformD(1)[OF keeps(2)] keeps_same_platformD(1)[OF keeps(5)]
    keeps_same_platformD(1)[OF keeps(6)]
  note laws = documentedD(12)[OF assms, unfolded modifies_balancer_def, THEN conjunct2]
  let ?I = "\<lambda>s s'. pl_attributes w s' = pl_attributes w s"
  have calls: "keeps (?I s) (api_checked t c (AddLoadBalancerListeners (ex_sdk q) x1))"
    "keeps (?I s) (api_checked t c (DeleteLoadBalancerListeners (ex_sdk q) x2))"
    "keeps (?I s) (api_checked t c (AddLoadBalancerBackends (ex_sdk q) x3))"
    "keeps (?I s) (api_checked t c (DeleteLoadBalancerBackends (ex_sdk q) x4))" for s t c x1 x2 x3 x4
    using laws by (auto intro!: keeps_api_call(2) unchanged_holds)
  have list: "keeps (?I s) (GetListeners_exec q is)" for s "is"
    using quiet(3) unfolding leaves_iff_keeps by blast
  have "leaves (pl_attributes w) (CreateListener_exec q gs)" for gs
    unfolding CreateListener_exec_def leaves_iff_keeps by (intro allI keeps_intros calls(1) list)
  moreover have "leaves (pl_attributes w) (DeleteListener_exec q is)"
    "leaves (pl_attributes w) (CreateBackends_exec q bs)" "leaves (pl_attributes w) (DeleteBackends_exec q is)" for "is" bs
    unfolding DeleteListener_exec_def CreateBackends_exec_def DeleteBackends_exec_def leaves_iff_keeps
    by (intro allI keeps_intros calls(2,3,4))+
  ultimately show ?thesis
    using quiet by (simp add: keeps_attributes_def executor_client_def seen_simps)
qed

subsection \<open>Allocated EIPs\<close>

text \<open>The EIPs that a description calls created are those of its EIPs that bear the controller's name.\<close>

lemma eip_vips_created:
  assumes "eip_vips es = Ok (vips, created)"
    and "\<And>eip j. eip \<in> set es \<Longrightarrow> sdk_EIPID eip = Some j \<Longrightarrow> j \<noteq> [] \<Longrightarrow>
      sdk_EIPName eip = Some AllocateEIPName \<longleftrightarrow> m j"
  shows "created = filter (\<lambda>i. case i of None \<Rightarrow> False | Some j \<Rightarrow> m j)
    (filter (\<lambda>i. i \<noteq> None \<and> i \<noteq> Some []) (map sdk_EIPID es))"
  using assms
proof (induction es arbitrary: vips created)
  case (Cons eip es)
  show ?case
  proof (cases "sdk_EIPID eip = None \<or> sdk_EIPID eip = Some []")
    case True
    with Cons.prems Cons.IH show ?thesis by auto
  next
    case False
    then obtain j where j: "sdk_EIPID eip = Some j" "j \<noteq> []" by auto
    with Cons.prems(1) obtain name vips' created' where
      "sdk_EIPName eip = Some name" "eip_vips es = Ok (vips', created')"
      "created = (if name = AllocateEIPName then Some j # created' else created')"
      by (auto simp: bind_ok_Ok_iff)
    with Cons.IH[OF this(2)] Cons.prems(2) j show ?thesis by force
  qed
qed simp

lemma described_created:
  assumes "described w s i lb" and "convertLoadBalancer lb = Ok b"
  shows "lb_CreatedEIPs (lb_Status b) = filter (allocated (seen w) s) (lb_EIPs (lb_Spec b))"
proof -
  obtain vips where "eip_vips (sdk_Cluster lb) = Ok (vips, lb_CreatedEIPs (lb_Status b))"
    using assms(2) by (auto simp: convertLoadBalancer_def convertLoadBalancerStatus_def bind_ok_Ok_iff)
  from eip_vips_created[OF this, of "pl_allocated w s"] assms(1)
  have "lb_CreatedEIPs (lb_Status b) = filter (\<lambda>i. case i of None \<Rightarrow> False | Some j \<Rightarrow> pl_allocated w s j) (eip_ids lb)"
    by (simp add: described_def eip_ids_def)
  moreover have "allocated (seen w) s = (\<lambda>i. case i of None \<Rightarrow> False | Some j \<Rightarrow> pl_allocated w s j)"
    by (simp add: allocated_def seen_simps fun_eq_iff split: option.split)
  ultimately show ?thesis by (simp add: convertLoadBalancer_spec[OF assms(2)] spec_of_def)
qed

lemma try_go_Inr_iff: "try_go m s = (Ok (Inr x), s') \<longleftrightarrow> m s = (Ok x, s')"
  by (auto simp: try_go_def split: prod.splits outcome.splits)

lemma executor_allocates:
  assumes "documented w q" and "AllocateEIP_exec q None s = (Ok eip, s')"
  shows "allocated (seen w) s' (eip_EIPID (eip_Status eip))"
proof -
  let ?inp = "\<lparr>al_Bandwidth = Some DefaultBandWidth, al_EIPName = Some AllocateEIPName\<rparr>"
  obtain out i s1 s2 where a: "AllocateEIPs (ex_sdk q) ?inp s = ((Some out, None), s1)" "succeeded out"
    "first_ok (rep_Body out) = Ok (Some i)" "eip_EIPID (eip_Status eip) = Some i"
    and w: "waitEIPStatus q i EIPStatusAvailable s1 = (Ok (), s2)"
    and t: "s' = snd (attachTagsToResources q [Some i] EIPTagResourceType s2)"
    using assms(2)
    by (auto simp: AllocateEIP_exec_def fillEIPDefaultFileds_def bind_go_Ok_iff api_checked_Ok_iff try_go_Inr_iff
        split: sum.splits dest!: sym[of "Ok _" "first_ok _"] sym[of "Ok _" "deref _"]
        log_error_Ok) (metis sumE unit.exhaust)
  from a(3) obtain "is" where "rep_Body out = Some i # is" by (auto simp: first_ok_def split: list.splits)
  with documentedD(11)[OF assms(1), unfolded names_eips_def, THEN conjunct1, rule_format, OF a(1,2)]
  have "pl_allocated w s1 i" by simp
  moreover note keeps = keeps_executor[OF documented_silent(2)[OF assms(1)]]
  have "pl_allocated w s2 = pl_allocated w s1" using keepsD'[OF keeps(7) w] by simp
  moreover have "pl_allocated w s' = pl_allocated w s2" using keepsD[OF keeps(1)] by (simp add: t)
  ultimately show ?thesis by (simp add: a(4) allocated_def seen_simps)
qed

lemma executor_marks_eips:
  assumes "documented w q"
  shows "marks_eips (seen w) (executor_client q)"
proof -
  note keeps = keeps_executor[OF documented_silent(2)[OF assms]]
  note laws = documentedD(11)[OF assms, unfolded names_eips_def, THEN conjunct2]
  let ?I = "\<lambda>s s'. pl_allocated w s' = pl_allocated w s"
  have calls: "keeps (?I s) (api_checked t c (CreateLoadBalancer (ex_sdk q) x1))"
    "keeps (?I s) (api_checked t c (AddLoadBalancerListeners (ex_sdk q) x2))"
    "keeps (?I s) (api_checked t c (AddLoadBalancerBackends (ex_sdk q) x3))" for s t c x1 x2 x3
    using laws by (auto intro!: keeps_api_call(2) unchanged_holds)
  have wait: "keeps (?I s) (WaitLoadBalancerStatus (ex_sdk q) i)" for s i
    by (rule keeps_calls(12)[OF documented_silent(2)[OF assms]])
  have "leaves (pl_allocated w) (CreateLB_exec q b)" for b
    unfolding CreateLB_exec_def log_error_def leaves_iff_keeps by (intro allI keeps_intros calls(1) wait keeps(1))
  moreover have "leaves (pl_allocated w) (CreateListener_exec q gs)" "leaves (pl_allocated w) (CreateBackends_exec q bs)"
    for gs bs
    unfolding CreateListener_exec_def CreateBackends_exec_def leaves_iff_keeps
    by (intro allI keeps_intros calls(2,3) keeps(6))+
  moreover have "lb_CreatedEIPs (lb_Status b) = filter (allocated (seen w) s) (lb_EIPs (lb_Spec b))"
    if get: "GetLoadBalancerByName_exec q n s = (Ok b, s')" for n s b s'
  proof -
    obtain r s1 where d: "DescribeLoadBalancers (ex_sdk q) (by_name_request q n) s = (r, s1)" by (metis surj_pair)
    with get have "lookup_result n ''get lb by name error, err='' (find (\<lambda>lb. sdk_LoadBalancerName lb = Some n)) r = Ok b"
      by (simp add: GetLoadBalancerByName_exec_eq)
    from lookup_result_Ok[OF this] obtain out lb where
      lb: "r = (Some out, None)" "find (\<lambda>lb. sdk_LoadBalancerName lb = Some n) (rep_Body out) = Some lb"
        "convertLoadBalancer lb = Ok b" by blast
    from documentedD(2)[OF assms, unfolded finds_named_def, rule_format, OF d] lb(1,2)
    show ?thesis using described_created[OF _ lb(3)] by auto
  qed
  ultimately show ?thesis
    using keeps(2,3,4) executor_allocates[OF assms]
    by (auto simp: marks_eips_def executor_client_def seen_simps(4) leaves_iff_keeps)
qed

subsection \<open>The refinement\<close>

text \<open>
  C3: The executor keeps the promises on which the provider relies: on an SDK whose calls do what the
  platform documents, the client made of the executor remembers what it is sent, supports repairs,
  shows load balancers by their ids and tells the EIPs it allocated from those it was given, where the
  state is what the API shows of it, converted.
\<close>
theorem executor_keeps_promises:
  assumes "documented w q"
  shows "remembers (seen w) (executor_client q) \<and> repairs (seen w) (executor_client q) \<and>
    shows_id (seen w) (executor_client q) \<and> marks_eips (seen w) (executor_client q)"
  using executor_shows_named[OF assms] executor_creates_requested[OF assms] executor_stores_listeners[OF assms]
    executor_stores_backends[OF assms] executor_leaves_view[OF assms] executor_lists_some[OF assms]
    executor_deletes_listeners[OF assms] executor_deletes_backends[OF assms] executor_numbers_backends[OF assms]
    executor_shows_id[OF assms] executor_modifies[OF assms] executor_keeps_attributes[OF assms]
    executor_marks_eips[OF assms]
  by (simp add: remembers_def repairs_def)

subsection \<open>A platform\<close>

text \<open>
  A platform with room for one load balancer, \<open>lb-1\<close>, whose calls do what is documented. It numbers
  listeners and backends in unary and refuses a request that would repeat an id.
\<close>

record bench =
  bn_lb :: "sdk_LoadBalancer option"
  bn_ls :: "sdk_Listener list"
  bn_next :: nat

text \<open>It allocates one EIP, \<open>eip-9\<close>.\<close>

definition bench_eip_name :: "string option \<Rightarrow> string" where
  "bench_eip_name i = (if i = Some ''eip-9'' then AllocateEIPName else ''web'')"

definition bench_lb :: "sdk_Listener list \<Rightarrow> sdk_LoadBalancer \<Rightarrow> sdk_LoadBalancer" where
  "bench_lb ls lb = lb\<lparr>sdk_LoadBalancerID := Some ''lb-1'', sdk_Listeners := ls,
     sdk_Cluster := map (\<lambda>e. e\<lparr>sdk_EIPName := Some (bench_eip_name (sdk_EIPID e))\<rparr>) (sdk_Cluster lb)\<rparr>"

definition bench_platform :: "bench platform" where
  "bench_platform =
     \<lparr>pl_named = (\<lambda>s n. case bn_lb s of None \<Rightarrow> None
        | Some lb \<Rightarrow> if sdk_LoadBalancerName lb = Some n then Some (''lb-1'', bench_lb [] lb) else None),
      pl_listeners = (\<lambda>s i. if i = ''lb-1'' then bn_ls s else []),
      pl_attributes = (\<lambda>s i. case bn_lb s of None \<Rightarrow> (None, []) | Some lb \<Rightarrow> (sdk_NodeCount lb, sdk_PrivateIPs lb)),
      pl_allocated = (\<lambda>s i. i = ''eip-9'')\<rparr>"

definition refused :: "('s, 'p) api" where
  "refused s = ((None, Some (ForeignError ''refused'')), s)"

definition bench_describe :: "DescribeLoadBalancersInput \<Rightarrow> (bench, sdk_LoadBalancer list) api" where
  "bench_describe inp s =
     (let lbs = (case bn_lb s of None \<Rightarrow> [] | Some lb \<Rightarrow> [bench_lb (bn_ls s) lb])
      in case dl_SearchWord inp of
           Some n \<Rightarrow> replies (filter (\<lambda>lb. sdk_LoadBalancerName lb = Some n) lbs) s
         | None \<Rightarrow> replies (if dl_LoadBalancers inp = [Some ''lb-1''] then lbs else []) s)"

definition bench_eip :: "string option \<Rightarrow> sdk_EIP" where
  "bench_eip i =
     \<lparr>sdk_EIPID = i, sdk_EIPAddr = Some ''1.2.3.4'', sdk_EIPName = Some (bench_eip_name i), sdk_Bandwidth = Some 2,
      sdk_EIPStatus = Some ''associated'', sdk_AssociateMode = Some 0\<rparr>"

definition bench_create :: "CreateLoadBalancerInput \<Rightarrow> (bench, string option) api" where
  "bench_create inp s =
     (if None \<in> set (ci_EIPs inp) \<or> Some [] \<in> set (ci_EIPs inp) then refused s
      else let lb = \<lparr>sdk_LoadBalancerID = Some ''lb-1'', sdk_LoadBalancerName = ci_LoadBalancerName inp,
                     sdk_LoadBalancerType = ci_LoadBalancerType inp, sdk_NodeCount = ci_NodeCount inp,
                     sdk_VxNetID = ci_VxNet inp,
                     sdk_PrivateIPs = (case ci_PrivateIP inp of None \<Rightarrow> [] | Some ip \<Rightarrow> [Some ip]),
                     sdk_SecurityGroupID = ci_SecurityGroup inp, sdk_Cluster = map bench_eip (ci_EIPs inp),
                     sdk_Listeners = []\<rparr>
        in replies (Some ''lb-1'') \<lparr>bn_lb = Some lb, bn_ls = [], bn_next = bn_next s\<rparr>)"

definition bench_wait :: "string \<Rightarrow> (bench, sdk_LoadBalancer) go" where
  "bench_wait i s =
     (case bn_lb s of
        Some lb \<Rightarrow> if i = ''lb-1'' then (Ok (bench_lb (bn_ls s) lb), s) else (Err (Errorf ''timeout''), s)
      | None \<Rightarrow> (Err (Errorf ''timeout''), s))"

definition bench_listen :: "AddLoadBalancerListenersInput \<Rightarrow> (bench, string option list) api" where
  "bench_listen inp s =
     (let new = map2 (\<lambda>k g. g\<lparr>sdk_ListenerID := unary k, sdk_ListenerLBID := ai_LoadBalancer inp, sdk_Backends := []\<rparr>)
            [bn_next s..<bn_next s + length (ai_Listeners inp)] (ai_Listeners inp)
      in if ai_LoadBalancer inp = Some ''lb-1'' \<and> distinct (map sdk_ListenerID (bn_ls s @ new))
         then replies (map sdk_ListenerID new)
                (s\<lparr>bn_ls := bn_ls s @ new, bn_next := bn_next s + length new\<rparr>)
         else refused s)"

definition bench_backends :: "AddLoadBalancerBackendsInput \<Rightarrow> (bench, string option list) api" where
  "bench_backends inp s =
     (case bi_LoadBalancerListener inp of
        None \<Rightarrow> refused s
      | Some j \<Rightarrow>
          let new = map2 (\<lambda>k b. b\<lparr>sdk_BackendID := unary k\<rparr>)
                [bn_next s..<bn_next s + length (bi_Backends inp)] (bi_Backends inp);
              ls = map (sdk_put_backends j new) (bn_ls s)
          in if sdk_numbered ls
             then replies (map sdk_BackendID new) (s\<lparr>bn_ls := ls, bn_next := bn_next s + length new\<rparr>)
             else refused s)"

definition bench_modify :: "ModifyLoadBalancerAttributesInput \<Rightarrow> (bench, unit) api" where
  "bench_modify inp s =
     (case bn_lb s of
        None \<Rightarrow> refused s
      | Some lb \<Rightarrow>
          replies () (s\<lparr>bn_lb := Some (lb
            \<lparr>sdk_NodeCount := (if mi_NodeCount inp = None then sdk_NodeCount lb else mi_NodeCount inp),
             sdk_PrivateIPs := (if mi_PrivateIP inp = None then sdk_PrivateIPs lb else [mi_PrivateIP inp])\<rparr>)\<rparr>))"

definition bench_sdk :: "bench sdk" where
  "bench_sdk =
     \<lparr>DescribeLoadBalancers = bench_describe,
      CreateLoadBalancer = bench_create,
      ModifyLoadBalancerAttributes = bench_modify,
      UpdateLoadBalancers = (\<lambda>i. replies ()),
      DeleteLoadBalancers = (\<lambda>i s. replies () (s\<lparr>bn_lb := None, bn_ls := []\<rparr>)),
      AssociateEIPsToLoadBalancer = (\<lambda>es i. replies ()),
      DissociateEIPsFromLoadBalancer = (\<lambda>es i. replies ()),
      AddLoadBalancerBackends = bench_backends,
      DeleteLoadBalancerBackends = (\<lambda>is s. replies () (s\<lparr>bn_ls := map (sdk_drop_backends is) (bn_ls s)\<rparr>)),
      DescribeLoadBalancerListeners = (\<lambda>inp s.
        replies (filter (\<lambda>l. sdk_ListenerID l \<in> set (li_LoadBalancerListeners inp)) (bn_ls s)) s),
      AddLoadBalancerListeners = bench_listen,
      DeleteLoadBalancerListeners = (\<lambda>is s.
        replies () (s\<lparr>bn_ls := filter (\<lambda>l. sdk_ListenerID l \<notin> set is) (bn_ls s)\<rparr>)),
      DescribeEIPs = (\<lambda>i. replies [bench_eip (Some ''eip-9'')]),
      AllocateEIPs = (\<lambda>i. replies [Some ''eip-9'']),
      ReleaseEIPs = (\<lambda>i. replies ()),
      DescribeSecurityGroups = (\<lambda>n u. replies [sample_sg]),
      sdk_CreateSecurityGroup = (\<lambda>n. replies (Some ''sg-1'')),
      AddSecurityGroupRules = (\<lambda>g r. replies []),
      ApplySecurityGroup = (\<lambda>g. replies ()),
      DeleteSecurityGroups = (\<lambda>g. replies ()),
      AttachTags = (\<lambda>p. replies ()),
      DescribeInstances = (\<lambda>i. replies []),
      DescribeAccessKeys = (\<lambda>k. replies [Some ''usr-1'']),
      WaitJob = (\<lambda>j. ret ()),
      WaitLoadBalancerStatus = bench_wait,
      WaitForSpecificOrError = poll_once,
      Poll = poll_once\<rparr>"

definition bench_q :: "bench QingCloudClient" where
  "bench_q =
     \<lparr>ex_sdk = bench_sdk,
      ex_Config = \<lparr>cc_IsAPP = False, cc_UserID = ''usr-1'', cc_TagIDs = [''tag-1'']\<rparr>,
      ex_sg = Some (convertSecurityGroup sample_sg)\<rparr>"

lemma snd_replies [simp]: "snd (replies x s) = s"
  by (simp add: replies_def)

lemma replies_Some: "replies x s = ((Some out, None), s') \<longleftrightarrow> out = sample_reply x \<and> s' = s"
  by (auto simp: replies_def)

lemma refused_Some [simp]: "refused s \<noteq> ((Some out, None), s')" "snd (refused s) = s"
  by (simp_all add: refused_def)

lemma bench_silent: "silent I bench_sdk"
proof -
  have "keeps I (poll_once m)" if "keeps I m" for m
    using that by (auto simp: keeps_def poll_once_def split: prod.splits outcome.splits bool.splits)
  then show ?thesis
    by (auto simp: silent_def holds_on_def bench_sdk_def bench_describe_def bench_wait_def Let_def ret_def
        split: option.splits)
qed

lemma bench_quiet: "quiet_calls bench_platform bench_sdk"
  by (simp add: quiet_calls_def bench_silent) (simp add: holds_on_def bench_sdk_def)

lemma bench_names: "names_eips bench_platform bench_sdk"
  by (auto simp: names_eips_def unchanged_def bench_sdk_def bench_platform_def replies_Some sample_reply_def)

lemma bench_modifies: "modifies_balancer bench_platform bench_sdk"
  by (auto simp: modifies_balancer_def unchanged_def bench_sdk_def bench_platform_def bench_modify_def
      bench_listen_def bench_backends_def replies_Some Let_def split: option.splits)

lemma bench_lb_simps [simp]:
  "sdk_LoadBalancerID (bench_lb ls lb) = Some ''lb-1''" "sdk_LoadBalancerName (bench_lb ls lb) = sdk_LoadBalancerName lb"
  "sdk_Listeners (bench_lb ls lb) = ls" "attributes (bench_lb ls lb) = bench_lb [] lb"
  "sdk_NodeCount (bench_lb ls lb) = sdk_NodeCount lb" "sdk_PrivateIPs (bench_lb ls lb) = sdk_PrivateIPs lb"
  "eip_ids (bench_lb ls lb) = eip_ids lb"
  by (simp_all add: bench_lb_def attributes_def eip_ids_def comp_def)

lemma bench_platform_named:
  "pl_named bench_platform s n =
     (case bn_lb s of None \<Rightarrow> None
      | Some lb \<Rightarrow> if sdk_LoadBalancerName lb = Some n then Some (''lb-1'', bench_lb [] lb) else None)"
  by (simp add: bench_platform_def)

lemma bench_described:
  "bn_lb s = Some lb \<Longrightarrow> described bench_platform s ''lb-1'' (bench_lb (bn_ls s) lb)"
  by (auto simp: described_def bench_platform_def bench_lb_def bench_eip_name_def AllocateEIPName_def)

lemma bench_finds: "finds_named bench_platform bench_q" "finds_id bench_platform bench_sdk"
proof -
  show "finds_named bench_platform bench_q"
    by (auto simp: finds_named_def bench_q_def bench_sdk_def bench_describe_def by_name_request_def Let_def
        replies_def sample_reply_def bench_described bench_platform_named split: option.splits if_splits)
  show "finds_id bench_platform bench_sdk"
    by (auto simp: finds_id_def bench_sdk_def bench_describe_def by_id_request_def Let_def
        replies_def sample_reply_def bench_described bench_platform_named split: option.splits if_splits)
qed

lemma bench_creates: "creates_balancer bench_platform bench_sdk" "waits_for bench_platform bench_sdk"
proof -
  have ids: "\<exists>y. x = Some y" if "None \<notin> X" "x \<in> X" for x and X :: "string option set"
    using that by (cases x) auto
  have "sdk_EIPID (bench_eip i) = i" for i by (simp add: bench_eip_def)
  with ids show "creates_balancer bench_platform bench_sdk"
    by (auto simp: creates_balancer_def bench_sdk_def bench_create_def Let_def replies_Some sample_reply_def
        bench_platform_def meets_def eip_ids_def bench_lb_def image_image comp_def
        split: if_splits option.splits)
  show "waits_for bench_platform bench_sdk"
    by (auto simp: waits_for_def bench_sdk_def bench_wait_def bench_platform_def split: if_splits option.splits)
qed

lemma bench_lists: "describes_listeners bench_platform bench_sdk" "removes_listeners bench_platform bench_sdk"
  by (auto simp: describes_listeners_def removes_listeners_def bench_sdk_def replies_Some sample_reply_def
      bench_platform_def filter_by_ids simp del: set_filter split: if_splits)

lemma bench_listens: "adds_listeners bench_platform bench_sdk"
proof -
  let ?new = "\<lambda>b k gs. map2 (\<lambda>k g. g\<lparr>sdk_ListenerID := unary k, sdk_ListenerLBID := b, sdk_Backends := []\<rparr>)
    [k..<k + length gs] gs"
  have new: "list_all2 (\<lambda>g l. bare_listener l = bare_listener g \<and> sdk_ListenerID l \<noteq> None \<and> sdk_Backends l = [])
      gs (?new b k gs)" for gs b k
    by (auto simp: list_all2_conv_all_nth bare_listener_def unary_def)
  show ?thesis
    unfolding adds_listeners_def
  proof (intro allI impI)
    fix inp i s out s'
    assume "AddLoadBalancerListeners bench_sdk inp s = ((Some out, None), s')" and i: "ai_LoadBalancer inp = Some i"
    then have "i = ''lb-1''" "rep_Body out = map sdk_ListenerID (?new (Some i) (bn_next s) (ai_Listeners inp))"
      "bn_lb s' = bn_lb s" "bn_ls s' = bn_ls s @ ?new (Some i) (bn_next s) (ai_Listeners inp)"
      "distinct (map sdk_ListenerID (bn_ls s'))"
      by (auto simp: bench_sdk_def bench_listen_def Let_def replies_Some sample_reply_def
          simp del: map_map map_append distinct_append split: if_splits)
    with new show "\<exists>new. list_all2 (\<lambda>g l. bare_listener l = bare_listener g \<and> sdk_ListenerID l \<noteq> None \<and>
          sdk_Backends l = []) (ai_Listeners inp) new \<and>
        rep_Body out = map sdk_ListenerID new \<and> pl_named bench_platform s' = pl_named bench_platform s \<and>
        pl_listeners bench_platform s' i = pl_listeners bench_platform s i @ new \<and>
        distinct (map sdk_ListenerID (pl_listeners bench_platform s' i))"
      by (intro exI[of _ "?new (Some i) (bn_next s) (ai_Listeners inp)"])
        (simp add: bench_platform_def del: map_map map_append distinct_append)
  qed
qed

lemma bench_serves: "adds_backends bench_platform bench_sdk" "removes_backends bench_platform bench_sdk"
proof -
  let ?new = "\<lambda>k bs. map2 (\<lambda>k b. b\<lparr>sdk_BackendID := unary k\<rparr>) [k..<k + length bs] bs"
  have new: "list_all2 (\<lambda>b b'. sdk_BackendName b' = sdk_BackendName b \<and> sdk_BackendPort b' = sdk_BackendPort b)
      bs (?new k bs)" for bs k
    by (auto simp: list_all2_conv_all_nth)
  show "adds_backends bench_platform bench_sdk"
    unfolding adds_backends_def
  proof (intro allI impI conjI)
    fix inp s out s'
    assume "AddLoadBalancerBackends bench_sdk inp s = ((Some out, None), s')"
    then obtain j where j: "bi_LoadBalancerListener inp = Some j"
      and s': "s' = s\<lparr>bn_ls := map (sdk_put_backends j (?new (bn_next s) (bi_Backends inp))) (bn_ls s),
          bn_next := bn_next s + length (bi_Backends inp)\<rparr>"
        "sdk_numbered (bn_ls s')"
      by (auto simp: bench_sdk_def bench_backends_def Let_def replies_Some simp del: map_map
          split: option.splits if_splits)
    show "sdk_numbered (pl_listeners bench_platform s' i)" for i
      using s'(2) by (simp add: bench_platform_def sdk_numbered_def)
    fix j' assume "bi_LoadBalancerListener inp = Some j'"
    with j s'(1) new show "\<exists>new. list_all2 (\<lambda>b b'. sdk_BackendName b' = sdk_BackendName b \<and>
          sdk_BackendPort b' = sdk_BackendPort b) (bi_Backends inp) new \<and>
        pl_named bench_platform s' = pl_named bench_platform s \<and>
        pl_listeners bench_platform s' = (\<lambda>i. map (sdk_put_backends j' new) (pl_listeners bench_platform s i))"
      by (intro exI[of _ "?new (bn_next s) (bi_Backends inp)"]) (auto simp: bench_platform_def simp del: map_map)
  qed
  show "removes_backends bench_platform bench_sdk"
    by (auto simp: removes_backends_def bench_sdk_def replies_Some bench_platform_def)
qed

lemma bench_documented: "documented bench_platform bench_q"
proof -
  have "ex_sdk bench_q = bench_sdk" by (simp add: bench_q_def)
  then show ?thesis
    using bench_quiet bench_finds bench_creates bench_lists bench_listens bench_serves bench_names bench_modifies
    by (simp add: documented_def)
qed

theorem executor_keeps_promises_witness:
  "remembers (seen bench_platform) (executor_client bench_q) \<and>
   repairs (seen bench_platform) (executor_client bench_q) \<and>
   shows_id (seen bench_platform) (executor_client bench_q) \<and>
   marks_eips (seen bench_platform) (executor_client bench_q)"
  by (rule executor_keeps_promises[OF bench_documented])


end
