(* ===== verification/Controllers.thy ===== *)
theory Controllers
  imports Handlers
begin

text \<open>
  \<open>pkg/controllers\<close>: the three controllers that call the provider when node labels,
  endpoints or service types change, and one turn of their workers. The informer
  caches are parameters (a lister returns a list or an error), the work queue is a record of its
  operations, and the load balancer interface of the cloud provider is a record of the two calls
  the controllers make. The locale \<open>lb_provider\<close> is the part of its contract that they pass on.

  Shown: when a service or node change leads to work, which services are updated with which nodes,
  that a failed item is retried, and that a change of the service type is cleaned up exactly when
  the ordinary deletion would look at another load balancer.
\<close>

text \<open>\<open>lbInterface\<close> of \<open>k8s.io/cloud-provider\<close>.\<close>

record 'w lb_interface =
  lbi_UpdateLoadBalancer :: "Service \<Rightarrow> Node list \<Rightarrow> ('w, unit) go"
  lbi_EnsureLoadBalancerDeleted :: "Service \<Rightarrow> ('w, unit) go"

text \<open>\<open>LoadBalancer()\<close> of the provider.\<close>

definition LoadBalancer_v1 :: "'s QingCloud \<Rightarrow> 's world lb_interface" where
  "LoadBalancer_v1 qc =
     \<lparr>lbi_UpdateLoadBalancer = UpdateLoadBalancer qc,
      lbi_EnsureLoadBalancerDeleted = EnsureLoadBalancerDeleted qc\<rparr>"

subsection \<open>The work queue\<close>

text \<open>\<open>workqueue.RateLimitingInterface\<close>; \<open>Get\<close> returns nothing when the queue is shut down.\<close>

record ('w, 'k) workqueue =
  wq_Add :: "'k \<Rightarrow> ('w, unit) go"
  wq_Get :: "('w, 'k option) go"
  wq_Done :: "'k \<Rightarrow> ('w, unit) go"
  wq_Forget :: "'k \<Rightarrow> ('w, unit) go"
  wq_AddRateLimited :: "'k \<Rightarrow> ('w, unit) go"
  wq_ShutDown :: "('w, unit) go"

text \<open>An object of the informers behind an \<open>interface{}\<close>; \<open>OtherObject\<close> is of any other type.\<close>

datatype api_object =
    NodeObject Node
  | ServiceObject Service
  | EndpointsObject string string Endpoints
  | OtherObject string

text \<open>\<open>defer d()\<close>: runs however the body ends.\<close>

definition deferred :: "('w, unit) go \<Rightarrow> ('w, 'a) go \<Rightarrow> ('w, 'a) go" where
  [go_defs]: "deferred d m s =
     (case m s of
        (Diverge, s') \<Rightarrow> (Diverge, s')
      | (r, s') \<Rightarrow>
          (case d s' of
             (Ok _, s'') \<Rightarrow> (r, s'')
           | (Err e, s'') \<Rightarrow> (Err e, s'')
           | (Panic, s'') \<Rightarrow> (Panic, s'')
           | (Diverge, s'') \<Rightarrow> (Diverge, s'')))"

definition process_item ::
  "('w, 'k) workqueue \<Rightarrow> ('k \<Rightarrow> ('w, unit) go) \<Rightarrow> ('w, bool) go" where
  "process_item q handle =
     bind_go (wq_Get q) (\<lambda>item.
     case item of
       None \<Rightarrow> ret False
     | Some key \<Rightarrow>
         deferred (wq_Done q key)
           (bind_go (try_go (handle key)) (\<lambda>r.
            case r of
              Inr _ \<Rightarrow> bind_go (wq_Forget q key) (\<lambda>_. ret True)
            | Inl e \<Rightarrow> bind_go (wq_AddRateLimited q key) (\<lambda>_. ret True))))"

subsection \<open>Nodes\<close>

fun ready_conditions :: "NodeCondition list \<Rightarrow> bool" where
  "ready_conditions [] = True"
| "ready_conditions (cond # conds) =
     (if cond_Type cond = NodeReady \<and> cond_Status cond \<noteq> ConditionTrue then False
      else ready_conditions conds)"

definition NodeConditionCheck :: "Node \<Rightarrow> bool" where
  "NodeConditionCheck node =
     (if map_of (node_Labels node) LabelNodeExcludeBalancers \<noteq> None then False
      else if length (node_Conditions node) = 0 then False
      else ready_conditions (node_Conditions node))"

fun labels_differ :: "(string, string) gomap \<Rightarrow> (string, string) gomap \<Rightarrow> bool" where
  "labels_differ old [] = False"
| "labels_differ old ((k, v) # new) =
     (if map_of old k \<noteq> Some v then True else labels_differ old new)"

definition needsUpdate :: "Node \<Rightarrow> Node \<Rightarrow> bool" where
  "needsUpdate old new =
     (if length (node_Labels old) \<noteq> length (node_Labels new) then True
      else labels_differ (node_Labels old) (node_Labels new))"

subsection \<open>The node controller\<close>

record 'w ClusterNodeController =
  cnc_lb :: "'w lb_interface"
  cnc_services :: "Service list outcome"
  cnc_nodes :: "Node list outcome"
  cnc_queue :: "('w, string) workqueue"

definition update_labelled_service ::
  "'w lb_interface \<Rightarrow> Node list \<Rightarrow> unit \<Rightarrow> Service \<Rightarrow> ('w, unit) go" where
  "update_labelled_service lb nodes u svc =
     (if map_of (annotations svc) ServiceAnnotationBackendLabel \<noteq> None \<and>
         svc_Type svc = ServiceTypeLoadBalancer \<and>
         svc_ExternalTrafficPolicy svc = TrafficPolicyCluster
      then wrap_go ''update loadbalancer for service '' (lbi_UpdateLoadBalancer lb svc nodes)
      else ret ())"

definition handleNodesUpdate :: "'w ClusterNodeController \<Rightarrow> string \<Rightarrow> ('w, unit) go" where
  "handleNodesUpdate cnc key =
     bind_go (wrap_go ''get node list error: '' (lift (cnc_nodes cnc))) (\<lambda>nodeList.
     let nodes = filter NodeConditionCheck nodeList in
     bind_go (wrap_go ''list service  error: '' (lift (cnc_services cnc))) (\<lambda>svcs.
     fold_go (update_labelled_service (cnc_lb cnc) nodes) () svcs))"

definition processNextNode :: "'w ClusterNodeController \<Rightarrow> ('w, bool) go" where
  "processNextNode cnc = process_item (cnc_queue cnc) (handleNodesUpdate cnc)"

subsection \<open>The endpoint controller\<close>

text \<open>
  The service lister's result: \<open>Ok None\<close> is its not-found error. Splitting the key belongs to
  \<open>client-go\<close>.
\<close>

record 'w EndpointController =
  epc_lb :: "'w lb_interface"
  epc_split :: "string \<Rightarrow> (string \<times> string) outcome"
  epc_service :: "string \<Rightarrow> string \<Rightarrow> Service option outcome"
  epc_nodes :: "Node list outcome"
  epc_queue :: "('w, string) workqueue"

definition handleEndpointsUpdate :: "'w EndpointController \<Rightarrow> string \<Rightarrow> ('w, unit) go" where
  "handleEndpointsUpdate epc key =
     bind_go (lift (epc_split epc key)) (\<lambda>(namespace, name).
     bind_go (wrap_go ''get service '' (lift (epc_service epc namespace name))) (\<lambda>service.
     case service of
       None \<Rightarrow> ret ()
     | Some svc \<Rightarrow>
         if svc_Type svc \<noteq> ServiceTypeLoadBalancer \<or>
            svc_ExternalTrafficPolicy svc \<noteq> TrafficPolicyLocal
         then ret ()
         else
           bind_go (wrap_go ''get node list error: '' (lift (epc_nodes epc))) (\<lambda>nodeList.
           let nodes = filter NodeConditionCheck nodeList in
           wrap_go ''update loadbalancer for service '' (lbi_UpdateLoadBalancer (epc_lb epc) svc nodes))))"

definition processNextEndpoint :: "'w EndpointController \<Rightarrow> ('w, bool) go" where
  "processNextEndpoint epc = process_item (epc_queue epc) (handleEndpointsUpdate epc)"

subsection \<open>The service controller\<close>

text \<open>The new service is returned because its nil annotations are replaced in place.\<close>

definition needClean :: "Service \<Rightarrow> Service \<Rightarrow> bool \<times> Service" where
  "needClean old new =
     (if svc_Type old = ServiceTypeLoadBalancer then
        (if length (annotations old) = 0 then (False, new)
         else
           let new = (if svc_Annotations new = None then new\<lparr>svc_Annotations := Some []\<rparr> else new) in
           if svc_Type new = ServiceTypeLoadBalancer then (False, new)
           else
             let oldStrategy = index_str (annotations old) ServiceAnnotationLoadBalancerPolicy;
                 oldLBID = index_str (annotations old) ServiceAnnotationLoadBalancerID;
                 newStrategy = index_str (annotations new) ServiceAnnotationLoadBalancerPolicy;
                 newLBID = index_str (annotations new) ServiceAnnotationLoadBalancerID
             in if oldStrategy = ReuseExistingLB \<and> oldLBID \<noteq> [] then
                  (if newStrategy = oldStrategy \<and> newLBID = oldLBID then (False, new) else (True, new))
                else (False, new))
      else (False, new))"

record 'w ServiceController =
  sc_lb :: "'w lb_interface"
  sc_queue :: "('w, api_object) workqueue"

definition handleServiceUpdate :: "'w ServiceController \<Rightarrow> Service \<Rightarrow> ('w, unit) go" where
  "handleServiceUpdate sc svc =
     wrap_go ''delete listener '' (lbi_EnsureLoadBalancerDeleted (sc_lb sc) svc)"

text \<open>An item that is not a service is only marked as done.\<close>

definition processNextService :: "'w ServiceController \<Rightarrow> ('w, bool) go" where
  "processNextService sc =
     bind_go (wq_Get (sc_queue sc)) (\<lambda>item.
     case item of
       None \<Rightarrow> ret False
     | Some obj \<Rightarrow>
         deferred (wq_Done (sc_queue sc) obj)
           (case obj of
              ServiceObject svc \<Rightarrow>
                bind_go (try_go (handleServiceUpdate sc svc)) (\<lambda>r.
                case r of
                  Inr _ \<Rightarrow> bind_go (wq_Forget (sc_queue sc) obj) (\<lambda>_. ret True)
                | Inl e \<Rightarrow> bind_go (wq_AddRateLimited (sc_queue sc) obj) (\<lambda>_. ret True))
            | _ \<Rightarrow> ret True))"

subsection \<open>Lemmas\<close>

lemma ready_conditions_iff:
  "ready_conditions conds \<longleftrightarrow>
     (\<forall>c \<in> set conds. cond_Type c = NodeReady \<longrightarrow> cond_Status c = ConditionTrue)"
  by (induction conds) auto

lemma labels_differ_iff: "labels_differ old new \<longleftrightarrow> (\<exists>(k, v) \<in> set new. map_of old k \<noteq> Some v)"
  by (induction old new rule: labels_differ.induct) auto

text \<open>
  A node change leads to work exactly when the two label maps differ.
\<close>
theorem needsUpdate_iff:
  assumes "wf_map (node_Labels old)" and "wf_map (node_Labels new)"
  shows "needsUpdate old new \<longleftrightarrow> map_of (node_Labels old) \<noteq> map_of (node_Labels new)"
proof -
  let ?o = "node_Labels old" and ?n = "node_Labels new"
  have graph: "(k, v) \<in> set m \<longleftrightarrow> map_of m k = Some v" if "wf_map m" for m :: "(string, string) gomap" and k v
    by (rule wf_map_entry[OF that])
  have card: "card (set m) = length m" if "wf_map m" for m :: "(string, string) gomap"
    using that by (simp add: wf_map_def distinct_map distinct_card)
  show ?thesis
  proof (cases "needsUpdate old new")
    case True
    have "map_of ?o \<noteq> map_of ?n"
    proof
      assume eq: "map_of ?o = map_of ?n"
      then have "set ?o = set ?n" using graph[OF assms(1)] graph[OF assms(2)] by auto
      then have "length ?o = length ?n" using card[OF assms(1)] card[OF assms(2)] by simp
      with True have "labels_differ ?o ?n" by (simp add: needsUpdate_def)
      with eq graph[OF assms(2)] show False by (auto simp: labels_differ_iff)
    qed
    with True show ?thesis by simp
  next
    case False
    then have len: "length ?o = length ?n" and sub: "\<forall>(k, v) \<in> set ?n. map_of ?o k = Some v"
      by (auto simp: needsUpdate_def labels_differ_iff split: if_splits)
    have "set ?n \<subseteq> set ?o" using sub graph[OF assms(1)] by auto
    then have "set ?n = set ?o"
      using len card[OF assms(1)] card[OF assms(2)] by (intro card_subset_eq) auto
    then have "map_of ?o k = map_of ?n k" for k
      using graph[OF assms(1), of k] graph[OF assms(2), of k]
      by (cases "map_of ?o k"; cases "map_of ?n k") auto
    then have "map_of ?o = map_of ?n" by (rule ext)
    with False show ?thesis by simp
  qed
qed

subsection \<open>What the controllers pass on\<close>

text \<open>
  The contract of the load balancer interface that matters to a controller: an invariant that
  updates and deletions keep. Then everything the controller does keeps it.
\<close>

locale lb_provider =
  fixes lb :: "'w lb_interface"
    and I :: "'w \<Rightarrow> bool"
  assumes update_keeps: "keeps I (lbi_UpdateLoadBalancer lb svc nodes)"
begin

lemma update_labelled_service_keeps: "keeps I (update_labelled_service lb nodes u svc)"
  unfolding update_labelled_service_def by (auto intro!: keeps_intros update_keeps)

lemma handleNodesUpdate_keeps: "keeps I (handleNodesUpdate (cnc\<lparr>cnc_lb := lb\<rparr>) key)"
  unfolding handleNodesUpdate_def by (auto intro!: keeps_intros update_labelled_service_keeps)

lemma handleEndpointsUpdate_keeps: "keeps I (handleEndpointsUpdate (epc\<lparr>epc_lb := lb\<rparr>) key)"
  unfolding handleEndpointsUpdate_def by (auto intro!: keeps_intros update_keeps)

end

text \<open>The calls that an update of the backends can make.\<close>

definition backend_calls :: "call \<Rightarrow> bool" where
  "backend_calls c =
     (reads c \<or> (\<exists>is. c = DeleteBackends is) \<or> (\<exists>bs. c = CreateBackends bs) \<or> (\<exists>i. c = UpdateLB i))"

interpretation prov: lb_provider
  "LoadBalancer_v1 (qc\<lparr>qc_Client := traced cl\<rparr>)" "on_cloud (only_calls backend_calls)"
  for qc :: "'s traced_state QingCloud" and cl
proof unfold_locales
  fix svc nodes
  have "keeps (on_cloud (only_calls backend_calls))
      (UpdateLoadBalancer (qc\<lparr>qc_Client := traced cl\<rparr>) svc nodes)"
    unfolding UpdateLoadBalancer_def updateLoadBalancer_def
    by (auto intro!: keeps_intros simp: backend_calls_def)
  then show "keeps (on_cloud (only_calls backend_calls))
      (lbi_UpdateLoadBalancer (LoadBalancer_v1 (qc\<lparr>qc_Client := traced cl\<rparr>)) svc nodes)"
    by (simp add: LoadBalancer_v1_def)
qed

text \<open>
  Whatever node or endpoint changes, the node and the endpoint controller only read, delete and
  create backends and apply: they never create or delete a load balancer, a listener or an EIP.
\<close>
theorem controllers_change_backends_only:
  "list_all backend_calls
     (calls_of (handleNodesUpdate (cnc\<lparr>cnc_lb := LoadBalancer_v1 (qc\<lparr>qc_Client := traced cl\<rparr>)\<rparr>) key) s e) \<and>
   list_all backend_calls
     (calls_of (handleEndpointsUpdate (epc\<lparr>epc_lb := LoadBalancer_v1 (qc\<lparr>qc_Client := traced cl\<rparr>)\<rparr>) key) s e)"
  by (intro conjI calls_of_keeps prov.handleNodesUpdate_keeps prov.handleEndpointsUpdate_keeps)

subsection \<open>Which services are updated\<close>

text \<open>The services that the node controller is about.\<close>

definition follows_labels :: "Service \<Rightarrow> bool" where
  "follows_labels svc =
     (map_of (annotations svc) ServiceAnnotationBackendLabel \<noteq> None \<and>
      svc_Type svc = ServiceTypeLoadBalancer \<and> svc_ExternalTrafficPolicy svc = TrafficPolicyCluster)"

lemma update_labelled_service_eq:
  "update_labelled_service lb nodes u svc =
     (if follows_labels svc
      then wrap_go ''update loadbalancer for service '' (lbi_UpdateLoadBalancer lb svc nodes)
      else ret ())"
  by (simp add: update_labelled_service_def follows_labels_def)

lemma fold_update_labelled:
  "fold_go (update_labelled_service lb nodes) () svcs =
     fold_go (\<lambda>u svc. wrap_go ''update loadbalancer for service '' (lbi_UpdateLoadBalancer lb svc nodes))
       () (filter follows_labels svcs)"
  by (induction svcs) (simp_all add: update_labelled_service_eq)

text \<open>
  C35: The node controller updates, in the order of the list, exactly the load balancer services with
  a backend label and the policy \<open>Cluster\<close>, each with the nodes that are not excluded and have
  conditions with every readiness condition true; it stops at the first update that fails.
\<close>
theorem handleNodesUpdate_services:
  assumes "cnc_nodes cnc = Ok nodeList" and "cnc_services cnc = Ok svcs"
  shows "handleNodesUpdate cnc key =
    fold_go (\<lambda>u svc. wrap_go ''update loadbalancer for service ''
        (lbi_UpdateLoadBalancer (cnc_lb cnc) svc
           (filter (\<lambda>n. map_of (node_Labels n) LabelNodeExcludeBalancers = None \<and>
              node_Conditions n \<noteq> [] \<and>
              (\<forall>c \<in> set (node_Conditions n). cond_Type c = NodeReady \<longrightarrow> cond_Status c = ConditionTrue))
             nodeList)))
      () (filter follows_labels svcs)"
proof -
  have "NodeConditionCheck n \<longleftrightarrow> map_of (node_Labels n) LabelNodeExcludeBalancers = None \<and>
      node_Conditions n \<noteq> [] \<and>
      (\<forall>c \<in> set (node_Conditions n). cond_Type c = NodeReady \<longrightarrow> cond_Status c = ConditionTrue)" for n
    by (auto simp: NodeConditionCheck_def ready_conditions_iff)
  then have f: "filter NodeConditionCheck nodeList =
      filter (\<lambda>n. map_of (node_Labels n) LabelNodeExcludeBalancers = None \<and> node_Conditions n \<noteq> [] \<and>
        (\<forall>c \<in> set (node_Conditions n). cond_Type c = NodeReady \<longrightarrow> cond_Status c = ConditionTrue)) nodeList"
    by (intro filter_cong) simp_all
  have w: "wrap_go t (lift (Ok x)) = lift (Ok x)" for t and x :: 'b
    by (simp add: fun_eq_iff wrap_go_def lift_def)
  show ?thesis
    unfolding handleNodesUpdate_def assms w bind_go_simps Let_def fold_update_labelled f ..
qed

text \<open>
  C34: A change of a service away from the type \<open>LoadBalancer\<close> is cleaned up by the service
  controller exactly when the ordinary deletion, which sees only the new service, would look for
  another load balancer than the reused one of the old service.
\<close>
theorem needClean_iff:
  assumes "svc_Type old = ServiceTypeLoadBalancer"
    and "index_str (annotations old) ServiceAnnotationLoadBalancerPolicy = ReuseExistingLB"
    and "index_str (annotations old) ServiceAnnotationLoadBalancerID \<noteq> []"
  shows "fst (needClean old new) \<longleftrightarrow>
    svc_Type new \<noteq> ServiceTypeLoadBalancer \<and>
    lookup_call (parseServiceLBAndEIP cfg new) \<noteq> lookup_call (parseServiceLBAndEIP cfg old)"
proof -
  have old: "annotations old \<noteq> []" using assms(2) by (auto simp: ReuseExistingLB_def)
  let ?new = "if svc_Annotations new = None then new\<lparr>svc_Annotations := Some []\<rparr> else new"
  have same: "annotations ?new = annotations new" by (simp add: annotations_def)
  have type: "svc_Type ?new = svc_Type new" by simp
  let ?p = "index_str (annotations new) ServiceAnnotationLoadBalancerPolicy"
  let ?i = "index_str (annotations new) ServiceAnnotationLoadBalancerID"
  let ?o = "index_str (annotations old) ServiceAnnotationLoadBalancerID"
  have clean: "fst (needClean old new) \<longleftrightarrow>
      svc_Type new \<noteq> ServiceTypeLoadBalancer \<and> \<not> (?p = ReuseExistingLB \<and> ?i = ?o)"
    using assms old by (simp add: needClean_def Let_def annotations_def)
  have "lookup_call (parseServiceLBAndEIP cfg old) = GetLoadBalancerByID ?o"
    using assms old by (simp add: lookup_call_def parseServiceLBAndEIP_def Let_def)
  moreover have "lookup_call (parseServiceLBAndEIP cfg new) = GetLoadBalancerByID ?o \<longleftrightarrow>
      ?p = ReuseExistingLB \<and> ?i = ?o"
    using assms(3)
    by (auto simp: lookup_call_def parseServiceLBAndEIP_def Let_def zero_config_def ReuseExistingLB_def)
  ultimately show ?thesis using clean by auto
qed

subsection \<open>Retrying\<close>

text \<open>
  A queue that records what is done to its items, as \<open>client-go\<close> documents it: an item that waits
  is not added twice, a queue that is shut down gives out what waits before it ends the worker.
  \<open>requeued\<close> lists the items that come back.
\<close>

record 'k queue_log =
  waiting :: "'k list"
  finished :: "'k list"
  forgotten :: "'k list"
  requeued :: "'k list"

definition recording :: "('w \<times> 'k queue_log, 'k) workqueue" where
  "recording =
     \<lparr>wq_Add = (\<lambda>k (w, l). (Ok (), (w, if k \<in> set (waiting l) then l else l\<lparr>waiting := waiting l @ [k]\<rparr>))),
      wq_Get = (\<lambda>(w, l). case waiting l of
                  [] \<Rightarrow> (Ok None, (w, l))
                | k # ks \<Rightarrow> (Ok (Some k), (w, l\<lparr>waiting := ks\<rparr>))),
      wq_Done = (\<lambda>k (w, l). (Ok (), (w, l\<lparr>finished := finished l @ [k]\<rparr>))),
      wq_Forget = (\<lambda>k (w, l). (Ok (), (w, l\<lparr>forgotten := forgotten l @ [k]\<rparr>))),
      wq_AddRateLimited = (\<lambda>k (w, l). (Ok (), (w, l\<lparr>requeued := requeued l @ [k]\<rparr>))),
      wq_ShutDown = (\<lambda>(w, l). (Ok (), (w, l)))\<rparr>"

definition on_world :: "('w, 'a) go \<Rightarrow> ('w \<times> 'l, 'a) go" where
  "on_world m wl = (case m (fst wl) of (r, w) \<Rightarrow> (r, (w, snd wl)))"

text \<open>
  Every item that is taken from a queue is finished exactly once, also when its handler panics;
  an item whose handler fails is queued again and not forgotten, and one whose handler succeeds is
  forgotten and not queued again. The worker goes on after both.
\<close>
theorem process_item_retries:
  assumes "waiting l = k # ks" and "handle k w = (r, w')" and "r \<noteq> Diverge"
  shows "process_item recording (\<lambda>k. on_world (handle k)) (w, l) =
    (case r of Ok _ \<Rightarrow> Ok True | Err _ \<Rightarrow> Ok True | Panic \<Rightarrow> Panic | Diverge \<Rightarrow> Diverge,
     (w', l\<lparr>waiting := ks, finished := finished l @ [k],
            forgotten := (if r = Ok () then forgotten l @ [k] else forgotten l),
            requeued := (case r of Err _ \<Rightarrow> requeued l @ [k] | _ \<Rightarrow> requeued l)\<rparr>))"
  using assms
  by (cases r) (simp_all add: process_item_def recording_def on_world_def go_defs)

subsection \<open>Witnesses\<close>

theorem needsUpdate_iff_witness:
  "needsUpdate (demo_node ''node1'') (labelled_node ''node1'')"
  using needsUpdate_iff[of "demo_node ''node1''" "labelled_node ''node1''"]
  by (simp add: demo_node_def labelled_node_def wf_map_def fun_eq_iff)

definition sample_lb_interface :: "Service list lb_interface" where
  "sample_lb_interface =
     \<lparr>lbi_UpdateLoadBalancer = (\<lambda>svc nodes done. (Ok (), done @ [svc])),
      lbi_EnsureLoadBalancerDeleted = (\<lambda>svc done. (Ok (), done))\<rparr>"

definition sample_cnc :: "Service list \<Rightarrow> Service list ClusterNodeController" where
  "sample_cnc svcs =
     \<lparr>cnc_lb = sample_lb_interface, cnc_services = Ok svcs, cnc_nodes = Ok [demo_node ''node1''],
      cnc_queue = \<lparr>wq_Add = (\<lambda>k. ret ()), wq_Get = ret None, wq_Done = (\<lambda>k. ret ()),
                   wq_Forget = (\<lambda>k. ret ()), wq_AddRateLimited = (\<lambda>k. ret ()), wq_ShutDown = ret ()\<rparr>\<rparr>"

definition following_service :: Service where
  "following_service = demo_service\<lparr>svc_Annotations := Some [(ServiceAnnotationBackendLabel, ''zone=a'')]\<rparr>"

theorem handleNodesUpdate_services_witness:
  "handleNodesUpdate (sample_cnc [demo_service, following_service]) ''node1'' [] = (Ok (), [following_service])"
proof -
  have "follows_labels following_service" "\<not> follows_labels demo_service"
    by (simp_all add: follows_labels_def following_service_def demo_service_def annotations_def
        annotation_key_defs)
  then show ?thesis
    using handleNodesUpdate_services[of "sample_cnc [demo_service, following_service]"
        "[demo_node ''node1'']" "[demo_service, following_service]" "''node1''"]
    by (simp add: sample_cnc_def sample_lb_interface_def go_defs)
qed

definition reusing_service :: Service where
  "reusing_service =
     demo_service\<lparr>svc_Annotations := Some [(ServiceAnnotationLoadBalancerPolicy, ReuseExistingLB),
                                          (ServiceAnnotationLoadBalancerID, ''lb-7'')]\<rparr>"

definition retyped_service :: Service where
  "retyped_service = demo_service\<lparr>svc_Type := ''ClusterIP'', svc_Annotations := None\<rparr>"

theorem needClean_iff_witness: "fst (needClean reusing_service retyped_service)"
proof -
  have "lookup_call (parseServiceLBAndEIP demo_config retyped_service) \<noteq>
      lookup_call (parseServiceLBAndEIP demo_config reusing_service)" by code_simp
  then show ?thesis
    using needClean_iff[of reusing_service retyped_service demo_config]
    by (simp add: reusing_service_def retyped_service_def demo_service_def annotations_def
        annotation_key_defs ServiceTypeLoadBalancer_def)
qed

definition empty_log :: "string queue_log" where
  "empty_log = \<lparr>waiting = [''a''], finished = [], forgotten = [], requeued = []\<rparr>"

theorem process_item_retries_witness:
  "process_item recording (\<lambda>k. on_world (fail (Errorf ''x''))) ((), empty_log) =
     (Ok True, ((), empty_log\<lparr>waiting := [], finished := [''a''], requeued := [''a'']\<rparr>))"
  using process_item_retries[of empty_log "''a''" "[]" "\<lambda>k. fail (Errorf ''x'')" "()" "Err (Errorf ''x'')" "()"]
  by (simp add: empty_log_def fail_def)

end
