(* ===== verification/Workers.thy ===== *)
theory Workers
  imports Controllers
begin

text \<open>
  How the three controllers of \<open>pkg/controllers\<close> are put together and run: their constructors \<open>New\<close>,
  the handlers they register with the informers, what they enqueue, the loop of a worker and \<open>Run\<close>.

  The machinery around them is a parameter, \<open>machinery\<close>: registering a handler, waiting for the caches,
  starting a goroutine, running a worker again until the stop channel closes, and waiting for that.
  The function that makes the key of an object belongs to \<open>client-go\<close> and is a parameter too.

  Shown: what a worker makes of a queue, which changes are enqueued, and that no worker starts before
  the caches that \<open>Run\<close> waits for.
\<close>

datatype informer = ServiceInformer | NodeInformer | EndpointsInformer

text \<open>
  A worker is a program that may run for ever: \<open>None\<close> is a worker that does not return.
\<close>

type_synonym 'w worker = "'w \<Rightarrow> (unit outcome \<times> 'w) option"

record 'w machinery =
  mx_AddEventHandler :: "informer \<Rightarrow> (api_object \<Rightarrow> api_object \<Rightarrow> ('w, api_object) go) \<Rightarrow> ('w, unit) go"
  mx_WaitForCacheSync :: "informer list \<Rightarrow> ('w, bool) go"
  mx_Go :: "('w, unit) go \<Rightarrow> ('w, unit) go"
  mx_GoUntil :: "'w worker \<Rightarrow> ('w, unit) go"
  mx_Stopped :: "('w, unit) go"

subsection \<open>The loop of a worker\<close>

partial_function (option) worker_loop :: "('w, bool) go \<Rightarrow> 'w worker" where
  "worker_loop next w =
     (case next w of
        (Ok again, w') \<Rightarrow> if again then worker_loop next w' else Some (Ok (), w')
      | (Err e, w') \<Rightarrow> Some (Err e, w')
      | (Panic, w') \<Rightarrow> Some (Panic, w')
      | (Diverge, w') \<Rightarrow> None)"

declare worker_loop.simps [code]

definition worker_clusternode :: "'w ClusterNodeController \<Rightarrow> 'w worker" where
  "worker_clusternode cnc = worker_loop (processNextNode cnc)"

definition worker_endpoint :: "'w EndpointController \<Rightarrow> 'w worker" where
  "worker_endpoint epc = worker_loop (processNextEndpoint epc)"

definition worker_service :: "'w ServiceController \<Rightarrow> 'w worker" where
  "worker_service sc = worker_loop (processNextService sc)"

subsection \<open>Enqueueing\<close>

text \<open>An object without a key is reported to the log and dropped.\<close>

definition enqueueNode ::
  "(api_object \<Rightarrow> string outcome) \<Rightarrow> 'w ClusterNodeController \<Rightarrow> api_object \<Rightarrow> ('w, unit) go" where
  "enqueueNode keyFunc cnc obj =
     bind_go (try_go (lift (keyFunc obj))) (\<lambda>r.
     case r of
       Inl e \<Rightarrow> ret ()
     | Inr key \<Rightarrow> wq_Add (cnc_queue cnc) key)"

definition enqueueEndpoint ::
  "(api_object \<Rightarrow> string outcome) \<Rightarrow> 'w EndpointController \<Rightarrow> api_object \<Rightarrow> ('w, unit) go" where
  "enqueueEndpoint keyFunc epc obj =
     bind_go (try_go (lift (keyFunc obj))) (\<lambda>r.
     case r of
       Inl e \<Rightarrow> ret ()
     | Inr key \<Rightarrow> wq_Add (epc_queue epc) key)"

definition enqueueService :: "'w ServiceController \<Rightarrow> api_object \<Rightarrow> ('w, unit) go" where
  "enqueueService sc obj =
     (case obj of
        ServiceObject svc \<Rightarrow> wq_Add (sc_queue sc) obj
      | _ \<Rightarrow> ret ())"

subsection \<open>The handlers for updates\<close>

text \<open>
  A handler returns the new object as it leaves it: \<open>needClean\<close> may replace nil annotations in the
  object of the cache.
\<close>

definition updateNode ::
  "(api_object \<Rightarrow> string outcome) \<Rightarrow> 'w ClusterNodeController \<Rightarrow> api_object \<Rightarrow> api_object \<Rightarrow>
   ('w, api_object) go" where
  "updateNode keyFunc cnc old cur =
     (case (old, cur) of
        (NodeObject oldNode, NodeObject curNode) \<Rightarrow>
          (if needsUpdate oldNode curNode
           then bind_go (enqueueNode keyFunc cnc cur) (\<lambda>_. ret cur) else ret cur)
      | _ \<Rightarrow> ret cur)"

definition updateEndpoints ::
  "(api_object \<Rightarrow> string outcome) \<Rightarrow> 'w EndpointController \<Rightarrow> api_object \<Rightarrow> api_object \<Rightarrow>
   ('w, api_object) go" where
  "updateEndpoints keyFunc epc old cur =
     (case (old, cur) of
        (EndpointsObject _ _ _, EndpointsObject _ _ _) \<Rightarrow>
          bind_go (enqueueEndpoint keyFunc epc cur) (\<lambda>_. ret cur)
      | _ \<Rightarrow> ret cur)"

definition updateService ::
  "'w ServiceController \<Rightarrow> api_object \<Rightarrow> api_object \<Rightarrow> ('w, api_object) go" where
  "updateService sc old cur =
     (case (old, cur) of
        (ServiceObject oldSvc, ServiceObject newSvc) \<Rightarrow>
          (case needClean oldSvc newSvc of (clean, newSvc') \<Rightarrow>
             bind_go (if clean then enqueueService sc old else ret ()) (\<lambda>_. ret (ServiceObject newSvc')))
      | _ \<Rightarrow> ret cur)"

subsection \<open>Running a controller\<close>

fun start_workers :: "nat \<Rightarrow> ('w, unit) go \<Rightarrow> ('w, unit) go" where
  "start_workers 0 start = ret ()"
| "start_workers (Suc n) start = bind_go start (\<lambda>_. start_workers n start)"

definition Run_clusternode ::
  "'w machinery \<Rightarrow> 'w ClusterNodeController \<Rightarrow> nat \<Rightarrow> ('w, unit) go" where
  "Run_clusternode mx cnc workers =
     deferred (wq_ShutDown (cnc_queue cnc))
       (bind_go (mx_WaitForCacheSync mx [ServiceInformer, NodeInformer]) (\<lambda>synced.
        if \<not> synced then ret ()
        else bind_go (start_workers workers (mx_GoUntil mx (worker_clusternode cnc))) (\<lambda>_. mx_Stopped mx)))"

definition Run_endpoint ::
  "'w machinery \<Rightarrow> 'w EndpointController \<Rightarrow> nat \<Rightarrow> ('w, unit) go" where
  "Run_endpoint mx epc workers =
     deferred (wq_ShutDown (epc_queue epc))
       (bind_go (mx_WaitForCacheSync mx [ServiceInformer, NodeInformer]) (\<lambda>synced.
        if \<not> synced then ret ()
        else bind_go (start_workers workers (mx_GoUntil mx (worker_endpoint epc))) (\<lambda>_. mx_Stopped mx)))"

definition Run_service ::
  "'w machinery \<Rightarrow> 'w ServiceController \<Rightarrow> nat \<Rightarrow> ('w, unit) go" where
  "Run_service mx sc workers =
     deferred (wq_ShutDown (sc_queue sc))
       (bind_go (mx_WaitForCacheSync mx [ServiceInformer]) (\<lambda>synced.
        if \<not> synced then ret ()
        else bind_go (start_workers workers (mx_GoUntil mx (worker_service sc))) (\<lambda>_. mx_Stopped mx)))"

subsection \<open>Constructing and starting the controllers\<close>

text \<open>The listers of the shared informers; the constructors never fail.\<close>

record listers =
  li_services :: "Service list outcome"
  li_service :: "string \<Rightarrow> string \<Rightarrow> Service option outcome"
  li_nodes :: "Node list outcome"

definition New_clusternode ::
  "'w machinery \<Rightarrow> (api_object \<Rightarrow> string outcome) \<Rightarrow> 'w lb_interface \<Rightarrow> listers \<Rightarrow>
   ('w, string) workqueue \<Rightarrow> ('w, 'w ClusterNodeController) go" where
  "New_clusternode mx keyFunc lb li queue =
     (let cnc = \<lparr>cnc_lb = lb, cnc_services = li_services li, cnc_nodes = li_nodes li,
                 cnc_queue = queue\<rparr>
      in bind_go (mx_AddEventHandler mx NodeInformer (updateNode keyFunc cnc)) (\<lambda>_. ret cnc))"

definition New_endpoint ::
  "'w machinery \<Rightarrow> (api_object \<Rightarrow> string outcome) \<Rightarrow> (string \<Rightarrow> (string \<times> string) outcome) \<Rightarrow>
   'w lb_interface \<Rightarrow> listers \<Rightarrow> ('w, string) workqueue \<Rightarrow> ('w, 'w EndpointController) go" where
  "New_endpoint mx keyFunc split lb li queue =
     (let ep = \<lparr>epc_lb = lb, epc_split = split, epc_service = li_service li, epc_nodes = li_nodes li,
                epc_queue = queue\<rparr>
      in bind_go (mx_AddEventHandler mx EndpointsInformer (updateEndpoints keyFunc ep)) (\<lambda>_. ret ep))"

definition New_service ::
  "'w machinery \<Rightarrow> 'w lb_interface \<Rightarrow> ('w, api_object) workqueue \<Rightarrow> ('w, 'w ServiceController) go" where
  "New_service mx lb queue =
     (let sc = \<lparr>sc_lb = lb, sc_queue = queue\<rparr>
      in bind_go (mx_AddEventHandler mx ServiceInformer (updateService sc)) (\<lambda>_. ret sc))"

text \<open>
  The result says whether the controller was started; an error of the constructor is logged and
  not passed on.
\<close>

definition started :: "('w, 'c) go \<Rightarrow> ('c \<Rightarrow> ('w, unit) go) \<Rightarrow> ('w, bool) go" where
  "started new go_run =
     bind_go (try_go new) (\<lambda>r.
     case r of
       Inl e \<Rightarrow> ret False
     | Inr c \<Rightarrow> bind_go (go_run c) (\<lambda>_. ret True))"

definition startClusterNodeController ::
  "'w machinery \<Rightarrow> (api_object \<Rightarrow> string outcome) \<Rightarrow> 'w lb_interface \<Rightarrow> listers \<Rightarrow>
   ('w, string) workqueue \<Rightarrow> ('w, bool) go" where
  "startClusterNodeController mx keyFunc lb li queue =
     started (New_clusternode mx keyFunc lb li queue) (\<lambda>cnc. mx_Go mx (Run_clusternode mx cnc 1))"

definition startEndpointController ::
  "'w machinery \<Rightarrow> (api_object \<Rightarrow> string outcome) \<Rightarrow> (string \<Rightarrow> (string \<times> string) outcome) \<Rightarrow>
   'w lb_interface \<Rightarrow> listers \<Rightarrow> ('w, string) workqueue \<Rightarrow> ('w, bool) go" where
  "startEndpointController mx keyFunc split lb li queue =
     started (New_endpoint mx keyFunc split lb li queue) (\<lambda>epc. mx_Go mx (Run_endpoint mx epc 1))"

definition startServiceController ::
  "'w machinery \<Rightarrow> 'w lb_interface \<Rightarrow> ('w, api_object) workqueue \<Rightarrow> ('w, bool) go" where
  "startServiceController mx lb queue =
     started (New_service mx lb queue) (\<lambda>sc. mx_Go mx (Run_service mx sc 1))"

subsection \<open>What a worker makes of a queue\<close>

text \<open>
  The reference: the handler runs on the items in their order, whatever it returns for the ones
  before.
\<close>

fun handled :: "('k \<Rightarrow> ('w, unit) go) \<Rightarrow> 'k list \<Rightarrow> 'w \<Rightarrow> ('k \<times> bool) list \<times> 'w" where
  "handled handle [] w = ([], w)"
| "handled handle (k # ks) w =
     (case handle k w of (r, w1) \<Rightarrow>
        (case handled handle ks w1 of (rs, w2) \<Rightarrow> ((k, r = Ok ()) # rs, w2)))"

definition returns :: "('w, 'a) go \<Rightarrow> bool" where
  "returns m \<longleftrightarrow> (\<forall>w. \<exists>w'. (\<exists>x. m w = (Ok x, w')) \<or> (\<exists>e. m w = (Err e, w')))"

lemma process_item_recording:
  assumes "returns (handle k)" and "handle k w = (r, w')"
  shows "process_item recording (\<lambda>k. on_world (handle k)) (w, l\<lparr>waiting := k # ks\<rparr>) =
    (Ok True, (w', l\<lparr>waiting := ks, finished := finished l @ [k],
       forgotten := (if r = Ok () then forgotten l @ [k] else forgotten l),
       requeued := (if r = Ok () then requeued l else requeued l @ [k])\<rparr>))"
proof -
  have "(\<exists>x. r = Ok x) \<or> (\<exists>e. r = Err e)" using assms unfolding returns_def by (metis prod.inject)
  then show ?thesis
    by (auto simp: process_item_def recording_def on_world_def go_defs assms(2))
qed

lemma process_item_empty:
  "process_item recording h (w, l\<lparr>waiting := []\<rparr>) = (Ok False, (w, l\<lparr>waiting := []\<rparr>))"
  by (simp add: process_item_def recording_def go_defs)

lemma worker_loop_handled:
  assumes "\<And>k. k \<in> set ks \<Longrightarrow> returns (handle k)" and "handled handle ks w = (rs, w')"
  shows "worker_loop (process_item recording (\<lambda>k. on_world (handle k))) (w, l\<lparr>waiting := ks\<rparr>) =
    Some (Ok (), (w', l\<lparr>waiting := [], finished := finished l @ ks,
      forgotten := forgotten l @ map fst (filter snd rs),
      requeued := requeued l @ map fst (filter (\<lambda>r. \<not> snd r) rs)\<rparr>))"
  using assms
proof (induction ks arbitrary: w l rs)
  case Nil
  then show ?case by (simp add: worker_loop.simps process_item_empty)
next
  case (Cons k ks)
  obtain r w1 where 1: "handle k w = (r, w1)" by (metis surj_pair)
  obtain rs' where 2: "handled handle ks w1 = (rs', w')" "rs = (k, r = Ok ()) # rs'"
    using Cons.prems(2) 1 by (auto split: prod.splits)
  let ?l = "l\<lparr>finished := finished l @ [k],
      forgotten := (if r = Ok () then forgotten l @ [k] else forgotten l),
      requeued := (if r = Ok () then requeued l else requeued l @ [k])\<rparr>"
  have "process_item recording (\<lambda>k. on_world (handle k)) (w, l\<lparr>waiting := k # ks\<rparr>) =
      (Ok True, (w1, ?l\<lparr>waiting := ks\<rparr>))"
    using process_item_recording[where handle = handle and l = l and ks = ks, OF _ 1] Cons.prems(1) by simp
  with Cons.IH[of w1 rs' ?l] Cons.prems(1) 2 show ?case
    by (simp add: worker_loop.simps[of _ "(w, _)"])
qed

text \<open>A controller over a recording queue, beside the world of its handler.\<close>

definition on_queue :: "'w lb_interface \<Rightarrow> ('w \<times> 'l) lb_interface" where
  "on_queue lb =
     \<lparr>lbi_UpdateLoadBalancer = (\<lambda>svc nodes. on_world (lbi_UpdateLoadBalancer lb svc nodes)),
      lbi_EnsureLoadBalancerDeleted = (\<lambda>svc. on_world (lbi_EnsureLoadBalancerDeleted lb svc))\<rparr>"

lemma on_queue_simps [simp]:
  "lbi_UpdateLoadBalancer (on_queue lb) svc nodes = on_world (lbi_UpdateLoadBalancer lb svc nodes)"
  "lbi_EnsureLoadBalancerDeleted (on_queue lb) svc = on_world (lbi_EnsureLoadBalancerDeleted lb svc)"
  by (simp_all add: on_queue_def)

lemma on_world_simps:
  "on_world (bind_go m f) = bind_go (on_world m) (\<lambda>x. on_world (f x))"
  "on_world (wrap_go t m) = wrap_go t (on_world m)"
  "on_world (ret x) = ret x"
  "on_world (lift r) = lift r"
  by (auto simp: fun_eq_iff on_world_def go_defs split: outcome.splits prod.splits)

lemma on_world_fold_go: "on_world (fold_go f b xs) = fold_go (\<lambda>b x. on_world (f b x)) b xs"
  by (induction xs arbitrary: b) (simp_all add: on_world_simps)

lemma on_world_branches:
  "on_world (case x of None \<Rightarrow> m | Some y \<Rightarrow> f y) = (case x of None \<Rightarrow> on_world m | Some y \<Rightarrow> on_world (f y))"
  "on_world (if b then m else n) = (if b then on_world m else on_world n)"
  by (simp_all split: option.splits)

definition clusternode_on ::
  "'w lb_interface \<Rightarrow> listers \<Rightarrow> ('w, string) workqueue \<Rightarrow> 'w ClusterNodeController" where
  "clusternode_on lb li queue =
     \<lparr>cnc_lb = lb, cnc_services = li_services li, cnc_nodes = li_nodes li, cnc_queue = queue\<rparr>"

definition endpoint_on ::
  "(string \<Rightarrow> (string \<times> string) outcome) \<Rightarrow> 'w lb_interface \<Rightarrow> listers \<Rightarrow> ('w, string) workqueue \<Rightarrow>
   'w EndpointController" where
  "endpoint_on split lb li queue =
     \<lparr>epc_lb = lb, epc_split = split, epc_service = li_service li, epc_nodes = li_nodes li,
      epc_queue = queue\<rparr>"

lemma update_labelled_service_on_queue:
  "update_labelled_service (on_queue lb) nodes = (\<lambda>u svc. on_world (update_labelled_service lb nodes u svc))"
  by (intro ext) (simp add: update_labelled_service_eq on_world_simps)

lemma handleNodesUpdate_on_queue:
  "handleNodesUpdate (clusternode_on (on_queue lb) li queue) key =
   on_world (handleNodesUpdate (clusternode_on lb li queue') key)"
  by (simp add: handleNodesUpdate_def clusternode_on_def Let_def on_world_simps on_world_fold_go
      update_labelled_service_on_queue)

lemma handleEndpointsUpdate_on_queue:
  "handleEndpointsUpdate (endpoint_on split (on_queue lb) li queue) key =
   on_world (handleEndpointsUpdate (endpoint_on split lb li queue') key)"
  by (simp add: handleEndpointsUpdate_def endpoint_on_def on_world_simps split_def Let_def
      on_world_branches cong: if_cong option.case_cong)

text \<open>
  C32: The worker of the node controller and of the endpoint controller, on a queue that is shut down,
  returns once the queue is empty: every item that waited was handled exactly once, in order, and
  marked as done; those whose handler succeeded are forgotten and those whose handler failed are
  queued again, and a failure does not keep the worker from the items behind it.
\<close>
theorem workers_drain:
  assumes "\<And>k. k \<in> set (waiting l) \<Longrightarrow> returns (handleNodesUpdate (clusternode_on lb li queue) k)"
    and "handled (handleNodesUpdate (clusternode_on lb li queue)) (waiting l) w = (rs, w')"
    and "\<And>k. k \<in> set (waiting l') \<Longrightarrow> returns (handleEndpointsUpdate (endpoint_on split lb li queue) k)"
    and "handled (handleEndpointsUpdate (endpoint_on split lb li queue)) (waiting l') w = (rs', w'')"
  shows "worker_clusternode (clusternode_on (on_queue lb) li recording) (w, l) =
      Some (Ok (), (w', l\<lparr>waiting := [], finished := finished l @ waiting l,
        forgotten := forgotten l @ map fst (filter snd rs),
        requeued := requeued l @ map fst (filter (\<lambda>r. \<not> snd r) rs)\<rparr>)) \<and>
    worker_endpoint (endpoint_on split (on_queue lb) li recording) (w, l') =
      Some (Ok (), (w'', l'\<lparr>waiting := [], finished := finished l' @ waiting l',
        forgotten := forgotten l' @ map fst (filter snd rs'),
        requeued := requeued l' @ map fst (filter (\<lambda>r. \<not> snd r) rs')\<rparr>))"
proof -
  have n: "processNextNode (clusternode_on (on_queue lb) li recording) =
      process_item recording (\<lambda>k. on_world (handleNodesUpdate (clusternode_on lb li queue) k))"
    unfolding processNextNode_def handleNodesUpdate_on_queue[where queue' = queue]
    by (simp add: clusternode_on_def)
  have e: "processNextEndpoint (endpoint_on split (on_queue lb) li recording) =
      process_item recording (\<lambda>k. on_world (handleEndpointsUpdate (endpoint_on split lb li queue) k))"
    unfolding processNextEndpoint_def handleEndpointsUpdate_on_queue[where queue' = queue]
    by (simp add: endpoint_on_def)
  show ?thesis
    using worker_loop_handled[OF assms(1,2), of l] worker_loop_handled[OF assms(3,4), of l']
    by (simp add: worker_clusternode_def worker_endpoint_def n e)
qed

subsection \<open>Which changes are enqueued\<close>

definition added :: "'k \<Rightarrow> 'k queue_log \<Rightarrow> 'k queue_log" where
  "added k l = (if k \<in> set (waiting l) then l else l\<lparr>waiting := waiting l @ [k]\<rparr>)"

lemma wq_Add_recording: "wq_Add recording k (w, l) = (Ok (), (w, added k l))"
  by (simp add: recording_def added_def)

text \<open>
  An update of a node is enqueued, under the key of the new node and at most once, exactly when
  the two label maps differ; the object in the cache is left as it is. An object of another type, or
  one without a key, is dropped.
\<close>
theorem updateNode_enqueues:
  assumes "wf_map (node_Labels old)" and "wf_map (node_Labels new)"
  shows "updateNode keyFunc (clusternode_on lb li recording) (NodeObject old) (NodeObject new) (w, l) =
    (case keyFunc (NodeObject new) of
       Ok key \<Rightarrow>
         (Ok (NodeObject new),
          (w, if map_of (node_Labels old) \<noteq> map_of (node_Labels new) then added key l else l))
     | Err e \<Rightarrow> (Ok (NodeObject new), (w, l))
     | Panic \<Rightarrow>
         (if map_of (node_Labels old) \<noteq> map_of (node_Labels new) then Panic else Ok (NodeObject new), (w, l))
     | Diverge \<Rightarrow>
         (if map_of (node_Labels old) \<noteq> map_of (node_Labels new) then Diverge else Ok (NodeObject new), (w, l)))"
  unfolding updateNode_def needsUpdate_iff[OF assms, symmetric]
  by (cases "keyFunc (NodeObject new)")
    (simp_all add: enqueueNode_def clusternode_on_def wq_Add_recording try_go_def lift_def ret_def bind_go_def)

text \<open>
  A service is enqueued with its old object exactly when it has to be cleaned, and the new object
  differs from the one of the cache at most in nil annotations.
\<close>

lemma updateService_enqueues:
  "updateService \<lparr>sc_lb = lb, sc_queue = recording\<rparr> (ServiceObject old) (ServiceObject new) (w, l) =
    (Ok (ServiceObject (snd (needClean old new))),
     (w, if fst (needClean old new) then added (ServiceObject old) l else l))"
  by (simp add: updateService_def enqueueService_def wq_Add_recording split_def bind_go_def ret_def)

lemma updateEndpoints_enqueues:
  assumes "keyFunc (EndpointsObject ns n ep') = Ok key"
  shows "updateEndpoints keyFunc (endpoint_on split lb li recording) (EndpointsObject ns' n' ep)
      (EndpointsObject ns n ep') (w, l) =
    (Ok (EndpointsObject ns n ep'), (w, added key l))"
  using assms
  by (simp add: updateEndpoints_def enqueueEndpoint_def endpoint_on_def wq_Add_recording try_go_def
      lift_def ret_def bind_go_def)

subsection \<open>No worker before the caches\<close>

text \<open>
  A machinery and a queue that record what they are asked to do, beside a world of any kind; what they
  do to that world and how they answer is left open. A goroutine runs to its end, and its outcome is lost.
\<close>

datatype run_event =
    Registered informer
  | WaitedFor "informer list"
  | WorkerStarted
  | StopAwaited
  | QueueShutDown

definition logs :: "run_event \<Rightarrow> ('w \<times> run_event list, 'a) go \<Rightarrow> bool" where
  "logs ev m = (\<forall>w es. snd (snd (m (w, es))) = es @ [ev])"

definition recorded ::
  "('w \<times> run_event list) machinery \<Rightarrow> ('w \<times> run_event list, 'k) workqueue \<Rightarrow> bool" where
  "recorded mx queue =
     ((\<forall>i h. logs (Registered i) (mx_AddEventHandler mx i h)) \<and>
      (\<forall>is. logs (WaitedFor is) (mx_WaitForCacheSync mx is)) \<and>
      (\<forall>worker. logs WorkerStarted (mx_GoUntil mx worker)) \<and> logs StopAwaited (mx_Stopped mx) \<and>
      logs QueueShutDown (wq_ShutDown queue) \<and> (\<forall>m s. mx_Go mx m s = (Ok (), snd (m s))))"

lemma recordedD:
  assumes "recorded mx queue"
  shows "logs (Registered i) (mx_AddEventHandler mx i h)" "logs (WaitedFor is) (mx_WaitForCacheSync mx is)"
    "logs WorkerStarted (mx_GoUntil mx worker)" "logs StopAwaited (mx_Stopped mx)"
    "logs QueueShutDown (wq_ShutDown queue)" "mx_Go mx m s = (Ok (), snd (m s))"
  using assms unfolding recorded_def by blast+

lemma logsD: "logs ev m \<Longrightarrow> m (w, es) = (r, (w', es')) \<Longrightarrow> es' = es @ [ev]"
  by (metis logs_def snd_conv)

text \<open>
  What a run may do: one wait; only after a wait that succeeded, up to \<open>n\<close> workers and, once all of
  them are started, the wait for the stop; and at the end, unless the run hangs, the shutdown of the
  queue. A run that returns after a successful wait did all of it.
\<close>

definition run_trace ::
  "informer list \<Rightarrow> bool outcome \<Rightarrow> nat \<Rightarrow> unit outcome \<Rightarrow> run_event list \<Rightarrow> bool" where
  "run_trace is synced n r es =
     (\<exists>k stop shut. k \<le> n \<and>
        es = WaitedFor is # replicate k WorkerStarted @ (if stop then [StopAwaited] else []) @
             (if shut then [QueueShutDown] else []) \<and>
        (k \<noteq> 0 \<or> stop \<longrightarrow> synced = Ok True) \<and> (stop \<longrightarrow> k = n) \<and>
        (synced = Ok True \<longrightarrow> r = Ok () \<longrightarrow> stop) \<and> (r \<noteq> Diverge \<longrightarrow> shut))"

lemma start_workers_logs:
  assumes "logs WorkerStarted start" and "start_workers n start (w, es) = (r, (w', es'))"
  shows "\<exists>k \<le> n. es' = es @ replicate k WorkerStarted \<and> (r = Ok () \<longrightarrow> k = n)"
  using assms(2)
proof (induction n arbitrary: w es)
  case (Suc n)
  obtain r1 w1 es1 where 1: "start (w, es) = (r1, (w1, es1))" by (metis surj_pair)
  note es1 = logsD[OF assms(1) 1]
  show ?case
  proof (cases "r1 = Ok ()")
    case True
    then have "start_workers n start (w1, es1) = (r, (w', es'))" using Suc.prems 1 by (simp add: bind_go_def)
    from Suc.IH[OF this] obtain k where "k \<le> n" "es' = es1 @ replicate k WorkerStarted" "r = Ok () \<longrightarrow> k = n" by blast
    with es1 show ?thesis by (intro exI[of _ "Suc k"]) simp
  next
    case False
    with Suc.prems 1 es1 show ?thesis
      by (intro exI[of _ 1]) (cases r1, simp_all add: bind_go_def)
  qed
qed (simp add: ret_def)

text \<open>The part of a run before the shutdown of the queue.\<close>

definition run_body ::
  "('w \<times> run_event list) machinery \<Rightarrow> informer list \<Rightarrow> nat \<Rightarrow> ('w \<times> run_event list) worker \<Rightarrow>
   ('w \<times> run_event list, unit) go" where
  "run_body mx is n worker =
     bind_go (mx_WaitForCacheSync mx is) (\<lambda>synced.
       if \<not> synced then ret ()
       else bind_go (start_workers n (mx_GoUntil mx worker)) (\<lambda>_. mx_Stopped mx))"

lemma run_body_logs:
  assumes "recorded mx queue" and "run_body mx is n worker (w, es) = (r, (w', es'))"
  shows "\<exists>k stop. k \<le> n \<and> es' = es @ WaitedFor is # replicate k WorkerStarted @ (if stop then [StopAwaited] else []) \<and>
    (k \<noteq> 0 \<or> stop \<longrightarrow> fst (mx_WaitForCacheSync mx is (w, es)) = Ok True) \<and> (stop \<longrightarrow> k = n) \<and>
    (fst (mx_WaitForCacheSync mx is (w, es)) = Ok True \<longrightarrow> r = Ok () \<longrightarrow> stop)"
proof -
  note l = recordedD(2-4)[OF assms(1)]
  obtain b w1 es1 where 1: "mx_WaitForCacheSync mx is (w, es) = (b, (w1, es1))" by (metis surj_pair)
  note es1 = logsD[OF l(1) 1]
  show ?thesis
  proof (cases "b = Ok True")
    case False
    with assms(2) 1 es1 have "es' = es @ [WaitedFor is]"
      by (cases b) (auto simp: run_body_def bind_go_def ret_def)
    with 1 False show ?thesis by (intro exI[of _ 0] exI[of _ False]) simp
  next
    case True
    obtain r2 w2 es2 where 2: "start_workers n (mx_GoUntil mx worker) (w1, es1) = (r2, (w2, es2))" by (metis surj_pair)
    from start_workers_logs[OF l(2) 2] obtain k where
      k: "k \<le> n" "es2 = es1 @ replicate k WorkerStarted" "r2 = Ok () \<longrightarrow> k = n" by blast
    show ?thesis
    proof (cases "r2 = Ok ()")
      case True
      with assms(2) 1 2 \<open>b = Ok True\<close> have "mx_Stopped mx (w2, es2) = (r, (w', es'))"
        by (simp add: run_body_def bind_go_def)
      from logsD[OF l(3) this] k 1 \<open>b = Ok True\<close> True es1 show ?thesis
        by (intro exI[of _ k] exI[of _ True]) simp
    next
      case False
      with assms(2) 1 2 \<open>b = Ok True\<close> have "es' = es2 \<and> r \<noteq> Ok ()"
        by (cases r2) (auto simp: run_body_def bind_go_def)
      with k 1 \<open>b = Ok True\<close> es1 show ?thesis by (intro exI[of _ k] exI[of _ False]) simp
    qed
  qed
qed

lemma run_logs:
  assumes "recorded mx queue"
    and "deferred (wq_ShutDown queue) (run_body mx is n worker) (w, es) = (r, (w', es'))"
  shows "\<exists>tail. es' = es @ tail \<and> run_trace is (fst (mx_WaitForCacheSync mx is (w, es))) n r tail"
proof -
  obtain r1 w1 es1 where 1: "run_body mx is n worker (w, es) = (r1, (w1, es1))" by (metis surj_pair)
  from run_body_logs[OF assms(1) 1] obtain k stop where
    k: "k \<le> n" "es1 = es @ WaitedFor is # replicate k WorkerStarted @ (if stop then [StopAwaited] else [])"
      "k \<noteq> 0 \<or> stop \<longrightarrow> fst (mx_WaitForCacheSync mx is (w, es)) = Ok True" "stop \<longrightarrow> k = n"
      "fst (mx_WaitForCacheSync mx is (w, es)) = Ok True \<longrightarrow> r1 = Ok () \<longrightarrow> stop" by blast
  obtain r2 w2 es2 where 2: "wq_ShutDown queue (w1, es1) = (r2, (w2, es2))" by (metis surj_pair)
  note es2 = logsD[OF recordedD(5)[OF assms(1)] 2]
  have d: "es' = (if r1 = Diverge then es1 else es2)" "r = Ok () \<longrightarrow> r1 = Ok ()" "r1 = Diverge \<longrightarrow> r = Diverge"
    using assms(2) 1 2 by (auto simp: deferred_def split: outcome.splits)
  let ?tail = "WaitedFor is # replicate k WorkerStarted @ (if stop then [StopAwaited] else []) @
    (if r1 \<noteq> Diverge then [QueueShutDown] else [])"
  have "es' = es @ ?tail" by (simp add: d(1) es2 k(2))
  moreover have "run_trace is (fst (mx_WaitForCacheSync mx is (w, es))) n r ?tail"
    unfolding run_trace_def
    by (intro exI[of _ k] exI[of _ stop] exI[of _ "r1 \<noteq> Diverge"] conjI refl k(1,3,4))
      (use d(2,3) k(5) in blast)+
  ultimately show ?thesis by blast
qed

text \<open>
  A controller is started: it registers with its informer, and only when that succeeded does it run,
  with one worker.
\<close>

definition starts_in_order ::
  "('w \<times> run_event list) machinery \<Rightarrow> informer \<Rightarrow> informer list \<Rightarrow> ('w \<times> run_event list, bool) go \<Rightarrow> bool" where
  "starts_in_order mx i is start =
     (\<forall>w es r w' es'. start (w, es) = (r, (w', es')) \<longrightarrow>
        (\<exists>h r1 w1. mx_AddEventHandler mx i h (w, es) = (r1, (w1, es @ [Registered i])) \<and>
           (if r1 = Ok ()
            then r = Ok True \<and>
                 (\<exists>tail r2. es' = es @ Registered i # tail \<and>
                    run_trace is (fst (mx_WaitForCacheSync mx is (w1, es @ [Registered i]))) 1 r2 tail)
            else r \<noteq> Ok True \<and> es' = es @ [Registered i])))"

lemma started_in_order:
  assumes "recorded mx queue"
    and "new = bind_go (mx_AddEventHandler mx i h) (\<lambda>_. ret c)"
    and "run c = deferred (wq_ShutDown queue) (run_body mx is 1 worker)"
  shows "starts_in_order mx i is (started new (\<lambda>c. mx_Go mx (run c)))"
  unfolding starts_in_order_def
proof (intro allI impI)
  fix w es r w' es'
  assume run: "started new (\<lambda>c. mx_Go mx (run c)) (w, es) = (r, (w', es'))"
  obtain r1 w1 es1 where 1: "mx_AddEventHandler mx i h (w, es) = (r1, (w1, es1))" by (metis surj_pair)
  note es1 = logsD[OF recordedD(1)[OF assms(1)] 1] and go = recordedD(6)[OF assms(1)]
  show "\<exists>h r1 w1. mx_AddEventHandler mx i h (w, es) = (r1, (w1, es @ [Registered i])) \<and>
      (if r1 = Ok ()
       then r = Ok True \<and>
            (\<exists>tail r2. es' = es @ Registered i # tail \<and>
               run_trace is (fst (mx_WaitForCacheSync mx is (w1, es @ [Registered i]))) 1 r2 tail)
       else r \<noteq> Ok True \<and> es' = es @ [Registered i])"
  proof (cases "r1 = Ok ()")
    case True
    obtain r2 w2 es2 where 2: "run c (w1, es1) = (r2, (w2, es2))" by (metis surj_pair)
    have "r = Ok True" "es' = es2"
      using run 1 2 True by (simp_all add: started_def assms(2) go_defs go)
    with run_logs[OF assms(1) 2[unfolded assms(3)]] 1 True show ?thesis
      by (intro exI[of _ h] exI[of _ r1] exI[of _ w1]) (auto simp: es1)
  next
    case False
    with run 1 have "r \<noteq> Ok True" "es' = es1"
      by (cases r1; auto simp: started_def assms(2) go_defs)+
    with 1 False show ?thesis by (intro exI[of _ h] exI[of _ r1] exI[of _ w1]) (simp add: es1)
  qed
qed

text \<open>
  C36: No controller works before its caches. Whatever the informers, the caches, the goroutines and
  the queue answer and do beside being recorded: each controller registers with its own informer
  first, runs only when that succeeded, starts its single worker only after its one wait for the
  caches returned that they are synchronised, waits for the stop only after the worker was started,
  and shuts its queue down at the end whichever way the run went, unless it hangs. The service
  controller waits for the services; the endpoint controller waits for the services and the nodes, and
  not for the endpoints it watches.
\<close>
theorem controllers_start:
  assumes "recorded mx queue" and "recorded mx objects"
  shows "starts_in_order mx NodeInformer [ServiceInformer, NodeInformer]
      (startClusterNodeController mx keyFunc lb li queue) \<and>
    starts_in_order mx EndpointsInformer [ServiceInformer, NodeInformer]
      (startEndpointController mx keyFunc split lb li queue) \<and>
    starts_in_order mx ServiceInformer [ServiceInformer] (startServiceController mx lb objects)"
  unfolding startClusterNodeController_def startEndpointController_def startServiceController_def
    New_clusternode_def New_endpoint_def New_service_def Let_def
  by (intro conjI started_in_order[OF assms(1) refl] started_in_order[OF assms(2) refl])
    (simp_all add: Run_clusternode_def Run_endpoint_def Run_service_def run_body_def)

subsection \<open>Witnesses\<close>

definition sample_listers :: "Service list \<Rightarrow> listers" where
  "sample_listers svcs =
     \<lparr>li_services = Ok svcs, li_service = (\<lambda>ns n. Ok None), li_nodes = Err (ForeignError ''no cache'')\<rparr>"

definition sample_interface :: "'w lb_interface" where
  "sample_interface =
     \<lparr>lbi_UpdateLoadBalancer = (\<lambda>svc nodes. ret ()), lbi_EnsureLoadBalancerDeleted = (\<lambda>svc. ret ())\<rparr>"

definition sample_log :: "string list \<Rightarrow> string queue_log" where
  "sample_log ks = \<lparr>waiting = ks, finished = [], forgotten = [], requeued = []\<rparr>"

theorem workers_drain_witness:
  "worker_clusternode (clusternode_on (on_queue sample_interface) (sample_listers []) recording)
     ((), sample_log [''node1'', ''node2'']) =
   Some (Ok (), ((), \<lparr>waiting = [], finished = [''node1'', ''node2''], forgotten = [],
                     requeued = [''node1'', ''node2'']\<rparr>)) \<and>
   worker_endpoint (endpoint_on (\<lambda>k. Ok (''default'', k)) (on_queue sample_interface) (sample_listers []) recording)
     ((), sample_log [''web'']) =
   Some (Ok (), ((), \<lparr>waiting = [], finished = [''web''], forgotten = [''web''], requeued = []\<rparr>))"
proof -
  have n: "handleNodesUpdate (clusternode_on (sample_interface :: unit lb_interface) (sample_listers []) q) k () =
      (Err (Wrapf ''get node list error: '' (ForeignError ''no cache'')), ())" for q k
    by (simp add: handleNodesUpdate_def clusternode_on_def sample_listers_def go_defs)
  have e: "handleEndpointsUpdate (endpoint_on (\<lambda>k. Ok (''default'', k)) (sample_interface :: unit lb_interface) (sample_listers []) q) k () =
      (Ok (), ())" for q k
    by (simp add: handleEndpointsUpdate_def endpoint_on_def sample_listers_def go_defs)
  show ?thesis
    using workers_drain[of "sample_log [''node1'', ''node2'']" sample_interface "sample_listers []" _ "()"
        "[(''node1'', False), (''node2'', False)]" "()" "sample_log [''web'']" "\<lambda>k. Ok (''default'', k)"
        "[(''web'', True)]" "()"]
    by (simp add: sample_log_def returns_def n e)
qed

text \<open>A machinery whose caches answer the wait in some way, and which does nothing else.\<close>

definition watched :: "bool outcome \<Rightarrow> (unit \<times> run_event list) machinery" where
  "watched synced =
     \<lparr>mx_AddEventHandler = (\<lambda>i h s. (Ok (), (fst s, snd s @ [Registered i]))),
      mx_WaitForCacheSync = (\<lambda>is s. (synced, (fst s, snd s @ [WaitedFor is]))),
      mx_Go = (\<lambda>m s. (Ok (), snd (m s))),
      mx_GoUntil = (\<lambda>worker s. (Ok (), (fst s, snd s @ [WorkerStarted]))),
      mx_Stopped = (\<lambda>s. (Ok (), (fst s, snd s @ [StopAwaited])))\<rparr>"

definition watched_queue :: "(unit \<times> run_event list, 'k) workqueue" where
  "watched_queue =
     \<lparr>wq_Add = (\<lambda>k. ret ()), wq_Get = ret None, wq_Done = (\<lambda>k. ret ()), wq_Forget = (\<lambda>k. ret ()),
      wq_AddRateLimited = (\<lambda>k. ret ()), wq_ShutDown = (\<lambda>s. (Ok (), (fst s, snd s @ [QueueShutDown])))\<rparr>"

lemma watched_recorded: "recorded (watched synced) watched_queue"
  by (simp add: recorded_def logs_def watched_def watched_queue_def)

theorem controllers_start_witness:
  "\<exists>r w'. startEndpointController (watched (Ok False)) (\<lambda>obj. Ok ''default/web'') (\<lambda>k. Ok (''default'', k))
       sample_interface (sample_listers [])
       watched_queue ((), []) = (r, (w', [Registered EndpointsInformer, WaitedFor [ServiceInformer, NodeInformer],
         QueueShutDown])) \<and>
   starts_in_order (watched (Ok False)) EndpointsInformer [ServiceInformer, NodeInformer]
     (startEndpointController (watched (Ok False)) (\<lambda>obj. Ok ''default/web'') (\<lambda>k. Ok (''default'', k))
       sample_interface (sample_listers []) watched_queue)"
  using controllers_start[OF watched_recorded watched_recorded, of "Ok False" "\<lambda>obj. Ok ''default/web''"
      sample_interface "sample_listers []" "\<lambda>k. Ok (''default'', k)"]
  by (simp add: startEndpointController_def New_endpoint_def Run_endpoint_def started_def watched_def
      watched_queue_def go_defs)

theorem updateNode_enqueues_witness:
  "updateNode (\<lambda>obj. Ok ''node1'') (clusternode_on sample_interface (sample_listers []) recording)
     (NodeObject (demo_node ''node1'')) (NodeObject (labelled_node ''node1'')) ((), sample_log []) =
   (Ok (NodeObject (labelled_node ''node1'')), ((), sample_log [''node1'']))"
  using updateNode_enqueues[of "demo_node ''node1''" "labelled_node ''node1''" "\<lambda>obj. Ok ''node1''"
      sample_interface "sample_listers []" "()" "sample_log []"]
  by (simp add: demo_node_def labelled_node_def wf_map_def added_def sample_log_def fun_eq_iff split: if_splits)

end
