(* ===== verification/Startup.thy ===== *)
theory Startup
  imports Executor Workers
begin

text \<open>
  How the program starts: \<open>NewQingCloudClient\<close> of \<open>pkg/executor/client.go\<close>, the construction of the
  provider and its constant methods in \<open>pkg/qingcloud/qingcloud.go\<close>, and \<open>cmd/main.go\<close>.

  The functions of the SDK that load its configuration and open its services are a record of
  parameters, \<open>opener\<close>, as are decoding the YAML file, the informers and the command of the
  manager. Shown: which provider a successful start gives, what is reported when it fails, and what
  the provider can do before \<open>Initialize\<close>.
\<close>

subsection \<open>The client\<close>

datatype sdk_service =
    InstanceService
  | EIPService
  | LoadBalancerService
  | JobService
  | SecurityGroupService
  | TagService
  | AccesskeyService

text \<open>
  \<open>'c\<close> is the SDK's configuration and \<open>'v\<close> its service object. The calls of the SDK depend on which
  of the services were opened, since a method of a nil service panics.
\<close>

record ('s, 'c, 'v) opener =
  op_NewDefault :: "('s, 'c) go"
  op_LoadConfigFromFilepath :: "'c \<Rightarrow> string \<Rightarrow> ('s, 'c) go"
  op_Init :: "'c \<Rightarrow> ('s, 'v) go"
  op_Service :: "sdk_service \<Rightarrow> 'v \<Rightarrow> string \<Rightarrow> ('s, unit) go"
  op_Zone :: "'c \<Rightarrow> string"
  op_AccessKeyID :: "'c \<Rightarrow> string"
  op_sdk :: "'v \<Rightarrow> (sdk_service \<Rightarrow> bool) \<Rightarrow> 's sdk"

text \<open>The services for EIPs, tags and access keys are opened without looking at the error.\<close>

definition opened :: "(go_error + unit) \<Rightarrow> (go_error + unit) \<Rightarrow> (go_error + unit) \<Rightarrow> sdk_service \<Rightarrow> bool" where
  "opened eip tag api service =
     (case service of
        EIPService \<Rightarrow> eip = Inr ()
      | TagService \<Rightarrow> tag = Inr ()
      | AccesskeyService \<Rightarrow> api = Inr ()
      | _ \<Rightarrow> True)"

definition NewQingCloudClient ::
  "('s, 'c, 'v) opener \<Rightarrow> ClientConfig \<Rightarrow> string \<Rightarrow> ('s, 's QingCloudClient) go" where
  "NewQingCloudClient op config path =
     bind_go (op_NewDefault op) (\<lambda>qcDefault.
     bind_go (op_LoadConfigFromFilepath op qcDefault path) (\<lambda>qcConfig.
     let zone = op_Zone op qcConfig in
     bind_go (op_Init op qcConfig) (\<lambda>qcService.
     bind_go (op_Service op InstanceService qcService zone) (\<lambda>_.
     bind_go (try_go (op_Service op EIPService qcService zone)) (\<lambda>eip.
     bind_go (op_Service op LoadBalancerService qcService zone) (\<lambda>_.
     bind_go (op_Service op JobService qcService zone) (\<lambda>_.
     bind_go (op_Service op SecurityGroupService qcService zone) (\<lambda>_.
     bind_go (try_go (op_Service op TagService qcService zone)) (\<lambda>tag.
     bind_go (try_go (op_Service op AccesskeyService qcService zone)) (\<lambda>api.
     finish_client (op_sdk op qcService (opened eip tag api)) (op_AccessKeyID op qcConfig) config))))))))))"

subsection \<open>The provider\<close>

definition ProviderName_const :: string where
  "ProviderName_const = ''qingcloud''"

definition QYConfigPath :: string where
  "QYConfigPath = ''/etc/qingcloud/config.yaml''"

text \<open>The endpoints informer is nil until \<open>Initialize\<close> sets it, and using it panics.\<close>

definition NewQingCloud ::
  "('s, 'c, 'v) opener \<Rightarrow> ('r \<Rightarrow> Config outcome) \<Rightarrow> 'r option \<Rightarrow> ('s, 's QingCloud) go" where
  "NewQingCloud op decode cfg =
     (case cfg of
        None \<Rightarrow> fail (Errorf ''no qingcloud provider Config file given'')
      | Some reader \<Rightarrow>
          bind_go (wrap_go ''failed to decode Config file, err='' (lift (decode reader))) (\<lambda>config.
          bind_go (NewQingCloudClient op
                     \<lparr>cc_IsAPP = cfg_IsApp config, cc_UserID = [], cc_TagIDs = cfg_TagIDs config\<rparr>
                     QYConfigPath) (\<lambda>client.
          ret \<lparr>qc_Config = config, qc_Client = executor_client client,
               qc_endpoints = (\<lambda>namespace name. Panic)\<rparr>)))"

text \<open>\<open>init\<close>: the constructor is registered under the name of the provider.\<close>

definition init_provider :: "(string, 'f) gomap \<Rightarrow> 'f \<Rightarrow> (string, 'f) gomap" where
  "init_provider providers new = map_set ProviderName_const new providers"

text \<open>\<open>run i\<close> starts the goroutine of an informer.\<close>

definition Initialize ::
  "(informer \<Rightarrow> ('w, unit) go) \<Rightarrow> (string \<Rightarrow> string \<Rightarrow> Endpoints outcome) \<Rightarrow> 's QingCloud \<Rightarrow>
   ('w, 's QingCloud) go" where
  "Initialize run endpoints qc =
     bind_go (run NodeInformer) (\<lambda>_.
     bind_go (run ServiceInformer) (\<lambda>_.
     bind_go (run EndpointsInformer) (\<lambda>_.
     ret (qc\<lparr>qc_endpoints := endpoints\<rparr>))))"

text \<open>The interfaces that the provider does not offer; \<open>'i\<close> is the interface.\<close>

definition Clusters :: "'s QingCloud \<Rightarrow> 'i option \<times> bool" where "Clusters qc = (None, False)"
definition Routes :: "'s QingCloud \<Rightarrow> 'i option \<times> bool" where "Routes qc = (None, False)"
definition ProviderName :: "'s QingCloud \<Rightarrow> string" where "ProviderName qc = ProviderName_const"
definition Instances :: "'s QingCloud \<Rightarrow> 'i option \<times> bool" where "Instances qc = (None, False)"
definition InstancesV2 :: "'s QingCloud \<Rightarrow> 'i option \<times> bool" where "InstancesV2 qc = (None, False)"
definition Zones :: "'s QingCloud \<Rightarrow> 'i option \<times> bool" where "Zones qc = (None, False)"

subsection \<open>The command\<close>

text \<open>\<open>None\<close> is \<open>klog.Fatalf\<close>, which ends the process.\<close>

definition cloudInitializer :: "'s QingCloud option outcome \<Rightarrow> bool \<Rightarrow> 's QingCloud option" where
  "cloudInitializer init allowUntaggedCloud =
     (case init of
        Ok (Some provider) \<Rightarrow>
          (if \<not> HasClusterID provider then (if allowUntaggedCloud then Some provider else None)
           else Some provider)
      | _ \<Rightarrow> None)"

definition controllerInitializers :: "(string, 'c) gomap \<Rightarrow> 'c \<Rightarrow> 'c \<Rightarrow> 'c \<Rightarrow> (string, 'c) gomap" where
  "controllerInitializers defaults endpoint clusternode service =
     map_set ''cloud-service'' service
       (map_set ''clusternode'' clusternode (map_set ''endpoint'' endpoint defaults))"

text \<open>
  The exit status of \<open>main\<close>: \<open>klog.Fatalf\<close> exits with 255 and a panic with 2; \<open>None\<close> is a command that
  does not end.
\<close>

definition main :: "'o outcome \<Rightarrow> ('o \<Rightarrow> unit outcome) \<Rightarrow> nat option" where
  "main ccmOptions execute =
     (case ccmOptions of
        Ok options \<Rightarrow>
          (case execute options of
             Ok _ \<Rightarrow> Some 0
           | Err e \<Rightarrow> Some 1
           | Panic \<Rightarrow> Some 2
           | Diverge \<Rightarrow> None)
      | Err e \<Rightarrow> Some 255
      | Panic \<Rightarrow> Some 2
      | Diverge \<Rightarrow> None)"

subsection \<open>What a start gives\<close>

lemma finish_client_Ok:
  assumes "finish_client sdk key config s = (Ok q, s')"
  shows "ex_sdk q = sdk \<and> ex_sg q \<noteq> None \<and>
    (\<exists>userID. ex_Config q = config\<lparr>cc_UserID := userID\<rparr>)"
  using assms
  by (auto simp: finish_client_def bind_go_Ok_iff Let_def ret_def fail_def split: option.splits prod.splits)

lemma NewQingCloudClient_Ok:
  assumes "NewQingCloudClient op config path s = (Ok q, s')"
  shows "ex_sg q \<noteq> None \<and> (\<exists>userID. ex_Config q = config\<lparr>cc_UserID := userID\<rparr>)"
  using assms by (auto simp: NewQingCloudClient_def bind_go_Ok_iff Let_def dest!: finish_client_Ok)

text \<open>
  C37: A provider that was constructed has the decoded configuration and a client that fulfils the
  contract on which the handlers rely; the client takes the application flag and the tags from the
  configuration and has its default security group. Before \<open>Initialize\<close> a service with the policy
  \<open>Local\<close> makes the choice of the nodes panic, after it the endpoints come from the informer.
\<close>
theorem NewQingCloud_ready:
  assumes "NewQingCloud op decode (Some reader) s = (Ok qc, s')"
    and "svc_ExternalTrafficPolicy svc = TrafficPolicyLocal"
    and "Initialize run endpoints qc w = (Ok qc', w')"
  shows "decode reader = Ok (qc_Config qc) \<and> cloud_client (qc_Client qc) \<and>
    (\<exists>q. qc_Client qc = executor_client q \<and> ex_sg q \<noteq> None \<and>
       cc_IsAPP (ex_Config q) = cfg_IsApp (qc_Config qc) \<and> cc_TagIDs (ex_Config q) = cfg_TagIDs (qc_Config qc)) \<and>
    filterNodes qc svc nodes conf = Panic \<and>
    qc' = qc\<lparr>qc_endpoints := endpoints\<rparr>"
proof -
  obtain config q s1 where c: "decode reader = Ok config"
    "NewQingCloudClient op \<lparr>cc_IsAPP = cfg_IsApp config, cc_UserID = [], cc_TagIDs = cfg_TagIDs config\<rparr>
       QYConfigPath s = (Ok q, s1)"
    "qc = \<lparr>qc_Config = config, qc_Client = executor_client q, qc_endpoints = (\<lambda>namespace name. Panic)\<rparr>"
    using assms(1) by (auto simp: NewQingCloud_def bind_go_Ok_iff ret_def dest!: sym[of "Ok _" "decode reader"])
  from NewQingCloudClient_Ok[OF c(2)] obtain userID where q: "ex_sg q \<noteq> None"
    "ex_Config q = \<lparr>cc_IsAPP = cfg_IsApp config, cc_UserID = userID, cc_TagIDs = cfg_TagIDs config\<rparr>" by auto
  have "cloud_client (qc_Client qc)" by (simp add: c(3) exec.cloud_client_axioms)
  moreover have "qc' = qc\<lparr>qc_endpoints := endpoints\<rparr>"
    using assms(3) by (auto simp: Initialize_def bind_go_Ok_iff ret_def)
  ultimately show ?thesis
    using c q assms(2) by (auto simp: filterNodes_def)
qed

text \<open>
  Without a configuration file, or with one that cannot be decoded, the construction reports it
  and nothing of the SDK is called.
\<close>
lemma NewQingCloud_rejects:
  "NewQingCloud op decode None s = (Err (Errorf ''no qingcloud provider Config file given''), s)"
  "decode reader = Err e \<Longrightarrow>
     NewQingCloud op decode (Some reader) s = (Err (Wrapf ''failed to decode Config file, err='' e), s)"
  by (simp_all add: NewQingCloud_def go_defs)

text \<open>
  The manager runs only with a provider that was constructed and whose configuration names a
  cluster, unless clusters without a name are allowed explicitly; otherwise the process ends.
\<close>
theorem cloudInitializer_iff:
  "cloudInitializer init allowUntagged = Some qc \<longleftrightarrow>
     init = Ok (Some qc) \<and> (cfg_ClusterID (qc_Config qc) \<noteq> [] \<or> allowUntagged)"
  by (auto simp: cloudInitializer_def HasClusterID_def split: outcome.splits option.splits if_splits)

subsection \<open>Witnesses\<close>

definition sample_opener :: "(unit, unit, unit) opener" where
  "sample_opener =
     \<lparr>op_NewDefault = ret (), op_LoadConfigFromFilepath = (\<lambda>c path. ret ()), op_Init = (\<lambda>c. ret ()),
      op_Service = (\<lambda>service v zone. ret ()), op_Zone = (\<lambda>c. ''pek3''), op_AccessKeyID = (\<lambda>c. ''key''),
      op_sdk = (\<lambda>v opened. sample_sdk [])\<rparr>"

lemma sample_finish:
  "finish_client (sample_sdk []) key config () =
     (Ok \<lparr>ex_sdk = sample_sdk [], ex_Config = config\<lparr>cc_UserID := ''usr-1''\<rparr>,
          ex_sg = Some (convertSecurityGroup sample_sg)\<rparr>, ())"
proof -
  let ?q = "\<lparr>ex_sdk = sample_sdk [], ex_Config = config\<lparr>cc_UserID := ''usr-1''\<rparr>, ex_sg = None\<rparr>"
  have "ensureSecurityGroupByName ?q DefaultSgName () = (Ok (convertSecurityGroup sample_sg), ())"
    by (rule ensureSecurityGroupByName_found[where out = "sample_reply [sample_sg]"])
      (simp_all add: sample_sdk_def replies_def sample_reply_def succeeded_def sg_named_def sample_sg_def)
  moreover have "DescribeAccessKeys (sample_sdk []) key () = ((Some (sample_reply [Some ''usr-1'']), None), ())"
    by (simp add: sample_sdk_def replies_def)
  moreover have "first_ok (rep_Body (sample_reply [Some ''usr-1''])) = Ok (Some ''usr-1'')"
    by (simp add: sample_reply_def first_ok_def)
  ultimately show ?thesis by (simp add: finish_client_def go_defs)
qed

theorem NewQingCloud_ready_witness:
  "\<exists>qc. NewQingCloud sample_opener (\<lambda>r. Ok demo_config) (Some ''file'') () = (Ok qc, ()) \<and>
     qc_Config qc = demo_config \<and> cloud_client (qc_Client qc) \<and>
     filterNodes qc local_service [] zero_config = Panic"
proof -
  let ?config = "\<lparr>cc_IsAPP = cfg_IsApp demo_config, cc_UserID = [], cc_TagIDs = cfg_TagIDs demo_config\<rparr>"
  have "\<exists>q. NewQingCloudClient sample_opener ?config QYConfigPath () = (Ok q, ())"
    by (simp add: NewQingCloudClient_def sample_opener_def sample_finish go_defs Let_def)
  then obtain qc where n: "NewQingCloud sample_opener (\<lambda>r. Ok demo_config) (Some ''file'') () = (Ok qc, ())"
    by (auto simp: NewQingCloud_def go_defs)
  have "Initialize (\<lambda>i. ret ()) (\<lambda>ns n. Ok []) qc () = (Ok (qc\<lparr>qc_endpoints := \<lambda>ns n. Ok []\<rparr>), ())"
    by (simp add: Initialize_def go_defs)
  from NewQingCloud_ready[OF n _ this, of local_service "[]" zero_config] n show ?thesis
    by (auto simp: local_service_def)
qed

end
