(* ===== verification/System.thy ===== *)
theory System
  imports Workers
begin

text \<open>
  The three controllers together, as a transition system over one cloud: updates that the informers
  report, turns of the workers, retries and restarts, in any order. The caches, which change between
  any two steps, are arbitrary in every step. The queues are the recording ones of theory Controllers,
  and the client is traced, so that a state knows every call that was made to reach it.

  Shown: in every state that can be reached, only services that reuse a load balancer wait to be
  cleaned, and no controller has created or deleted a load balancer, created a listener or
  touched an EIP. These are left to the handlers that the cloud provider framework calls.
\<close>

record 's system =
  sy_world :: "'s traced_state world"
  sy_nodes :: "string queue_log"
  sy_endpoints :: "string queue_log"
  sy_services :: "api_object queue_log"

definition empty_queue :: "'k queue_log" where
  "empty_queue = \<lparr>waiting = [], finished = [], forgotten = [], requeued = []\<rparr>"

definition initial :: "'s \<Rightarrow> entropy \<Rightarrow> 's system" where
  "initial s e =
     \<lparr>sy_world = ((s, []), e), sy_nodes = empty_queue, sy_endpoints = empty_queue, sy_services = empty_queue\<rparr>"

text \<open>The controllers over the recording queues.\<close>

definition nodes_of :: "'w lb_interface \<Rightarrow> listers \<Rightarrow> ('w \<times> string queue_log) ClusterNodeController" where
  "nodes_of lb li = clusternode_on (on_queue lb) li recording"

definition endpoints_of ::
  "(string \<Rightarrow> (string \<times> string) outcome) \<Rightarrow> 'w lb_interface \<Rightarrow> listers \<Rightarrow>
   ('w \<times> string queue_log) EndpointController" where
  "endpoints_of split lb li = endpoint_on split (on_queue lb) li recording"

definition services_of :: "'w lb_interface \<Rightarrow> ('w \<times> api_object queue_log) ServiceController" where
  "services_of lb = \<lparr>sc_lb = on_queue lb, sc_queue = recording\<rparr>"

text \<open>The delay of a rate-limited item is over: it is added again.\<close>

definition retried :: "'k \<Rightarrow> 'k queue_log \<Rightarrow> 'k queue_log" where
  "retried k l = added k (l\<lparr>requeued := remove1 k (requeued l)\<rparr>)"

text \<open>
  A turn of a worker is taken however it ends; a restart empties the queues, the cloud stays.
\<close>

inductive step ::
  "'s traced_state world lb_interface \<Rightarrow> (api_object \<Rightarrow> string outcome) \<Rightarrow>
   (string \<Rightarrow> (string \<times> string) outcome) \<Rightarrow> 's system \<Rightarrow> 's system \<Rightarrow> bool"
  for lb keyFunc split where
    node_updated:
      "updateNode keyFunc (nodes_of lb li) old cur (sy_world \<sigma>, sy_nodes \<sigma>) = (Ok obj, (w, l)) \<Longrightarrow>
       step lb keyFunc split \<sigma> (\<sigma>\<lparr>sy_world := w, sy_nodes := l\<rparr>)"
  | endpoints_updated:
      "updateEndpoints keyFunc (endpoints_of split lb li) old cur (sy_world \<sigma>, sy_endpoints \<sigma>) = (Ok obj, (w, le)) \<Longrightarrow>
       step lb keyFunc split \<sigma> (\<sigma>\<lparr>sy_world := w, sy_endpoints := le\<rparr>)"
  | service_updated:
      "updateService (services_of lb) old cur (sy_world \<sigma>, sy_services \<sigma>) = (Ok obj, (w, ls)) \<Longrightarrow>
       step lb keyFunc split \<sigma> (\<sigma>\<lparr>sy_world := w, sy_services := ls\<rparr>)"
  | node_worked:
      "processNextNode (nodes_of lb li) (sy_world \<sigma>, sy_nodes \<sigma>) = (r, (w, l)) \<Longrightarrow>
       step lb keyFunc split \<sigma> (\<sigma>\<lparr>sy_world := w, sy_nodes := l\<rparr>)"
  | endpoints_worked:
      "processNextEndpoint (endpoints_of split lb li) (sy_world \<sigma>, sy_endpoints \<sigma>) = (r, (w, le)) \<Longrightarrow>
       step lb keyFunc split \<sigma> (\<sigma>\<lparr>sy_world := w, sy_endpoints := le\<rparr>)"
  | service_worked:
      "processNextService (services_of lb) (sy_world \<sigma>, sy_services \<sigma>) = (r, (w, ls)) \<Longrightarrow>
       step lb keyFunc split \<sigma> (\<sigma>\<lparr>sy_world := w, sy_services := ls\<rparr>)"
  | node_retried:
      "k \<in> set (requeued (sy_nodes \<sigma>)) \<Longrightarrow>
       step lb keyFunc split \<sigma> (\<sigma>\<lparr>sy_nodes := retried k (sy_nodes \<sigma>)\<rparr>)"
  | endpoints_retried:
      "k \<in> set (requeued (sy_endpoints \<sigma>)) \<Longrightarrow>
       step lb keyFunc split \<sigma> (\<sigma>\<lparr>sy_endpoints := retried k (sy_endpoints \<sigma>)\<rparr>)"
  | service_retried:
      "obj \<in> set (requeued (sy_services \<sigma>)) \<Longrightarrow>
       step lb keyFunc split \<sigma> (\<sigma>\<lparr>sy_services := retried obj (sy_services \<sigma>)\<rparr>)"
  | restarted:
      "step lb keyFunc split \<sigma>
         (\<sigma>\<lparr>sy_nodes := empty_queue, sy_endpoints := empty_queue, sy_services := empty_queue\<rparr>)"

inductive reachable ::
  "'s traced_state world lb_interface \<Rightarrow> (api_object \<Rightarrow> string outcome) \<Rightarrow>
   (string \<Rightarrow> (string \<times> string) outcome) \<Rightarrow> 's system \<Rightarrow> 's system \<Rightarrow> bool"
  for lb keyFunc split \<sigma>0 where
    start: "reachable lb keyFunc split \<sigma>0 \<sigma>0"
  | move: "reachable lb keyFunc split \<sigma>0 \<sigma> \<Longrightarrow> step lb keyFunc split \<sigma> \<sigma>' \<Longrightarrow> reachable lb keyFunc split \<sigma>0 \<sigma>'"

subsection \<open>The queues\<close>

definition items_ok :: "('k \<Rightarrow> bool) \<Rightarrow> 'k queue_log \<Rightarrow> bool" where
  "items_ok P l = (list_all P (waiting l) \<and> list_all P (requeued l))"

lemma items_ok_empty [simp]: "items_ok P empty_queue"
  by (simp add: items_ok_def empty_queue_def)

lemma items_ok_added: "P k \<Longrightarrow> items_ok P l \<Longrightarrow> items_ok P (added k l)"
  by (simp add: items_ok_def added_def)

lemma items_ok_retried: "k \<in> set (requeued l) \<Longrightarrow> items_ok P l \<Longrightarrow> items_ok P (retried k l)"
  using set_remove1_subset[of k "requeued l"]
  by (auto simp: items_ok_def retried_def added_def list_all_iff)

text \<open>A turn of a worker keeps an invariant of the world when the handler keeps it for the items.\<close>

definition world_and :: "('w \<Rightarrow> bool) \<Rightarrow> ('k \<Rightarrow> bool) \<Rightarrow> 'w \<times> 'k queue_log \<Rightarrow> bool" where
  "world_and I P wl = (I (fst wl) \<and> items_ok P (snd wl))"

lemma process_item_keeps:
  assumes "\<And>k. P k \<Longrightarrow> keeps I (h k)"
  shows "keeps (world_and I P) (process_item recording (\<lambda>k. on_world (h k)))"
proof (rule keepsI)
  fix wl assume inv: "world_and I P wl"
  obtain w l where wl: "wl = (w, l)" by (metis surj_pair)
  show "world_and I P (snd (process_item recording (\<lambda>k. on_world (h k)) wl))"
  proof (cases "waiting l")
    case Nil
    with inv show ?thesis by (simp add: process_item_def recording_def go_defs wl)
  next
    case (Cons k ks)
    with inv have k: "P k" "list_all P ks" "list_all P (requeued l)" "I w"
      by (simp_all add: world_and_def items_ok_def wl)
    obtain r w' where h: "h k w = (r, w')" by (metis surj_pair)
    from keepsD'[OF assms[OF k(1)] h k(4)] have "I w'" .
    with k Cons h show ?thesis
      by (cases r) (simp_all add: process_item_def recording_def on_world_def go_defs wl world_and_def items_ok_def)
  qed
qed

lemma processNextService_keeps:
  assumes "\<And>svc. P (ServiceObject svc) \<Longrightarrow> keeps I (lbi_EnsureLoadBalancerDeleted lb svc)"
  shows "keeps (world_and I P) (processNextService (services_of lb))"
proof (rule keepsI)
  fix wl assume inv: "world_and I P wl"
  obtain w l where wl: "wl = (w, l)" by (metis surj_pair)
  show "world_and I P (snd (processNextService (services_of lb) wl))"
  proof (cases "waiting l")
    case Nil
    with inv show ?thesis by (simp add: processNextService_def services_of_def recording_def go_defs wl)
  next
    case (Cons k ks)
    with inv have k: "P k" "list_all P ks" "list_all P (requeued l)" "I w"
      by (simp_all add: world_and_def items_ok_def wl)
    show ?thesis
    proof (cases k)
      case (ServiceObject svc)
      obtain r w' where h: "lbi_EnsureLoadBalancerDeleted lb svc w = (r, w')" by (metis surj_pair)
      from keepsD'[OF assms h k(4)] k(1) ServiceObject have "I w'" by simp
      with k Cons h ServiceObject show ?thesis
        by (cases r) (simp_all add: processNextService_def services_of_def handleServiceUpdate_def
            recording_def on_world_def go_defs wl world_and_def items_ok_def)
    qed (use k Cons in \<open>simp_all add: processNextService_def services_of_def recording_def go_defs wl
        world_and_def items_ok_def\<close>)
  qed
qed

subsection \<open>What the controllers keep\<close>

text \<open>A service on a load balancer that it reuses by its id.\<close>

definition reuses :: "Service \<Rightarrow> bool" where
  "reuses svc =
     (svc_Type svc = ServiceTypeLoadBalancer \<and>
      index_str (annotations svc) ServiceAnnotationLoadBalancerPolicy = ReuseExistingLB \<and>
      index_str (annotations svc) ServiceAnnotationLoadBalancerID \<noteq> [])"

text \<open>The handlers do not look at their queue; this one does nothing.\<close>

definition idle_queue :: "('w, 'k) workqueue" where
  "idle_queue =
     \<lparr>wq_Add = (\<lambda>k. ret ()), wq_Get = ret None, wq_Done = (\<lambda>k. ret ()), wq_Forget = (\<lambda>k. ret ()),
      wq_AddRateLimited = (\<lambda>k. ret ()), wq_ShutDown = ret ()\<rparr>"

text \<open>
  The contract of the load balancer interface for all three controllers: beside the updates, the
  deletion for a service that reuses a load balancer keeps the invariant.
\<close>

locale cleaning_provider = lb_provider +
  assumes delete_keeps: "reuses svc \<Longrightarrow> keeps I (lbi_EnsureLoadBalancerDeleted lb svc)"
begin

lemma node_turn_keeps: "keeps (world_and I (\<lambda>k. True)) (processNextNode (nodes_of lb li))"
proof -
  have "keeps I (handleNodesUpdate (clusternode_on lb li idle_queue) key)" for key
    using handleNodesUpdate_keeps[of "clusternode_on lb li idle_queue" key] by (simp add: clusternode_on_def)
  then have "keeps (world_and I (\<lambda>k. True))
      (process_item recording (\<lambda>k. on_world (handleNodesUpdate (clusternode_on lb li idle_queue) k)))"
    by (intro process_item_keeps)
  then show ?thesis
    unfolding processNextNode_def nodes_of_def handleNodesUpdate_on_queue[where queue' = idle_queue]
    by (simp add: clusternode_on_def)
qed

lemma endpoints_turn_keeps: "keeps (world_and I (\<lambda>k. True)) (processNextEndpoint (endpoints_of split lb li))"
proof -
  have "keeps I (handleEndpointsUpdate (endpoint_on split lb li idle_queue) key)" for key
    using handleEndpointsUpdate_keeps[of "endpoint_on split lb li idle_queue" key] by (simp add: endpoint_on_def)
  then have "keeps (world_and I (\<lambda>k. True))
      (process_item recording (\<lambda>k. on_world (handleEndpointsUpdate (endpoint_on split lb li idle_queue) k)))"
    by (intro process_item_keeps)
  then show ?thesis
    unfolding processNextEndpoint_def endpoints_of_def handleEndpointsUpdate_on_queue[where queue' = idle_queue]
    by (simp add: endpoint_on_def)
qed

end

text \<open>The state after a step of one of the controllers, with the invariant of its queue.\<close>

lemma items_ok_True [simp]: "items_ok (\<lambda>k. True) l"
  by (simp add: items_ok_def list_all_iff)

lemma updateNode_world:
  "updateNode keyFunc (nodes_of lb li) old cur (w, l) = (Ok obj, (w', l')) \<Longrightarrow> w' = w"
  by (auto simp: updateNode_def enqueueNode_def nodes_of_def clusternode_on_def recording_def go_defs
      split: api_object.splits if_splits outcome.splits sum.splits)

lemma updateEndpoints_world:
  "updateEndpoints keyFunc (endpoints_of split lb li) old cur (w, l) = (Ok obj, (w', l')) \<Longrightarrow> w' = w"
  by (auto simp: updateEndpoints_def enqueueEndpoint_def endpoints_of_def endpoint_on_def recording_def go_defs
      split: api_object.splits if_splits outcome.splits sum.splits)

text \<open>Only such services are enqueued.\<close>

definition reusing_item :: "api_object \<Rightarrow> bool" where
  "reusing_item obj = (\<exists>svc. obj = ServiceObject svc \<and> reuses svc)"

lemma needClean_reuses: "fst (needClean old new) \<Longrightarrow> reuses old"
  by (auto simp: needClean_def reuses_def Let_def split: if_splits)

lemma updateService_world:
  assumes "updateService (services_of lb) old cur (w, l) = (Ok obj, (w', l'))" and "items_ok reusing_item l"
  shows "w' = w \<and> items_ok reusing_item l'"
proof -
  consider (services) o' c where "old = ServiceObject o'" "cur = ServiceObject c"
    | (other) "updateService (services_of lb) old cur (w, l) = (Ok cur, (w, l))"
    by (cases old; cases cur) (auto simp: updateService_def ret_def)
  then show ?thesis
  proof cases
    case services
    with assms(1) have "w' = w" "l' = (if fst (needClean o' c) then added old l else l)"
      by (auto simp: services_of_def updateService_enqueues)
    then show ?thesis
      using assms(2) needClean_reuses[of o' c] services
      by (auto simp: reusing_item_def intro!: items_ok_added)
  qed (use assms in simp)
qed

subsection \<open>Every reachable state\<close>

definition safe :: "('s traced_state world \<Rightarrow> bool) \<Rightarrow> 's system \<Rightarrow> bool" where
  "safe I \<sigma> = (I (sy_world \<sigma>) \<and> items_ok reusing_item (sy_services \<sigma>))"

context cleaning_provider
begin

lemma services_turn_keeps: "keeps (world_and I reusing_item) (processNextService (services_of lb))"
  by (intro processNextService_keeps delete_keeps) (simp add: reusing_item_def)

end

text \<open>The same locale at the state of the system, for the induction.\<close>

lemma step_safe:
  assumes "cleaning_provider lb I" and "step lb keyFunc split \<sigma> \<sigma>'" and "safe I \<sigma>"
  shows "safe I \<sigma>'"
  using assms(2)
proof (cases rule: step.cases)
  case (node_updated li old cur obj w l)
  then show ?thesis using assms(3) updateNode_world[OF node_updated(2)] by (simp add: safe_def)
next
  case (endpoints_updated li old cur obj w le)
  then show ?thesis using assms(3) updateEndpoints_world[OF endpoints_updated(2)] by (simp add: safe_def)
next
  case (service_updated old cur obj w ls)
  then show ?thesis using assms(3) updateService_world[OF service_updated(2)] by (simp add: safe_def)
next
  case (node_worked li r w l)
  then show ?thesis
    using assms(3) keepsD'[OF cleaning_provider.node_turn_keeps[OF assms(1)] node_worked(2)]
    by (simp add: safe_def world_and_def)
next
  case (endpoints_worked li r w le)
  then show ?thesis
    using assms(3) keepsD'[OF cleaning_provider.endpoints_turn_keeps[OF assms(1)] endpoints_worked(2)]
    by (simp add: safe_def world_and_def)
next
  case (service_worked r w ls)
  then show ?thesis
    using assms(3) keepsD'[OF cleaning_provider.services_turn_keeps[OF assms(1)] service_worked(2)]
    by (simp add: safe_def world_and_def)
qed (use assms(3) in \<open>simp_all add: safe_def items_ok_retried\<close>)

lemma reachable_safe:
  assumes "cleaning_provider lb I" and "reachable lb keyFunc split \<sigma>0 \<sigma>" and "safe I \<sigma>0"
  shows "safe I \<sigma>"
  using assms(2)
proof induction
  case start
  show ?case by (rule assms(3))
next
  case (move \<sigma> \<sigma>')
  show ?case by (rule step_safe[OF assms(1) move.hyps(2) move.IH])
qed

text \<open>The calls of the controllers: those that change backends, and deleting listeners.\<close>

definition controller_calls :: "call \<Rightarrow> bool" where
  "controller_calls c = (backend_calls c \<or> (\<exists>is. c = DeleteListener is))"

lemma reuses_by_id: "reuses svc \<Longrightarrow> ReuseLBID (parseServiceLBAndEIP cfg svc) \<noteq> []"
  by (auto simp: reuses_def parseServiceLBAndEIP_def Let_def)

interpretation sys: cleaning_provider
  "LoadBalancer_v1 (qc\<lparr>qc_Client := traced cl\<rparr>)" "on_cloud (only_calls controller_calls)"
  for qc :: "'s traced_state QingCloud" and cl
proof unfold_locales
  fix svc nodes
  have "keeps (on_cloud (only_calls controller_calls))
      (UpdateLoadBalancer (qc\<lparr>qc_Client := traced cl\<rparr>) svc nodes)"
    unfolding UpdateLoadBalancer_def updateLoadBalancer_def
    by (auto intro!: keeps_intros simp: controller_calls_def backend_calls_def)
  then show "keeps (on_cloud (only_calls controller_calls))
      (lbi_UpdateLoadBalancer (LoadBalancer_v1 (qc\<lparr>qc_Client := traced cl\<rparr>)) svc nodes)"
    by (simp add: LoadBalancer_v1_def)
next
  fix svc assume "reuses svc"
  then have reuse: "ReuseLBID (parseServiceLBAndEIP (qc_Config qc) svc) \<noteq> []" by (rule reuses_by_id)
  let ?conf = "parseServiceLBAndEIP (qc_Config qc) svc"
  have found: "keeps (on_cloud (only_calls controller_calls)) (delete_found (traced cl) ?conf lb)" for lb
    using reuse unfolding delete_found_def
    by (auto intro!: keeps_intros simp: controller_calls_def backend_calls_def)
  have "keeps (on_cloud (only_calls controller_calls))
      (EnsureLoadBalancerDeleted (qc\<lparr>qc_Client := traced cl\<rparr>) svc)"
    unfolding EnsureLoadBalancerDeleted_def ensureLoadBalancerDeleted_def
  proof (rule keeps_bind_result, goal_cases)
    case (2 x s s')
    obtain conf lb err where x: "x = (conf, lb, err)" by (cases x)
    from 2 have "conf = Some ?conf"
      by (auto simp: x getLoadBalancerBeforeDelete_def with_error_def Let_def bind_go_Ok_iff ret_def split: sum.splits)
        (metis sum.exhaust)+
    then show ?case
      using found by (auto simp: x bind_go_simps intro!: keeps_case_option keeps_if)
  qed (auto intro!: keeps_intros simp: controller_calls_def backend_calls_def)
  then show "keeps (on_cloud (only_calls controller_calls))
      (lbi_EnsureLoadBalancerDeleted (LoadBalancer_v1 (qc\<lparr>qc_Client := traced cl\<rparr>)) svc)"
    by (simp add: LoadBalancer_v1_def)
qed

text \<open>
  C7: In every state the three controllers can reach, by any updates, turns, failures, retries and
  restarts in any order and with any caches, only services with a reused load balancer wait to be
  cleaned, and the controllers have only read, changed backends, applied, and deleted listeners: no
  load balancer was created or deleted, no listener created, no EIP touched.
\<close>
theorem controllers_reach_safe:
  assumes "reachable (LoadBalancer_v1 (qc\<lparr>qc_Client := traced cl\<rparr>)) keyFunc split (initial s e) \<sigma>"
  shows "list_all controller_calls (snd (fst (sy_world \<sigma>))) \<and>
    list_all reusing_item (waiting (sy_services \<sigma>) @ requeued (sy_services \<sigma>))"
proof -
  have "safe (on_cloud (only_calls controller_calls)) (initial s e)"
    by (simp add: safe_def initial_def on_cloud_def only_calls_def)
  from reachable_safe[OF sys.cleaning_provider_axioms assms this] show ?thesis
    by (simp add: safe_def on_cloud_def only_calls_def items_ok_def)
qed

subsection \<open>Witness\<close>

text \<open>A service gives up its reused load balancer, and the service controller removes its listener.\<close>

definition cleanup_calls :: "call list" where
  "cleanup_calls = [GetLoadBalancerByID ''lb-7'', DeleteListener [Some ''lbl-1''], UpdateLB (Some ''lb-1'')]"

lemma sample_cleanup:
  "EnsureLoadBalancerDeleted (live_qc\<lparr>qc_Client := traced live_client\<rparr>) reusing_service (((), []), e) =
     (Ok (), (((), cleanup_calls), e))"
proof -
  let ?conf = "parseServiceLBAndEIP (qc_Config live_qc) reusing_service"
  have c: "ReuseLBID ?conf = ''lb-7''"
    "filterListeners (lb_LoadBalancerListeners (lb_Status live_lb)) (listenerName ?conf) = Ok [Some ''lbl-1'']"
    "lb_LoadBalancerID (lb_Status live_lb) = Some ''lb-1''" by code_simp+
  then have "find_lb (traced live_client) ?conf (((), []), e) =
      (Ok live_lb, (((), [GetLoadBalancerByID ''lb-7'']), e))"
    by (simp add: find_lb_def live_client_def sample_client_def go_defs)
  with c show ?thesis
    by (simp add: EnsureLoadBalancerDeleted_def ensureLoadBalancerDeleted_def getLoadBalancerBeforeDelete_def
        with_error_def delete_found_def live_client_def sample_client_def cleanup_calls_def go_defs Let_def)
qed

theorem controllers_reach_safe_witness:
  "\<exists>\<sigma>. reachable (LoadBalancer_v1 (live_qc\<lparr>qc_Client := traced live_client\<rparr>)) (\<lambda>obj. Ok ''key'')
       (\<lambda>key. Ok (''default'', key)) (initial () (\<lambda>i. i)) \<sigma> \<and>
     snd (fst (sy_world \<sigma>)) = cleanup_calls \<and> list_all controller_calls cleanup_calls"
proof -
  let ?lb = "LoadBalancer_v1 (live_qc\<lparr>qc_Client := traced live_client\<rparr>)"
  let ?obj = "ServiceObject reusing_service"
  let ?l1 = "added ?obj empty_queue"
  let ?s0 = "initial () (\<lambda>i. i)"
  let ?s1 = "?s0\<lparr>sy_world := (((), []), \<lambda>i. i), sy_services := ?l1\<rparr>"
  have "fst (needClean reusing_service retyped_service)" by code_simp
  then have "updateService (services_of ?lb) ?obj (ServiceObject retyped_service) (sy_world ?s0, sy_services ?s0) =
      (Ok (ServiceObject (snd (needClean reusing_service retyped_service))), ((((), []), \<lambda>i. i), ?l1))"
    by (simp add: services_of_def updateService_enqueues initial_def)
  then have 1: "reachable ?lb (\<lambda>obj. Ok ''key'') (\<lambda>key. Ok (''default'', key)) ?s0 ?s1"
    by (intro reachable.move[OF reachable.start step.service_updated])
  have "processNextService (services_of ?lb) (sy_world ?s1, sy_services ?s1) =
      (Ok True, ((((), cleanup_calls), \<lambda>i. i), \<lparr>waiting = [], finished = [?obj], forgotten = [?obj], requeued = []\<rparr>))"
    by (simp add: processNextService_def services_of_def handleServiceUpdate_def recording_def added_def
        empty_queue_def LoadBalancer_v1_def on_world_def sample_cleanup go_defs)
  note 2 = reachable.move[OF 1 step.service_worked[OF this]]
  from controllers_reach_safe[OF 2] have "list_all controller_calls cleanup_calls" by simp
  with 2 show ?thesis by fastforce
qed

end
