(* ===== verification/Spec2Isabelle.thy ===== *)
theory Spec2Isabelle
  imports Platform Startup System
begin

text \<open>
  A verification library of the QingCloud cloud controller manager: the Kubernetes controller that
  keeps a load balancer of the QingCloud platform for every service of type \<open>LoadBalancer\<close>. Paths
  below are relative to \<open>src/\<close>.

  \<^bold>\<open>The program.\<close> The cloud provider (\<open>pkg/qingcloud\<close>) implements the load balancer interface of
  \<open>k8s.io/cloud-provider\<close>. A call for a service parses the annotations of the service into a
  configuration (\<open>annotations.go\<close>, \<open>annotation_valid.go\<close>), looks up the load balancer, compares
  what the cloud has with what is asked for (attributes, EIPs, listeners, backends;
  \<open>loadbalancer_utils.go\<close>, \<open>qingcloud_utils.go\<close>) and sends the differences through the interface
  \<open>QingCloudClientInterface\<close>. The executor (\<open>pkg/executor\<close>) implements that interface on the
  QingCloud SDK. Three more controllers (\<open>pkg/controllers\<close>) call the provider when node labels,
  endpoints or service types change; \<open>cmd/main.go\<close> registers them.

  \<^bold>\<open>How it is modelled.\<close> A Go struct is a record whose pointers are options; a slice is a list; a map is
  an association list with distinct keys. A function without side effects returns an \<open>outcome\<close>: a
  result, an error, a panic (a nil dereference, an index out of range) or divergence. A function that
  calls the cloud is a state transformer over an outcome, and a mutation through a pointer is a
  returned value. Error values keep the literal head of their text and the error they wrap; values
  rendered after the head are left out. Logging is left out except where its arguments dereference
  pointers. Code outside the repository is a parameter: the SDK and its waiting helpers (record
  \<open>sdk\<close>) and its openers, the informer caches, the work queue, the keys of \<open>client-go\<close>, the machinery
  that runs goroutines. A loop that may run for ever is a \<^theory_text>\<open>partial_function\<close> into \<open>option\<close>, so no
  bound is chosen and \<open>None\<close> is not returning.
  Go integers are \<open>int\<close>: the code only compares, adds lengths and divides by three;
  \<open>strconv.Atoi\<close> has its 64-bit range written out.

  \<^bold>\<open>The theories.\<close>
  \<^item> \<open>Prelude\<close>, \<open>GoErrors\<close>, \<open>Effects\<close>: strings, maps, \<open>Atoi\<close> and randomness; \<open>pkg/errors\<close>; outcomes,
    state transformers and the rules for invariants of the state (\<open>keeps\<close>).
  \<^item> \<open>Apis\<close>, \<open>K8s\<close>: \<open>pkg/apis/types.go\<close> and the fields of the Kubernetes objects that are read.
  \<^item> \<open>Sampling\<close>, \<open>Util\<close>: the contract of a random choice (locale \<open>sampler\<close>) and \<open>pkg/util/util.go\<close>,
    whose \<open>GetRandomItems\<close> meets it. The rejection loop is a \<^theory_text>\<open>partial_function\<close>; it returns for a
    fair random source exactly when no more items are asked for than there are.
  \<^item> \<open>Annotations\<close>, \<open>Config\<close>: the annotation parsers and \<open>ParseServiceLBConfig\<close>, which services are
    accepted, and the names that keep services apart.
  \<^item> \<open>Listeners\<close>, \<open>Backends\<close>: the two halves of \<open>loadbalancer_utils.go\<close>; comparison and generation of
    listeners and backends, against the specification \<open>fits\<close> and the counting of backends.
  \<^item> \<open>Client\<close>: the client interface, its contract (locale \<open>cloud_client\<close>) and the traced client.
  \<^item> \<open>QingCloud\<close>, \<open>Nodes\<close>, \<open>Handlers\<close>: the provider's handlers, the choice of nodes and EIPs, and the
    correctness of ensuring, updating and deleting.
  \<^item> \<open>Sdk\<close>, \<open>ExecNet\<close>, \<open>ExecLB\<close>, \<open>Executor\<close>: the executor on the SDK parameter, and the proof that it
    meets \<open>cloud_client\<close>.
  \<^item> \<open>Converge\<close>: two passes of the provider after one another, on a cloud that stores what it is sent
    (predicate \<open>remembers\<close>, with a concrete cloud that has it) and that shows which EIPs bear the
    controller's name (\<open>marks_eips\<close>).
  \<^item> \<open>Repair\<close>: a pass on a load balancer that is there already and may be shared, in whatever state its
    listeners are (predicate \<open>repairs\<close>, again with a concrete cloud).
  \<^item> \<open>Platform\<close>: what the API documents of the calls of the SDK (predicate \<open>documented\<close>, with a concrete
    platform), and the refinement that connects the layers: on such an SDK the executor is a cloud
    that \<open>remembers\<close>, \<open>repairs\<close> and \<open>marks_eips\<close>.
  \<^item> \<open>Controllers\<close>, \<open>Workers\<close>: the handlers of the three controllers and one turn of a worker; the
    constructors with the update handlers, enqueueing, the worker's loop and \<open>Run\<close>. The locale
    \<open>lb_provider\<close> passes the provider's promise on to them.
  \<^item> \<open>System\<close>: the three controllers as one transition system over updates, turns, retries and
    restarts; the locale \<open>cleaning_provider\<close> extends \<open>lb_provider\<close> by the deletion for reused load balancers.
  \<^item> \<open>Startup\<close>: the construction of the client and the provider, and \<open>cmd/main.go\<close>.

  \<^bold>\<open>What is shown.\<close> Ensuring is idempotent: with everything in place it only reads. Listeners that were
  generated, sent and stored are recognised by the next comparison, so that after the pass that
  created a load balancer the next one does nothing, and the deletion removes what was created and
  releases those EIPs that the creating pass requested and that bear the controller's name. One pass
  repairs a reused load balancer: from any settings, ports and backends of the service's complete listeners on it,
  it gets to a state on which the next pass only reads, and the listeners of other services are as they were. Where the service asks
  for a node count or a private address that pass also modifies the load balancer, which
  \<open>docs/configure.md\<close> rules out for reused ones. These theorems are about services with plain ports and at
  least one chosen node; their texts list the conditions. The laws of the cloud that these theorems use are
  proved of the executor, from laws of the calls of the SDK. Deleting touches only
  what belongs to the service. A load balancer that exists is not created again, and one that is
  reused is neither created, deleted nor given EIPs. The number of backends follows the configured limit, and
  the random choice ends when node ids are not contained in each other. In every state they can reach
  together, the controllers have changed backends and deleted listeners of reused load balancers
  only; their workers empty a queue, retry what failed, and clean up exactly the changes of a service
  that the ordinary deletion would miss. A provider that was constructed has a client with the
  contract the handlers rely on. Several theorems state behaviour that is surprising: the strategy \<open>reuse\<close> is
  dead, a failed deletion of a load balancer is reported as success, a service with an id but no
  strategy is ensured and deleted on different load balancers and creates one load balancer after the
  other when the id is wrong, the endpoint controller starts without waiting for its own cache, and node ids contained in each other
  make the backend comparison panic or never end.

  \<^bold>\<open>What is not modelled.\<close> The libraries: decoding YAML, the SDK, informers, the flags and the
  command of the manager, the framework's own service controller that calls the provider. Time is not
  modelled: a timeout is an error returned by a waiting helper, and the delay of a retry is a step.
  The handlers of one process run one after another in the transition system; that a cache changes
  while a handler runs is covered by leaving the caches arbitrary in every step.
\<close>

end
